(* ===== verification/KA_Prelude.thy ===== *)
theory KA_Prelude
  imports Main "HOL-Library.Word" "HOL-Library.Char_ord" "HOL-Library.List_Lexorder"
begin

text \<open>
  Shared vocabulary of the development.  Rust's \<^verbatim>\<open>String\<close>, \<^verbatim>\<open>&str\<close>,
  \<^verbatim>\<open>Vec<u8>\<close> and \<^verbatim>\<open>&[u8]\<close> are all byte sequences, modelled as
  \<^typ>\<open>string\<close> (one \<^typ>\<open>char\<close> per byte), so that \<^const>\<open>length\<close> is
  Rust's byte length.  \<^verbatim>\<open>Result<T, E>\<close> is the sum type with \<^const>\<open>Inl\<close> for
  \<^verbatim>\<open>Err\<close>.  The theory holds the parts of Rust's standard library that the
  components use (prefix stripping, ASCII classes, big-endian bytes, checked addition,
  whitespace), the length-framed encoding every digest of the program
  is computed over, sequences of calls that may be refused, and the interfaces of self-delimiting
  codes and of single-use approvals.
\<close>

section \<open>Types and collections of facts\<close>

type_synonym u8 = "8 word"
type_synonym u16 = "16 word"
type_synonym u32 = "32 word"
type_synonym u64 = "64 word"

named_theorems codec \<open>encodings that determine their arguments\<close>
named_theorems validator \<open>characterisations of accepted inputs\<close>

section \<open>Results\<close>

definition is_ok :: "'e + 'a \<Rightarrow> bool" where
  "is_ok r = (case r of Inl _ \<Rightarrow> False | Inr _ \<Rightarrow> True)"

lemma is_ok_simps [simp]: "\<not> is_ok (Inl e)" "is_ok (Inr v)"
  by (simp_all add: is_ok_def)

lemma is_ok_iff: "is_ok r \<longleftrightarrow> (\<exists>v. r = Inr v)"
  by (cases r) auto

lemma if_Inl_eq_Inr [simp]:
  "((if b then Inl e else r) = Inr v) = (\<not> b \<and> r = Inr v)"
  by simp

lemma if_Inr_eq_Inl [simp]:
  "((if b then Inr v else r) = Inl e) = (\<not> b \<and> r = Inl e)"
  by simp

lemma sum_bind_Inr [simp]:
  "((case r of Inl e \<Rightarrow> Inl e | Inr x \<Rightarrow> f x) = Inr v) = (\<exists>x. r = Inr x \<and> f x = Inr v)"
  by (cases r) auto

lemma sum_map_err_Inr [simp]:
  "((case r of Inl e \<Rightarrow> Inl (g e) | Inr x \<Rightarrow> f x) = Inr v) = (\<exists>x. r = Inr x \<and> f x = Inr v)"
  by (cases r) auto

text \<open>
  \<^verbatim>\<open>Result::and_then\<close>, which is also what \<^verbatim>\<open>let x = r?;\<close> does, and a
  sequence of checks \<^verbatim>\<open>c1?; c2?; ...\<close>, which stops at the first error.
\<close>

definition and_then :: "'e + 'a \<Rightarrow> ('a \<Rightarrow> 'e + 'b) \<Rightarrow> 'e + 'b" where
  "and_then r k = (case r of Inl e \<Rightarrow> Inl e | Inr x \<Rightarrow> k x)"

lemma and_then_simps [simp]: "and_then (Inl e) k = Inl e" "and_then (Inr x) k = k x"
  by (simp_all add: and_then_def)

lemma and_then_Inr [simp]: "and_then r k = Inr v \<longleftrightarrow> (\<exists>x. r = Inr x \<and> k x = Inr v)"
  by (cases r) auto

fun checks :: "('e + unit) list \<Rightarrow> 'e + unit" where
  "checks [] = Inr ()"
| "checks (c # cs) = and_then c (\<lambda>_. checks cs)"

lemma checks_Inr [simp]: "checks cs = Inr u \<longleftrightarrow> (\<forall>c \<in> set cs. c = Inr ())"
  by (induction cs) auto

definition refuse :: "'e \<Rightarrow> bool \<Rightarrow> 'e + unit" where
  "refuse e b = (if b then Inl e else Inr ())"

lemma refuse_Inr [simp]: "refuse e b = Inr u \<longleftrightarrow> \<not> b"
  by (simp add: refuse_def)

lemma refuse_simps [simp]: "refuse e True = Inl e" "refuse e False = Inr ()"
  by (simp_all add: refuse_def)

lemma map_sum_Inr [simp]: "map_sum f g r = Inr y \<longleftrightarrow> (\<exists>x. r = Inr x \<and> y = g x)"
  by (cases r) auto

text \<open>\<^verbatim>\<open>u64::checked_add\<close>.\<close>

definition checked_add :: "u64 \<Rightarrow> u64 \<Rightarrow> u64 option" where
  "checked_add a b = (if unat a + unat b < 2 ^ 64 then Some (a + b) else None)"

lemma checked_add_Some:
  "checked_add a b = Some c \<Longrightarrow> unat c = unat a + unat b"
  by (auto simp: checked_add_def unat_word_ariths split: if_splits)

lemma checked_add_one_greater: "checked_add a 1 = Some c \<Longrightarrow> a < c"
  by (drule checked_add_Some) (simp add: word_less_nat_alt)

section \<open>Byte strings\<close>

text \<open>\<^verbatim>\<open>str::strip_prefix\<close>: what follows the prefix, if the string starts with it.\<close>

fun strip_prefix :: "string \<Rightarrow> string \<Rightarrow> string option" where
  "strip_prefix s [] = Some s"
| "strip_prefix [] (p # ps) = None"
| "strip_prefix (c # cs) (p # ps) = (if c = p then strip_prefix cs ps else None)"

lemma strip_prefix_Some_iff: "strip_prefix s p = Some r \<longleftrightarrow> s = p @ r"
  by (induction s p rule: strip_prefix.induct) auto

lemma strip_prefix_append [simp]: "strip_prefix (p @ r) p = Some r"
  by (simp add: strip_prefix_Some_iff)

definition starts_with :: "string \<Rightarrow> string \<Rightarrow> bool" where
  "starts_with s p = (strip_prefix s p \<noteq> None)"

lemma starts_with_iff: "starts_with s p \<longleftrightarrow> (\<exists>r. s = p @ r)"
  by (auto simp: starts_with_def strip_prefix_Some_iff)

text \<open>\<^verbatim>\<open>str::contains\<close> for a string pattern.\<close>

fun contains_str :: "string \<Rightarrow> string \<Rightarrow> bool" where
  "contains_str [] p = starts_with [] p"
| "contains_str (c # cs) p = (starts_with (c # cs) p \<or> contains_str cs p)"

text \<open>ASCII classes of \<^verbatim>\<open>u8\<close>.\<close>

definition ascii_digit :: "char \<Rightarrow> bool" where
  "ascii_digit c = (48 \<le> (of_char c :: nat) \<and> (of_char c :: nat) \<le> 57)"

definition ascii_upper :: "char \<Rightarrow> bool" where
  "ascii_upper c = (65 \<le> (of_char c :: nat) \<and> (of_char c :: nat) \<le> 90)"

definition ascii_lower :: "char \<Rightarrow> bool" where
  "ascii_lower c = (97 \<le> (of_char c :: nat) \<and> (of_char c :: nat) \<le> 122)"

definition ascii_alphanumeric :: "char \<Rightarrow> bool" where
  "ascii_alphanumeric c = (ascii_digit c \<or> ascii_upper c \<or> ascii_lower c)"

definition lower_af :: "char \<Rightarrow> bool" where
  "lower_af c = (97 \<le> (of_char c :: nat) \<and> (of_char c :: nat) \<le> 102)"

definition ascii_hexdigit :: "char \<Rightarrow> bool" where
  "ascii_hexdigit c = (ascii_digit c \<or> lower_af c \<or> (65 \<le> (of_char c :: nat) \<and> (of_char c :: nat) \<le> 70))"

definition to_ascii_lowercase :: "string \<Rightarrow> string" where
  "to_ascii_lowercase s =
     map (\<lambda>c. if ascii_upper c then char_of ((of_char c :: nat) + 32) else c) s"

lemmas ascii_class_defs =
  ascii_digit_def ascii_upper_def ascii_lower_def ascii_alphanumeric_def lower_af_def
  ascii_hexdigit_def

definition lower_hex :: "char \<Rightarrow> bool" where
  "lower_hex c = (ascii_digit c \<or> lower_af c)"

text \<open>The number a string of decimal digits writes.\<close>

definition digits_value :: "string \<Rightarrow> nat" where
  "digits_value ds = foldl (\<lambda>v d. v * 10 + (of_char d - 48)) 0 ds"

text \<open>\<^verbatim>\<open>str::split(c)\<close>: the pieces between separators, always at least one.\<close>

fun split_on :: "char \<Rightarrow> string \<Rightarrow> string list" where
  "split_on d [] = [[]]"
| "split_on d (c # cs) =
     (if c = d then [] # split_on d cs
      else case split_on d cs of [] \<Rightarrow> [[c]] | w # ws \<Rightarrow> (c # w) # ws)"

lemma split_on_nonempty [simp]: "split_on d s \<noteq> []"
  by (induction s) (auto split: list.splits)

section \<open>Unicode whitespace on UTF-8 bytes\<close>

text \<open>
  The byte width of the White\_Space character a UTF-8 string starts with, 0 when it
  starts with none: \<^verbatim>\<open>char::is_whitespace\<close> holds for U+0009--U+000D, U+0020, U+0085,
  U+00A0, U+1680, U+2000--U+200A, U+2028, U+2029, U+202F, U+205F and U+3000.
\<close>

definition ws2 :: "nat \<Rightarrow> nat \<Rightarrow> bool" where
  "ws2 a b = (a = 0xC2 \<and> (b = 0x85 \<or> b = 0xA0))"

definition ws3 :: "nat \<Rightarrow> nat \<Rightarrow> nat \<Rightarrow> bool" where
  "ws3 a b c =
     ((a = 0xE1 \<and> b = 0x9A \<and> c = 0x80) \<or>
      (a = 0xE2 \<and> b = 0x80 \<and> (0x80 \<le> c \<and> c \<le> 0x8A \<or> c = 0xA8 \<or> c = 0xA9 \<or> c = 0xAF)) \<or>
      (a = 0xE2 \<and> b = 0x81 \<and> c = 0x9F) \<or>
      (a = 0xE3 \<and> b = 0x80 \<and> c = 0x80))"

definition ws1 :: "nat \<Rightarrow> bool" where
  "ws1 a = (9 \<le> a \<and> a \<le> 13 \<or> a = 32)"

fun ws_width :: "string \<Rightarrow> nat" where
  "ws_width [] = 0"
| "ws_width [a] = (if ws1 (of_char a) then 1 else 0)"
| "ws_width [a, b] =
     (if ws1 (of_char a) then 1 else if ws2 (of_char a) (of_char b) then 2 else 0)"
| "ws_width (a # b # c # r) =
     (if ws1 (of_char a) then 1 else if ws2 (of_char a) (of_char b) then 2
      else if ws3 (of_char a) (of_char b) (of_char c) then 3 else 0)"

lemma ws_width_le: "ws_width s \<le> length s"
  by (induction s rule: ws_width.induct) simp_all

text \<open>\<^verbatim>\<open>str::trim_start\<close>; a string trims to nothing exactly when its start does.\<close>

function trim_start :: "string \<Rightarrow> string" where
  "trim_start s = (if ws_width s = 0 then s else trim_start (drop (ws_width s) s))"
  by pat_completeness auto
termination
proof (relation "measure length")
  fix s :: string
  assume "ws_width s \<noteq> 0"
  with ws_width_le [of s] show "(drop (ws_width s) s, s) \<in> measure length"
    by simp
qed simp

declare trim_start.simps [simp del]

definition trim_is_empty :: "string \<Rightarrow> bool" where
  "trim_is_empty s = (trim_start s = [])"

lemma trim_is_empty_Nil [simp]: "trim_is_empty []"
  by (simp add: trim_is_empty_def trim_start.simps)

text \<open>\<^verbatim>\<open>slice::windows(2)\<close>.\<close>

fun windows2 :: "'a list \<Rightarrow> ('a \<times> 'a) list" where
  "windows2 (x # y # zs) = (x, y) # windows2 (y # zs)"
| "windows2 _ = []"

lemma windows2_sorted_distinct:
  "sorted (xs :: 'a::linorder list) \<Longrightarrow>
   list_ex (\<lambda>(a, b). a = b) (windows2 xs) \<longleftrightarrow> \<not> distinct xs"
proof (induction xs rule: windows2.induct)
  case (1 x y zs)
  then show ?case by (auto intro: antisym)
qed simp_all

lemma windows2_strictly_sorted:
  "\<not> list_ex (\<lambda>(a, b). a \<ge> b) (windows2 xs) \<longleftrightarrow> sorted_wrt (<) (xs :: 'a::linorder list)"
proof (induction xs rule: windows2.induct)
  case (1 x y zs)
  then show ?case by (auto simp: not_le dest: less_trans)
qed simp_all

lemma strictly_sorted_le_last:
  "sorted_wrt (<) xs \<Longrightarrow> x \<in> set xs \<Longrightarrow> x \<le> last (xs :: 'a::linorder list)"
  by (induction xs) (auto intro: less_imp_le)

lemma strictly_sorted_snoc:
  "sorted_wrt (<) xs \<Longrightarrow> last xs < x \<Longrightarrow> sorted_wrt (<) (xs @ [x :: 'a::linorder])"
  using le_less_trans [OF strictly_sorted_le_last, of xs _ x] by (simp add: sorted_wrt_append)

section \<open>Big-endian integers and length frames\<close>

fun be_bytes :: "nat \<Rightarrow> nat \<Rightarrow> string" where
  "be_bytes 0 n = []"
| "be_bytes (Suc k) n = be_bytes k (n div 256) @ [char_of (n mod 256)]"

lemma length_be_bytes [simp]: "length (be_bytes k n) = k"
  by (induction k arbitrary: n) auto

lemma be_bytes_inject:
  "m < 256 ^ k \<Longrightarrow> n < 256 ^ k \<Longrightarrow> be_bytes k m = be_bytes k n \<Longrightarrow> m = n"
proof (induction k arbitrary: m n)
  case 0
  then show ?case by simp
next
  case (Suc k)
  from Suc.prems(3) have div: "be_bytes k (m div 256) = be_bytes k (n div 256)"
    and "(char_of (m mod 256) :: char) = char_of (n mod 256)"
    by simp_all
  then have md: "m mod 256 = n mod 256"
    by (metis of_char_of mod_mod_trivial)
  from Suc.prems(1,2) have "m div 256 < 256 ^ k" "n div 256 < 256 ^ k"
    by (simp_all add: less_mult_imp_div_less mult.commute)
  from Suc.IH [OF this div] md show ?case
    by (metis div_mult_mod_eq)
qed

definition u64_be :: "u64 \<Rightarrow> string" where
  "u64_be w = be_bytes 8 (unat w)"

definition u16_be :: "u16 \<Rightarrow> string" where
  "u16_be w = be_bytes 2 (unat w)"

definition u32_be :: "u32 \<Rightarrow> string" where
  "u32_be w = be_bytes 4 (unat w)"

lemma length_word_be [simp]: "length (u64_be w) = 8" "length (u16_be v) = 2" "length (u32_be u) = 4"
  by (simp_all add: u64_be_def u16_be_def u32_be_def)

text \<open>
  \<^verbatim>\<open>digest.update((value.len() as u64).to_be_bytes()); digest.update(value)\<close>.
  A byte length of a Rust value fits in \<^verbatim>\<open>usize\<close>, which is 64 bits wide on every
  supported target; \<open>fits\<close> names that bound.
\<close>

definition frame :: "string \<Rightarrow> string" where
  "frame s = u64_be (of_nat (length s)) @ s"

definition fits :: "string \<Rightarrow> bool" where
  "fits s = (length s < 2 ^ 64)"

definition frames :: "string list \<Rightarrow> string" where
  "frames xs = concat (map frame xs)"

lemma u64_be_inject: "u64_be a = u64_be b \<Longrightarrow> a = b"
proof -
  assume "u64_be a = u64_be b"
  moreover have "unat a < 256 ^ 8" "unat b < 256 ^ 8"
    using unsigned_less [of a] unsigned_less [of b] by simp_all
  ultimately show "a = b"
    unfolding u64_be_def by (metis be_bytes_inject word_eq_iff_unsigned)
qed

lemma u16_be_inject: "u16_be a = u16_be b \<Longrightarrow> a = b"
proof -
  assume "u16_be a = u16_be b"
  moreover have "unat a < 256 ^ 2" "unat b < 256 ^ 2"
    using unsigned_less [of a] unsigned_less [of b] by simp_all
  ultimately show "a = b"
    unfolding u16_be_def by (metis be_bytes_inject word_eq_iff_unsigned)
qed

lemma u32_be_inject: "u32_be a = u32_be b \<Longrightarrow> a = b"
proof -
  assume "u32_be a = u32_be b"
  moreover have "unat a < 256 ^ 4" "unat b < 256 ^ 4"
    using unsigned_less [of a] unsigned_less [of b] by simp_all
  ultimately show "a = b"
    unfolding u32_be_def by (metis be_bytes_inject word_eq_iff_unsigned)
qed

section \<open>Interface: self-delimiting codes\<close>

text \<open>
  A code is self-delimiting when an encoding followed by anything determines both the
  value and the rest.  Every digest preimage of the program is a concatenation of such
  codes, so that it determines every field it was built from.
\<close>

locale self_delimiting =
  fixes enc :: "'a \<Rightarrow> string" and ok :: "'a \<Rightarrow> bool"
  assumes enc_rest: "ok a \<Longrightarrow> ok b \<Longrightarrow> enc a @ x = enc b @ y \<Longrightarrow> a = b \<and> x = y"
begin

lemma enc_eq: "ok a \<Longrightarrow> ok b \<Longrightarrow> enc a = enc b \<Longrightarrow> a = b"
  using enc_rest [of a b "[]" "[]"] by simp

lemma concat_rest:
  "length as = length bs \<Longrightarrow> list_all ok as \<Longrightarrow> list_all ok bs \<Longrightarrow>
   concat (map enc as) @ x = concat (map enc bs) @ y \<Longrightarrow> as = bs \<and> x = y"
proof (induction as bs arbitrary: x y rule: list_induct2)
  case Nil
  then show ?case by simp
next
  case (Cons a as b bs)
  have "a = b \<and> concat (map enc as) @ x = concat (map enc bs) @ y"
    using Cons.prems by (intro enc_rest) simp_all
  then show ?case
    using Cons.IH [of x y] Cons.prems by simp
qed

end

interpretation be64: self_delimiting u64_be "\<lambda>_. True"
  by unfold_locales (metis append_eq_append_conv length_word_be(1) u64_be_inject)

interpretation be16: self_delimiting u16_be "\<lambda>_. True"
  by unfold_locales (metis append_eq_append_conv length_word_be(2) u16_be_inject)

interpretation framed: self_delimiting frame fits
proof
  fix a b x y
  assume fits: "fits a" "fits b" and eq: "frame a @ x = frame b @ y"
  then have "u64_be (of_nat (length a)) @ (a @ x) = u64_be (of_nat (length b)) @ (b @ y)"
    by (simp add: frame_def)
  then have "(of_nat (length a) :: u64) = of_nat (length b)" and rest: "a @ x = b @ y"
    using be64.enc_rest by blast+
  then have "unat (of_nat (length a) :: u64) = unat (of_nat (length b) :: u64)"
    by simp
  then have "length a = length b"
    using fits by (simp add: fits_def unat_of_nat)
  with rest show "a = b \<and> x = y" by simp
qed

lemma frames_rest [codec]:
  "frames as @ x = frames bs @ y \<Longrightarrow> length as = length bs \<Longrightarrow>
   list_all fits as \<Longrightarrow> list_all fits bs \<Longrightarrow> as = bs \<and> x = y"
  unfolding frames_def by (rule framed.concat_rest)

lemma fits_short: "length s \<le> 1000 \<Longrightarrow> fits s"
  by (simp add: fits_def)

text \<open>
  Every digest starts with a domain string that ends in its only NUL byte, so that the
  domain can be read back from the preimage.
\<close>

definition domain_tag :: "string \<Rightarrow> string" where
  "domain_tag d = d @ [CHR 0x00]"

lemma domain_tag_rest:
  "CHR 0x00 \<notin> set d \<Longrightarrow> CHR 0x00 \<notin> set e \<Longrightarrow>
   domain_tag d @ x = domain_tag e @ y \<Longrightarrow> d = e \<and> x = y"
proof (induction d arbitrary: e)
  case Nil
  then show ?case by (cases e) (auto simp: domain_tag_def)
next
  case (Cons c d)
  then show ?case by (cases e) (auto simp: domain_tag_def)
qed

section \<open>Unique elements\<close>

lemma filter_unique:
  assumes "length (filter P xs) = 1"
  obtains x where "filter P xs = [x]" and "x \<in> set xs" and "P x"
    and "\<And>y. y \<in> set xs \<Longrightarrow> P y \<Longrightarrow> y = x"
proof -
  obtain x where x: "filter P xs = [x]"
    using assms by (cases "filter P xs") simp_all
  have "set (filter P xs) = {x}" unfolding x by simp
  then have "{y \<in> set xs. P y} = {x}" by simp
  then have "x \<in> set xs" "P x" "\<And>y. y \<in> set xs \<Longrightarrow> P y \<Longrightarrow> y = x" by blast+
  with x show ?thesis by (rule that)
qed

section \<open>Validators shared by shape\<close>

text \<open>
  The crates repeat a few validators under different names.  These are the two shapes they
  share: a prefixed lower-case 256-bit digest and a prefixed identifier.
\<close>

definition hex_digest_with :: "string \<Rightarrow> string \<Rightarrow> bool" where
  "hex_digest_with p value \<longleftrightarrow>
     (\<exists>digest. value = p @ digest \<and> length digest = 64 \<and> list_all lower_hex digest)"

definition prefixed_id :: "string \<Rightarrow> string \<Rightarrow> bool" where
  "prefixed_id p value \<longleftrightarrow>
     (\<exists>suffix. value = p @ suffix \<and> suffix \<noteq> [] \<and> length value \<le> 128 \<and>
        list_all (\<lambda>b. ascii_alphanumeric b \<or> b = CHR ''-'') suffix)"

lemma strip_prefix_case_iff:
  "(case strip_prefix s p of None \<Rightarrow> False | Some r \<Rightarrow> Q r) \<longleftrightarrow> (\<exists>r. s = p @ r \<and> Q r)"
  by (auto simp: strip_prefix_Some_iff [symmetric] split: option.splits)

lemma hex_digest_length: "hex_digest_with p value \<Longrightarrow> length value = length p + 64"
  by (auto simp: hex_digest_with_def)

lemma prefixed_id_length: "prefixed_id p value \<Longrightarrow> length value \<le> 128"
  by (auto simp: prefixed_id_def)

lemma hex_digest_fits: "hex_digest_with p value \<Longrightarrow> length p \<le> 100 \<Longrightarrow> fits value"
  by (rule fits_short) (simp add: hex_digest_length)

lemma prefixed_id_fits: "prefixed_id p value \<Longrightarrow> fits value"
  by (rule fits_short) (auto dest: prefixed_id_length)

lemmas validated_fits = hex_digest_fits prefixed_id_fits

section \<open>Calls that may be refused\<close>

text \<open>
  A caller presents a sequence of calls to a stateful object; a refused call leaves the
  object as it is.  \<open>attempts\<close> gives the final state and the calls that were accepted.
\<close>

fun attempts :: "('s \<Rightarrow> 'c \<Rightarrow> 'e + 's) \<Rightarrow> 's \<Rightarrow> 'c list \<Rightarrow> 's \<times> 'c list" where
  "attempts step s [] = (s, [])"
| "attempts step s (c # cs) =
     (case step s c of
        Inl _ \<Rightarrow> attempts step s cs
      | Inr s' \<Rightarrow> (case attempts step s' cs of (t, acc) \<Rightarrow> (t, c # acc)))"

lemma attempts_invariant:
  assumes "P s acc"
    and "\<And>s acc c s'. P s acc \<Longrightarrow> step s c = Inr s' \<Longrightarrow> P s' (acc @ [c])"
  shows "P (fst (attempts step s cs)) (acc @ snd (attempts step s cs))"
  using assms(1)
proof (induction cs arbitrary: s acc)
  case Nil
  then show ?case by simp
next
  case (Cons c cs)
  show ?case
  proof (cases "step s c")
    case (Inl e)
    with Cons show ?thesis by simp
  next
    case (Inr s')
    with Cons.prems have "P s' (acc @ [c])" by (rule assms(2))
    from Cons.IH [OF this] Inr show ?thesis
      by (cases "attempts step s' cs") simp
  qed
qed

lemma attempts_history:
  assumes "P s []" and "\<And>s acc c s'. P s acc \<Longrightarrow> step s c = Inr s' \<Longrightarrow> P s' (acc @ [c])"
  shows "P (fst (attempts step s cs)) (snd (attempts step s cs))"
  using attempts_invariant [of P s "[]" step cs, OF assms] by simp

section \<open>Interface: single-use approvals\<close>

text \<open>
  What every approval object of the program promises: an approval names the binding it is
  for, a granted approval is for exactly the staged binding, the binding never changes, and
  an object that has been approved refuses every further approval.
\<close>

locale single_use_approval =
  fixes approve :: "'s \<Rightarrow> 'a \<Rightarrow> 'e + 's"
    and approved :: "'s \<Rightarrow> bool"
    and staged_binding :: "'s \<Rightarrow> 'b"
    and claimed_binding :: "'a \<Rightarrow> 'b"
  assumes refuses: "approved s \<Longrightarrow> \<not> is_ok (approve s a)"
    and grants: "approve s a = Inr s' \<Longrightarrow> approved s'"
    and bound: "approve s a = Inr s' \<Longrightarrow> claimed_binding a = staged_binding s"
    and keeps: "approve s a = Inr s' \<Longrightarrow> staged_binding s' = staged_binding s"
begin

lemma approved_stays: "approved s \<Longrightarrow> attempts approve s as = (s, [])"
proof (induction as)
  case (Cons a as)
  then show ?case using refuses [of s a] by (cases "approve s a") simp_all
qed simp

lemma granted_run: "approve s a = Inr s' \<Longrightarrow> attempts approve s (a # as) = (s', [a])"
  using grants [of s a s'] by (simp add: approved_stays)

lemma at_most_once: "length (snd (attempts approve s as)) \<le> 1"
proof (induction as)
  case (Cons a as)
  then show ?case
    by (cases "approve s a") (simp, simp add: granted_run del: attempts.simps(2))
qed simp

lemma binding_fixed: "staged_binding (fst (attempts approve s as)) = staged_binding s"
proof (induction as)
  case (Cons a as)
  then show ?case
    by (cases "approve s a") (simp, simp add: granted_run keeps del: attempts.simps(2))
qed simp

lemma accepted_is_bound:
  "a \<in> set (snd (attempts approve s as)) \<Longrightarrow> claimed_binding a = staged_binding s"
proof (induction as)
  case (Cons b as)
  then show ?case
    by (cases "approve s b") (simp, simp add: granted_run bound del: attempts.simps(2))
qed simp

text \<open>A run is decided by the first approval the fresh object would grant, if there is one.\<close>

lemma run_cases:
  obtains (none) "attempts approve s as = (s, [])" and "\<forall>a \<in> set as. \<not> is_ok (approve s a)"
  | (one) a s' where "a \<in> set as" and "approve s a = Inr s'" and "attempts approve s as = (s', [a])"
proof (induction as arbitrary: thesis)
  case Nil
  then show ?case by simp
next
  case (Cons b as)
  show ?case
  proof (cases "approve s b")
    case (Inl e)
    then have "attempts approve s (b # as) = attempts approve s as" and "\<not> is_ok (approve s b)"
      by simp_all
    then show ?thesis using Cons by (metis list.set_intros(2) set_ConsD)
  next
    case (Inr s')
    then show ?thesis using Cons.prems(2) granted_run by fastforce
  qed
qed

lemmas approval_contract = at_most_once binding_fixed accepted_is_bound

end

end
