(* ===== verification/KA_Protocol.thy ===== *)
theory KA_Protocol
  imports KA_Prelude
begin

text \<open>
  The data every component exchanges: risk classes, action steps, plans and broker
  requests of \<^verbatim>\<open>crates/protocol/src/lib.rs\<close> and the evidence record of
  \<^verbatim>\<open>crates/evidence/src/lib.rs\<close>.
\<close>

datatype Risk = R0 | R1 | R2 | R3 | R4

record ActionStep =
  as_action :: string
  as_risk :: Risk
  as_target_fingerprint :: string
  as_evidence_ids :: "string list"
  as_preconditions :: "string list"
  as_backup :: "string option"
  as_validation :: string
  as_rollback :: "string option"

record ValidatedPlan =
  vp_plan_id :: string
  vp_target_fingerprint :: string
  vp_steps :: "ActionStep list"

record BrokerRequest =
  br_session_id :: string
  br_plan_id :: string
  br_approval_id :: "string option"
  br_target_fingerprint :: string
  br_sequence :: u64
  br_action :: string

record Evidence =
  ev_id :: string
  ev_collector :: string
  ev_target :: string
  ev_captured_at :: string
  ev_content_type :: string
  ev_sha256 :: string
  ev_sensitivity :: string
  ev_trust :: string
  ev_summary :: string
  ev_blob_ref :: string

definition is_untrusted :: "Evidence \<Rightarrow> bool" where
  "is_untrusted e = (ev_trust e = ''observed-untrusted'')"

end
