(* ===== verification/KA_Fixture.thy ===== *)
theory KA_Fixture
  imports KA_Protocol
begin

text \<open>
  The feature-gated fixture transactions of \<^verbatim>\<open>crates/core/src/lib.rs\<close>: the immutable
  mutation binding, the transition proof, the approval state both transactions share, the
  repair transaction and the separately approved rollback transaction.  A method taking
  \<^verbatim>\<open>&mut self\<close> returns the new object or an error; each returns its error before it
  writes a field, so a refused call leaves the object unchanged.  The theorems reconstruct
  the whole history of a completed transaction from its final state.
\<close>

section \<open>Bindings and proofs\<close>

datatype FixtureTransactionError =
    FixtureInvalidBinding
  | FixtureInvalidApproval
  | FixtureInvalidTransition
  | FixtureBindingMismatch
  | FixtureApprovalMismatch
  | RollbackApprovalNotDistinct

definition valid_fixture_sha256 :: "string \<Rightarrow> bool" where
  "valid_fixture_sha256 value =
     (case strip_prefix value ''sha256:'' of
        None \<Rightarrow> False
      | Some digest \<Rightarrow>
          length digest = 64 \<and> list_all (\<lambda>byte. ascii_digit byte \<or> lower_af byte) digest)"

definition valid_fixture_identifier :: "string \<Rightarrow> bool" where
  "valid_fixture_identifier value =
     (value \<noteq> [] \<and> length value \<le> 128 \<and>
      list_all (\<lambda>byte. ascii_alphanumeric byte
        \<or> byte \<in> {CHR ''.'', CHR ''_'', CHR '':'', CHR ''-''}) value)"

record FixtureMutationBinding =
  fmb_plan_id :: string
  fmb_plan_hash :: string
  fmb_target_snapshot :: string
  fmb_resource_id :: string
  fmb_resource_precondition :: string

definition FixtureMutationBinding_new ::
    "string \<Rightarrow> string \<Rightarrow> string \<Rightarrow> string \<Rightarrow> string
     \<Rightarrow> FixtureTransactionError + FixtureMutationBinding" where
  "FixtureMutationBinding_new plan_id plan_hash target_snapshot resource_id resource_precondition =
     (if \<not> valid_fixture_identifier plan_id
         \<or> \<not> valid_fixture_sha256 plan_hash
         \<or> \<not> valid_fixture_sha256 target_snapshot
         \<or> \<not> valid_fixture_identifier resource_id
         \<or> \<not> valid_fixture_sha256 resource_precondition
      then Inl FixtureInvalidBinding
      else Inr \<lparr>fmb_plan_id = plan_id, fmb_plan_hash = plan_hash,
                fmb_target_snapshot = target_snapshot, fmb_resource_id = resource_id,
                fmb_resource_precondition = resource_precondition\<rparr>)"

record FixtureTransitionProof =
  ftp_mutation :: FixtureMutationBinding
  ftp_approval_id :: string
  ftp_approval_sequence :: u64

definition FixtureTransitionProof_new ::
    "FixtureMutationBinding \<Rightarrow> string \<Rightarrow> u64 \<Rightarrow> FixtureTransactionError + FixtureTransitionProof" where
  "FixtureTransitionProof_new mutation approval_id approval_sequence =
     (if \<not> valid_fixture_identifier approval_id \<or> approval_sequence = 0
      then Inl FixtureInvalidApproval
      else Inr \<lparr>ftp_mutation = mutation, ftp_approval_id = approval_id,
                ftp_approval_sequence = approval_sequence\<rparr>)"

datatype FixtureVerificationOutcome = Succeeded | Failed

section \<open>The shared approval state\<close>

record BoundFixtureTransaction =
  bft_mutation :: FixtureMutationBinding
  bft_approval_id :: "string option"
  bft_approval_sequence :: "u64 option"

definition bft_staged :: "FixtureMutationBinding \<Rightarrow> BoundFixtureTransaction" where
  "bft_staged mutation =
     \<lparr>bft_mutation = mutation, bft_approval_id = None, bft_approval_sequence = None\<rparr>"

definition bft_validate_mutation ::
    "BoundFixtureTransaction \<Rightarrow> FixtureTransitionProof \<Rightarrow> FixtureTransactionError + unit" where
  "bft_validate_mutation self pf =
     (if bft_mutation self \<noteq> ftp_mutation pf then Inl FixtureBindingMismatch else Inr ())"

definition bft_approve ::
    "BoundFixtureTransaction \<Rightarrow> FixtureTransitionProof
     \<Rightarrow> FixtureTransactionError + BoundFixtureTransaction" where
  "bft_approve self pf =
     (case bft_validate_mutation self pf of
        Inl e \<Rightarrow> Inl e
      | Inr _ \<Rightarrow>
          if bft_approval_id self \<noteq> None \<or> bft_approval_sequence self \<noteq> None
          then Inl FixtureInvalidTransition
          else Inr (self\<lparr>bft_approval_id := Some (ftp_approval_id pf),
                         bft_approval_sequence := Some (ftp_approval_sequence pf)\<rparr>))"

definition bft_validate_proof ::
    "BoundFixtureTransaction \<Rightarrow> FixtureTransitionProof \<Rightarrow> FixtureTransactionError + unit" where
  "bft_validate_proof self pf =
     (case bft_validate_mutation self pf of
        Inl e \<Rightarrow> Inl e
      | Inr _ \<Rightarrow>
          if bft_approval_id self \<noteq> Some (ftp_approval_id pf)
             \<or> bft_approval_sequence self \<noteq> Some (ftp_approval_sequence pf)
          then Inl FixtureApprovalMismatch
          else Inr ())"

text \<open>The approval state a proof leaves behind, and that it pins the proof.\<close>

definition bound_to :: "FixtureTransitionProof \<Rightarrow> BoundFixtureTransaction" where
  "bound_to pf = \<lparr>bft_mutation = ftp_mutation pf,
     bft_approval_id = Some (ftp_approval_id pf),
     bft_approval_sequence = Some (ftp_approval_sequence pf)\<rparr>"

lemma bft_staged_mutation [simp]: "bft_mutation (bft_staged mutation) = mutation"
  by (simp add: bft_staged_def)

lemma bft_approve_ok:
  "bft_approve (bft_staged mutation) pf = Inr b \<longleftrightarrow> ftp_mutation pf = mutation \<and> b = bound_to pf"
  by (auto simp: bft_approve_def bft_validate_mutation_def bft_staged_def bound_to_def)

lemma bft_approve_keeps:
  "bft_approve self pf = Inr b \<Longrightarrow>
     bft_mutation b = bft_mutation self \<and> ftp_mutation pf = bft_mutation self"
  by (auto simp: bft_approve_def bft_validate_mutation_def)

lemma bft_validate_proof_ok:
  "bft_validate_proof (bound_to pf) q = Inr () \<longleftrightarrow> q = pf"
  by (cases q; cases pf) (auto simp: bft_validate_proof_def bft_validate_mutation_def bound_to_def)

section \<open>Repair transaction\<close>

datatype FixtureRepairTransactionState =
    RepairStaged
  | RepairApproved
  | Repairing
  | RepairVerified FixtureVerificationOutcome
  | RepairComplete FixtureVerificationOutcome

record FixtureRepairTransaction =
  frt_bound :: BoundFixtureTransaction
  frt_state :: FixtureRepairTransactionState

definition repair_stage :: "FixtureMutationBinding \<Rightarrow> FixtureRepairTransaction" where
  "repair_stage mutation = \<lparr>frt_bound = bft_staged mutation, frt_state = RepairStaged\<rparr>"

definition repair_approve ::
    "FixtureRepairTransaction \<Rightarrow> FixtureTransitionProof
     \<Rightarrow> FixtureTransactionError + FixtureRepairTransaction" where
  "repair_approve self pf =
     (if frt_state self \<noteq> RepairStaged then Inl FixtureInvalidTransition
      else case bft_approve (frt_bound self) pf of
        Inl e \<Rightarrow> Inl e
      | Inr b \<Rightarrow> Inr (self\<lparr>frt_bound := b, frt_state := RepairApproved\<rparr>))"

definition begin_repair ::
    "FixtureRepairTransaction \<Rightarrow> FixtureTransitionProof
     \<Rightarrow> FixtureTransactionError + FixtureRepairTransaction" where
  "begin_repair self pf =
     (if frt_state self \<noteq> RepairApproved then Inl FixtureInvalidTransition
      else case bft_validate_proof (frt_bound self) pf of
        Inl e \<Rightarrow> Inl e
      | Inr _ \<Rightarrow> Inr (self\<lparr>frt_state := Repairing\<rparr>))"

definition repair_record_verification ::
    "FixtureRepairTransaction \<Rightarrow> FixtureTransitionProof \<Rightarrow> FixtureVerificationOutcome
     \<Rightarrow> FixtureTransactionError + FixtureRepairTransaction" where
  "repair_record_verification self pf outcome =
     (if frt_state self \<noteq> Repairing then Inl FixtureInvalidTransition
      else case bft_validate_proof (frt_bound self) pf of
        Inl e \<Rightarrow> Inl e
      | Inr _ \<Rightarrow> Inr (self\<lparr>frt_state := RepairVerified outcome\<rparr>))"

definition repair_complete ::
    "FixtureRepairTransaction \<Rightarrow> FixtureTransitionProof
     \<Rightarrow> FixtureTransactionError + FixtureRepairTransaction" where
  "repair_complete self pf =
     (case frt_state self of
        RepairVerified outcome \<Rightarrow>
          (case bft_validate_proof (frt_bound self) pf of
             Inl e \<Rightarrow> Inl e
           | Inr _ \<Rightarrow> Inr (self\<lparr>frt_state := RepairComplete outcome\<rparr>))
      | _ \<Rightarrow> Inl FixtureInvalidTransition)"

text \<open>One call of a client, whichever method it invokes.\<close>

datatype transaction_call =
    CallApprove FixtureTransitionProof
  | CallBegin FixtureTransitionProof
  | CallRecord FixtureTransitionProof FixtureVerificationOutcome
  | CallComplete FixtureTransitionProof

fun repair_call ::
    "FixtureRepairTransaction \<Rightarrow> transaction_call
     \<Rightarrow> FixtureTransactionError + FixtureRepairTransaction" where
  "repair_call t (CallApprove p) = repair_approve t p"
| "repair_call t (CallBegin p) = begin_repair t p"
| "repair_call t (CallRecord p r) = repair_record_verification t p r"
| "repair_call t (CallComplete p) = repair_complete t p"

text \<open>The calls that lead to a state, as a function of the state and the approving proof.\<close>

fun repair_trace ::
    "FixtureRepairTransactionState \<Rightarrow> FixtureTransitionProof \<Rightarrow> transaction_call list" where
  "repair_trace RepairStaged p = []"
| "repair_trace RepairApproved p = [CallApprove p]"
| "repair_trace Repairing p = [CallApprove p, CallBegin p]"
| "repair_trace (RepairVerified r) p = [CallApprove p, CallBegin p, CallRecord p r]"
| "repair_trace (RepairComplete r) p =
     [CallApprove p, CallBegin p, CallRecord p r, CallComplete p]"

definition repair_history ::
    "FixtureMutationBinding \<Rightarrow> FixtureRepairTransaction \<Rightarrow> transaction_call list \<Rightarrow> bool" where
  "repair_history mutation t acc =
     (if frt_state t = RepairStaged then t = repair_stage mutation \<and> acc = []
      else \<exists>p. ftp_mutation p = mutation \<and> frt_bound t = bound_to p \<and>
               acc = repair_trace (frt_state t) p)"

lemma repair_history_step:
  assumes "repair_history mutation t acc" and "repair_call t c = Inr t'"
  shows "repair_history mutation t' (acc @ [c])"
proof (cases "frt_state t = RepairStaged")
  case True
  then have "t = repair_stage mutation" "acc = []"
    using assms(1) by (simp_all add: repair_history_def)
  then show ?thesis
    using assms(2)
    by (cases c) (auto simp: repair_history_def repair_stage_def repair_approve_def begin_repair_def
        repair_record_verification_def repair_complete_def bft_approve_ok)
next
  case False
  then obtain p where "ftp_mutation p = mutation" "frt_bound t = bound_to p"
    "acc = repair_trace (frt_state t) p"
    using assms(1) by (auto simp: repair_history_def)
  then show ?thesis
    using assms(2) False
    by (cases c; cases "frt_state t") (auto simp: repair_history_def repair_approve_def
        begin_repair_def repair_record_verification_def repair_complete_def bft_validate_proof_ok)
qed

lemma repair_history_run:
  "repair_history mutation (fst (attempts repair_call (repair_stage mutation) cs))
     (snd (attempts repair_call (repair_stage mutation) cs))"
  by (rule attempts_history [where P = "repair_history mutation"])
     (simp add: repair_history_def repair_stage_def, erule (1) repair_history_step)

section \<open>Rollback transaction\<close>

datatype FixtureRollbackTransactionState =
    RollbackStaged
  | RollbackApproved
  | RollingBack
  | RollbackVerified FixtureVerificationOutcome
  | RollbackComplete FixtureVerificationOutcome

record FixtureRollbackTransaction =
  fbt_bound :: BoundFixtureTransaction
  fbt_repair_approval_id :: string
  fbt_repair_plan_hash :: string
  fbt_state :: FixtureRollbackTransactionState

definition rollback_stage ::
    "FixtureMutationBinding \<Rightarrow> string \<Rightarrow> string
     \<Rightarrow> FixtureTransactionError + FixtureRollbackTransaction" where
  "rollback_stage mutation repair_approval_id repair_plan_hash =
     (if \<not> valid_fixture_identifier repair_approval_id
         \<or> \<not> valid_fixture_sha256 repair_plan_hash
      then Inl FixtureInvalidBinding
      else Inr \<lparr>fbt_bound = bft_staged mutation, fbt_repair_approval_id = repair_approval_id,
                fbt_repair_plan_hash = repair_plan_hash, fbt_state = RollbackStaged\<rparr>)"

definition rollback_approve ::
    "FixtureRollbackTransaction \<Rightarrow> FixtureTransitionProof
     \<Rightarrow> FixtureTransactionError + FixtureRollbackTransaction" where
  "rollback_approve self pf =
     (if fbt_state self \<noteq> RollbackStaged then Inl FixtureInvalidTransition
      else if ftp_approval_id pf = fbt_repair_approval_id self then Inl RollbackApprovalNotDistinct
      else case bft_approve (fbt_bound self) pf of
        Inl e \<Rightarrow> Inl e
      | Inr b \<Rightarrow> Inr (self\<lparr>fbt_bound := b, fbt_state := RollbackApproved\<rparr>))"

definition begin_rollback ::
    "FixtureRollbackTransaction \<Rightarrow> FixtureTransitionProof
     \<Rightarrow> FixtureTransactionError + FixtureRollbackTransaction" where
  "begin_rollback self pf =
     (if fbt_state self \<noteq> RollbackApproved then Inl FixtureInvalidTransition
      else case bft_validate_proof (fbt_bound self) pf of
        Inl e \<Rightarrow> Inl e
      | Inr _ \<Rightarrow> Inr (self\<lparr>fbt_state := RollingBack\<rparr>))"

definition rollback_record_verification ::
    "FixtureRollbackTransaction \<Rightarrow> FixtureTransitionProof \<Rightarrow> FixtureVerificationOutcome
     \<Rightarrow> FixtureTransactionError + FixtureRollbackTransaction" where
  "rollback_record_verification self pf outcome =
     (if fbt_state self \<noteq> RollingBack then Inl FixtureInvalidTransition
      else case bft_validate_proof (fbt_bound self) pf of
        Inl e \<Rightarrow> Inl e
      | Inr _ \<Rightarrow> Inr (self\<lparr>fbt_state := RollbackVerified outcome\<rparr>))"

definition rollback_complete ::
    "FixtureRollbackTransaction \<Rightarrow> FixtureTransitionProof
     \<Rightarrow> FixtureTransactionError + FixtureRollbackTransaction" where
  "rollback_complete self pf =
     (case fbt_state self of
        RollbackVerified outcome \<Rightarrow>
          (case bft_validate_proof (fbt_bound self) pf of
             Inl e \<Rightarrow> Inl e
           | Inr _ \<Rightarrow> Inr (self\<lparr>fbt_state := RollbackComplete outcome\<rparr>))
      | _ \<Rightarrow> Inl FixtureInvalidTransition)"

fun rollback_call ::
    "FixtureRollbackTransaction \<Rightarrow> transaction_call
     \<Rightarrow> FixtureTransactionError + FixtureRollbackTransaction" where
  "rollback_call t (CallApprove p) = rollback_approve t p"
| "rollback_call t (CallBegin p) = begin_rollback t p"
| "rollback_call t (CallRecord p r) = rollback_record_verification t p r"
| "rollback_call t (CallComplete p) = rollback_complete t p"

fun rollback_trace ::
    "FixtureRollbackTransactionState \<Rightarrow> FixtureTransitionProof \<Rightarrow> transaction_call list" where
  "rollback_trace RollbackStaged p = []"
| "rollback_trace RollbackApproved p = [CallApprove p]"
| "rollback_trace RollingBack p = [CallApprove p, CallBegin p]"
| "rollback_trace (RollbackVerified r) p = [CallApprove p, CallBegin p, CallRecord p r]"
| "rollback_trace (RollbackComplete r) p =
     [CallApprove p, CallBegin p, CallRecord p r, CallComplete p]"

definition rollback_history ::
    "FixtureRollbackTransaction \<Rightarrow> FixtureRollbackTransaction \<Rightarrow> transaction_call list \<Rightarrow> bool" where
  "rollback_history t0 t acc =
     (fbt_repair_approval_id t = fbt_repair_approval_id t0 \<and>
      fbt_repair_plan_hash t = fbt_repair_plan_hash t0 \<and>
      (if fbt_state t = RollbackStaged then t = t0 \<and> acc = []
       else \<exists>p. ftp_mutation p = bft_mutation (fbt_bound t0) \<and>
                ftp_approval_id p \<noteq> fbt_repair_approval_id t0 \<and>
                fbt_bound t = bound_to p \<and> acc = rollback_trace (fbt_state t) p))"

lemma rollback_history_step:
  assumes "fbt_bound t0 = bft_staged mutation"
    and "rollback_history t0 t acc" and "rollback_call t c = Inr t'"
  shows "rollback_history t0 t' (acc @ [c])"
proof (cases "fbt_state t = RollbackStaged")
  case True
  then have "t = t0" "acc = []"
    using assms(2) by (simp_all add: rollback_history_def)
  then show ?thesis
    using assms(1,3) True
    by (cases c) (auto simp: rollback_history_def rollback_approve_def begin_rollback_def
        rollback_record_verification_def rollback_complete_def bft_approve_ok)
next
  case False
  then obtain p where "ftp_mutation p = bft_mutation (fbt_bound t0)"
    "ftp_approval_id p \<noteq> fbt_repair_approval_id t0" "fbt_bound t = bound_to p"
    "acc = rollback_trace (fbt_state t) p"
    using assms(2) by (auto simp: rollback_history_def)
  then show ?thesis
    using assms(2,3) False
    by (cases c; cases "fbt_state t") (auto simp: rollback_history_def rollback_approve_def
        begin_rollback_def rollback_record_verification_def rollback_complete_def
        bft_validate_proof_ok)
qed

lemma rollback_history_run:
  assumes "rollback_stage mutation aid hash = Inr t0"
  shows "rollback_history t0 (fst (attempts rollback_call t0 cs)) (snd (attempts rollback_call t0 cs))"
proof (rule attempts_history [where P = "rollback_history t0"])
  show "rollback_history t0 t0 []"
    using assms by (auto simp: rollback_history_def rollback_stage_def)
  have "fbt_bound t0 = bft_staged mutation"
    using assms by (auto simp: rollback_stage_def)
  then show "\<And>s acc c s'. rollback_history t0 s acc \<Longrightarrow> rollback_call s c = Inr s' \<Longrightarrow>
      rollback_history t0 s' (acc @ [c])"
    by (rule rollback_history_step)
qed

section \<open>Both transactions keep the approval contract\<close>

interpretation fixture_repair: single_use_approval repair_approve
  "\<lambda>t. frt_state t \<noteq> RepairStaged" "\<lambda>t. bft_mutation (frt_bound t)" ftp_mutation
  by unfold_locales (auto simp: repair_approve_def dest: bft_approve_keeps)

interpretation fixture_rollback: single_use_approval rollback_approve
  "\<lambda>t. fbt_state t \<noteq> RollbackStaged" "\<lambda>t. bft_mutation (fbt_bound t)" ftp_mutation
  by unfold_locales (auto simp: rollback_approve_def dest: bft_approve_keeps)

section \<open>Properties\<close>

text \<open>
  C13: a fixture repair that has reached its final state with outcome \<open>r\<close> got there by exactly
  four accepted calls, in order approve, begin, record \<open>r\<close>, complete, all presenting one and the
  same proof for the staged binding.  No call sequence skips approval, verifies before the
  repair has begun, changes the outcome, or switches the proof.
\<close>

theorem fixture_repair_completed_history:
  assumes "attempts repair_call (repair_stage mutation) cs = (t, acc)"
    and "frt_state t = RepairComplete r"
  shows "\<exists>p. ftp_mutation p = mutation \<and> frt_bound t = bound_to p \<and>
    acc = [CallApprove p, CallBegin p, CallRecord p r, CallComplete p]"
  using repair_history_run [of mutation cs] assms by (auto simp: repair_history_def)

definition example_mutation :: FixtureMutationBinding where
  "example_mutation = \<lparr>fmb_plan_id = ''P-1'', fmb_plan_hash = ''h'', fmb_target_snapshot = ''s'',
     fmb_resource_id = ''r'', fmb_resource_precondition = ''c''\<rparr>"

definition example_proof :: "string \<Rightarrow> FixtureTransitionProof" where
  "example_proof a = \<lparr>ftp_mutation = example_mutation, ftp_approval_id = a,
     ftp_approval_sequence = 1\<rparr>"

definition example_calls :: "string \<Rightarrow> transaction_call list" where
  "example_calls a = [CallBegin (example_proof a), CallApprove (example_proof a),
     CallApprove (example_proof ''A-9''), CallBegin (example_proof a),
     CallComplete (example_proof a), CallRecord (example_proof a) Succeeded,
     CallComplete (example_proof a)]"

lemmas repair_evaluation = attempts.simps repair_stage_def repair_approve_def begin_repair_def
  repair_record_verification_def repair_complete_def bft_approve_def bft_validate_proof_def
  bft_validate_mutation_def bft_staged_def example_proof_def

theorem fixture_repair_completed_history_witness:
  "\<exists>p. ftp_mutation p = example_mutation \<and>
     snd (attempts repair_call (repair_stage example_mutation) (example_calls ''A-1''))
       = [CallApprove p, CallBegin p, CallRecord p Succeeded, CallComplete p]"
proof -
  let ?r = "attempts repair_call (repair_stage example_mutation) (example_calls ''A-1'')"
  have "frt_state (fst ?r) = RepairComplete Succeeded"
    by (simp add: example_calls_def repair_evaluation)
  from fixture_repair_completed_history [OF prod.collapse [symmetric] this]
  show ?thesis by blast
qed

text \<open>
  a fixture rollback that has reached its final state did so by the same four calls under
  one proof whose approval identifier differs from the approval of the repair it undoes; the
  reference to that repair is unchanged from staging.
\<close>

theorem fixture_rollback_completed_history:
  assumes "rollback_stage mutation repair_approval repair_hash = Inr t0"
    and "attempts rollback_call t0 cs = (t, acc)"
    and "fbt_state t = RollbackComplete r"
  shows "\<exists>p. ftp_mutation p = mutation \<and> ftp_approval_id p \<noteq> repair_approval \<and>
    fbt_bound t = bound_to p \<and> fbt_repair_approval_id t = repair_approval \<and>
    fbt_repair_plan_hash t = repair_hash \<and>
    acc = [CallApprove p, CallBegin p, CallRecord p r, CallComplete p]"
proof -
  have "fbt_repair_approval_id t0 = repair_approval" "fbt_repair_plan_hash t0 = repair_hash"
    "bft_mutation (fbt_bound t0) = mutation"
    using assms(1) by (auto simp: rollback_stage_def)
  then show ?thesis
    using rollback_history_run [OF assms(1), of cs] assms(2,3) by (auto simp: rollback_history_def)
qed

definition example_rollback :: FixtureRollbackTransaction where
  "example_rollback = \<lparr>fbt_bound = bft_staged example_mutation, fbt_repair_approval_id = ''A-1'',
     fbt_repair_plan_hash = ''sha256:'' @ replicate 64 (CHR ''0''), fbt_state = RollbackStaged\<rparr>"

lemma example_rollback_staged:
  "rollback_stage example_mutation ''A-1'' (''sha256:'' @ replicate 64 (CHR ''0''))
     = Inr example_rollback"
  by (simp add: rollback_stage_def example_rollback_def valid_fixture_identifier_def
      valid_fixture_sha256_def list_all_iff ascii_class_defs)

theorem fixture_rollback_completed_history_witness:
  "\<exists>p. ftp_approval_id p \<noteq> ''A-1'' \<and>
     snd (attempts rollback_call example_rollback (example_calls ''A-2''))
       = [CallApprove p, CallBegin p, CallRecord p Succeeded, CallComplete p]"
proof -
  let ?r = "attempts rollback_call example_rollback (example_calls ''A-2'')"
  have "fbt_state (fst ?r) = RollbackComplete Succeeded"
    by (simp add: example_calls_def repair_evaluation example_rollback_def rollback_approve_def
        begin_rollback_def rollback_record_verification_def rollback_complete_def)
  from fixture_rollback_completed_history
    [OF example_rollback_staged prod.collapse [symmetric] this]
  show ?thesis by blast
qed

end
