(* ===== verification/KA_Policy.thy ===== *)
theory KA_Policy
  imports KA_Protocol
begin

text \<open>
  \<^verbatim>\<open>crates/policy/src/lib.rs\<close>: the Phase 0 step validator, the mutation metadata check
  and the five closed validators of one-step R2 plans.  A validator is a
  function into \<open>PolicyError + unit\<close>, its early returns in the source's order.  The
  lemmas characterise what each validator accepts; the theorems at the end show that the
  four Rescue validators accept nothing but their canonical plan and that the contracts are
  pairwise disjoint.
\<close>

section \<open>Pinned identifiers\<close>

definition FIXTURE_FSTAB_ACTION_ID :: string where
  "FIXTURE_FSTAB_ACTION_ID = ''linux.fstab.repair-entry.fixture-v1''"

definition FIXTURE_FSTAB_PREFLIGHT_ID :: string where
  "FIXTURE_FSTAB_PREFLIGHT_ID = ''linux.fstab.preflight''"

definition FIXTURE_FSTAB_BACKUP :: string where
  "FIXTURE_FSTAB_BACKUP = ''required''"

definition FIXTURE_FSTAB_VALIDATION_ID :: string where
  "FIXTURE_FSTAB_VALIDATION_ID = ''linux.boot.validate-fstab''"

definition FIXTURE_FSTAB_ROLLBACK_ID :: string where
  "FIXTURE_FSTAB_ROLLBACK_ID = ''linux.fstab.restore''"

definition RESCUE_FSTAB_ACTION_ID :: string where
  "RESCUE_FSTAB_ACTION_ID = ''linux.fstab.disable-missing-uuid.v1''"

definition RESCUE_FSTAB_FINDING_ID :: string where
  "RESCUE_FSTAB_FINDING_ID = ''KA-LNX-P0-003''"

definition RESCUE_FSTAB_RESOURCE_ID :: string where
  "RESCUE_FSTAB_RESOURCE_ID = ''rescue:selected-linux-root:etc/fstab''"

definition RESCUE_FSTAB_PREFLIGHT_ID :: string where
  "RESCUE_FSTAB_PREFLIGHT_ID = ''linux.fstab.preflight''"

definition RESCUE_FSTAB_BACKUP :: string where
  "RESCUE_FSTAB_BACKUP = ''required''"

definition RESCUE_FSTAB_VALIDATION_ID :: string where
  "RESCUE_FSTAB_VALIDATION_ID = ''linux.boot.validate-fstab''"

definition RESCUE_FSTAB_ROLLBACK_ID :: string where
  "RESCUE_FSTAB_ROLLBACK_ID = ''linux.fstab.restore''"

definition RESCUE_FSTAB_ROLLBACK_EVIDENCE_ID :: string where
  "RESCUE_FSTAB_ROLLBACK_EVIDENCE_ID = ''E-RESCUE-FSTAB-SOURCE-RECEIPT''"

definition RESCUE_FSTAB_ROLLBACK_PREFLIGHT_ID :: string where
  "RESCUE_FSTAB_ROLLBACK_PREFLIGHT_ID = ''linux.fstab.rollback-source.committed''"

definition RESCUE_FSTAB_ROLLBACK_BACKUP :: string where
  "RESCUE_FSTAB_ROLLBACK_BACKUP = ''source-vault-backup''"

definition RESCUE_CRYPTTAB_PREFLIGHT_ID :: string where
  "RESCUE_CRYPTTAB_PREFLIGHT_ID = ''linux.crypttab.preflight''"

definition RESCUE_CRYPTTAB_BACKUP :: string where
  "RESCUE_CRYPTTAB_BACKUP = ''required''"

definition RESCUE_CRYPTTAB_VALIDATION_ID :: string where
  "RESCUE_CRYPTTAB_VALIDATION_ID = ''linux.boot.validate-crypttab''"

definition RESCUE_CRYPTTAB_ROLLBACK_ID :: string where
  "RESCUE_CRYPTTAB_ROLLBACK_ID = ''linux.crypttab.disable-missing-source.v1''"

definition RESCUE_CRYPTTAB_ROLLBACK_EVIDENCE_ID :: string where
  "RESCUE_CRYPTTAB_ROLLBACK_EVIDENCE_ID = ''E-RESCUE-CRYPTTAB-SOURCE-RECEIPT''"

definition RESCUE_CRYPTTAB_ROLLBACK_PREFLIGHT_ID :: string where
  "RESCUE_CRYPTTAB_ROLLBACK_PREFLIGHT_ID = ''linux.crypttab.rollback-source.committed''"

definition RESCUE_CRYPTTAB_ROLLBACK_BACKUP :: string where
  "RESCUE_CRYPTTAB_ROLLBACK_BACKUP = ''source-vault-backup''"

definition RESCUE_FSTAB_FINDING_VERSION :: u16 where
  "RESCUE_FSTAB_FINDING_VERSION = 2"

definition RESCUE_FSTAB_EVIDENCE_IDS :: "string list" where
  "RESCUE_FSTAB_EVIDENCE_IDS = [''E-LINUX-FSTAB'', ''E-LINUX-LSBLK'']"

definition RESCUE_CRYPTTAB_ACTION_ID :: string where
  "RESCUE_CRYPTTAB_ACTION_ID = ''linux.crypttab.disable-missing-uuid.v1''"

definition RESCUE_CRYPTTAB_RESOURCE_ID :: string where
  "RESCUE_CRYPTTAB_RESOURCE_ID = ''rescue:selected-linux-root:etc/crypttab''"

definition RESCUE_CRYPTTAB_EVIDENCE_IDS :: "string list" where
  "RESCUE_CRYPTTAB_EVIDENCE_IDS = [''E-LINUX-CRYPTTAB'', ''E-LINUX-FSTAB'', ''E-LINUX-LSBLK'']"

definition MAX_FIXTURE_EVIDENCE_IDS :: nat where
  "MAX_FIXTURE_EVIDENCE_IDS = 32"

definition MAX_TYPED_ID_BYTES :: nat where
  "MAX_TYPED_ID_BYTES = 128"

lemmas policy_ids =
  FIXTURE_FSTAB_ACTION_ID_def RESCUE_FSTAB_ACTION_ID_def RESCUE_FSTAB_ROLLBACK_ID_def
  RESCUE_CRYPTTAB_ACTION_ID_def RESCUE_CRYPTTAB_ROLLBACK_ID_def

section \<open>Errors\<close>

datatype PolicyError =
    MissingEvidence
  | MissingValidation
  | MutationDisabled
  | MissingBackup
  | MissingRollback
  | InvalidFixturePlan
  | IncoherentTargetFingerprint
  | InvalidFixtureEvidence
  | InvalidFixturePrecondition
  | InvalidFixtureBackup
  | InvalidFixtureValidation
  | InvalidFixtureRollback
  | InvalidRescueFstabPlan
  | IncoherentRescueTargetFingerprint
  | InvalidRescueFstabEvidence
  | InvalidRescueFstabPrecondition
  | InvalidRescueFstabBackup
  | InvalidRescueFstabValidation
  | InvalidRescueFstabRollback
  | InvalidRescueCrypttabPlan
  | InvalidRescueCrypttabEvidence
  | InvalidRescueCrypttabPrecondition
  | InvalidRescueCrypttabBackup
  | InvalidRescueCrypttabValidation
  | InvalidRescueCrypttabRollback

section \<open>Validators\<close>

definition validate_phase_zero :: "ActionStep \<Rightarrow> PolicyError + unit" where
  "validate_phase_zero step =
     (if as_evidence_ids step = [] then Inl MissingEvidence
      else if trim_is_empty (as_validation step) then Inl MissingValidation
      else if as_risk step \<noteq> R0 then Inl MutationDisabled
      else Inr ())"

definition validate_mutation_metadata :: "ActionStep \<Rightarrow> PolicyError + unit" where
  "validate_mutation_metadata step =
     (if as_risk step \<in> {R2, R3} \<and> as_backup step = None then Inl MissingBackup
      else if as_risk step \<in> {R1, R2, R3} \<and> as_rollback step = None then Inl MissingRollback
      else Inr ())"

definition valid_sha256_fingerprint :: "string \<Rightarrow> bool" where
  "valid_sha256_fingerprint value =
     (case strip_prefix value ''sha256:'' of
        None \<Rightarrow> False
      | Some digest \<Rightarrow>
          length digest = 64 \<and> list_all (\<lambda>byte. ascii_digit byte \<or> lower_af byte) digest)"

definition valid_typed_id :: "string \<Rightarrow> string \<Rightarrow> bool" where
  "valid_typed_id value pre =
     (case strip_prefix value pre of
        None \<Rightarrow> False
      | Some suffix \<Rightarrow>
          suffix \<noteq> [] \<and> length value \<le> MAX_TYPED_ID_BYTES \<and>
          list_all (\<lambda>byte. ascii_alphanumeric byte \<or> byte = CHR ''-'') suffix)"

definition validate_fixture_evidence_ids :: "string list \<Rightarrow> PolicyError + unit" where
  "validate_fixture_evidence_ids evidence_ids =
     (if evidence_ids = [] \<or> length evidence_ids > MAX_FIXTURE_EVIDENCE_IDS
      then Inl MissingEvidence
      else if list_ex (\<lambda>id. \<not> valid_typed_id id ''E-'') evidence_ids
      then Inl InvalidFixtureEvidence
      else let canonical = sort evidence_ids in
        if list_ex (\<lambda>(a, b). a = b) (windows2 canonical) then Inl InvalidFixtureEvidence
        else Inr ())"

definition validate_fixture_repair_lab_plan ::
    "ValidatedPlan \<Rightarrow> string \<Rightarrow> PolicyError + unit" where
  "validate_fixture_repair_lab_plan plan session_target_fingerprint =
     (if \<not> valid_sha256_fingerprint session_target_fingerprint
         \<or> vp_target_fingerprint plan \<noteq> session_target_fingerprint
      then Inl IncoherentTargetFingerprint
      else case vp_steps plan of
        [step] \<Rightarrow>
          if as_action step \<noteq> FIXTURE_FSTAB_ACTION_ID \<or> as_risk step \<noteq> R2
          then Inl MutationDisabled
          else if as_target_fingerprint step \<noteq> vp_target_fingerprint plan
                  \<or> \<not> valid_sha256_fingerprint (as_target_fingerprint step)
          then Inl IncoherentTargetFingerprint
          else (case validate_fixture_evidence_ids (as_evidence_ids step) of
            Inl e \<Rightarrow> Inl e
          | Inr _ \<Rightarrow>
              if length (as_preconditions step) \<noteq> 1
                 \<or> as_preconditions step ! 0 \<noteq> FIXTURE_FSTAB_PREFLIGHT_ID
              then Inl InvalidFixturePrecondition
              else if as_backup step \<noteq> Some FIXTURE_FSTAB_BACKUP
              then Inl InvalidFixtureBackup
              else if as_validation step \<noteq> FIXTURE_FSTAB_VALIDATION_ID
              then Inl InvalidFixtureValidation
              else if as_rollback step \<noteq> Some FIXTURE_FSTAB_ROLLBACK_ID
              then Inl InvalidFixtureRollback
              else Inr ())
      | _ \<Rightarrow> Inl InvalidFixturePlan)"

definition validate_rescue_fstab_production_candidate_plan ::
    "ValidatedPlan \<Rightarrow> string \<Rightarrow> PolicyError + unit" where
  "validate_rescue_fstab_production_candidate_plan plan session_target_fingerprint =
     (if \<not> valid_sha256_fingerprint session_target_fingerprint
         \<or> vp_target_fingerprint plan \<noteq> session_target_fingerprint
      then Inl IncoherentRescueTargetFingerprint
      else case vp_steps plan of
        [step] \<Rightarrow>
          if as_action step \<noteq> RESCUE_FSTAB_ACTION_ID \<or> as_risk step \<noteq> R2
          then Inl MutationDisabled
          else if as_target_fingerprint step \<noteq> vp_target_fingerprint plan
                  \<or> \<not> valid_sha256_fingerprint (as_target_fingerprint step)
          then Inl IncoherentRescueTargetFingerprint
          else if as_evidence_ids step \<noteq> RESCUE_FSTAB_EVIDENCE_IDS
          then Inl InvalidRescueFstabEvidence
          else if as_preconditions step \<noteq> [RESCUE_FSTAB_PREFLIGHT_ID]
          then Inl InvalidRescueFstabPrecondition
          else if as_backup step \<noteq> Some RESCUE_FSTAB_BACKUP
          then Inl InvalidRescueFstabBackup
          else if as_validation step \<noteq> RESCUE_FSTAB_VALIDATION_ID
          then Inl InvalidRescueFstabValidation
          else if as_rollback step \<noteq> Some RESCUE_FSTAB_ROLLBACK_ID
          then Inl InvalidRescueFstabRollback
          else Inr ()
      | _ \<Rightarrow> Inl InvalidRescueFstabPlan)"

definition validate_rescue_fstab_rollback_plan ::
    "ValidatedPlan \<Rightarrow> string \<Rightarrow> PolicyError + unit" where
  "validate_rescue_fstab_rollback_plan plan session_target_fingerprint =
     (if \<not> valid_sha256_fingerprint session_target_fingerprint
         \<or> vp_target_fingerprint plan \<noteq> session_target_fingerprint
      then Inl IncoherentRescueTargetFingerprint
      else case vp_steps plan of
        [step] \<Rightarrow>
          if as_action step \<noteq> RESCUE_FSTAB_ROLLBACK_ID \<or> as_risk step \<noteq> R2
          then Inl MutationDisabled
          else if as_target_fingerprint step \<noteq> vp_target_fingerprint plan
                  \<or> \<not> valid_sha256_fingerprint (as_target_fingerprint step)
          then Inl IncoherentRescueTargetFingerprint
          else if as_evidence_ids step \<noteq> [RESCUE_FSTAB_ROLLBACK_EVIDENCE_ID]
          then Inl InvalidRescueFstabEvidence
          else if as_preconditions step \<noteq> [RESCUE_FSTAB_ROLLBACK_PREFLIGHT_ID]
          then Inl InvalidRescueFstabPrecondition
          else if as_backup step \<noteq> Some RESCUE_FSTAB_ROLLBACK_BACKUP
          then Inl InvalidRescueFstabBackup
          else if as_validation step \<noteq> RESCUE_FSTAB_VALIDATION_ID
          then Inl InvalidRescueFstabValidation
          else if as_rollback step \<noteq> None
          then Inl InvalidRescueFstabRollback
          else Inr ()
      | _ \<Rightarrow> Inl InvalidRescueFstabPlan)"

definition validate_rescue_crypttab_production_candidate_plan ::
    "ValidatedPlan \<Rightarrow> string \<Rightarrow> PolicyError + unit" where
  "validate_rescue_crypttab_production_candidate_plan plan session_target_fingerprint =
     (if \<not> valid_sha256_fingerprint session_target_fingerprint
         \<or> vp_target_fingerprint plan \<noteq> session_target_fingerprint
      then Inl IncoherentRescueTargetFingerprint
      else case vp_steps plan of
        [step] \<Rightarrow>
          if as_action step \<noteq> RESCUE_CRYPTTAB_ACTION_ID \<or> as_risk step \<noteq> R2
          then Inl MutationDisabled
          else if as_target_fingerprint step \<noteq> vp_target_fingerprint plan
                  \<or> \<not> valid_sha256_fingerprint (as_target_fingerprint step)
          then Inl IncoherentRescueTargetFingerprint
          else if as_evidence_ids step \<noteq> RESCUE_CRYPTTAB_EVIDENCE_IDS
          then Inl InvalidRescueCrypttabEvidence
          else if as_preconditions step \<noteq> [RESCUE_CRYPTTAB_PREFLIGHT_ID]
          then Inl InvalidRescueCrypttabPrecondition
          else if as_backup step \<noteq> Some RESCUE_CRYPTTAB_BACKUP
          then Inl InvalidRescueCrypttabBackup
          else if as_validation step \<noteq> RESCUE_CRYPTTAB_VALIDATION_ID
          then Inl InvalidRescueCrypttabValidation
          else if as_rollback step \<noteq> Some RESCUE_CRYPTTAB_ROLLBACK_ID
          then Inl InvalidRescueCrypttabRollback
          else Inr ()
      | _ \<Rightarrow> Inl InvalidRescueCrypttabPlan)"

definition validate_rescue_crypttab_rollback_plan ::
    "ValidatedPlan \<Rightarrow> string \<Rightarrow> PolicyError + unit" where
  "validate_rescue_crypttab_rollback_plan plan session_target_fingerprint =
     (if \<not> valid_sha256_fingerprint session_target_fingerprint
         \<or> vp_target_fingerprint plan \<noteq> session_target_fingerprint
      then Inl IncoherentRescueTargetFingerprint
      else case vp_steps plan of
        [step] \<Rightarrow>
          if as_action step \<noteq> RESCUE_CRYPTTAB_ROLLBACK_ID \<or> as_risk step \<noteq> R2
          then Inl MutationDisabled
          else if as_target_fingerprint step \<noteq> vp_target_fingerprint plan
                  \<or> \<not> valid_sha256_fingerprint (as_target_fingerprint step)
          then Inl IncoherentRescueTargetFingerprint
          else if as_evidence_ids step \<noteq> [RESCUE_CRYPTTAB_ROLLBACK_EVIDENCE_ID]
          then Inl InvalidRescueCrypttabEvidence
          else if as_preconditions step \<noteq> [RESCUE_CRYPTTAB_ROLLBACK_PREFLIGHT_ID]
          then Inl InvalidRescueCrypttabPrecondition
          else if as_backup step \<noteq> Some RESCUE_CRYPTTAB_ROLLBACK_BACKUP
          then Inl InvalidRescueCrypttabBackup
          else if as_validation step \<noteq> RESCUE_CRYPTTAB_VALIDATION_ID
          then Inl InvalidRescueCrypttabValidation
          else if as_rollback step \<noteq> None
          then Inl InvalidRescueCrypttabRollback
          else Inr ()
      | _ \<Rightarrow> Inl InvalidRescueCrypttabPlan)"

lemma valid_sha256_fingerprint_iff [validator]:
  "valid_sha256_fingerprint value \<longleftrightarrow> hex_digest_with ''sha256:'' value"
  unfolding valid_sha256_fingerprint_def hex_digest_with_def strip_prefix_case_iff lower_hex_def
  by (rule refl)

lemma valid_typed_id_iff [validator]:
  "valid_typed_id value pre \<longleftrightarrow> prefixed_id pre value"
  unfolding valid_typed_id_def prefixed_id_def strip_prefix_case_iff MAX_TYPED_ID_BYTES_def
  by (rule refl)

section \<open>What the validators accept\<close>

text \<open>The abstract contract of a closed validator: a one-step R2 plan with everything pinned.\<close>

definition closed_plan ::
    "string \<Rightarrow> string list \<Rightarrow> string \<Rightarrow> string \<Rightarrow> string \<Rightarrow> string option
     \<Rightarrow> string \<Rightarrow> string \<Rightarrow> ValidatedPlan" where
  "closed_plan action evidence preflight backup validation rollback pid fp =
     \<lparr>vp_plan_id = pid, vp_target_fingerprint = fp,
      vp_steps = [\<lparr>as_action = action, as_risk = R2, as_target_fingerprint = fp,
        as_evidence_ids = evidence, as_preconditions = [preflight], as_backup = Some backup,
        as_validation = validation, as_rollback = rollback\<rparr>]\<rparr>"

definition fstab_candidate_plan :: "string \<Rightarrow> string \<Rightarrow> ValidatedPlan" where
  "fstab_candidate_plan = closed_plan RESCUE_FSTAB_ACTION_ID RESCUE_FSTAB_EVIDENCE_IDS
     RESCUE_FSTAB_PREFLIGHT_ID RESCUE_FSTAB_BACKUP RESCUE_FSTAB_VALIDATION_ID
     (Some RESCUE_FSTAB_ROLLBACK_ID)"

definition fstab_rollback_plan :: "string \<Rightarrow> string \<Rightarrow> ValidatedPlan" where
  "fstab_rollback_plan = closed_plan RESCUE_FSTAB_ROLLBACK_ID [RESCUE_FSTAB_ROLLBACK_EVIDENCE_ID]
     RESCUE_FSTAB_ROLLBACK_PREFLIGHT_ID RESCUE_FSTAB_ROLLBACK_BACKUP RESCUE_FSTAB_VALIDATION_ID
     None"

definition crypttab_candidate_plan :: "string \<Rightarrow> string \<Rightarrow> ValidatedPlan" where
  "crypttab_candidate_plan = closed_plan RESCUE_CRYPTTAB_ACTION_ID RESCUE_CRYPTTAB_EVIDENCE_IDS
     RESCUE_CRYPTTAB_PREFLIGHT_ID RESCUE_CRYPTTAB_BACKUP RESCUE_CRYPTTAB_VALIDATION_ID
     (Some RESCUE_CRYPTTAB_ROLLBACK_ID)"

definition crypttab_rollback_plan :: "string \<Rightarrow> string \<Rightarrow> ValidatedPlan" where
  "crypttab_rollback_plan = closed_plan RESCUE_CRYPTTAB_ROLLBACK_ID
     [RESCUE_CRYPTTAB_ROLLBACK_EVIDENCE_ID] RESCUE_CRYPTTAB_ROLLBACK_PREFLIGHT_ID
     RESCUE_CRYPTTAB_ROLLBACK_BACKUP RESCUE_CRYPTTAB_VALIDATION_ID None"

lemmas closed_plan_defs =
  closed_plan_def fstab_candidate_plan_def fstab_rollback_plan_def
  crypttab_candidate_plan_def crypttab_rollback_plan_def

lemma closed_plan_cases:
  "plan = closed_plan action evidence preflight backup validation rollback (vp_plan_id plan) fp
   \<longleftrightarrow> vp_target_fingerprint plan = fp \<and>
     (\<exists>step. vp_steps plan = [step] \<and> as_action step = action \<and> as_risk step = R2 \<and>
        as_target_fingerprint step = fp \<and> as_evidence_ids step = evidence \<and>
        as_preconditions step = [preflight] \<and> as_backup step = Some backup \<and>
        as_validation step = validation \<and> as_rollback step = rollback)"
  by (cases plan) (force simp: closed_plan_def)

lemma validate_phase_zero_ok [validator]:
  "validate_phase_zero step = Inr () \<longleftrightarrow>
     as_evidence_ids step \<noteq> [] \<and> \<not> trim_is_empty (as_validation step) \<and> as_risk step = R0"
  by (simp add: validate_phase_zero_def)

lemma validate_fixture_evidence_ids_ok [validator]:
  "validate_fixture_evidence_ids ids = Inr () \<longleftrightarrow>
     1 \<le> length ids \<and> length ids \<le> 32 \<and> (\<forall>i \<in> set ids. valid_typed_id i ''E-'') \<and> distinct ids"
proof -
  have "list_ex (\<lambda>(a, b). a = b) (windows2 (sort ids)) \<longleftrightarrow> \<not> distinct ids"
    by (simp add: windows2_sorted_distinct)
  then show ?thesis
    by (auto simp: validate_fixture_evidence_ids_def MAX_FIXTURE_EVIDENCE_IDS_def Let_def
        Bex_set [symmetric] Suc_le_eq)
qed

lemma fstab_candidate_ok [validator]:
  "validate_rescue_fstab_production_candidate_plan plan fp = Inr () \<longleftrightarrow>
     valid_sha256_fingerprint fp \<and> plan = fstab_candidate_plan (vp_plan_id plan) fp"
  unfolding fstab_candidate_plan_def closed_plan_cases
  by (auto simp: validate_rescue_fstab_production_candidate_plan_def split: list.splits)

lemma fstab_rollback_ok [validator]:
  "validate_rescue_fstab_rollback_plan plan fp = Inr () \<longleftrightarrow>
     valid_sha256_fingerprint fp \<and> plan = fstab_rollback_plan (vp_plan_id plan) fp"
  unfolding fstab_rollback_plan_def closed_plan_cases
  by (auto simp: validate_rescue_fstab_rollback_plan_def split: list.splits)

lemma crypttab_candidate_ok [validator]:
  "validate_rescue_crypttab_production_candidate_plan plan fp = Inr () \<longleftrightarrow>
     valid_sha256_fingerprint fp \<and> plan = crypttab_candidate_plan (vp_plan_id plan) fp"
  unfolding crypttab_candidate_plan_def closed_plan_cases
  by (auto simp: validate_rescue_crypttab_production_candidate_plan_def split: list.splits)

lemma crypttab_rollback_ok [validator]:
  "validate_rescue_crypttab_rollback_plan plan fp = Inr () \<longleftrightarrow>
     valid_sha256_fingerprint fp \<and> plan = crypttab_rollback_plan (vp_plan_id plan) fp"
  unfolding crypttab_rollback_plan_def closed_plan_cases
  by (auto simp: validate_rescue_crypttab_rollback_plan_def split: list.splits)

lemma fixture_ok:
  "validate_fixture_repair_lab_plan plan fp = Inr () \<Longrightarrow>
     \<exists>step. vp_steps plan = [step] \<and> as_action step = FIXTURE_FSTAB_ACTION_ID \<and> as_risk step = R2"
  by (auto simp: validate_fixture_repair_lab_plan_def split: list.splits)

section \<open>Contracts and their separation\<close>

text \<open>The six admission contracts of the policy crate, as sets of accepted plans.\<close>

datatype contract =
  PhaseZero | FixtureLab | FstabCandidate | FstabRollback | CrypttabCandidate | CrypttabRollback

fun accepts :: "contract \<Rightarrow> ValidatedPlan \<Rightarrow> string \<Rightarrow> bool" where
  "accepts PhaseZero plan fp = list_all (\<lambda>s. is_ok (validate_phase_zero s)) (vp_steps plan)"
| "accepts FixtureLab plan fp = is_ok (validate_fixture_repair_lab_plan plan fp)"
| "accepts FstabCandidate plan fp = is_ok (validate_rescue_fstab_production_candidate_plan plan fp)"
| "accepts FstabRollback plan fp = is_ok (validate_rescue_fstab_rollback_plan plan fp)"
| "accepts CrypttabCandidate plan fp =
     is_ok (validate_rescue_crypttab_production_candidate_plan plan fp)"
| "accepts CrypttabRollback plan fp = is_ok (validate_rescue_crypttab_rollback_plan plan fp)"

fun contract_action :: "contract \<Rightarrow> string" where
  "contract_action PhaseZero = []"
| "contract_action FixtureLab = FIXTURE_FSTAB_ACTION_ID"
| "contract_action FstabCandidate = RESCUE_FSTAB_ACTION_ID"
| "contract_action FstabRollback = RESCUE_FSTAB_ROLLBACK_ID"
| "contract_action CrypttabCandidate = RESCUE_CRYPTTAB_ACTION_ID"
| "contract_action CrypttabRollback = RESCUE_CRYPTTAB_ROLLBACK_ID"

lemma contract_action_inject: "contract_action c = contract_action d \<Longrightarrow> c = d"
  by (cases c; cases d) (simp_all add: policy_ids)

lemma accepts_closed_step:
  assumes "accepts c plan fp" and "c \<noteq> PhaseZero"
  shows "\<exists>step. vp_steps plan = [step] \<and> as_risk step = R2 \<and> as_action step = contract_action c"
proof -
  have closed: "\<exists>step. vp_steps p = [step] \<and> as_risk step = R2 \<and> as_action step = a"
    if "p = closed_plan a es pre b v r (vp_plan_id p) fp" for p a es pre b v r
    using that unfolding closed_plan_cases by blast
  from assms show ?thesis
    by (cases c) (auto simp: is_ok_iff validator fstab_candidate_plan_def fstab_rollback_plan_def
        crypttab_candidate_plan_def crypttab_rollback_plan_def dest: closed fixture_ok)
qed

lemma accepts_phase_zero_risk:
  "accepts PhaseZero plan fp \<Longrightarrow> step \<in> set (vp_steps plan) \<Longrightarrow> as_risk step = R0"
  by (auto simp: list_all_iff is_ok_iff validator)

text \<open>
  C22: each of the four closed Rescue validators accepts exactly one plan per plan identifier
  and valid target fingerprint, the canonical one-step R2 plan of its contract; every other
  plan is refused.
\<close>

theorem closed_validators_accept_only_canonical:
  "(accepts FstabCandidate plan fp \<longleftrightarrow>
     valid_sha256_fingerprint fp \<and> plan = fstab_candidate_plan (vp_plan_id plan) fp) \<and>
   (accepts FstabRollback plan fp \<longleftrightarrow>
     valid_sha256_fingerprint fp \<and> plan = fstab_rollback_plan (vp_plan_id plan) fp) \<and>
   (accepts CrypttabCandidate plan fp \<longleftrightarrow>
     valid_sha256_fingerprint fp \<and> plan = crypttab_candidate_plan (vp_plan_id plan) fp) \<and>
   (accepts CrypttabRollback plan fp \<longleftrightarrow>
     valid_sha256_fingerprint fp \<and> plan = crypttab_rollback_plan (vp_plan_id plan) fp)"
  by (auto simp: is_ok_iff validator)

text \<open>
  C23: the six admission contracts are pairwise disjoint.  A plan admitted under one contract
  is refused by every other, for any target fingerprints: in particular the Phase 0 path
  admits no mutating plan and a repair plan is never taken for its own rollback.
\<close>

theorem contracts_pairwise_disjoint:
  assumes "accepts c plan fp" and "accepts d plan fp'"
  shows "c = d"
proof (cases "c = PhaseZero \<longleftrightarrow> d = PhaseZero")
  case True
  then show ?thesis
    using accepts_closed_step [OF assms(1)] accepts_closed_step [OF assms(2)]
    by (cases "c = PhaseZero") (auto dest: contract_action_inject)
next
  case False
  then have "\<exists>e f g. e \<noteq> PhaseZero \<and> accepts e plan f \<and> accepts PhaseZero plan g"
    using assms by metis
  then show ?thesis
    using accepts_closed_step accepts_phase_zero_risk by fastforce
qed

definition example_fingerprint :: string where
  "example_fingerprint = ''sha256:'' @ replicate 64 (CHR ''1'')"

lemma example_fingerprint_valid: "valid_sha256_fingerprint example_fingerprint"
  by (simp add: example_fingerprint_def valid_sha256_fingerprint_def ascii_class_defs
      list_all_iff)

lemma example_fingerprint_digest [simp]: "hex_digest_with ''sha256:'' example_fingerprint"
  using example_fingerprint_valid by (simp add: valid_sha256_fingerprint_iff)

theorem contracts_pairwise_disjoint_witness:
  "\<forall>d. accepts d (fstab_candidate_plan ''P-1'' example_fingerprint) example_fingerprint
     = (d = FstabCandidate)"
proof
  fix d
  let ?p = "fstab_candidate_plan ''P-1'' example_fingerprint"
  have ok: "accepts FstabCandidate ?p example_fingerprint"
    by (simp add: is_ok_iff validator example_fingerprint_valid closed_plan_defs)
  then show "accepts d ?p example_fingerprint = (d = FstabCandidate)"
    using contracts_pairwise_disjoint [OF ok, of d example_fingerprint] by blast
qed

end
