(* ===== verification/KA_Crypttab_Admission.thy ===== *)
theory KA_Crypttab_Admission
  imports KA_Policy
begin

text \<open>
  The admission objects of the Rescue \<^verbatim>\<open>crypttab\<close> candidate in
  \<^verbatim>\<open>crates/core/src/lib.rs\<close>: binding, approval, and the admission with its single
  approval transition, always at sequence number one.
\<close>

definition RESCUE_CRYPTTAB_TYPED_CONFIRMATION :: string where
  "RESCUE_CRYPTTAB_TYPED_CONFIRMATION = ''DISABILITA VOCE CRYPTTAB''"

datatype RescueCrypttabAdmissionError =
    CrypttabInvalidBinding
  | CrypttabInvalidApproval
  | CrypttabPolicyRejected
  | CrypttabBindingMismatch
  | CrypttabWrongConfirmation
  | CrypttabApprovalReplay

definition valid_crypttab_id :: "string \<Rightarrow> string \<Rightarrow> bool" where
  "valid_crypttab_id value pre =
     (case strip_prefix value pre of
        None \<Rightarrow> False
      | Some suffix \<Rightarrow>
          suffix \<noteq> [] \<and> length value \<le> 128 \<and>
          list_all (\<lambda>byte. ascii_alphanumeric byte \<or> byte = CHR ''-'') suffix)"

definition valid_crypttab_hash :: "string \<Rightarrow> bool" where
  "valid_crypttab_hash value =
     (case strip_prefix value ''sha256:'' of
        None \<Rightarrow> False
      | Some digest \<Rightarrow>
          length digest = 64 \<and> list_all (\<lambda>byte. ascii_digit byte \<or> lower_af byte) digest)"

lemma valid_crypttab_id_iff [validator]: "valid_crypttab_id value pre \<longleftrightarrow> prefixed_id pre value"
  unfolding valid_crypttab_id_def prefixed_id_def strip_prefix_case_iff by (rule refl)

lemma valid_crypttab_hash_iff [validator]:
  "valid_crypttab_hash value \<longleftrightarrow> hex_digest_with ''sha256:'' value"
  unfolding valid_crypttab_hash_def hex_digest_with_def strip_prefix_case_iff lower_hex_def
  by (rule refl)

section \<open>Binding, approval, admission\<close>

record RescueCrypttabCandidateBinding =
  ccb_session_id :: string
  ccb_plan_id :: string
  ccb_plan_sha256 :: string
  ccb_target_fingerprint :: string
  ccb_target_snapshot :: string

definition RescueCrypttabCandidateBinding_new ::
    "string \<Rightarrow> string \<Rightarrow> string \<Rightarrow> string \<Rightarrow> string
     \<Rightarrow> RescueCrypttabAdmissionError + RescueCrypttabCandidateBinding" where
  "RescueCrypttabCandidateBinding_new session_id plan_id plan_sha256 target_fingerprint
       target_snapshot =
     (if \<not> valid_crypttab_id session_id ''S-''
         \<or> \<not> valid_crypttab_id plan_id ''P-''
         \<or> \<not> valid_crypttab_hash plan_sha256
         \<or> \<not> valid_crypttab_hash target_fingerprint
         \<or> \<not> valid_crypttab_hash target_snapshot
      then Inl CrypttabInvalidBinding
      else Inr \<lparr>ccb_session_id = session_id, ccb_plan_id = plan_id,
                ccb_plan_sha256 = plan_sha256, ccb_target_fingerprint = target_fingerprint,
                ccb_target_snapshot = target_snapshot\<rparr>)"

record RescueCrypttabCandidateApproval =
  cca_approval_id :: string
  cca_sequence :: u64
  cca_binding :: RescueCrypttabCandidateBinding
  cca_typed_confirmation :: string

definition RescueCrypttabCandidateApproval_new ::
    "string \<Rightarrow> u64 \<Rightarrow> RescueCrypttabCandidateBinding \<Rightarrow> string
     \<Rightarrow> RescueCrypttabAdmissionError + RescueCrypttabCandidateApproval" where
  "RescueCrypttabCandidateApproval_new approval_id sequence binding typed_confirmation =
     (if \<not> valid_crypttab_id approval_id ''A-'' \<or> sequence = 0
      then Inl CrypttabInvalidApproval
      else Inr \<lparr>cca_approval_id = approval_id, cca_sequence = sequence, cca_binding = binding,
                cca_typed_confirmation = typed_confirmation\<rparr>)"

definition crypttab_approval_fields :: "RescueCrypttabCandidateApproval \<Rightarrow> string list" where
  "crypttab_approval_fields approval =
     [cca_approval_id approval, ccb_session_id (cca_binding approval),
      ccb_plan_id (cca_binding approval), ccb_plan_sha256 (cca_binding approval),
      ccb_target_fingerprint (cca_binding approval), ccb_target_snapshot (cca_binding approval),
      cca_typed_confirmation approval]"

definition crypttab_approval_preimage :: "RescueCrypttabCandidateApproval \<Rightarrow> string" where
  "crypttab_approval_preimage approval =
     domain_tag ''kernaid:rescue-crypttab:approval:v1'' @
     frames (crypttab_approval_fields approval) @ u64_be (cca_sequence approval)"

definition canonical_crypttab_approval_sha256 ::
    "(string \<Rightarrow> string) \<Rightarrow> RescueCrypttabCandidateApproval \<Rightarrow> string" where
  "canonical_crypttab_approval_sha256 sha approval =
     ''sha256:'' @ sha (crypttab_approval_preimage approval)"

datatype RescueCrypttabAdmissionState = CrypttabStaged | CrypttabApproved

record RescueCrypttabCandidateAdmission =
  cad_binding :: RescueCrypttabCandidateBinding
  cad_state :: RescueCrypttabAdmissionState
  cad_approval_id :: "string option"
  cad_approval_sequence :: "u64 option"
  cad_approval_sha256 :: "string option"

definition crypttab_stage ::
    "ValidatedPlan \<Rightarrow> RescueCrypttabCandidateBinding
     \<Rightarrow> RescueCrypttabAdmissionError + RescueCrypttabCandidateAdmission" where
  "crypttab_stage plan binding =
     (case validate_rescue_crypttab_production_candidate_plan plan
             (ccb_target_fingerprint binding) of
        Inl _ \<Rightarrow> Inl CrypttabPolicyRejected
      | Inr _ \<Rightarrow>
          if vp_plan_id plan \<noteq> ccb_plan_id binding
             \<or> vp_target_fingerprint plan \<noteq> ccb_target_fingerprint binding
          then Inl CrypttabBindingMismatch
          else Inr \<lparr>cad_binding = binding, cad_state = CrypttabStaged, cad_approval_id = None,
                    cad_approval_sequence = None, cad_approval_sha256 = None\<rparr>)"

definition crypttab_approve ::
    "(string \<Rightarrow> string) \<Rightarrow> RescueCrypttabCandidateAdmission \<Rightarrow> RescueCrypttabCandidateApproval
     \<Rightarrow> RescueCrypttabAdmissionError + RescueCrypttabCandidateAdmission" where
  "crypttab_approve sha self approval =
     (if cad_state self \<noteq> CrypttabStaged \<or> cad_approval_id self \<noteq> None
         \<or> cad_approval_sequence self \<noteq> None \<or> cad_approval_sha256 self \<noteq> None
      then Inl CrypttabApprovalReplay
      else if cca_binding approval \<noteq> cad_binding self \<or> cca_sequence approval \<noteq> 1
      then Inl CrypttabBindingMismatch
      else if cca_typed_confirmation approval \<noteq> RESCUE_CRYPTTAB_TYPED_CONFIRMATION
      then Inl CrypttabWrongConfirmation
      else Inr (self\<lparr>cad_approval_id := Some (cca_approval_id approval),
                     cad_approval_sequence := Some (cca_sequence approval),
                     cad_approval_sha256 := Some (canonical_crypttab_approval_sha256 sha approval),
                     cad_state := CrypttabApproved\<rparr>))"

interpretation crypttab_candidate: single_use_approval "crypttab_approve sha"
  "\<lambda>t. cad_state t \<noteq> CrypttabStaged" cad_binding cca_binding
  for sha
  by unfold_locales (auto simp: crypttab_approve_def)

section \<open>Properties\<close>

lemma crypttab_approval_preimage_inject [codec]:
  assumes "list_all fits (crypttab_approval_fields a)" "list_all fits (crypttab_approval_fields b)"
    and eq: "crypttab_approval_preimage a = crypttab_approval_preimage b"
  shows "a = b"
proof -
  have body: "frames (crypttab_approval_fields a) @ u64_be (cca_sequence a)
      = frames (crypttab_approval_fields b) @ u64_be (cca_sequence b)"
    using eq by (simp add: crypttab_approval_preimage_def)
  have fields: "crypttab_approval_fields a = crypttab_approval_fields b"
    and "u64_be (cca_sequence a) = u64_be (cca_sequence b)"
    using frames_rest [OF body] assms by (simp_all add: crypttab_approval_fields_def)
  then have "cca_sequence a = cca_sequence b" using u64_be_inject by blast
  moreover from fields have "cca_binding a = cca_binding b"
    by (simp add: crypttab_approval_fields_def)
  ultimately show ?thesis using fields by (simp add: crypttab_approval_fields_def)
qed

text \<open>
  C26: a crypttab admission is staged only for the one plan of its contract, for the plan and
  target its binding names.  Whatever approvals are then presented, at most one is accepted: one
  that was presented, for the staged binding, with sequence number one and the exact
  confirmation text; its identifier, number and digest are what is recorded.
\<close>

theorem crypttab_admission_history:
  assumes "crypttab_stage plan b = Inr t0"
    and "attempts (crypttab_approve sha) t0 as = (t, acc)"
  shows "plan = crypttab_candidate_plan (ccb_plan_id b) (ccb_target_fingerprint b) \<and>
    cad_binding t = b \<and>
    (cad_state t = CrypttabStaged \<and> acc = [] \<and> t = t0 \<or>
     (\<exists>a. acc = [a] \<and> a \<in> set as \<and> cca_binding a = b \<and> cca_sequence a = 1 \<and>
        cca_typed_confirmation a = RESCUE_CRYPTTAB_TYPED_CONFIRMATION \<and>
        cad_state t = CrypttabApproved \<and> cad_approval_id t = Some (cca_approval_id a) \<and>
        cad_approval_sequence t = Some 1 \<and>
        cad_approval_sha256 t = Some (canonical_crypttab_approval_sha256 sha a)))"
proof -
  have "validate_rescue_crypttab_production_candidate_plan plan (ccb_target_fingerprint b) = Inr ()"
    and "vp_plan_id plan = ccb_plan_id b"
    using assms(1) by (auto simp: crypttab_stage_def split: sum.splits if_splits)
  then have plan: "plan = crypttab_candidate_plan (ccb_plan_id b) (ccb_target_fingerprint b)"
    by (metis crypttab_candidate_ok)
  have t0: "cad_binding t0 = b" "cad_state t0 = CrypttabStaged"
    using assms(1) by (auto simp: crypttab_stage_def split: sum.splits if_splits)
  show ?thesis
  proof (cases rule: crypttab_candidate.run_cases [of sha t0 as])
    case none
    then show ?thesis using assms(2) t0 plan by simp
  next
    case (one a s')
    then show ?thesis using assms(2) t0 plan by (auto simp: crypttab_approve_def split: if_splits)
  qed
qed

definition example_crypttab_binding :: RescueCrypttabCandidateBinding where
  "example_crypttab_binding = \<lparr>ccb_session_id = ''S-1'', ccb_plan_id = ''P-1'',
     ccb_plan_sha256 = example_fingerprint, ccb_target_fingerprint = example_fingerprint,
     ccb_target_snapshot = example_fingerprint\<rparr>"

definition example_crypttab_approval :: "u64 \<Rightarrow> string \<Rightarrow> RescueCrypttabCandidateApproval" where
  "example_crypttab_approval n c = \<lparr>cca_approval_id = ''A-1'', cca_sequence = n,
     cca_binding = example_crypttab_binding, cca_typed_confirmation = c\<rparr>"

theorem crypttab_admission_history_witness:
  "\<exists>t0. crypttab_stage (crypttab_candidate_plan ''P-1'' example_fingerprint)
        example_crypttab_binding = Inr t0 \<and>
     snd (attempts (crypttab_approve (\<lambda>_. [])) t0
       [example_crypttab_approval 1 ''no'', example_crypttab_approval 1 RESCUE_CRYPTTAB_TYPED_CONFIRMATION])
     = [example_crypttab_approval 1 RESCUE_CRYPTTAB_TYPED_CONFIRMATION]"
proof -
  let ?p = "crypttab_candidate_plan ''P-1'' example_fingerprint"
  let ?t0 = "\<lparr>cad_binding = example_crypttab_binding, cad_state = CrypttabStaged,
    cad_approval_id = None, cad_approval_sequence = None, cad_approval_sha256 = None\<rparr>"
  have target: "ccb_target_fingerprint example_crypttab_binding = example_fingerprint"
    and plan_id: "ccb_plan_id example_crypttab_binding = ''P-1''"
    by (simp_all add: example_crypttab_binding_def)
  have "validate_rescue_crypttab_production_candidate_plan ?p example_fingerprint = Inr ()"
    by (simp add: validator closed_plan_defs)
  then have stage: "crypttab_stage ?p example_crypttab_binding = Inr ?t0"
    unfolding crypttab_stage_def target plan_id by (simp add: closed_plan_defs)
  let ?as = "[example_crypttab_approval 1 ''no'',
    example_crypttab_approval 1 RESCUE_CRYPTTAB_TYPED_CONFIRMATION]"
  let ?r = "attempts (crypttab_approve (\<lambda>_. [])) ?t0 ?as"
  have "cad_state (fst ?r) = CrypttabApproved"
    by (simp add: crypttab_approve_def example_crypttab_approval_def
        RESCUE_CRYPTTAB_TYPED_CONFIRMATION_def)
  with crypttab_admission_history [OF stage prod.collapse [symmetric], of "\<lambda>_. []" ?as]
  obtain a where "snd ?r = [a]" "a \<in> set ?as"
    "cca_typed_confirmation a = RESCUE_CRYPTTAB_TYPED_CONFIRMATION"
    by (elim conjE disjE exE) (simp, blast)
  then have "snd ?r = [example_crypttab_approval 1 RESCUE_CRYPTTAB_TYPED_CONFIRMATION]"
    by (auto simp: example_crypttab_approval_def RESCUE_CRYPTTAB_TYPED_CONFIRMATION_def)
  with stage show ?thesis by blast
qed

end
