(* ===== verification/KA_Snapshot.thy ===== *)
theory KA_Snapshot
  imports KA_Protocol
begin

text \<open>
  The normalized Linux snapshot contract of \<^verbatim>\<open>crates/evidence/src/linux_snapshot.rs\<close>: its
  data, the validation, the canonical hash, and strict parsing.  The JSON library is a
  parameter: \<open>de\<close> decodes a whole input, \<open>ser\<close> and \<open>ser_snapshot\<close> encode an envelope and a
  snapshot; SHA-256 is the parameter \<open>sha\<close>.  Strings are the UTF-8 bytes of the source's strings.
\<close>

section \<open>Data\<close>

definition COLLECTOR :: string where
  "COLLECTOR = ''linux.normalized-snapshot.v1''"

definition CONTENT_TYPE :: string where
  "CONTENT_TYPE = ''application/json''"

definition SCHEMA_VERSION :: string where
  "SCHEMA_VERSION = ''1.0''"

definition KIND :: string where
  "KIND = ''linux-normalized-snapshot''"

definition SNAPSHOT_SCOPE :: string where
  "SNAPSHOT_SCOPE = ''installed-root-static''"

definition COLLECTION_SCOPE :: string where
  "COLLECTION_SCOPE = ''root-filesystem-only''"

definition MAX_ENVELOPE_BYTES :: nat where
  "MAX_ENVELOPE_BYTES = 48 * 1024"

definition HASH_DOMAIN :: string where
  "HASH_DOMAIN = domain_tag ''KERNAID_LINUX_NORMALIZED_SNAPSHOT_V1''"

definition MAX_RELEASE_VALUE_BYTES :: nat where
  "MAX_RELEASE_VALUE_BYTES = 256"

definition MAX_BOOT_ENTRIES :: u32 where
  "MAX_BOOT_ENTRIES = 512"

definition MAX_FSTAB_ENTRIES :: u32 where
  "MAX_FSTAB_ENTRIES = 65536"

datatype SnapshotError = InvalidSize | InvalidJson | InvalidContract | HashMismatch

text \<open>The arguments are the fields of the two variants, in the order of the source.\<close>

datatype LinuxSnapshotCapture =
    Resident (target_scope: string) (access_policy: string) (caller_supplied_path: bool)
      (mutation_requested: bool) (cross_device_traversal_allowed: bool)
  | Rescue (target_scope: string) (access_policy: string) (device_opened_read_only: bool)
      (journal_replay_prevented: bool) (private_mount_namespace: bool)
      (mount_cleanup_verified: bool) (mutation_performed: bool)
      (cross_device_traversal_allowed: bool)

record LinuxFilesystemTopology =
  ft_collection_scope :: string
  ft_separate_etc_mount_present :: bool
  ft_separate_boot_mount_present :: bool
  ft_separate_usr_mount_present :: bool
  ft_separate_var_mount_present :: bool
  ft_relevant_separate_mount_present :: bool
  ft_supported :: bool

record LinuxRelease =
  lr_id :: "string option"
  lr_name :: "string option"
  lr_pretty_name :: "string option"
  lr_version_id :: "string option"
  lr_source :: string

record LinuxBoot =
  lb_directory_present :: bool
  lb_kernel_artifact_count :: u32
  lb_initramfs_artifact_count :: u32
  lb_bootloader_directory_count :: u32
  lb_symlink_artifact_count :: u32

record LinuxFstabSummary =
  fs_present :: bool
  fs_entry_count :: u32
  fs_root_entry_present :: bool
  fs_efi_entry_present :: bool
  fs_swap_entry_count :: u32
  fs_network_entry_count :: u32
  fs_malformed_line_count :: u32

record LinuxConfiguration =
  lc_fstab :: LinuxFstabSummary
  lc_machine_id_present :: bool

record LinuxPackageDatabases =
  pd_dpkg_status_present :: bool
  pd_rpm_database_present :: bool
  pd_pacman_database_present :: bool

record LinuxNormalizedSnapshot =
  ns_family :: string
  ns_scope :: string
  ns_installation_confirmed :: bool
  ns_topology :: LinuxFilesystemTopology
  ns_release :: LinuxRelease
  ns_boot :: LinuxBoot
  ns_configuration :: LinuxConfiguration
  ns_package_databases :: LinuxPackageDatabases

record LinuxNormalizedSnapshotEnvelope =
  en_schema_version :: string
  en_kind :: string
  en_snapshot_sha256 :: string
  en_capture :: LinuxSnapshotCapture
  en_snapshot :: LinuxNormalizedSnapshot

section \<open>Capture\<close>

definition capture_resident :: LinuxSnapshotCapture where
  "capture_resident = Resident ''running-root'' ''fixed-descriptor-read-only'' False False False"

definition capture_rescue :: LinuxSnapshotCapture where
  "capture_rescue = Rescue ''selected-installed-target'' ''temporary-read-only-no-replay''
     True True True True False False"

fun capture_is_resident :: "LinuxSnapshotCapture \<Rightarrow> bool" where
  "capture_is_resident (Resident _ _ _ _ _) = True"
| "capture_is_resident (Rescue _ _ _ _ _ _ _ _) = False"

fun capture_is_rescue :: "LinuxSnapshotCapture \<Rightarrow> bool" where
  "capture_is_rescue (Resident _ _ _ _ _) = False"
| "capture_is_rescue (Rescue _ _ _ _ _ _ _ _) = True"

fun capture_valid :: "LinuxSnapshotCapture \<Rightarrow> bool" where
  "capture_valid (Resident scope policy path mutation cross) =
     (scope = ''running-root'' \<and> policy = ''fixed-descriptor-read-only'' \<and> \<not> path \<and>
      \<not> mutation \<and> \<not> cross)"
| "capture_valid (Rescue scope policy ro noreplay private cleanup mutation cross) =
     (scope = ''selected-installed-target'' \<and> policy = ''temporary-read-only-no-replay'' \<and> ro \<and>
      noreplay \<and> private \<and> cleanup \<and> \<not> mutation \<and> \<not> cross)"

lemma capture_valid_iff:
  "capture_valid c \<longleftrightarrow> c = capture_resident \<or> c = capture_rescue"
  by (cases c) (auto simp: capture_resident_def capture_rescue_def)

section \<open>Validation\<close>

text \<open>
  \<^verbatim>\<open>char::is_control\<close> over the characters of a UTF-8 string: U+0000 to U+001F, U+007F, and
  U+0080 to U+009F, which are encoded as \<^verbatim>\<open>C2 80\<close> to \<^verbatim>\<open>C2 9F\<close>.
\<close>

fun has_control :: "string \<Rightarrow> bool" where
  "has_control [] = False"
| "has_control (a # s) =
     (of_char a < (0x20 :: nat) \<or> of_char a = (0x7F :: nat) \<or>
      (of_char a = (0xC2 :: nat) \<and>
       (case s of [] \<Rightarrow> False | b # _ \<Rightarrow> (0x80 :: nat) \<le> of_char b \<and> of_char b \<le> (0x9F :: nat))) \<or>
      has_control s)"

definition saturating_add32 :: "u32 \<Rightarrow> u32 \<Rightarrow> u32" where
  "saturating_add32 a b = (if unat a + unat b < 2 ^ 32 then a + b else - 1)"

lemma unat_saturating_add32: "unat (saturating_add32 a b) = min (unat a + unat b) (2 ^ 32 - 1)"
  by (auto simp: saturating_add32_def unat_word_ariths unsigned_minus_1_eq_mask mask_eq_exp_minus_1 min_def)

definition release_values :: "LinuxRelease \<Rightarrow> string option list" where
  "release_values r = [lr_id r, lr_name r, lr_pretty_name r, lr_version_id r]"

definition release_value_bad :: "string \<Rightarrow> bool" where
  "release_value_bad v \<longleftrightarrow> v = [] \<or> length v > MAX_RELEASE_VALUE_BYTES \<or> has_control v"

definition snapshot_validate :: "LinuxNormalizedSnapshot \<Rightarrow> SnapshotError + unit" where
  "snapshot_validate self =
     (let t = ns_topology self; r = ns_release self; b = ns_boot self;
          f = lc_fstab (ns_configuration self) in
      if ns_family self \<noteq> ''linux''
         \<or> ns_scope self \<noteq> SNAPSHOT_SCOPE
         \<or> ft_collection_scope t \<noteq> COLLECTION_SCOPE
         \<or> ft_relevant_separate_mount_present t
             \<noteq> (ft_separate_etc_mount_present t \<or> ft_separate_boot_mount_present t \<or>
                 ft_separate_usr_mount_present t \<or> ft_separate_var_mount_present t)
         \<or> ft_supported t = ft_relevant_separate_mount_present t
         \<or> list_ex release_value_bad (List.map_filter (\<lambda>v. v) (release_values r))
         \<or> lr_source r \<notin> {''etc-os-release'', ''usr-lib-os-release'', ''absent''}
         \<or> (lr_source r = ''absent'' \<and> list_ex (\<lambda>v. v \<noteq> None) (release_values r))
         \<or> (ns_installation_confirmed self \<and> lr_id r = None)
         \<or> lb_kernel_artifact_count b > MAX_BOOT_ENTRIES
         \<or> lb_initramfs_artifact_count b > MAX_BOOT_ENTRIES
         \<or> lb_bootloader_directory_count b > 3
         \<or> lb_symlink_artifact_count b > MAX_BOOT_ENTRIES
         \<or> (\<not> lb_directory_present b \<and>
             (lb_kernel_artifact_count b \<noteq> 0 \<or> lb_initramfs_artifact_count b \<noteq> 0 \<or>
              lb_bootloader_directory_count b \<noteq> 0 \<or> lb_symlink_artifact_count b \<noteq> 0))
         \<or> fs_entry_count f > MAX_FSTAB_ENTRIES
         \<or> fs_malformed_line_count f > MAX_FSTAB_ENTRIES
         \<or> saturating_add32 (fs_entry_count f) (fs_malformed_line_count f) > MAX_FSTAB_ENTRIES
         \<or> fs_swap_entry_count f > fs_entry_count f
         \<or> fs_network_entry_count f > fs_entry_count f
         \<or> (\<not> fs_present f \<and>
             (fs_entry_count f \<noteq> 0 \<or> fs_root_entry_present f \<or> fs_efi_entry_present f \<or>
              fs_swap_entry_count f \<noteq> 0 \<or> fs_network_entry_count f \<noteq> 0 \<or>
              fs_malformed_line_count f \<noteq> 0))
      then Inl InvalidContract else Inr ())"

definition valid_hash :: "string \<Rightarrow> bool" where
  "valid_hash value \<longleftrightarrow>
     length value = 64 \<and> list_all (\<lambda>b. ascii_hexdigit b \<and> \<not> ascii_upper b) value"

lemma valid_hash_iff [validator]: "valid_hash value \<longleftrightarrow> hex_digest_with [] value"
proof -
  have "ascii_hexdigit c \<and> \<not> ascii_upper c \<longleftrightarrow> lower_hex c" for c
    by (auto simp: ascii_class_defs lower_hex_def)
  then show ?thesis by (simp add: valid_hash_def hex_digest_with_def)
qed

section \<open>Canonical form and parsing\<close>

definition snapshot_canonical_json ::
    "(LinuxNormalizedSnapshot \<Rightarrow> string option) \<Rightarrow> LinuxNormalizedSnapshot
     \<Rightarrow> SnapshotError + string" where
  "snapshot_canonical_json ser_snapshot self =
     (case snapshot_validate self of
        Inl e \<Rightarrow> Inl e
      | Inr _ \<Rightarrow> (case ser_snapshot self of None \<Rightarrow> Inl InvalidJson | Some v \<Rightarrow> Inr v))"

definition snapshot_hash ::
    "(string \<Rightarrow> string) \<Rightarrow> (LinuxNormalizedSnapshot \<Rightarrow> string option) \<Rightarrow> LinuxNormalizedSnapshot
     \<Rightarrow> SnapshotError + string" where
  "snapshot_hash sha ser_snapshot snapshot =
     (case snapshot_canonical_json ser_snapshot snapshot of
        Inl e \<Rightarrow> Inl e
      | Inr canonical \<Rightarrow> Inr (sha (HASH_DOMAIN @ canonical)))"

definition envelope_new ::
    "(string \<Rightarrow> string) \<Rightarrow> (LinuxNormalizedSnapshot \<Rightarrow> string option) \<Rightarrow> LinuxSnapshotCapture
     \<Rightarrow> LinuxNormalizedSnapshot \<Rightarrow> SnapshotError + LinuxNormalizedSnapshotEnvelope" where
  "envelope_new sha ser_snapshot capture snapshot =
     (case snapshot_validate snapshot of
        Inl e \<Rightarrow> Inl e
      | Inr _ \<Rightarrow>
          if \<not> capture_valid capture then Inl InvalidContract
          else case snapshot_hash sha ser_snapshot snapshot of
            Inl e \<Rightarrow> Inl e
          | Inr h \<Rightarrow> Inr \<lparr>en_schema_version = SCHEMA_VERSION, en_kind = KIND,
                          en_snapshot_sha256 = h, en_capture = capture, en_snapshot = snapshot\<rparr>)"

definition envelope_validate ::
    "(string \<Rightarrow> string) \<Rightarrow> (LinuxNormalizedSnapshot \<Rightarrow> string option)
     \<Rightarrow> LinuxNormalizedSnapshotEnvelope \<Rightarrow> SnapshotError + unit" where
  "envelope_validate sha ser_snapshot self =
     (if en_schema_version self \<noteq> SCHEMA_VERSION \<or> en_kind self \<noteq> KIND
         \<or> \<not> capture_valid (en_capture self) \<or> \<not> valid_hash (en_snapshot_sha256 self)
      then Inl InvalidContract
      else case snapshot_validate (en_snapshot self) of
        Inl e \<Rightarrow> Inl e
      | Inr _ \<Rightarrow>
          (case snapshot_hash sha ser_snapshot (en_snapshot self) of
             Inl e \<Rightarrow> Inl e
           | Inr h \<Rightarrow> if h \<noteq> en_snapshot_sha256 self then Inl HashMismatch else Inr ()))"

definition envelope_canonical_json ::
    "(string \<Rightarrow> string) \<Rightarrow> (LinuxNormalizedSnapshot \<Rightarrow> string option)
     \<Rightarrow> (LinuxNormalizedSnapshotEnvelope \<Rightarrow> string option)
     \<Rightarrow> LinuxNormalizedSnapshotEnvelope \<Rightarrow> SnapshotError + string" where
  "envelope_canonical_json sha ser_snapshot ser self =
     (case envelope_validate sha ser_snapshot self of
        Inl e \<Rightarrow> Inl e
      | Inr _ \<Rightarrow> (case ser self of None \<Rightarrow> Inl InvalidJson | Some v \<Rightarrow> Inr v))"

definition envelope_parse ::
    "(string \<Rightarrow> string) \<Rightarrow> (LinuxNormalizedSnapshot \<Rightarrow> string option)
     \<Rightarrow> (LinuxNormalizedSnapshotEnvelope \<Rightarrow> string option)
     \<Rightarrow> (string \<Rightarrow> LinuxNormalizedSnapshotEnvelope option)
     \<Rightarrow> string \<Rightarrow> SnapshotError + LinuxNormalizedSnapshotEnvelope" where
  "envelope_parse sha ser_snapshot ser de input =
     (if input = [] \<or> length input > MAX_ENVELOPE_BYTES then Inl InvalidSize
      else case de input of
        None \<Rightarrow> Inl InvalidJson
      | Some envelope \<Rightarrow>
          (case envelope_validate sha ser_snapshot envelope of
             Inl e \<Rightarrow> Inl e
           | Inr _ \<Rightarrow>
               (case envelope_canonical_json sha ser_snapshot ser envelope of
                  Inl e \<Rightarrow> Inl e
                | Inr canonical \<Rightarrow>
                    if canonical \<noteq> input then Inl InvalidJson else Inr envelope)))"

section \<open>Properties\<close>

lemma envelope_validate_ok [validator]:
  "envelope_validate sha ss e = Inr () \<longleftrightarrow>
     en_schema_version e = SCHEMA_VERSION \<and> en_kind e = KIND \<and> capture_valid (en_capture e) \<and>
     hex_digest_with [] (en_snapshot_sha256 e) \<and> snapshot_validate (en_snapshot e) = Inr () \<and>
     snapshot_hash sha ss (en_snapshot e) = Inr (en_snapshot_sha256 e)"
  by (auto simp: envelope_validate_def valid_hash_iff split: sum.splits)

lemma envelope_parse_ok [validator]:
  "envelope_parse sha ss ser de input = Inr e \<longleftrightarrow>
     input \<noteq> [] \<and> length input \<le> MAX_ENVELOPE_BYTES \<and> de input = Some e \<and>
     envelope_validate sha ss e = Inr () \<and> ser e = Some input"
  by (auto simp: envelope_parse_def envelope_canonical_json_def
      split: option.splits sum.splits if_splits)

lemma snapshot_hash_ok [validator]:
  "snapshot_hash sha ss n = Inr h \<longleftrightarrow>
     snapshot_validate n = Inr () \<and> (\<exists>c. ss n = Some c \<and> h = sha (HASH_DOMAIN @ c))"
  by (auto simp: snapshot_hash_def snapshot_canonical_json_def split: option.splits sum.splits)

text \<open>
  C27: strict parsing accepts exactly the canonical encodings.  An input is parsed to an envelope exactly when it
  is not empty and within the size limit, the JSON library reads that envelope from it and writes it
  back as exactly that input, schema and kind are the fixed ones, the capture is one of the two fixed read-only captures, the
  snapshot is valid and the recorded hash is the hash of its encoding, 64 lower-case digits long.
  So two accepted inputs with the same envelope are the same bytes.
\<close>

theorem parse_accepts_only_canonical:
  "(envelope_parse sha ss ser de input = Inr e \<longleftrightarrow>
      input \<noteq> [] \<and> length input \<le> 49152 \<and> de input = Some e \<and> ser e = Some input \<and>
      en_schema_version e = ''1.0'' \<and> en_kind e = ''linux-normalized-snapshot'' \<and>
      (en_capture e = capture_resident \<or> en_capture e = capture_rescue) \<and> snapshot_validate (en_snapshot e) = Inr () \<and>
      (\<exists>c. ss (en_snapshot e) = Some c \<and> en_snapshot_sha256 e = sha (HASH_DOMAIN @ c)) \<and>
      length (en_snapshot_sha256 e) = 64 \<and> list_all lower_hex (en_snapshot_sha256 e)) \<and>
   (envelope_parse sha ss ser de input = Inr e \<longrightarrow> envelope_parse sha ss ser de other = Inr e \<longrightarrow> other = input)"
  by (auto simp: validator capture_valid_iff hex_digest_with_def SCHEMA_VERSION_def KIND_def MAX_ENVELOPE_BYTES_def)

definition example_snapshot :: LinuxNormalizedSnapshot where
  "example_snapshot = \<lparr>ns_family = ''linux'', ns_scope = SNAPSHOT_SCOPE,
     ns_installation_confirmed = True,
     ns_topology = \<lparr>ft_collection_scope = COLLECTION_SCOPE, ft_separate_etc_mount_present = False,
       ft_separate_boot_mount_present = False, ft_separate_usr_mount_present = False,
       ft_separate_var_mount_present = False, ft_relevant_separate_mount_present = False,
       ft_supported = True\<rparr>,
     ns_release = \<lparr>lr_id = Some ''debian'', lr_name = None, lr_pretty_name = None,
       lr_version_id = None, lr_source = ''etc-os-release''\<rparr>,
     ns_boot = \<lparr>lb_directory_present = True, lb_kernel_artifact_count = 2,
       lb_initramfs_artifact_count = 2, lb_bootloader_directory_count = 1,
       lb_symlink_artifact_count = 0\<rparr>,
     ns_configuration = \<lparr>lc_fstab = \<lparr>fs_present = True, fs_entry_count = 3,
       fs_root_entry_present = True, fs_efi_entry_present = True, fs_swap_entry_count = 1,
       fs_network_entry_count = 0, fs_malformed_line_count = 0\<rparr>, lc_machine_id_present = True\<rparr>,
     ns_package_databases = \<lparr>pd_dpkg_status_present = True, pd_rpm_database_present = False,
       pd_pacman_database_present = False\<rparr>\<rparr>"

lemma example_snapshot_valid: "snapshot_validate example_snapshot = Inr ()"
  by (simp add: snapshot_validate_def example_snapshot_def Let_def release_values_def
      release_value_bad_def map_filter_simps MAX_RELEASE_VALUE_BYTES_def MAX_BOOT_ENTRIES_def
      MAX_FSTAB_ENTRIES_def saturating_add32_def)

definition example_envelope :: LinuxNormalizedSnapshotEnvelope where
  "example_envelope = \<lparr>en_schema_version = SCHEMA_VERSION, en_kind = KIND,
     en_snapshot_sha256 = replicate 64 (CHR ''1''), en_capture = capture_rescue,
     en_snapshot = example_snapshot\<rparr>"

definition example_sha :: "string \<Rightarrow> string" where
  "example_sha x = replicate 64 (CHR ''1'')"

definition example_ser :: "LinuxNormalizedSnapshotEnvelope \<Rightarrow> string option" where
  "example_ser e = (if e = example_envelope then Some ''{}'' else None)"

definition example_de :: "string \<Rightarrow> LinuxNormalizedSnapshotEnvelope option" where
  "example_de v = (if v = ''{}'' then Some example_envelope else None)"

lemma example_sha_digest: "hex_digest_with [] (example_sha x)"
  by (simp add: hex_digest_with_def example_sha_def list_all_iff lower_hex_def ascii_class_defs)

lemma example_new:
  "envelope_new example_sha (\<lambda>_. Some []) capture_rescue example_snapshot = Inr example_envelope"
  by (simp add: envelope_new_def example_snapshot_valid snapshot_hash_def
      snapshot_canonical_json_def capture_valid_iff example_envelope_def example_sha_def)

lemma envelope_new_valid:
  assumes "envelope_new sha ss capture snapshot = Inr e" and "\<And>x. hex_digest_with [] (sha x)"
  shows "envelope_validate sha ss e = Inr () \<and> en_snapshot e = snapshot \<and> en_capture e = capture"
proof -
  obtain h where "capture_valid capture" "snapshot_hash sha ss snapshot = Inr h"
    and e: "e = \<lparr>en_schema_version = SCHEMA_VERSION, en_kind = KIND, en_snapshot_sha256 = h,
      en_capture = capture, en_snapshot = snapshot\<rparr>"
    using assms(1) by (auto simp: envelope_new_def split: sum.splits if_splits)
  then show ?thesis using assms(2) by (auto simp: envelope_validate_ok snapshot_hash_ok)
qed

lemma example_parse:
  "envelope_parse example_sha (\<lambda>_. Some []) example_ser example_de ''{}'' = Inr example_envelope"
  using envelope_new_valid [OF example_new example_sha_digest]
  by (simp add: envelope_parse_ok MAX_ENVELOPE_BYTES_def example_de_def example_ser_def)

theorem parse_accepts_only_canonical_witness:
  "envelope_parse example_sha (\<lambda>_. Some []) example_ser (\<lambda>_. Some example_envelope) ''{}'' = Inr example_envelope \<and>
   example_ser example_envelope = Some ''{}'' \<and> snapshot_validate (en_snapshot example_envelope) = Inr () \<and>
   envelope_parse example_sha (\<lambda>_. Some []) example_ser (\<lambda>_. Some example_envelope) ''{ }'' \<noteq> Inr example_envelope"
proof -
  let ?parse = "envelope_parse example_sha (\<lambda>_. Some []) example_ser (\<lambda>_. Some example_envelope)"
  have accepted: "?parse ''{}'' = Inr example_envelope" using example_parse by (simp add: envelope_parse_ok)
  note canonical = parse_accepts_only_canonical [of example_sha "\<lambda>_. Some []" example_ser "\<lambda>_. Some example_envelope"
    "''{}''" example_envelope "''{ }''"]
  have "?parse ''{ }'' \<noteq> Inr example_envelope" using canonical accepted by fastforce
  then show ?thesis using accepted canonical by blast
qed

text \<open>
  C28: an envelope built by the constructor survives encoding and strict parsing, when the JSON
  library decodes what it encodes, SHA-256 yields 64 lower-case hexadecimal digits, and the
  encoding is within the size limit.
\<close>

theorem envelope_round_trip:
  assumes "envelope_new sha ss capture snapshot = Inr e"
    and "\<And>x. hex_digest_with [] (sha x)"
    and "\<And>e v. ser e = Some v \<Longrightarrow> de v = Some e"
    and "ser e = Some v" and "v \<noteq> []" and "length v \<le> MAX_ENVELOPE_BYTES"
  shows "envelope_parse sha ss ser de v = Inr e \<and> en_snapshot e = snapshot \<and>
    en_capture e = capture"
  using envelope_new_valid [OF assms(1,2)] assms(3) [OF assms(4)] assms(4-6)
  by (simp add: envelope_parse_ok)

theorem envelope_round_trip_witness:
  "envelope_parse example_sha (\<lambda>_. Some []) example_ser example_de ''{}'' = Inr example_envelope \<and>
   en_snapshot example_envelope = example_snapshot"
proof -
  have codec: "example_ser e = Some v \<Longrightarrow> example_de v = Some e" for e v
    by (simp add: example_ser_def example_de_def split: if_splits)
  have "example_ser example_envelope = Some ''{}''" by (simp add: example_ser_def)
  with envelope_round_trip [where ser = example_ser and de = example_de and v = "''{}''",
      OF example_new example_sha_digest] codec
  show ?thesis by (simp add: MAX_ENVELOPE_BYTES_def)
qed

end
