(* ===== verification/KA_Fstab_Admission.thy ===== *)
theory KA_Fstab_Admission
  imports KA_Policy
begin

text \<open>
  The admission objects of the Rescue \<^verbatim>\<open>fstab\<close> candidate in \<^verbatim>\<open>crates/core/src/lib.rs\<close>:
  broker-derived evidence, the immutable candidate binding, the approval and the admission
  with its single approval transition and the digest an accepted approval leaves behind.
  SHA-256 is the parameter \<open>sha\<close>, from bytes to the lower-case hexadecimal digest.
\<close>

section \<open>Identifiers, errors\<close>

definition RESCUE_FSTAB_TYPED_CONFIRMATION :: string where
  "RESCUE_FSTAB_TYPED_CONFIRMATION = ''DISABILITA VOCE FSTAB''"

definition RESCUE_FSTAB_APPROVAL_HASH_DOMAIN :: string where
  "RESCUE_FSTAB_APPROVAL_HASH_DOMAIN =
     domain_tag ''kernaid:linux.fstab.disable-missing-uuid.v1:approval:v1''"

datatype RescueFstabCandidateAdmissionError =
    CandidateInvalidSessionState
  | CandidateWrongSessionMode
  | CandidatePolicyRejected PolicyError
  | CandidateInvalidBinding
  | CandidateInvalidApproval
  | CandidateInvalidBrokerEvidence
  | CandidateBindingMismatch
  | CandidateNonMonotonicApproval
  | CandidateTypedConfirmationMismatch
  | CandidateApprovalReplay
  | CandidateSequenceExhausted

definition valid_rescue_candidate_sha256 :: "string \<Rightarrow> bool" where
  "valid_rescue_candidate_sha256 value =
     (case strip_prefix value ''sha256:'' of
        None \<Rightarrow> False
      | Some digest \<Rightarrow>
          length digest = 64 \<and> list_all (\<lambda>byte. ascii_digit byte \<or> lower_af byte) digest)"

definition valid_rescue_candidate_id :: "string \<Rightarrow> string \<Rightarrow> bool" where
  "valid_rescue_candidate_id value pre =
     (case strip_prefix value pre of
        None \<Rightarrow> False
      | Some suffix \<Rightarrow>
          suffix \<noteq> [] \<and> length value \<le> 128 \<and>
          list_all (\<lambda>byte. ascii_alphanumeric byte \<or> byte = CHR ''-'') suffix)"

lemma valid_rescue_candidate_sha256_iff [validator]:
  "valid_rescue_candidate_sha256 value \<longleftrightarrow> hex_digest_with ''sha256:'' value"
  unfolding valid_rescue_candidate_sha256_def hex_digest_with_def strip_prefix_case_iff lower_hex_def
  by (rule refl)

lemma valid_rescue_candidate_id_iff [validator]:
  "valid_rescue_candidate_id value pre \<longleftrightarrow> prefixed_id pre value"
  unfolding valid_rescue_candidate_id_def prefixed_id_def strip_prefix_case_iff
  by (rule refl)

section \<open>Broker-derived evidence\<close>

record RescueFstabBrokerDerivedEvidence =
  bde_session_id :: string
  bde_plan_id :: string
  bde_plan_hash :: string
  bde_target_fingerprint :: string
  bde_target_snapshot :: string
  bde_action_id :: string
  bde_finding_id :: string
  bde_finding_version :: u16
  bde_resource_id :: string
  bde_evidence :: "(string \<times> string) \<times> (string \<times> string)"

definition RescueFstabBrokerDerivedEvidence_new ::
    "string \<Rightarrow> string \<Rightarrow> string \<Rightarrow> string \<Rightarrow> string \<Rightarrow> string \<Rightarrow> string \<Rightarrow> u16 \<Rightarrow> string
     \<Rightarrow> (string \<times> string) \<times> (string \<times> string)
     \<Rightarrow> RescueFstabCandidateAdmissionError + RescueFstabBrokerDerivedEvidence" where
  "RescueFstabBrokerDerivedEvidence_new session_id plan_id plan_hash target_fingerprint
       target_snapshot action_id finding_id finding_version resource_id evidence =
     (if \<not> valid_rescue_candidate_id session_id ''S-''
         \<or> \<not> valid_rescue_candidate_id plan_id ''P-''
         \<or> \<not> valid_rescue_candidate_sha256 plan_hash
         \<or> \<not> valid_rescue_candidate_sha256 target_fingerprint
         \<or> \<not> valid_rescue_candidate_sha256 target_snapshot
         \<or> action_id \<noteq> RESCUE_FSTAB_ACTION_ID
         \<or> finding_id \<noteq> RESCUE_FSTAB_FINDING_ID
         \<or> finding_version \<noteq> RESCUE_FSTAB_FINDING_VERSION
         \<or> resource_id \<noteq> RESCUE_FSTAB_RESOURCE_ID
         \<or> fst (fst evidence) \<noteq> RESCUE_FSTAB_EVIDENCE_IDS ! 0
         \<or> fst (snd evidence) \<noteq> RESCUE_FSTAB_EVIDENCE_IDS ! 1
         \<or> \<not> valid_rescue_candidate_sha256 (snd (fst evidence))
         \<or> \<not> valid_rescue_candidate_sha256 (snd (snd evidence))
      then Inl CandidateInvalidBrokerEvidence
      else Inr \<lparr>bde_session_id = session_id, bde_plan_id = plan_id, bde_plan_hash = plan_hash,
                bde_target_fingerprint = target_fingerprint, bde_target_snapshot = target_snapshot,
                bde_action_id = action_id, bde_finding_id = finding_id,
                bde_finding_version = finding_version, bde_resource_id = resource_id,
                bde_evidence = evidence\<rparr>)"

section \<open>Candidate binding and approval\<close>

record RescueFstabCandidateBinding =
  rcb_session_id :: string
  rcb_plan_id :: string
  rcb_plan_hash :: string
  rcb_target_fingerprint :: string
  rcb_resource_precondition :: string

definition RescueFstabCandidateBinding_new ::
    "string \<Rightarrow> string \<Rightarrow> string \<Rightarrow> string \<Rightarrow> string
     \<Rightarrow> RescueFstabCandidateAdmissionError + RescueFstabCandidateBinding" where
  "RescueFstabCandidateBinding_new session_id plan_id plan_hash target_fingerprint
       resource_precondition =
     (if \<not> valid_rescue_candidate_id session_id ''S-''
         \<or> \<not> valid_rescue_candidate_id plan_id ''P-''
         \<or> \<not> valid_rescue_candidate_sha256 plan_hash
         \<or> \<not> valid_rescue_candidate_sha256 target_fingerprint
         \<or> \<not> valid_rescue_candidate_sha256 resource_precondition
      then Inl CandidateInvalidBinding
      else Inr \<lparr>rcb_session_id = session_id, rcb_plan_id = plan_id, rcb_plan_hash = plan_hash,
                rcb_target_fingerprint = target_fingerprint,
                rcb_resource_precondition = resource_precondition\<rparr>)"

record RescueFstabCandidateApproval =
  rca_binding :: RescueFstabCandidateBinding
  rca_approval_id :: string
  rca_approval_sequence :: u64
  rca_typed_confirmation :: string

definition RescueFstabCandidateApproval_new ::
    "RescueFstabCandidateBinding \<Rightarrow> string \<Rightarrow> u64 \<Rightarrow> string
     \<Rightarrow> RescueFstabCandidateAdmissionError + RescueFstabCandidateApproval" where
  "RescueFstabCandidateApproval_new binding approval_id approval_sequence typed_confirmation =
     (if \<not> valid_rescue_candidate_id approval_id ''A-'' \<or> approval_sequence = 0
      then Inl CandidateInvalidApproval
      else Inr \<lparr>rca_binding = binding, rca_approval_id = approval_id,
                rca_approval_sequence = approval_sequence,
                rca_typed_confirmation = typed_confirmation\<rparr>)"

definition rescue_fstab_approval_preimage :: "RescueFstabCandidateApproval \<Rightarrow> string" where
  "rescue_fstab_approval_preimage approval =
     RESCUE_FSTAB_APPROVAL_HASH_DOMAIN @
     frames [rcb_session_id (rca_binding approval), rcb_plan_id (rca_binding approval),
             rcb_plan_hash (rca_binding approval), rcb_target_fingerprint (rca_binding approval),
             rcb_resource_precondition (rca_binding approval), RESCUE_FSTAB_RESOURCE_ID,
             rca_approval_id approval] @
     u64_be (rca_approval_sequence approval) @
     frame (rca_typed_confirmation approval)"

definition rescue_fstab_approval_sha256 ::
    "(string \<Rightarrow> string) \<Rightarrow> RescueFstabCandidateApproval \<Rightarrow> string" where
  "rescue_fstab_approval_sha256 sha approval =
     ''sha256:'' @ sha (rescue_fstab_approval_preimage approval)"

section \<open>Admission\<close>

datatype RescueFstabCandidateAdmissionState = CandidateStaged | CandidateApproved

record RescueFstabCandidateAdmission =
  adm_binding :: RescueFstabCandidateBinding
  adm_state :: RescueFstabCandidateAdmissionState
  adm_next_approval_sequence :: u64
  adm_approval_id :: "string option"
  adm_approval_sequence :: "u64 option"
  adm_approval_sha256 :: "string option"

definition candidate_stage ::
    "RescueFstabCandidateBinding \<Rightarrow> u64
     \<Rightarrow> RescueFstabCandidateAdmissionError + RescueFstabCandidateAdmission" where
  "candidate_stage binding last_approval_sequence =
     (case checked_add last_approval_sequence 1 of
        None \<Rightarrow> Inl CandidateSequenceExhausted
      | Some next_approval_sequence \<Rightarrow>
          Inr \<lparr>adm_binding = binding, adm_state = CandidateStaged,
               adm_next_approval_sequence = next_approval_sequence,
               adm_approval_id = None, adm_approval_sequence = None,
               adm_approval_sha256 = None\<rparr>)"

definition candidate_approve ::
    "(string \<Rightarrow> string) \<Rightarrow> RescueFstabCandidateAdmission \<Rightarrow> RescueFstabCandidateApproval
     \<Rightarrow> RescueFstabCandidateAdmissionError + RescueFstabCandidateAdmission" where
  "candidate_approve sha self approval =
     (if adm_state self \<noteq> CandidateStaged then Inl CandidateApprovalReplay
      else if rca_binding approval \<noteq> adm_binding self then Inl CandidateBindingMismatch
      else if rca_approval_sequence approval \<noteq> adm_next_approval_sequence self
      then Inl CandidateNonMonotonicApproval
      else if rca_typed_confirmation approval \<noteq> RESCUE_FSTAB_TYPED_CONFIRMATION
      then Inl CandidateTypedConfirmationMismatch
      else Inr (self\<lparr>adm_approval_id := Some (rca_approval_id approval),
                     adm_approval_sequence := Some (rca_approval_sequence approval),
                     adm_approval_sha256 := Some (rescue_fstab_approval_sha256 sha approval),
                     adm_state := CandidateApproved\<rparr>))"

interpretation fstab_candidate: single_use_approval "candidate_approve sha"
  "\<lambda>t. adm_state t \<noteq> CandidateStaged" adm_binding rca_binding
  for sha
  by unfold_locales (auto simp: candidate_approve_def)

section \<open>What an approval digest determines\<close>

definition approval_fits :: "RescueFstabCandidateApproval \<Rightarrow> bool" where
  "approval_fits a \<longleftrightarrow>
     list_all fits [rcb_session_id (rca_binding a), rcb_plan_id (rca_binding a),
       rcb_plan_hash (rca_binding a), rcb_target_fingerprint (rca_binding a),
       rcb_resource_precondition (rca_binding a), rca_approval_id a, rca_typed_confirmation a]"

lemma candidate_binding_new_ok:
  "RescueFstabCandidateBinding_new s p h t r = Inr b \<Longrightarrow>
     prefixed_id ''S-'' s \<and> prefixed_id ''P-'' p \<and> hex_digest_with ''sha256:'' h \<and>
     hex_digest_with ''sha256:'' t \<and> hex_digest_with ''sha256:'' r \<and>
     b = \<lparr>rcb_session_id = s, rcb_plan_id = p, rcb_plan_hash = h, rcb_target_fingerprint = t,
          rcb_resource_precondition = r\<rparr>"
  by (simp add: RescueFstabCandidateBinding_new_def validator)

text \<open>A value built by the constructors fits, whatever confirmation text was typed.\<close>

lemma constructed_approval_fits:
  assumes "RescueFstabCandidateBinding_new s p h t r = Inr b"
    and "RescueFstabCandidateApproval_new b i q c = Inr a" and "fits c"
  shows "approval_fits a"
  using candidate_binding_new_ok [OF assms(1)] assms(2,3)
  by (auto simp: RescueFstabCandidateApproval_new_def validator approval_fits_def
      intro: validated_fits)

lemma rescue_fstab_approval_preimage_inject [codec]:
  assumes fits: "approval_fits a" "approval_fits b"
    and eq: "rescue_fstab_approval_preimage a = rescue_fstab_approval_preimage b"
  shows "a = b"
proof -
  have resource: "fits RESCUE_FSTAB_RESOURCE_ID"
    by (simp add: RESCUE_FSTAB_RESOURCE_ID_def fits_def)
  let ?f = "\<lambda>a. [rcb_session_id (rca_binding a), rcb_plan_id (rca_binding a),
             rcb_plan_hash (rca_binding a), rcb_target_fingerprint (rca_binding a),
             rcb_resource_precondition (rca_binding a), RESCUE_FSTAB_RESOURCE_ID,
             rca_approval_id a]"
  let ?r = "\<lambda>a. u64_be (rca_approval_sequence a) @ frame (rca_typed_confirmation a)"
  have "frames (?f a) @ ?r a = frames (?f b) @ ?r b"
    using eq by (simp add: rescue_fstab_approval_preimage_def)
  then have fields: "?f a = ?f b" and rest: "?r a = ?r b"
    using frames_rest [of "?f a" "?r a" "?f b" "?r b"] fits resource
    by (simp_all add: approval_fits_def)
  from rest have "rca_approval_sequence a = rca_approval_sequence b"
    and "frame (rca_typed_confirmation a) = frame (rca_typed_confirmation b)"
    using be64.enc_rest by blast+
  moreover then have "rca_typed_confirmation a = rca_typed_confirmation b"
    using framed.enc_eq fits by (simp add: approval_fits_def)
  ultimately show ?thesis
    using fields by (cases a; cases b) (auto intro: RescueFstabCandidateBinding.equality)
qed

section \<open>Properties\<close>

text \<open>
  C12: whatever approvals are presented to a staged candidate admission, its binding stays the
  staged one and at most one approval is accepted.  An accepted approval is one that was
  presented, carries that binding and the exact confirmation text, and has the sequence number
  after the last one, without wrap-around; its digest is the one recorded.  Nothing is recorded
  otherwise.
\<close>

theorem candidate_admission_history:
  assumes "candidate_stage b prev = Inr t0"
    and "attempts (candidate_approve sha) t0 as = (t, acc)"
  shows "adm_binding t = b \<and>
    (adm_state t = CandidateStaged \<and> acc = [] \<and> t = t0 \<or>
     (\<exists>a. acc = [a] \<and> a \<in> set as \<and> rca_binding a = b \<and>
        unat (rca_approval_sequence a) = unat prev + 1 \<and>
        rca_typed_confirmation a = RESCUE_FSTAB_TYPED_CONFIRMATION \<and>
        adm_state t = CandidateApproved \<and> adm_approval_id t = Some (rca_approval_id a) \<and>
        adm_approval_sequence t = Some (rca_approval_sequence a) \<and>
        adm_approval_sha256 t = Some (rescue_fstab_approval_sha256 sha a)))"
proof -
  have t0: "adm_binding t0 = b" "adm_state t0 = CandidateStaged"
    "unat (adm_next_approval_sequence t0) = unat prev + 1"
    using assms(1) by (auto simp: candidate_stage_def dest: checked_add_Some split: option.splits)
  show ?thesis
  proof (cases rule: fstab_candidate.run_cases [of sha t0 as])
    case none
    then show ?thesis using assms(2) t0 by simp
  next
    case (one a s')
    then show ?thesis using assms(2) t0 by (auto simp: candidate_approve_def split: if_splits)
  qed
qed

definition example_candidate_binding :: RescueFstabCandidateBinding where
  "example_candidate_binding = \<lparr>rcb_session_id = ''S-1'', rcb_plan_id = ''P-1'',
     rcb_plan_hash = example_fingerprint, rcb_target_fingerprint = example_fingerprint,
     rcb_resource_precondition = example_fingerprint\<rparr>"

definition example_candidate_approval :: "u64 \<Rightarrow> RescueFstabCandidateApproval" where
  "example_candidate_approval n = \<lparr>rca_binding = example_candidate_binding,
     rca_approval_id = ''A-1'', rca_approval_sequence = n,
     rca_typed_confirmation = RESCUE_FSTAB_TYPED_CONFIRMATION\<rparr>"

theorem candidate_admission_history_witness:
  "\<exists>t0. candidate_stage example_candidate_binding 4 = Inr t0 \<and>
     snd (attempts (candidate_approve (\<lambda>_. [])) t0 (map example_candidate_approval [4, 5, 5]))
       = [example_candidate_approval 5]"
proof -
  obtain t0 where stage: "candidate_stage example_candidate_binding 4 = Inr t0"
    and next5: "adm_next_approval_sequence t0 = 5" "adm_state t0 = CandidateStaged"
      "adm_binding t0 = example_candidate_binding"
    by (simp add: candidate_stage_def checked_add_def)
  let ?r = "attempts (candidate_approve (\<lambda>_. [])) t0 (map example_candidate_approval [4, 5, 5])"
  have "adm_state (fst ?r) = CandidateApproved"
    using next5 by (simp add: candidate_approve_def example_candidate_approval_def)
  with candidate_admission_history [OF stage prod.collapse [symmetric],
      of "\<lambda>_. []" "map example_candidate_approval [4, 5, 5]"]
  obtain a where "snd ?r = [a]" "a \<in> set (map example_candidate_approval [4, 5, 5])"
    "unat (rca_approval_sequence a) = unat (4 :: u64) + 1"
    by (elim conjE disjE exE) (simp, blast)
  then have "snd ?r = [example_candidate_approval 5]"
    by (auto simp: example_candidate_approval_def)
  with stage show ?thesis by blast
qed

text \<open>
  The digest recorded for an approval determines the approval.  If two approvals whose
  strings have lengths below \<open>2 ^ 64\<close> have the same digest, either they are equal or their
  preimages are two different inputs with the same SHA-256 value.
\<close>

theorem approval_digest_binds:
  assumes "approval_fits a" and "approval_fits b"
    and "rescue_fstab_approval_sha256 sha a = rescue_fstab_approval_sha256 sha b"
  shows "a = b \<or>
    (rescue_fstab_approval_preimage a \<noteq> rescue_fstab_approval_preimage b \<and>
     sha (rescue_fstab_approval_preimage a) = sha (rescue_fstab_approval_preimage b))"
  using assms rescue_fstab_approval_preimage_inject [OF assms(1,2)]
  by (auto simp: rescue_fstab_approval_sha256_def)

theorem approval_digest_binds_witness:
  "rescue_fstab_approval_preimage (example_candidate_approval 1)
     \<noteq> rescue_fstab_approval_preimage (example_candidate_approval 2)"
proof
  assume eq: "rescue_fstab_approval_preimage (example_candidate_approval 1)
     = rescue_fstab_approval_preimage (example_candidate_approval 2)"
  have "approval_fits (example_candidate_approval n)" for n
    by (simp add: approval_fits_def example_candidate_approval_def example_candidate_binding_def
        example_fingerprint_def RESCUE_FSTAB_TYPED_CONFIRMATION_def fits_def)
  from approval_digest_binds [OF this [of 1] this [of 2], of "\<lambda>x. x"] eq
  show False
    by (simp add: rescue_fstab_approval_sha256_def example_candidate_approval_def)
qed

end
