(* ===== verification/KA_Rollback_Admission.thy ===== *)
theory KA_Rollback_Admission
  imports KA_Fstab_Admission
begin

text \<open>
  The post-commit rollback admission of \<^verbatim>\<open>crates/core/src/lib.rs\<close>, shared by the
  \<^verbatim>\<open>fstab\<close> and \<^verbatim>\<open>crypttab\<close> resources: the closed resource selector, the canonical
  rollback plan with its digest, the source receipt, the binding, the approval and the
  admission with its single approval transition.
\<close>

section \<open>Resources and errors\<close>

definition RESCUE_FSTAB_ROLLBACK_TYPED_CONFIRMATION :: string where
  "RESCUE_FSTAB_ROLLBACK_TYPED_CONFIRMATION = ''RIPRISTINA FSTAB ORIGINALE''"

definition RESCUE_CRYPTTAB_ROLLBACK_TYPED_CONFIRMATION :: string where
  "RESCUE_CRYPTTAB_ROLLBACK_TYPED_CONFIRMATION = ''RIPRISTINA CRYPTTAB ORIGINALE''"

definition RESCUE_FSTAB_ROLLBACK_APPROVAL_HASH_DOMAIN :: string where
  "RESCUE_FSTAB_ROLLBACK_APPROVAL_HASH_DOMAIN =
     domain_tag ''kernaid:linux.fstab.restore:approval:v1''"

definition RESCUE_FSTAB_ROLLBACK_PLAN_HASH_DOMAIN :: string where
  "RESCUE_FSTAB_ROLLBACK_PLAN_HASH_DOMAIN = domain_tag ''kernaid:linux.fstab.restore:plan:v1''"

definition RESCUE_CRYPTTAB_ROLLBACK_APPROVAL_HASH_DOMAIN :: string where
  "RESCUE_CRYPTTAB_ROLLBACK_APPROVAL_HASH_DOMAIN =
     domain_tag ''kernaid:linux.crypttab.disable-missing-source.v1:approval:v1''"

definition RESCUE_CRYPTTAB_ROLLBACK_PLAN_HASH_DOMAIN :: string where
  "RESCUE_CRYPTTAB_ROLLBACK_PLAN_HASH_DOMAIN =
     domain_tag ''kernaid:linux.crypttab.disable-missing-source.v1:plan:v1''"

datatype RescueRepairRollbackResource = Fstab | Crypttab

fun resource_action_id :: "RescueRepairRollbackResource \<Rightarrow> string" where
  "resource_action_id Fstab = RESCUE_FSTAB_ROLLBACK_ID"
| "resource_action_id Crypttab = RESCUE_CRYPTTAB_ROLLBACK_ID"

fun resource_resource_id :: "RescueRepairRollbackResource \<Rightarrow> string" where
  "resource_resource_id Fstab = RESCUE_FSTAB_RESOURCE_ID"
| "resource_resource_id Crypttab = RESCUE_CRYPTTAB_RESOURCE_ID"

fun resource_evidence_id :: "RescueRepairRollbackResource \<Rightarrow> string" where
  "resource_evidence_id Fstab = RESCUE_FSTAB_ROLLBACK_EVIDENCE_ID"
| "resource_evidence_id Crypttab = RESCUE_CRYPTTAB_ROLLBACK_EVIDENCE_ID"

fun resource_preflight_id :: "RescueRepairRollbackResource \<Rightarrow> string" where
  "resource_preflight_id Fstab = RESCUE_FSTAB_ROLLBACK_PREFLIGHT_ID"
| "resource_preflight_id Crypttab = RESCUE_CRYPTTAB_ROLLBACK_PREFLIGHT_ID"

fun resource_backup :: "RescueRepairRollbackResource \<Rightarrow> string" where
  "resource_backup Fstab = RESCUE_FSTAB_ROLLBACK_BACKUP"
| "resource_backup Crypttab = RESCUE_CRYPTTAB_ROLLBACK_BACKUP"

fun resource_validation_id :: "RescueRepairRollbackResource \<Rightarrow> string" where
  "resource_validation_id Fstab = RESCUE_FSTAB_VALIDATION_ID"
| "resource_validation_id Crypttab = RESCUE_CRYPTTAB_VALIDATION_ID"

fun resource_typed_confirmation :: "RescueRepairRollbackResource \<Rightarrow> string" where
  "resource_typed_confirmation Fstab = RESCUE_FSTAB_ROLLBACK_TYPED_CONFIRMATION"
| "resource_typed_confirmation Crypttab = RESCUE_CRYPTTAB_ROLLBACK_TYPED_CONFIRMATION"

fun resource_validate_plan ::
    "RescueRepairRollbackResource \<Rightarrow> ValidatedPlan \<Rightarrow> string \<Rightarrow> PolicyError + unit" where
  "resource_validate_plan Fstab plan fp = validate_rescue_fstab_rollback_plan plan fp"
| "resource_validate_plan Crypttab plan fp = validate_rescue_crypttab_rollback_plan plan fp"

fun plan_hash_domain :: "RescueRepairRollbackResource \<Rightarrow> string" where
  "plan_hash_domain Fstab = RESCUE_FSTAB_ROLLBACK_PLAN_HASH_DOMAIN"
| "plan_hash_domain Crypttab = RESCUE_CRYPTTAB_ROLLBACK_PLAN_HASH_DOMAIN"

fun approval_hash_domain :: "RescueRepairRollbackResource \<Rightarrow> string" where
  "approval_hash_domain Fstab = RESCUE_FSTAB_ROLLBACK_APPROVAL_HASH_DOMAIN"
| "approval_hash_domain Crypttab = RESCUE_CRYPTTAB_ROLLBACK_APPROVAL_HASH_DOMAIN"

lemmas rollback_domains =
  RESCUE_FSTAB_ROLLBACK_APPROVAL_HASH_DOMAIN_def RESCUE_FSTAB_ROLLBACK_PLAN_HASH_DOMAIN_def
  RESCUE_CRYPTTAB_ROLLBACK_APPROVAL_HASH_DOMAIN_def RESCUE_CRYPTTAB_ROLLBACK_PLAN_HASH_DOMAIN_def

datatype RescueFstabRollbackAdmissionError =
    RollbackInvalidSessionState
  | RollbackWrongSessionMode
  | RollbackPolicyRejected PolicyError
  | RollbackInvalidSourceReceipt
  | RollbackInvalidBinding
  | RollbackInvalidApproval
  | RollbackBindingMismatch
  | RollbackApprovalNotFresh
  | RollbackNonMonotonicApproval
  | RollbackTypedConfirmationMismatch
  | RollbackApprovalReplay
  | RollbackSequenceExhausted

section \<open>The canonical rollback plan\<close>

definition rollback_plan_of ::
    "RescueRepairRollbackResource \<Rightarrow> string \<Rightarrow> string \<Rightarrow> ValidatedPlan" where
  "rollback_plan_of resource plan_id target_fingerprint =
     \<lparr>vp_plan_id = plan_id, vp_target_fingerprint = target_fingerprint,
      vp_steps = [\<lparr>as_action = resource_action_id resource, as_risk = R2,
        as_target_fingerprint = target_fingerprint,
        as_evidence_ids = [resource_evidence_id resource],
        as_preconditions = [resource_preflight_id resource],
        as_backup = Some (resource_backup resource),
        as_validation = resource_validation_id resource, as_rollback = None\<rparr>]\<rparr>"

definition rollback_plan_preimage ::
    "RescueRepairRollbackResource \<Rightarrow> string \<Rightarrow> string \<Rightarrow> string \<Rightarrow> string \<Rightarrow> string \<Rightarrow> string" where
  "rollback_plan_preimage resource plan_id rollback_id target_fingerprint reservation_id
       transaction_binding_sha256 =
     plan_hash_domain resource @
     frames [plan_id, target_fingerprint, resource_action_id resource, ''R2'', target_fingerprint,
             resource_evidence_id resource, resource_preflight_id resource,
             resource_backup resource, resource_validation_id resource, ''rollback:none'',
             rollback_id, reservation_id, transaction_binding_sha256]"

definition canonical_rescue_repair_rollback_plan ::
    "(string \<Rightarrow> string) \<Rightarrow> RescueRepairRollbackResource \<Rightarrow> string \<Rightarrow> string \<Rightarrow> string \<Rightarrow> string
     \<Rightarrow> string \<Rightarrow> RescueFstabRollbackAdmissionError + ValidatedPlan \<times> string" where
  "canonical_rescue_repair_rollback_plan sha resource plan_id rollback_id target_fingerprint
       reservation_id transaction_binding_sha256 =
     (if \<not> valid_rescue_candidate_id plan_id ''P-''
         \<or> \<not> valid_rescue_candidate_id rollback_id ''RB-''
         \<or> \<not> valid_rescue_candidate_sha256 target_fingerprint
         \<or> \<not> valid_rescue_candidate_id reservation_id ''B-''
         \<or> \<not> valid_rescue_candidate_sha256 transaction_binding_sha256
      then Inl RollbackInvalidBinding
      else
        let plan = rollback_plan_of resource plan_id target_fingerprint in
        case resource_validate_plan resource plan target_fingerprint of
          Inl e \<Rightarrow> Inl (RollbackPolicyRejected e)
        | Inr _ \<Rightarrow>
            Inr (plan, ''sha256:'' @ sha (rollback_plan_preimage resource plan_id rollback_id
                   target_fingerprint reservation_id transaction_binding_sha256)))"

definition canonical_rescue_fstab_rollback_plan ::
    "(string \<Rightarrow> string) \<Rightarrow> string \<Rightarrow> string \<Rightarrow> string \<Rightarrow> string \<Rightarrow> string
     \<Rightarrow> RescueFstabRollbackAdmissionError + ValidatedPlan \<times> string" where
  "canonical_rescue_fstab_rollback_plan sha = canonical_rescue_repair_rollback_plan sha Fstab"

section \<open>Source receipt, binding, approval\<close>

record RescueFstabRollbackSourceBinding =
  rsb_source_plan_id :: string
  rsb_source_plan_hash :: string
  rsb_source_approval_id :: string
  rsb_source_approval_sequence :: u64
  rsb_reservation_id :: string
  rsb_transaction_binding_sha256 :: string
  rsb_backup_locator :: string

definition RescueFstabRollbackSourceBinding_new ::
    "string \<Rightarrow> string \<Rightarrow> string \<Rightarrow> u64 \<Rightarrow> string \<Rightarrow> string \<Rightarrow> string
     \<Rightarrow> RescueFstabRollbackAdmissionError + RescueFstabRollbackSourceBinding" where
  "RescueFstabRollbackSourceBinding_new source_plan_id source_plan_hash source_approval_id
       source_approval_sequence reservation_id transaction_binding_sha256 backup_locator =
     (if \<not> valid_rescue_candidate_id source_plan_id ''P-''
         \<or> \<not> valid_rescue_candidate_sha256 source_plan_hash
         \<or> \<not> valid_rescue_candidate_id source_approval_id ''A-''
         \<or> source_approval_sequence = 0
         \<or> \<not> valid_rescue_candidate_id reservation_id ''B-''
         \<or> \<not> valid_rescue_candidate_sha256 transaction_binding_sha256
         \<or> strip_prefix backup_locator ''vault://repair/'' \<noteq> Some reservation_id
      then Inl RollbackInvalidSourceReceipt
      else Inr \<lparr>rsb_source_plan_id = source_plan_id, rsb_source_plan_hash = source_plan_hash,
                rsb_source_approval_id = source_approval_id,
                rsb_source_approval_sequence = source_approval_sequence,
                rsb_reservation_id = reservation_id,
                rsb_transaction_binding_sha256 = transaction_binding_sha256,
                rsb_backup_locator = backup_locator\<rparr>)"

record RescueFstabRollbackBinding =
  rrb_resource :: RescueRepairRollbackResource
  rrb_session_id :: string
  rrb_rollback_id :: string
  rrb_plan_id :: string
  rrb_plan_hash :: string
  rrb_target_fingerprint :: string
  rrb_source :: RescueFstabRollbackSourceBinding

definition RescueFstabRollbackBinding_new_for_resource ::
    "RescueRepairRollbackResource \<Rightarrow> string \<Rightarrow> string \<Rightarrow> string \<Rightarrow> string \<Rightarrow> string
     \<Rightarrow> RescueFstabRollbackSourceBinding
     \<Rightarrow> RescueFstabRollbackAdmissionError + RescueFstabRollbackBinding" where
  "RescueFstabRollbackBinding_new_for_resource resource session_id rollback_id plan_id plan_hash
       target_fingerprint source =
     (if \<not> valid_rescue_candidate_id session_id ''S-''
         \<or> \<not> valid_rescue_candidate_id rollback_id ''RB-''
         \<or> \<not> valid_rescue_candidate_id plan_id ''P-''
         \<or> \<not> valid_rescue_candidate_sha256 plan_hash
         \<or> \<not> valid_rescue_candidate_sha256 target_fingerprint
         \<or> plan_id = rsb_source_plan_id source
         \<or> plan_hash = rsb_source_plan_hash source
      then Inl RollbackInvalidBinding
      else Inr \<lparr>rrb_resource = resource, rrb_session_id = session_id,
                rrb_rollback_id = rollback_id, rrb_plan_id = plan_id, rrb_plan_hash = plan_hash,
                rrb_target_fingerprint = target_fingerprint, rrb_source = source\<rparr>)"

definition RescueFstabRollbackBinding_new ::
    "string \<Rightarrow> string \<Rightarrow> string \<Rightarrow> string \<Rightarrow> string \<Rightarrow> RescueFstabRollbackSourceBinding
     \<Rightarrow> RescueFstabRollbackAdmissionError + RescueFstabRollbackBinding" where
  "RescueFstabRollbackBinding_new = RescueFstabRollbackBinding_new_for_resource Fstab"

record RescueFstabRollbackApproval =
  rra_binding :: RescueFstabRollbackBinding
  rra_approval_id :: string
  rra_approval_sequence :: u64
  rra_typed_confirmation :: string

definition RescueFstabRollbackApproval_new ::
    "RescueFstabRollbackBinding \<Rightarrow> string \<Rightarrow> u64 \<Rightarrow> string
     \<Rightarrow> RescueFstabRollbackAdmissionError + RescueFstabRollbackApproval" where
  "RescueFstabRollbackApproval_new binding approval_id approval_sequence typed_confirmation =
     (if \<not> valid_rescue_candidate_id approval_id ''A-'' \<or> approval_sequence = 0
      then Inl RollbackInvalidApproval
      else Inr \<lparr>rra_binding = binding, rra_approval_id = approval_id,
                rra_approval_sequence = approval_sequence,
                rra_typed_confirmation = typed_confirmation\<rparr>)"

definition rollback_approval_fields :: "RescueFstabRollbackApproval \<Rightarrow> string list" where
  "rollback_approval_fields approval =
     (let b = rra_binding approval; s = rrb_source b in
      [rrb_session_id b, rrb_rollback_id b, rrb_plan_id b, rrb_plan_hash b,
       rrb_target_fingerprint b, resource_resource_id (rrb_resource b), rsb_source_plan_id s,
       rsb_source_plan_hash s, rsb_source_approval_id s, rsb_reservation_id s,
       rsb_transaction_binding_sha256 s, rsb_backup_locator s, rra_approval_id approval])"

definition rescue_fstab_rollback_approval_preimage :: "RescueFstabRollbackApproval \<Rightarrow> string" where
  "rescue_fstab_rollback_approval_preimage approval =
     approval_hash_domain (rrb_resource (rra_binding approval)) @
     frames (rollback_approval_fields approval) @
     u64_be (rsb_source_approval_sequence (rrb_source (rra_binding approval))) @
     u64_be (rra_approval_sequence approval) @
     frame (rra_typed_confirmation approval)"

definition rescue_fstab_rollback_approval_sha256 ::
    "(string \<Rightarrow> string) \<Rightarrow> RescueFstabRollbackApproval \<Rightarrow> string" where
  "rescue_fstab_rollback_approval_sha256 sha approval =
     ''sha256:'' @ sha (rescue_fstab_rollback_approval_preimage approval)"

section \<open>Admission\<close>

datatype RescueFstabRollbackAdmissionState = RollbackAdmissionStaged | RollbackAdmissionApproved

record RescueFstabRollbackAdmission =
  rad_binding :: RescueFstabRollbackBinding
  rad_state :: RescueFstabRollbackAdmissionState
  rad_next_approval_sequence :: u64
  rad_approval_id :: "string option"
  rad_approval_sha256 :: "string option"

definition rollback_admission_stage ::
    "RescueFstabRollbackBinding
     \<Rightarrow> RescueFstabRollbackAdmissionError + RescueFstabRollbackAdmission" where
  "rollback_admission_stage binding =
     (case checked_add (rsb_source_approval_sequence (rrb_source binding)) 1 of
        None \<Rightarrow> Inl RollbackSequenceExhausted
      | Some next_approval_sequence \<Rightarrow>
          Inr \<lparr>rad_binding = binding, rad_state = RollbackAdmissionStaged,
               rad_next_approval_sequence = next_approval_sequence,
               rad_approval_id = None, rad_approval_sha256 = None\<rparr>)"

definition rollback_admission_approve ::
    "(string \<Rightarrow> string) \<Rightarrow> RescueFstabRollbackAdmission \<Rightarrow> RescueFstabRollbackApproval
     \<Rightarrow> RescueFstabRollbackAdmissionError + RescueFstabRollbackAdmission" where
  "rollback_admission_approve sha self approval =
     (if rad_state self \<noteq> RollbackAdmissionStaged then Inl RollbackApprovalReplay
      else if rra_binding approval \<noteq> rad_binding self then Inl RollbackBindingMismatch
      else if rra_approval_id approval = rsb_source_approval_id (rrb_source (rad_binding self))
      then Inl RollbackApprovalNotFresh
      else if rra_approval_sequence approval \<noteq> rad_next_approval_sequence self
      then Inl RollbackNonMonotonicApproval
      else if rra_typed_confirmation approval
                \<noteq> resource_typed_confirmation (rrb_resource (rad_binding self))
      then Inl RollbackTypedConfirmationMismatch
      else Inr (self\<lparr>rad_approval_sha256 :=
                       Some (rescue_fstab_rollback_approval_sha256 sha approval),
                     rad_approval_id := Some (rra_approval_id approval),
                     rad_state := RollbackAdmissionApproved\<rparr>))"

interpretation rollback_admission: single_use_approval "rollback_admission_approve sha"
  "\<lambda>t. rad_state t \<noteq> RollbackAdmissionStaged" rad_binding rra_binding
  for sha
  by unfold_locales (auto simp: rollback_admission_approve_def)

section \<open>Digest preimages\<close>

lemma approval_hash_domain_rest:
  "approval_hash_domain r @ x = approval_hash_domain q @ y \<Longrightarrow> r = q \<and> x = y"
  by (cases r; cases q; simp add: rollback_domains domain_tag_def)

lemma plan_hash_domain_rest:
  "plan_hash_domain r @ x = plan_hash_domain q @ y \<Longrightarrow> r = q \<and> x = y"
  by (cases r; cases q; simp add: rollback_domains domain_tag_def)

definition rollback_approval_fits :: "RescueFstabRollbackApproval \<Rightarrow> bool" where
  "rollback_approval_fits a \<longleftrightarrow>
     list_all fits (rra_typed_confirmation a # rollback_approval_fields a)"

lemma rollback_fields_determine:
  assumes "rollback_approval_fields a = rollback_approval_fields b"
    and "rrb_resource (rra_binding a) = rrb_resource (rra_binding b)"
    and "rsb_source_approval_sequence (rrb_source (rra_binding a))
           = rsb_source_approval_sequence (rrb_source (rra_binding b))"
    and "rra_approval_sequence a = rra_approval_sequence b"
    and "rra_typed_confirmation a = rra_typed_confirmation b"
  shows "a = b"
proof -
  have "rrb_source (rra_binding a) = rrb_source (rra_binding b)"
    using assms(1,3) by (simp add: rollback_approval_fields_def Let_def)
  then have "rra_binding a = rra_binding b"
    using assms(1,2) by (simp add: rollback_approval_fields_def Let_def)
  then show ?thesis
    using assms(1,4,5) by (simp add: rollback_approval_fields_def Let_def)
qed

lemma rollback_approval_preimage_inject [codec]:
  assumes fits: "rollback_approval_fits a" "rollback_approval_fits b"
    and eq: "rescue_fstab_rollback_approval_preimage a = rescue_fstab_rollback_approval_preimage b"
  shows "a = b"
proof -
  let ?q = "\<lambda>a. u64_be (rra_approval_sequence a) @ frame (rra_typed_confirmation a)"
  let ?r = "\<lambda>a. u64_be (rsb_source_approval_sequence (rrb_source (rra_binding a))) @ ?q a"
  have resource: "rrb_resource (rra_binding a) = rrb_resource (rra_binding b)"
    and body: "frames (rollback_approval_fields a) @ ?r a = frames (rollback_approval_fields b) @ ?r b"
    using approval_hash_domain_rest eq unfolding rescue_fstab_rollback_approval_preimage_def
    by blast+
  have fields: "rollback_approval_fields a = rollback_approval_fields b" and r: "?r a = ?r b"
    using frames_rest [OF body] fits
    by (simp_all add: rollback_approval_fits_def rollback_approval_fields_def Let_def)
  from r have source: "rsb_source_approval_sequence (rrb_source (rra_binding a))
      = rsb_source_approval_sequence (rrb_source (rra_binding b))" and q: "?q a = ?q b"
    using be64.enc_rest by blast+
  from q have sequence: "rra_approval_sequence a = rra_approval_sequence b"
    and "frame (rra_typed_confirmation a) = frame (rra_typed_confirmation b)"
    using be64.enc_rest by blast+
  then have "rra_typed_confirmation a = rra_typed_confirmation b"
    using framed.enc_eq fits by (simp add: rollback_approval_fits_def)
  with fields resource source sequence show ?thesis by (rule rollback_fields_determine)
qed

lemma resource_ids_fit:
  "fits (resource_action_id r)" "fits (resource_evidence_id r)" "fits (resource_preflight_id r)"
  "fits (resource_backup r)" "fits (resource_validation_id r)" "fits (resource_resource_id r)"
  by (cases r; simp add: fits_def RESCUE_FSTAB_ROLLBACK_ID_def RESCUE_CRYPTTAB_ROLLBACK_ID_def
      RESCUE_FSTAB_ROLLBACK_EVIDENCE_ID_def RESCUE_CRYPTTAB_ROLLBACK_EVIDENCE_ID_def
      RESCUE_FSTAB_ROLLBACK_PREFLIGHT_ID_def RESCUE_CRYPTTAB_ROLLBACK_PREFLIGHT_ID_def
      RESCUE_FSTAB_ROLLBACK_BACKUP_def RESCUE_CRYPTTAB_ROLLBACK_BACKUP_def
      RESCUE_FSTAB_VALIDATION_ID_def RESCUE_CRYPTTAB_VALIDATION_ID_def
      RESCUE_FSTAB_RESOURCE_ID_def RESCUE_CRYPTTAB_RESOURCE_ID_def)+

lemma rollback_plan_preimage_inject [codec]:
  assumes eq: "rollback_plan_preimage r p i f v t = rollback_plan_preimage r' p' i' f' v' t'"
    and "list_all fits [p, i, f, v, t]" and "list_all fits [p', i', f', v', t']"
  shows "(r, p, i, f, v, t) = (r', p', i', f', v', t')"
proof -
  let ?f = "\<lambda>r p i f v t. [p, f, resource_action_id r, ''R2'', f, resource_evidence_id r,
    resource_preflight_id r, resource_backup r, resource_validation_id r, ''rollback:none'', i, v, t]"
  have "r = r'" and body: "frames (?f r p i f v t) @ [] = frames (?f r' p' i' f' v' t') @ []"
    using plan_hash_domain_rest eq unfolding rollback_plan_preimage_def by (blast, fastforce)
  moreover have "fits ''R2''" "fits ''rollback:none''" by (simp_all add: fits_def)
  ultimately show ?thesis
    using frames_rest [OF body] assms(2,3) resource_ids_fit by simp
qed

lemma canonical_rollback_plan_eq:
  "canonical_rescue_repair_rollback_plan sha r p i f v t =
     (if prefixed_id ''P-'' p \<and> prefixed_id ''RB-'' i \<and> hex_digest_with ''sha256:'' f \<and>
         prefixed_id ''B-'' v \<and> hex_digest_with ''sha256:'' t
      then Inr (case r of Fstab \<Rightarrow> fstab_rollback_plan p f | Crypttab \<Rightarrow> crypttab_rollback_plan p f,
                ''sha256:'' @ sha (rollback_plan_preimage r p i f v t))
      else Inl RollbackInvalidBinding)"
proof -
  have plan: "rollback_plan_of r p f =
      (case r of Fstab \<Rightarrow> fstab_rollback_plan p f | Crypttab \<Rightarrow> crypttab_rollback_plan p f)"
    by (cases r) (simp_all add: rollback_plan_of_def closed_plan_defs)
  have "resource_validate_plan r (rollback_plan_of r p f) f = Inr ()" if "hex_digest_with ''sha256:'' f"
    using that unfolding plan
    by (cases r) (simp_all add: validator closed_plan_defs)
  then show ?thesis
    by (simp add: canonical_rescue_repair_rollback_plan_def validator plan)
qed

section \<open>Properties\<close>

text \<open>
  the canonical rollback plan is total and closed.  For valid identifiers the function
  returns the one plan the rollback contract of the resource accepts, with its digest, and for
  any other it returns \<open>InvalidBinding\<close>; the policy check inside it never refuses.
\<close>

theorem canonical_rollback_plan_total:
  "canonical_rescue_repair_rollback_plan sha r p i f v t =
     (if prefixed_id ''P-'' p \<and> prefixed_id ''RB-'' i \<and> hex_digest_with ''sha256:'' f \<and>
         prefixed_id ''B-'' v \<and> hex_digest_with ''sha256:'' t
      then Inr (case r of Fstab \<Rightarrow> fstab_rollback_plan p f | Crypttab \<Rightarrow> crypttab_rollback_plan p f,
                ''sha256:'' @ sha (rollback_plan_preimage r p i f v t))
      else Inl RollbackInvalidBinding)"
  by (rule canonical_rollback_plan_eq)

text \<open>
  C7: whatever approvals are presented to a staged rollback admission, its binding stays the
  staged one and at most one approval is accepted.  An accepted approval was presented, carries
  that binding and the confirmation text of its resource, is not the approval of the repair it
  undoes, and has the sequence number right after that approval, without wrap-around.
\<close>

theorem rollback_admission_history:
  assumes "rollback_admission_stage b = Inr t0"
    and "attempts (rollback_admission_approve sha) t0 as = (t, acc)"
  shows "rad_binding t = b \<and>
    (rad_state t = RollbackAdmissionStaged \<and> acc = [] \<and> t = t0 \<or>
     (\<exists>a. acc = [a] \<and> a \<in> set as \<and> rra_binding a = b \<and>
        rra_approval_id a \<noteq> rsb_source_approval_id (rrb_source b) \<and>
        unat (rra_approval_sequence a) = unat (rsb_source_approval_sequence (rrb_source b)) + 1 \<and>
        rra_typed_confirmation a = resource_typed_confirmation (rrb_resource b) \<and>
        rad_state t = RollbackAdmissionApproved \<and> rad_approval_id t = Some (rra_approval_id a) \<and>
        rad_approval_sha256 t = Some (rescue_fstab_rollback_approval_sha256 sha a)))"
proof -
  have t0: "rad_binding t0 = b" "rad_state t0 = RollbackAdmissionStaged"
    "unat (rad_next_approval_sequence t0) = unat (rsb_source_approval_sequence (rrb_source b)) + 1"
    using assms(1)
    by (auto simp: rollback_admission_stage_def dest: checked_add_Some split: option.splits)
  show ?thesis
  proof (cases rule: rollback_admission.run_cases [of sha t0 as])
    case none
    then show ?thesis using assms(2) t0 by simp
  next
    case (one a s')
    then show ?thesis
      using assms(2) t0 by (auto simp: rollback_admission_approve_def split: if_splits)
  qed
qed

definition example_rollback_binding :: RescueFstabRollbackBinding where
  "example_rollback_binding = \<lparr>rrb_resource = Crypttab, rrb_session_id = ''S-1'',
     rrb_rollback_id = ''RB-1'', rrb_plan_id = ''P-2'', rrb_plan_hash = example_fingerprint,
     rrb_target_fingerprint = example_fingerprint,
     rrb_source = \<lparr>rsb_source_plan_id = ''P-1'',
       rsb_source_plan_hash = ''sha256:'' @ replicate 64 (CHR ''0''),
       rsb_source_approval_id = ''A-1'', rsb_source_approval_sequence = 1,
       rsb_reservation_id = ''B-1'', rsb_transaction_binding_sha256 = example_fingerprint,
       rsb_backup_locator = ''vault://repair/B-1''\<rparr>\<rparr>"

definition example_rollback_approval :: "string \<Rightarrow> RescueFstabRollbackApproval" where
  "example_rollback_approval i = \<lparr>rra_binding = example_rollback_binding, rra_approval_id = i,
     rra_approval_sequence = 2,
     rra_typed_confirmation = RESCUE_CRYPTTAB_ROLLBACK_TYPED_CONFIRMATION\<rparr>"

theorem rollback_admission_history_witness:
  "\<exists>t0. rollback_admission_stage example_rollback_binding = Inr t0 \<and>
     snd (attempts (rollback_admission_approve (\<lambda>_. [])) t0
       (map example_rollback_approval [''A-1'', ''A-2'', ''A-3''])) \<noteq> [] \<and>
     example_rollback_approval ''A-1'' \<notin> set (snd (attempts (rollback_admission_approve (\<lambda>_. [])) t0
       (map example_rollback_approval [''A-1'', ''A-2'', ''A-3''])))"
proof -
  obtain t0 where stage: "rollback_admission_stage example_rollback_binding = Inr t0"
    and next2: "rad_next_approval_sequence t0 = 2" "rad_state t0 = RollbackAdmissionStaged"
      "rad_binding t0 = example_rollback_binding"
    by (simp add: rollback_admission_stage_def checked_add_def example_rollback_binding_def)
  let ?as = "map example_rollback_approval [''A-1'', ''A-2'', ''A-3'']"
  let ?r = "attempts (rollback_admission_approve (\<lambda>_. [])) t0 ?as"
  have "rad_state (fst ?r) = RollbackAdmissionApproved"
    using next2 by (simp add: rollback_admission_approve_def example_rollback_approval_def
        example_rollback_binding_def)
  with rollback_admission_history [OF stage prod.collapse [symmetric], of "\<lambda>_. []" ?as]
  obtain a where "snd ?r = [a]"
    "rra_approval_id a \<noteq> rsb_source_approval_id (rrb_source example_rollback_binding)"
    by (elim conjE disjE exE) (simp, blast)
  then have "snd ?r \<noteq> []" "example_rollback_approval ''A-1'' \<notin> set (snd ?r)"
    by (auto simp: example_rollback_approval_def example_rollback_binding_def)
  with stage show ?thesis by blast
qed

text \<open>
  two rollback approvals with the same digest are equal, their resource included, or
  exhibit two different inputs with the same SHA-256 value.
\<close>

theorem rollback_approval_digest_binds:
  assumes "rollback_approval_fits a" and "rollback_approval_fits b"
    and "rescue_fstab_rollback_approval_sha256 sha a = rescue_fstab_rollback_approval_sha256 sha b"
  shows "a = b \<or>
    (rescue_fstab_rollback_approval_preimage a \<noteq> rescue_fstab_rollback_approval_preimage b \<and>
     sha (rescue_fstab_rollback_approval_preimage a)
       = sha (rescue_fstab_rollback_approval_preimage b))"
  using assms rollback_approval_preimage_inject [OF assms(1,2)]
  by (auto simp: rescue_fstab_rollback_approval_sha256_def)

theorem rollback_approval_digest_binds_witness:
  "rescue_fstab_rollback_approval_preimage (example_rollback_approval ''A-1'')
     \<noteq> rescue_fstab_rollback_approval_preimage (example_rollback_approval ''A-2'')"
proof
  assume eq: "rescue_fstab_rollback_approval_preimage (example_rollback_approval ''A-1'')
     = rescue_fstab_rollback_approval_preimage (example_rollback_approval ''A-2'')"
  have "rollback_approval_fits (example_rollback_approval i)" if "fits i" for i
    using that by (simp add: rollback_approval_fits_def rollback_approval_fields_def Let_def
        example_rollback_approval_def example_rollback_binding_def example_fingerprint_def
        RESCUE_CRYPTTAB_ROLLBACK_TYPED_CONFIRMATION_def RESCUE_CRYPTTAB_RESOURCE_ID_def fits_def)
  then have "rollback_approval_fits (example_rollback_approval ''A-1'')"
    and "rollback_approval_fits (example_rollback_approval ''A-2'')" by (simp_all add: fits_def)
  from rollback_approval_digest_binds [OF this, of "\<lambda>x. x"] eq
  show False
    by (simp add: rescue_fstab_rollback_approval_sha256_def example_rollback_approval_def)
qed

text \<open>
  Two rollback plans with the same digest were computed for the same resource, plan,
  rollback, target, reservation and source transaction, or their own two preimages differ and
  have the same SHA-256 value.
\<close>

theorem rollback_plan_digest_binds:
  assumes "canonical_rescue_repair_rollback_plan sha r p i f v t = Inr (plan, h)"
    and "canonical_rescue_repair_rollback_plan sha r' p' i' f' v' t' = Inr (plan', h)"
  shows "(r, p, i, f, v, t) = (r', p', i', f', v', t') \<and> plan = plan' \<or>
    (rollback_plan_preimage r p i f v t \<noteq> rollback_plan_preimage r' p' i' f' v' t' \<and>
     sha (rollback_plan_preimage r p i f v t) = sha (rollback_plan_preimage r' p' i' f' v' t'))"
proof (cases "rollback_plan_preimage r p i f v t = rollback_plan_preimage r' p' i' f' v' t'")
  case True
  have fits: "list_all fits [p, i, f, v, t]"
    if "canonical_rescue_repair_rollback_plan sha r p i f v t = Inr (plan, h)" for r p i f v t plan
    using that unfolding canonical_rollback_plan_eq
    by (auto split: if_splits intro: validated_fits)
  from rollback_plan_preimage_inject [OF True fits [OF assms(1)] fits [OF assms(2)]] assms
  show ?thesis by simp
next
  case False
  have "sha (rollback_plan_preimage r p i f v t) = sha (rollback_plan_preimage r' p' i' f' v' t')"
    using assms unfolding canonical_rollback_plan_eq by (auto split: if_splits)
  with False show ?thesis by simp
qed

theorem rollback_plan_digest_binds_witness:
  "\<exists>plan h. canonical_rescue_repair_rollback_plan (\<lambda>x. x) Fstab ''P-1'' ''RB-1''
       example_fingerprint ''B-1'' example_fingerprint = Inr (plan, h) \<and>
     (\<forall>plan'. canonical_rescue_repair_rollback_plan (\<lambda>x. x) Crypttab ''P-1'' ''RB-1''
       example_fingerprint ''B-1'' example_fingerprint \<noteq> Inr (plan', h)) \<and>
     canonical_rescue_repair_rollback_plan (\<lambda>x. x) Crypttab ''P-1'' ''RB-1''
       example_fingerprint ''B-1'' example_fingerprint \<noteq> Inl RollbackInvalidBinding"
proof -
  have ids: "prefixed_id ''P-'' ''P-1''" "prefixed_id ''RB-'' ''RB-1''" "prefixed_id ''B-'' ''B-1''"
    by (simp_all add: prefixed_id_def ascii_class_defs)
  then obtain plan h where ok: "canonical_rescue_repair_rollback_plan (\<lambda>x. x) Fstab ''P-1'' ''RB-1''
       example_fingerprint ''B-1'' example_fingerprint = Inr (plan, h)"
    by (simp add: canonical_rollback_plan_eq)
  moreover have "canonical_rescue_repair_rollback_plan (\<lambda>x. x) Crypttab ''P-1'' ''RB-1''
       example_fingerprint ''B-1'' example_fingerprint \<noteq> Inl RollbackInvalidBinding"
    using ids by (simp add: canonical_rollback_plan_eq)
  ultimately show ?thesis using rollback_plan_digest_binds [OF ok] by blast
qed

end
