(* ===== verification/KA_Session.thy ===== *)
theory KA_Session
  imports KA_Snapshot KA_Rollback_Admission "HOL-Library.Multiset"
begin

text \<open>
  The session of \<^verbatim>\<open>crates/core/src/lib.rs\<close>: evidence admission and plan staging as functions
  on the session record, and the transition system they induce.  The parameters \<open>sha\<close>, \<open>ss\<close>,
  \<open>ser\<close> and \<open>de\<close> are SHA-256 and the JSON library, as in the snapshot theory.
\<close>

section \<open>Session data\<close>

datatype State = Observe | Diagnose | Plan | Repair | Verify | Complete

datatype SessionMode = NonLinux | LinuxResident | LinuxRescue

record LinuxSnapshotBinding =
  sb_evidence_id :: string
  sb_evidence_sha256 :: string
  sb_snapshot_sha256 :: string
  sb_target :: string
  sb_target_fingerprint :: string
  sb_capture_mode :: string

record Session =
  se_state :: State
  se_fingerprint :: string
  se_mode :: SessionMode
  se_linux_snapshot :: "LinuxSnapshotBinding option"

datatype LinuxSnapshotAdmissionError =
    InvalidSessionState
  | InvalidEvidenceBinding
  | InvalidEnvelope SnapshotError
  | DuplicateSnapshot
  | ModeMismatch
  | IncompleteLinuxCorpus
  | ExplicitLinuxAdmissionRequired
  | UnsupportedLinuxTopology

definition LINUX_RESIDENT_REQUIRED_COLLECTORS :: "string list" where
  "LINUX_RESIDENT_REQUIRED_COLLECTORS =
     [''system.hostname'', ''linux.hardware.inventory'', ''linux.block.inventory'',
      ''linux.mounts.read-only'', ''linux.systemd.failed'', ''linux.systemd.state'',
      ''linux.fstab'', ''linux.df'', ''linux.network.links'', ''linux.network.routes'',
      ''linux.dpkg.audit'']"

definition Session_new :: "string \<Rightarrow> SessionMode \<Rightarrow> Session" where
  "Session_new fingerprint mode =
     \<lparr>se_state = Observe, se_fingerprint = fingerprint, se_mode = mode, se_linux_snapshot = None\<rparr>"

section \<open>Evidence admission\<close>

definition evidence_complete :: "Session \<Rightarrow> LinuxSnapshotAdmissionError + Session" where
  "evidence_complete self =
     (if se_state self \<noteq> Observe then Inl InvalidSessionState
      else if se_mode self \<noteq> NonLinux then Inl ExplicitLinuxAdmissionRequired
      else Inr (self\<lparr>se_state := Diagnose\<rparr>))"

fun capture_for_mode ::
    "SessionMode \<Rightarrow> LinuxSnapshotCapture \<Rightarrow> Evidence \<Rightarrow> (string \<times> bool) option" where
  "capture_for_mode LinuxResident capture evidence =
     (if capture_is_resident capture then Some (''resident'', ev_target evidence = ''local-machine'')
      else None)"
| "capture_for_mode LinuxRescue capture evidence =
     (if capture_is_rescue capture
      then Some (''rescue'', ev_target evidence = ''selected-installed-target'') else None)"
| "capture_for_mode NonLinux capture evidence = None"

definition admit_linux_snapshot ::
    "(string \<Rightarrow> string) \<Rightarrow> (LinuxNormalizedSnapshot \<Rightarrow> string option)
     \<Rightarrow> (LinuxNormalizedSnapshotEnvelope \<Rightarrow> string option)
     \<Rightarrow> (string \<Rightarrow> LinuxNormalizedSnapshotEnvelope option)
     \<Rightarrow> Session \<Rightarrow> Evidence \<Rightarrow> string \<Rightarrow> LinuxSnapshotAdmissionError + Session" where
  "admit_linux_snapshot sha ss ser de self evidence envelope_bytes =
     (if se_state self \<noteq> Observe then Inl InvalidSessionState
      else if se_linux_snapshot self \<noteq> None then Inl DuplicateSnapshot
      else case envelope_parse sha ss ser de envelope_bytes of
        Inl e \<Rightarrow> Inl (InvalidEnvelope e)
      | Inr envelope \<Rightarrow>
          if \<not> ft_supported (ns_topology (en_snapshot envelope)) then Inl UnsupportedLinuxTopology
          else
            let evidence_hash = sha envelope_bytes in
            case capture_for_mode (se_mode self) (en_capture envelope) evidence of
              None \<Rightarrow> Inl ModeMismatch
            | Some (capture_mode, target_valid) \<Rightarrow>
                if ev_id evidence = []
                   \<or> ev_collector evidence \<noteq> COLLECTOR
                   \<or> ev_content_type evidence \<noteq> CONTENT_TYPE
                   \<or> \<not> is_untrusted evidence
                   \<or> \<not> target_valid
                   \<or> ev_sha256 evidence \<noteq> evidence_hash
                   \<or> ev_blob_ref evidence \<noteq> ''sha256:'' @ evidence_hash
                then Inl InvalidEvidenceBinding
                else Inr (self\<lparr>se_linux_snapshot := Some
                       \<lparr>sb_evidence_id = ev_id evidence, sb_evidence_sha256 = evidence_hash,
                        sb_snapshot_sha256 = en_snapshot_sha256 envelope,
                        sb_target = ev_target evidence,
                        sb_target_fingerprint = se_fingerprint self,
                        sb_capture_mode = capture_mode\<rparr>\<rparr>))"

text \<open>The number of distinct identifiers stands for the size of the source's hash set.\<close>

definition linux_evidence_complete ::
    "Session \<Rightarrow> Evidence list \<Rightarrow> LinuxSnapshotAdmissionError + Session" where
  "linux_evidence_complete self evidence =
     (if se_state self \<noteq> Observe then Inl InvalidSessionState
      else case se_linux_snapshot self of
        None \<Rightarrow> Inl InvalidEvidenceBinding
      | Some binding \<Rightarrow>
          if length (filter (\<lambda>i. ev_collector i = COLLECTOR) evidence) \<noteq> 1
             \<or> length (filter (\<lambda>i. ev_id i = sb_evidence_id binding \<and> ev_collector i = COLLECTOR
                 \<and> ev_sha256 i = sb_evidence_sha256 binding \<and> ev_target i = sb_target binding)
                 evidence) \<noteq> 1
             \<or> length (remdups (map ev_id evidence)) \<noteq> length evidence
             \<or> list_ex (\<lambda>i. ev_target i \<noteq> sb_target binding \<or> \<not> is_untrusted i) evidence
          then Inl IncompleteLinuxCorpus
          else case se_mode self of
            LinuxResident \<Rightarrow>
              if length evidence \<noteq> length LINUX_RESIDENT_REQUIRED_COLLECTORS + 1
                 \<or> list_ex (\<lambda>i. ev_collector i \<noteq> COLLECTOR \<and>
                     \<not> List.member LINUX_RESIDENT_REQUIRED_COLLECTORS (ev_collector i)) evidence
                 \<or> list_ex (\<lambda>c. length (filter (\<lambda>i. ev_collector i = c) evidence) \<noteq> 1)
                     LINUX_RESIDENT_REQUIRED_COLLECTORS
              then Inl IncompleteLinuxCorpus
              else Inr (self\<lparr>se_state := Diagnose\<rparr>)
          | LinuxRescue \<Rightarrow>
              if length evidence \<noteq> 1 then Inl IncompleteLinuxCorpus
              else Inr (self\<lparr>se_state := Diagnose\<rparr>)
          | NonLinux \<Rightarrow> Inl ModeMismatch)"

section \<open>Staging\<close>

fun validate_steps :: "ActionStep list \<Rightarrow> PolicyError + unit" where
  "validate_steps [] = Inr ()"
| "validate_steps (step # steps) =
     (case validate_phase_zero step of Inl e \<Rightarrow> Inl e | Inr _ \<Rightarrow> validate_steps steps)"

definition Session_stage :: "Session \<Rightarrow> ValidatedPlan \<Rightarrow> PolicyError + Session" where
  "Session_stage self plan =
     (if se_state self \<noteq> Diagnose then Inl MutationDisabled
      else case validate_steps (vp_steps plan) of
        Inl e \<Rightarrow> Inl e
      | Inr _ \<Rightarrow>
          if vp_target_fingerprint plan \<noteq> se_fingerprint self then Inl MutationDisabled
          else Inr (self\<lparr>se_state := Plan\<rparr>))"

definition stage_fixture_repair_lab :: "Session \<Rightarrow> ValidatedPlan \<Rightarrow> PolicyError + Session" where
  "stage_fixture_repair_lab self plan =
     (if se_state self \<noteq> Diagnose then Inl MutationDisabled
      else case validate_fixture_repair_lab_plan plan (se_fingerprint self) of
        Inl e \<Rightarrow> Inl e
      | Inr _ \<Rightarrow> Inr (self\<lparr>se_state := Plan\<rparr>))"

text \<open>The staging calls below return the session together with the admission they hand out.\<close>

definition stage_rescue_fstab_production_candidate ::
    "Session \<Rightarrow> ValidatedPlan \<Rightarrow> string \<Rightarrow> string \<Rightarrow> string \<Rightarrow> u64
     \<Rightarrow> RescueFstabCandidateAdmissionError + Session \<times> RescueFstabCandidateAdmission" where
  "stage_rescue_fstab_production_candidate self plan session_id plan_hash resource_precondition
       last_approval_sequence =
     (if se_state self \<noteq> Diagnose then Inl CandidateInvalidSessionState
      else if se_mode self \<noteq> LinuxRescue then Inl CandidateWrongSessionMode
      else case validate_rescue_fstab_production_candidate_plan plan (se_fingerprint self) of
        Inl e \<Rightarrow> Inl (CandidatePolicyRejected e)
      | Inr _ \<Rightarrow>
          (case RescueFstabCandidateBinding_new session_id (vp_plan_id plan) plan_hash
                  (vp_target_fingerprint plan) resource_precondition of
             Inl e \<Rightarrow> Inl e
           | Inr binding \<Rightarrow>
               (case candidate_stage binding last_approval_sequence of
                  Inl e \<Rightarrow> Inl e
                | Inr admission \<Rightarrow> Inr (self\<lparr>se_state := Plan\<rparr>, admission))))"

text \<open>
  The source indexes the two evidence identifiers of the step; \<open>broker_candidate_in_range\<close>
  shows that the accepted policy plan always has them.
\<close>

definition stage_rescue_fstab_broker_candidate ::
    "Session \<Rightarrow> ValidatedPlan \<Rightarrow> RescueFstabBrokerDerivedEvidence \<Rightarrow> u64
     \<Rightarrow> RescueFstabCandidateAdmissionError + Session \<times> RescueFstabCandidateAdmission" where
  "stage_rescue_fstab_broker_candidate self plan evidence last_approval_sequence =
     (if se_state self \<noteq> Observe \<or> se_linux_snapshot self \<noteq> None
      then Inl CandidateInvalidSessionState
      else if se_mode self \<noteq> LinuxRescue then Inl CandidateWrongSessionMode
      else case validate_rescue_fstab_production_candidate_plan plan (se_fingerprint self) of
        Inl e \<Rightarrow> Inl (CandidatePolicyRejected e)
      | Inr _ \<Rightarrow>
          (case vp_steps plan of
             [step] \<Rightarrow>
               if bde_plan_id evidence \<noteq> vp_plan_id plan
                  \<or> bde_target_fingerprint evidence \<noteq> se_fingerprint self
                  \<or> bde_target_fingerprint evidence \<noteq> vp_target_fingerprint plan
                  \<or> bde_action_id evidence \<noteq> as_action step
                  \<or> bde_resource_id evidence \<noteq> RESCUE_FSTAB_RESOURCE_ID
                  \<or> bde_finding_id evidence \<noteq> RESCUE_FSTAB_FINDING_ID
                  \<or> bde_finding_version evidence \<noteq> RESCUE_FSTAB_FINDING_VERSION
                  \<or> fst (fst (bde_evidence evidence)) \<noteq> as_evidence_ids step ! 0
                  \<or> fst (snd (bde_evidence evidence)) \<noteq> as_evidence_ids step ! 1
               then Inl CandidateInvalidBrokerEvidence
               else
                 (case RescueFstabCandidateBinding_new (bde_session_id evidence)
                         (bde_plan_id evidence) (bde_plan_hash evidence)
                         (bde_target_fingerprint evidence) (bde_target_snapshot evidence) of
                    Inl e \<Rightarrow> Inl e
                  | Inr binding \<Rightarrow>
                      (case candidate_stage binding last_approval_sequence of
                         Inl e \<Rightarrow> Inl e
                       | Inr admission \<Rightarrow> Inr (self\<lparr>se_state := Plan\<rparr>, admission)))
           | _ \<Rightarrow> Inl CandidateInvalidBrokerEvidence))"

definition stage_rescue_repair_rollback ::
    "Session \<Rightarrow> ValidatedPlan \<Rightarrow> RescueFstabRollbackBinding
     \<Rightarrow> RescueFstabRollbackAdmissionError + Session \<times> RescueFstabRollbackAdmission" where
  "stage_rescue_repair_rollback self plan binding =
     (if se_state self \<noteq> Observe \<or> se_linux_snapshot self \<noteq> None
      then Inl RollbackInvalidSessionState
      else if se_mode self \<noteq> LinuxRescue then Inl RollbackWrongSessionMode
      else case resource_validate_plan (rrb_resource binding) plan (se_fingerprint self) of
        Inl e \<Rightarrow> Inl (RollbackPolicyRejected e)
      | Inr _ \<Rightarrow>
          if rrb_plan_id binding \<noteq> vp_plan_id plan
             \<or> rrb_target_fingerprint binding \<noteq> vp_target_fingerprint plan
             \<or> rrb_target_fingerprint binding \<noteq> se_fingerprint self
          then Inl RollbackBindingMismatch
          else case rollback_admission_stage binding of
            Inl e \<Rightarrow> Inl e
          | Inr admission \<Rightarrow> Inr (self\<lparr>se_state := Plan\<rparr>, admission))"

definition stage_rescue_fstab_rollback ::
    "Session \<Rightarrow> ValidatedPlan \<Rightarrow> RescueFstabRollbackBinding
     \<Rightarrow> RescueFstabRollbackAdmissionError + Session \<times> RescueFstabRollbackAdmission" where
  "stage_rescue_fstab_rollback self plan binding =
     (if rrb_resource binding \<noteq> Fstab then Inl RollbackBindingMismatch
      else stage_rescue_repair_rollback self plan binding)"

section \<open>The transition system\<close>

inductive session_step ::
    "(string \<Rightarrow> string) \<Rightarrow> (LinuxNormalizedSnapshot \<Rightarrow> string option)
     \<Rightarrow> (LinuxNormalizedSnapshotEnvelope \<Rightarrow> string option)
     \<Rightarrow> (string \<Rightarrow> LinuxNormalizedSnapshotEnvelope option) \<Rightarrow> Session \<Rightarrow> Session \<Rightarrow> bool"
  for sha ss ser de where
  step_evidence: "evidence_complete s = Inr s' \<Longrightarrow> session_step sha ss ser de s s'"
| step_admit: "admit_linux_snapshot sha ss ser de s e b = Inr s' \<Longrightarrow> session_step sha ss ser de s s'"
| step_corpus: "linux_evidence_complete s es = Inr s' \<Longrightarrow> session_step sha ss ser de s s'"
| step_stage: "Session_stage s plan = Inr s' \<Longrightarrow> session_step sha ss ser de s s'"
| step_fixture: "stage_fixture_repair_lab s plan = Inr s' \<Longrightarrow> session_step sha ss ser de s s'"
| step_candidate:
    "stage_rescue_fstab_production_candidate s plan i h r q = Inr (s', a) \<Longrightarrow>
     session_step sha ss ser de s s'"
| step_broker:
    "stage_rescue_fstab_broker_candidate s plan v q = Inr (s', a) \<Longrightarrow> session_step sha ss ser de s s'"
| step_rollback:
    "stage_rescue_repair_rollback s plan b = Inr (s', r) \<Longrightarrow> session_step sha ss ser de s s'"
| step_fstab_rollback:
    "stage_rescue_fstab_rollback s plan b = Inr (s', r) \<Longrightarrow> session_step sha ss ser de s s'"

inductive session_run ::
    "(string \<Rightarrow> string) \<Rightarrow> (LinuxNormalizedSnapshot \<Rightarrow> string option)
     \<Rightarrow> (LinuxNormalizedSnapshotEnvelope \<Rightarrow> string option)
     \<Rightarrow> (string \<Rightarrow> LinuxNormalizedSnapshotEnvelope option) \<Rightarrow> Session \<Rightarrow> Session \<Rightarrow> bool"
  for sha ss ser de where
  run_refl: "session_run sha ss ser de s s"
| run_step: "session_run sha ss ser de s t \<Longrightarrow> session_step sha ss ser de t u \<Longrightarrow>
    session_run sha ss ser de s u"

fun mode_capture :: "SessionMode \<Rightarrow> string" where
  "mode_capture NonLinux = []"
| "mode_capture LinuxResident = ''resident''"
| "mode_capture LinuxRescue = ''rescue''"

definition bound_for :: "Session \<Rightarrow> LinuxSnapshotBinding \<Rightarrow> bool" where
  "bound_for s b \<longleftrightarrow>
     se_mode s \<noteq> NonLinux \<and> sb_target_fingerprint b = se_fingerprint s \<and>
     sb_capture_mode b = mode_capture (se_mode s) \<and> sb_evidence_id b \<noteq> []"

definition session_inv :: "Session \<Rightarrow> bool" where
  "session_inv s \<longleftrightarrow>
     se_state s \<in> {Observe, Diagnose, Plan} \<and>
     pred_option (bound_for s) (se_linux_snapshot s) \<and>
     (se_state s = Diagnose \<and> se_mode s \<noteq> NonLinux \<longrightarrow> se_linux_snapshot s \<noteq> None) \<and>
     (se_state s = Plan \<and> se_mode s = LinuxResident \<longrightarrow> se_linux_snapshot s \<noteq> None)"

lemma admit_step:
  assumes "admit_linux_snapshot sha ss ser de s e b = Inr s'"
  shows "se_state s = Observe \<and> (\<exists>v. s' = s\<lparr>se_linux_snapshot := Some v\<rparr> \<and> bound_for s v)"
proof -
  have start: "se_state s = Observe" "se_linux_snapshot s = None"
    using assms by (simp_all add: admit_linux_snapshot_def split: if_splits)
  then obtain env where env: "envelope_parse sha ss ser de b = Inr env"
    using assms by (cases "envelope_parse sha ss ser de b") (simp_all add: admit_linux_snapshot_def)
  then obtain c ok where mode: "capture_for_mode (se_mode s) (en_capture env) e = Some (c, ok)"
    using assms start
    by (cases "capture_for_mode (se_mode s) (en_capture env) e")
       (auto simp: admit_linux_snapshot_def Let_def split: if_splits)
  then have "se_mode s \<noteq> NonLinux \<and> c = mode_capture (se_mode s)"
    by (cases "se_mode s") (auto split: if_splits)
  moreover have "ev_id e \<noteq> []" "s' = s\<lparr>se_linux_snapshot := Some
      \<lparr>sb_evidence_id = ev_id e, sb_evidence_sha256 = sha b,
       sb_snapshot_sha256 = en_snapshot_sha256 env, sb_target = ev_target e,
       sb_target_fingerprint = se_fingerprint s, sb_capture_mode = c\<rparr>\<rparr>"
    using assms start env mode
    by (simp_all add: admit_linux_snapshot_def Let_def split: if_splits)
  ultimately show ?thesis using start by (intro conjI exI) (auto simp: bound_for_def)
qed

text \<open>Every other operation only changes the state, in one of three ways.\<close>

definition advances :: "Session \<Rightarrow> Session \<Rightarrow> bool" where
  "advances s s' \<longleftrightarrow>
     (se_state s = Observe \<and> s' = s\<lparr>se_state := Diagnose\<rparr> \<and>
        (se_mode s = NonLinux \<or> se_linux_snapshot s \<noteq> None)) \<or>
     (se_state s = Diagnose \<and> s' = s\<lparr>se_state := Plan\<rparr>) \<or>
     (se_state s = Observe \<and> se_mode s = LinuxRescue \<and> se_linux_snapshot s = None \<and>
        s' = s\<lparr>se_state := Plan\<rparr>)"

lemma evidence_complete_advances: "evidence_complete s = Inr s' \<Longrightarrow> advances s s'"
  by (simp add: evidence_complete_def advances_def split: if_splits)

lemma linux_evidence_complete_advances: "linux_evidence_complete s es = Inr s' \<Longrightarrow> advances s s'"
  unfolding linux_evidence_complete_def advances_def
  by (cases "se_linux_snapshot s"; cases "se_mode s") (simp_all split: if_splits)

lemma stage_advances:
  "Session_stage s plan = Inr s' \<Longrightarrow> advances s s'"
  "stage_fixture_repair_lab s plan = Inr s' \<Longrightarrow> advances s s'"
  by (simp_all add: Session_stage_def stage_fixture_repair_lab_def advances_def
      split: if_splits sum.splits)

lemma candidate_advances:
  "stage_rescue_fstab_production_candidate s plan i h r q = Inr (s', a) \<Longrightarrow> advances s s'"
  "stage_rescue_repair_rollback s plan b = Inr (s', rr) \<Longrightarrow> advances s s'"
  by (auto simp: stage_rescue_fstab_production_candidate_def stage_rescue_repair_rollback_def
      advances_def split: if_splits sum.splits)

lemma broker_candidate_advances:
  "stage_rescue_fstab_broker_candidate s plan v q = Inr (s', a) \<Longrightarrow> advances s s'"
  unfolding stage_rescue_fstab_broker_candidate_def advances_def
  by (simp split: if_splits sum.splits list.splits)

lemma fstab_rollback_advances:
  "stage_rescue_fstab_rollback s plan b = Inr (s', rr) \<Longrightarrow> advances s s'"
  by (auto simp: stage_rescue_fstab_rollback_def intro: candidate_advances split: if_splits)

lemmas operations_advance = evidence_complete_advances linux_evidence_complete_advances
  stage_advances candidate_advances broker_candidate_advances fstab_rollback_advances

lemma session_step_cases:
  assumes "session_step sha ss ser de s s'"
  obtains (admit) v where "se_state s = Observe" and "s' = s\<lparr>se_linux_snapshot := Some v\<rparr>"
    and "bound_for s v"
  | (advance) "advances s s'"
  using assms by cases (blast dest: admit_step operations_advance)+

lemma bound_for_update [simp]:
  "bound_for (s\<lparr>se_state := x\<rparr>) = bound_for s" "bound_for (s\<lparr>se_linux_snapshot := v\<rparr>) = bound_for s"
  by (simp_all add: bound_for_def fun_eq_iff)

lemma session_step_keeps:
  assumes "session_step sha ss ser de s s'"
  shows "se_mode s' = se_mode s \<and> se_fingerprint s' = se_fingerprint s \<and> se_state s \<noteq> Plan \<and>
    (session_inv s \<longrightarrow> session_inv s')"
  using assms
proof (cases rule: session_step_cases)
  case (admit v)
  then show ?thesis by (simp add: session_inv_def)
next
  case advance
  then show ?thesis by (auto simp: advances_def session_inv_def)
qed

lemma session_run_keeps:
  "session_run sha ss ser de s t \<Longrightarrow>
     se_mode t = se_mode s \<and> se_fingerprint t = se_fingerprint s \<and>
     (session_inv s \<longrightarrow> session_inv t) \<and> (se_state s = Plan \<longrightarrow> t = s)"
  by (induction rule: session_run.induct) (auto dest: session_step_keeps)

section \<open>Properties\<close>

text \<open>
  C6: whatever calls a session receives, its mode and fingerprint are the ones it was created
  with; it never leaves \<open>Observe\<close>, \<open>Diagnose\<close> and \<open>Plan\<close>, so no repair is executed through it; a
  Linux session that reached \<open>Diagnose\<close>, and a resident one that reached \<open>Plan\<close>, has an admitted
  snapshot; an admitted snapshot is bound to the fingerprint and the capture of the session's mode;
  and no call leads out of \<open>Plan\<close>.
\<close>

theorem session_reachable:
  assumes "session_run sha ss ser de (Session_new fp mode) s"
  shows "se_mode s = mode \<and> se_fingerprint s = fp \<and> se_state s \<in> {Observe, Diagnose, Plan} \<and>
    (se_state s = Diagnose \<and> mode \<noteq> NonLinux \<or> se_state s = Plan \<and> mode = LinuxResident \<longrightarrow>
       (\<exists>b. se_linux_snapshot s = Some b)) \<and>
    (\<forall>b. se_linux_snapshot s = Some b \<longrightarrow> mode \<noteq> NonLinux \<and> sb_target_fingerprint b = fp \<and>
       sb_capture_mode b = mode_capture mode) \<and>
    (se_state s = Plan \<longrightarrow> (\<forall>t. \<not> session_step sha ss ser de s t))"
proof -
  have "session_inv (Session_new fp mode)" by (simp add: session_inv_def Session_new_def)
  with session_run_keeps [OF assms]
  have "se_mode s = mode" "se_fingerprint s = fp" "session_inv s"
    by (simp_all add: Session_new_def)
  then show ?thesis
    using session_step_keeps by (auto simp: session_inv_def bound_for_def)
qed

theorem session_reachable_witness:
  "\<exists>s. session_run (\<lambda>_. []) (\<lambda>_. None) (\<lambda>_. None) (\<lambda>_. None) (Session_new ''f'' NonLinux) s \<and>
     se_state s = Plan \<and> (\<forall>t. \<not> session_step (\<lambda>_. []) (\<lambda>_. None) (\<lambda>_. None) (\<lambda>_. None) s t)"
proof -
  let ?new = "Session_new ''f'' NonLinux"
  let ?plan = "\<lparr>vp_plan_id = ''P-1'', vp_target_fingerprint = ''f'', vp_steps = []\<rparr>"
  have "evidence_complete ?new = Inr (?new\<lparr>se_state := Diagnose\<rparr>)"
    by (simp add: evidence_complete_def Session_new_def)
  moreover have "Session_stage (?new\<lparr>se_state := Diagnose\<rparr>) ?plan
      = Inr (?new\<lparr>se_state := Diagnose, se_state := Plan\<rparr>)"
    by (simp add: Session_stage_def Session_new_def)
  ultimately have run: "session_run (\<lambda>_. []) (\<lambda>_. None) (\<lambda>_. None) (\<lambda>_. None) ?new
      (?new\<lparr>se_state := Diagnose, se_state := Plan\<rparr>)"
    by (blast intro: run_refl run_step step_evidence step_stage)
  from session_reachable [OF run] run show ?thesis by (intro exI conjI) auto
qed

lemma count_collectors:
  "count (mset (map ev_collector es)) c = length (filter (\<lambda>i. ev_collector i = c) es)"
  by (induction es) auto

lemma required_collectors:
  "distinct (COLLECTOR # LINUX_RESIDENT_REQUIRED_COLLECTORS)"
  by (simp add: COLLECTOR_def LINUX_RESIDENT_REQUIRED_COLLECTORS_def)

lemma exact_collectors:
  assumes "distinct cs"
  shows "mset (map ev_collector es) = mset cs \<longleftrightarrow>
    (\<forall>c \<in> set cs. length (filter (\<lambda>i. ev_collector i = c) es) = 1) \<and>
    (\<forall>i \<in> set es. ev_collector i \<in> set cs)"
    (is "?l \<longleftrightarrow> ?r")
proof
  assume l: ?l
  have "length (filter (\<lambda>i. ev_collector i = c) es) = 1" if "c \<in> set cs" for c
    using l that assms by (simp add: count_collectors [symmetric] distinct_count_atmost_1)
  moreover have "set (map ev_collector es) = set cs" using l by (rule mset_eq_setD)
  ultimately show ?r by force
next
  assume r: ?r
  show ?l
  proof (rule multiset_eqI)
    fix c
    show "count (mset (map ev_collector es)) c = count (mset cs) c"
    proof (cases "c \<in> set cs")
      case True
      then show ?thesis
        using r assms by (simp add: count_collectors distinct_count_atmost_1 del: mset_map)
    next
      case False
      then have "count (mset (map ev_collector es)) c = 0" "count (mset cs) c = 0"
        using r by (auto simp: count_eq_zero_iff simp del: mset_map)
      then show ?thesis by simp
    qed
  qed
qed

lemma bound_snapshot_iff:
  assumes one: "length (filter (\<lambda>i. ev_collector i = COLLECTOR) es) = 1"
    and target: "list_all (\<lambda>i. ev_target i = sb_target b \<and> is_untrusted i) es"
  shows "length (filter (\<lambda>i. ev_id i = sb_evidence_id b \<and> ev_collector i = COLLECTOR
      \<and> ev_sha256 i = sb_evidence_sha256 b \<and> ev_target i = sb_target b) es) = 1 \<longleftrightarrow>
    list_ex (\<lambda>i. ev_collector i = COLLECTOR \<and> ev_id i = sb_evidence_id b \<and>
      ev_sha256 i = sb_evidence_sha256 b) es"
    (is "length (filter ?B es) = 1 \<longleftrightarrow> list_ex ?X es")
proof (cases rule: filter_unique [OF one])
  case (1 x)
  let ?Q = "\<lambda>i. ev_id i = sb_evidence_id b \<and> ev_sha256 i = sb_evidence_sha256 b"
  have "filter ?B es = filter ?Q (filter (\<lambda>i. ev_collector i = COLLECTOR) es)"
    using target by (auto simp: list_all_iff intro!: filter_cong)
  then have "length (filter ?B es) = 1 \<longleftrightarrow> ?Q x" by (simp add: 1(1))
  moreover have "list_ex ?X es \<longleftrightarrow> ?Q x"
    unfolding list_ex_iff using 1(2-4) by metis
  ultimately show ?thesis by simp
qed

text \<open>
  C24: a resident session completes its evidence exactly when the corpus has one item of each of
  the eleven required collectors and of the snapshot collector and nothing else, the identifiers
  are distinct, every item is untrusted and of the bound target, and the one snapshot item is the
  admitted one.
\<close>

theorem resident_corpus_exact:
  assumes "se_state s = Observe" and "se_mode s = LinuxResident"
    and "se_linux_snapshot s = Some b"
  shows "linux_evidence_complete s es = Inr (s\<lparr>se_state := Diagnose\<rparr>) \<longleftrightarrow>
    mset (map ev_collector es) = mset (COLLECTOR # LINUX_RESIDENT_REQUIRED_COLLECTORS) \<and>
    distinct (map ev_id es) \<and>
    list_all (\<lambda>i. ev_target i = sb_target b \<and> is_untrusted i) es \<and>
    list_ex (\<lambda>i. ev_collector i = COLLECTOR \<and> ev_id i = sb_evidence_id b \<and>
      ev_sha256 i = sb_evidence_sha256 b) es"
    (is "?ok \<longleftrightarrow> ?m \<and> ?d \<and> ?t \<and> ?x")
proof -
  let ?req = "LINUX_RESIDENT_REQUIRED_COLLECTORS"
  let ?snap = "filter (\<lambda>i. ev_collector i = COLLECTOR) es"
  let ?bound = "filter (\<lambda>i. ev_id i = sb_evidence_id b \<and> ev_collector i = COLLECTOR
    \<and> ev_sha256 i = sb_evidence_sha256 b \<and> ev_target i = sb_target b) es"
  let ?all = "\<forall>c \<in> set ?req. length (filter (\<lambda>i. ev_collector i = c) es) = 1"
  let ?known = "\<forall>i \<in> set es. ev_collector i = COLLECTOR \<or> ev_collector i \<in> set ?req"
  have m: "?m \<longleftrightarrow> length ?snap = 1 \<and> ?all \<and> ?known"
    using exact_collectors [OF required_collectors, of es] by auto
  have len: "?m \<Longrightarrow> length es = length ?req + 1"
    by (drule mset_eq_length) simp
  have d: "?d \<longleftrightarrow> length (remdups (map ev_id es)) = length es"
    using length_remdups_eq [of "map ev_id es"] length_remdups_leq
      by (metis distinct_remdups_id length_map length_remdups_card_conv card_distinct)
  have bound: "length ?bound = 1 \<longleftrightarrow> ?x" if "length ?snap = 1" and ?t
    using that by (rule bound_snapshot_iff)
  have "?ok \<longleftrightarrow> length ?snap = 1 \<and> length ?bound = 1 \<and> ?d \<and> ?t \<and>
      length es = length ?req + 1 \<and> ?known \<and> ?all"
    using assms by (auto simp: linux_evidence_complete_def d list_ex_iff list_all_iff)
  then show ?thesis using m len bound by blast
qed

definition example_item :: "string \<Rightarrow> Evidence" where
  "example_item c = \<lparr>ev_id = ''E-'' @ c, ev_collector = c, ev_target = ''local-machine'',
     ev_captured_at = [], ev_content_type = CONTENT_TYPE, ev_sha256 = ''h'', ev_sensitivity = [],
     ev_trust = ''observed-untrusted'', ev_summary = [], ev_blob_ref = ''sha256:h''\<rparr>"

definition example_resident :: Session where
  "example_resident = (Session_new ''f'' LinuxResident)\<lparr>se_linux_snapshot := Some
     \<lparr>sb_evidence_id = ''E-'' @ COLLECTOR, sb_evidence_sha256 = ''h'', sb_snapshot_sha256 = ''n'',
      sb_target = ''local-machine'', sb_target_fingerprint = ''f'', sb_capture_mode = ''resident''\<rparr>\<rparr>"

theorem resident_corpus_exact_witness:
  "linux_evidence_complete example_resident
     (map example_item (rev (COLLECTOR # LINUX_RESIDENT_REQUIRED_COLLECTORS)))
       = Inr (example_resident\<lparr>se_state := Diagnose\<rparr>) \<and>
   linux_evidence_complete example_resident
     (map example_item (COLLECTOR # tl LINUX_RESIDENT_REQUIRED_COLLECTORS))
       \<noteq> Inr (example_resident\<lparr>se_state := Diagnose\<rparr>)"
proof -
  let ?cs = "COLLECTOR # LINUX_RESIDENT_REQUIRED_COLLECTORS"
  have collectors: "map ev_collector (map example_item cs) = cs" for cs
    by (simp add: example_item_def comp_def)
  have "map ev_id (map example_item cs) = map (\<lambda>c. ''E-'' @ c) cs" for cs
    by (simp add: example_item_def)
  then have ids: "distinct cs \<Longrightarrow> distinct (map ev_id (map example_item cs))" for cs
    by (simp only: distinct_map) (simp add: inj_on_def)
  have start: "se_state example_resident = Observe" "se_mode example_resident = LinuxResident"
    by (simp_all add: example_resident_def Session_new_def)
  have snap: "se_linux_snapshot example_resident = Some
     \<lparr>sb_evidence_id = ''E-'' @ COLLECTOR, sb_evidence_sha256 = ''h'', sb_snapshot_sha256 = ''n'',
      sb_target = ''local-machine'', sb_target_fingerprint = ''f'', sb_capture_mode = ''resident''\<rparr>"
    by (simp add: example_resident_def)
  note exact = resident_corpus_exact [OF start snap]
  have "mset (COLLECTOR # tl LINUX_RESIDENT_REQUIRED_COLLECTORS) \<noteq> mset ?cs"
    by (auto dest!: mset_eq_length simp: LINUX_RESIDENT_REQUIRED_COLLECTORS_def)
  moreover have "distinct (rev ?cs)" using required_collectors by simp
  ultimately show ?thesis
    unfolding exact collectors using ids [of "rev ?cs"]
    by (auto simp: example_item_def is_untrusted_def list_all_iff list_ex_iff)
qed

lemma candidate_plan_fields:
  "vp_plan_id (fstab_candidate_plan p f) = p"
  "vp_target_fingerprint (fstab_candidate_plan p f) = f"
  by (simp_all add: closed_plan_defs)

lemma broker_candidate_in_range:
  assumes "validate_rescue_fstab_production_candidate_plan plan fp = Inr ()"
    and "vp_steps plan = [step]"
  shows "length (as_evidence_ids step) = 2"
proof -
  have "plan = fstab_candidate_plan (vp_plan_id plan) fp" using assms(1) by (simp add: validator)
  then have "as_evidence_ids (hd (vp_steps plan)) = RESCUE_FSTAB_EVIDENCE_IDS"
    by (metis closed_plan_def fstab_candidate_plan_def ActionStep.select_convs(4) list.sel(1)
        ValidatedPlan.select_convs(3))
  then show ?thesis using assms(2) by (simp add: RESCUE_FSTAB_EVIDENCE_IDS_def)
qed

lemma candidate_stage_ok:
  "candidate_stage b q = Inr a \<Longrightarrow> adm_binding a = b \<and> adm_state a = CandidateStaged \<and>
     unat (adm_next_approval_sequence a) = unat q + 1"
  by (auto simp: candidate_stage_def dest: checked_add_Some split: option.splits)

lemma production_candidate_ok:
  assumes "stage_rescue_fstab_production_candidate s plan i h r q = Inr (s', a)"
  obtains b where "se_state s = Diagnose" and "se_mode s = LinuxRescue"
    and "s' = s\<lparr>se_state := Plan\<rparr>"
    and "validate_rescue_fstab_production_candidate_plan plan (se_fingerprint s) = Inr ()"
    and "RescueFstabCandidateBinding_new i (vp_plan_id plan) h (vp_target_fingerprint plan) r = Inr b"
    and "candidate_stage b q = Inr a"
  using assms
  by (auto simp: stage_rescue_fstab_production_candidate_def split: if_splits sum.splits)

lemma broker_candidate_ok:
  assumes "stage_rescue_fstab_broker_candidate s plan v q = Inr (s', a)"
  obtains b where "se_state s = Observe" and "se_linux_snapshot s = None"
    and "se_mode s = LinuxRescue" and "s' = s\<lparr>se_state := Plan\<rparr>"
    and "validate_rescue_fstab_production_candidate_plan plan (se_fingerprint s) = Inr ()"
    and "bde_plan_id v = vp_plan_id plan" and "bde_target_fingerprint v = se_fingerprint s"
    and "RescueFstabCandidateBinding_new (bde_session_id v) (bde_plan_id v) (bde_plan_hash v)
      (bde_target_fingerprint v) (bde_target_snapshot v) = Inr b"
    and "candidate_stage b q = Inr a"
proof -
  have start: "se_state s = Observe" "se_linux_snapshot s = None" "se_mode s = LinuxRescue"
    using assms by (simp_all add: stage_rescue_fstab_broker_candidate_def split: if_splits)
  moreover from this
  have policy: "validate_rescue_fstab_production_candidate_plan plan (se_fingerprint s) = Inr ()"
    using assms
    by (cases "validate_rescue_fstab_production_candidate_plan plan (se_fingerprint s)")
       (simp_all add: stage_rescue_fstab_broker_candidate_def)
  moreover obtain step where "vp_steps plan = [step]"
    using assms start policy
    by (auto simp: stage_rescue_fstab_broker_candidate_def split: list.splits)
  ultimately show ?thesis
    using assms that
    by (auto simp: stage_rescue_fstab_broker_candidate_def split: if_splits sum.splits)
qed

lemma candidate_plan_target:
  assumes "validate_rescue_fstab_production_candidate_plan plan fp = Inr ()"
  shows "plan = fstab_candidate_plan (vp_plan_id plan) fp" and "vp_target_fingerprint plan = fp"
proof -
  show plan: "plan = fstab_candidate_plan (vp_plan_id plan) fp"
    using assms unfolding fstab_candidate_ok by (rule conjunct2)
  show "vp_target_fingerprint plan = fp"
    using arg_cong [OF plan, of vp_target_fingerprint] unfolding candidate_plan_fields .
qed

definition example_rescue :: "State \<Rightarrow> Session" where
  "example_rescue st = (Session_new example_fingerprint LinuxRescue)\<lparr>se_state := st\<rparr>"

lemma example_candidate_facts:
  "validate_rescue_fstab_production_candidate_plan
     (fstab_candidate_plan ''P-1'' example_fingerprint) example_fingerprint = Inr ()"
  "RescueFstabCandidateBinding_new ''S-1'' ''P-1'' example_fingerprint example_fingerprint
     example_fingerprint = Inr example_candidate_binding"
  "\<exists>a. candidate_stage example_candidate_binding 4 = Inr a"
proof -
  show "validate_rescue_fstab_production_candidate_plan
     (fstab_candidate_plan ''P-1'' example_fingerprint) example_fingerprint = Inr ()"
    unfolding fstab_candidate_ok candidate_plan_fields by (simp add: example_fingerprint_valid)
  have "prefixed_id ''S-'' ''S-1''" "prefixed_id ''P-'' ''P-1''"
    by (simp_all add: prefixed_id_def ascii_class_defs)
  then show "RescueFstabCandidateBinding_new ''S-1'' ''P-1'' example_fingerprint example_fingerprint
     example_fingerprint = Inr example_candidate_binding"
    by (simp add: RescueFstabCandidateBinding_new_def validator example_candidate_binding_def)
  show "\<exists>a. candidate_stage example_candidate_binding 4 = Inr a"
    by (simp add: candidate_stage_def checked_add_def)
qed

lemma example_rescue_fields:
  "se_state (example_rescue st) = st" "se_mode (example_rescue st) = LinuxRescue"
  "se_fingerprint (example_rescue st) = example_fingerprint"
  "se_linux_snapshot (example_rescue st) = None"
  by (simp_all add: example_rescue_def Session_new_def)

text \<open>
  the session stages the Rescue \<^verbatim>\<open>fstab\<close> candidate from \<open>Diagnose\<close> only in a Rescue session,
  only with the one plan of the contract for the session's own target, and hands out an unapproved
  admission bound to that plan and target whose next approval number is one more than the last.
\<close>

theorem production_candidate_staging_bound:
  assumes "stage_rescue_fstab_production_candidate s plan i h r q = Inr (s', a)"
  shows "se_state s = Diagnose \<and> se_mode s = LinuxRescue \<and> s' = s\<lparr>se_state := Plan\<rparr> \<and>
    plan = fstab_candidate_plan (vp_plan_id plan) (se_fingerprint s) \<and>
    adm_binding a = \<lparr>rcb_session_id = i, rcb_plan_id = vp_plan_id plan, rcb_plan_hash = h,
      rcb_target_fingerprint = se_fingerprint s, rcb_resource_precondition = r\<rparr> \<and>
    adm_state a = CandidateStaged \<and> unat (adm_next_approval_sequence a) = unat q + 1"
  using assms
proof (cases rule: production_candidate_ok)
  case (1 b)
  note plan = candidate_plan_target [OF 1(4)]
  from candidate_binding_new_ok [OF 1(5)] candidate_stage_ok [OF 1(6)] 1(1-3) plan(1)
  show ?thesis unfolding plan(2) by blast
qed

theorem production_candidate_staging_bound_witness:
  "\<exists>s' a. stage_rescue_fstab_production_candidate (example_rescue Diagnose)
       (fstab_candidate_plan ''P-1'' example_fingerprint) ''S-1'' example_fingerprint
       example_fingerprint 4 = Inr (s', a) \<and>
     se_state s' = Plan \<and> unat (adm_next_approval_sequence a) = 5"
proof -
  obtain a where "candidate_stage example_candidate_binding 4 = Inr a"
    using example_candidate_facts(3) by blast
  then have run: "stage_rescue_fstab_production_candidate (example_rescue Diagnose)
      (fstab_candidate_plan ''P-1'' example_fingerprint) ''S-1'' example_fingerprint
      example_fingerprint 4 = Inr ((example_rescue Diagnose)\<lparr>se_state := Plan\<rparr>, a)"
    by (simp add: stage_rescue_fstab_production_candidate_def example_rescue_fields
        candidate_plan_fields example_candidate_facts)
  from production_candidate_staging_bound [OF run] run show ?thesis by auto
qed

text \<open>
  the broker's shortcut stages the same contract plan, only in a fresh Rescue session without
  a snapshot, and binds the admission to the session, plan hash and target snapshot of the broker's
  evidence and to the session's own target.
\<close>

theorem broker_candidate_staging_bound:
  assumes "stage_rescue_fstab_broker_candidate s plan v q = Inr (s', a)"
  shows "se_state s = Observe \<and> se_linux_snapshot s = None \<and> se_mode s = LinuxRescue \<and>
    s' = s\<lparr>se_state := Plan\<rparr> \<and> plan = fstab_candidate_plan (bde_plan_id v) (se_fingerprint s) \<and>
    adm_binding a = \<lparr>rcb_session_id = bde_session_id v, rcb_plan_id = bde_plan_id v,
      rcb_plan_hash = bde_plan_hash v, rcb_target_fingerprint = se_fingerprint s,
      rcb_resource_precondition = bde_target_snapshot v\<rparr> \<and>
    adm_state a = CandidateStaged \<and> unat (adm_next_approval_sequence a) = unat q + 1"
  using assms
proof (cases rule: broker_candidate_ok)
  case (1 b)
  from candidate_binding_new_ok [OF 1(8)] candidate_stage_ok [OF 1(9)] 1(1-4)
    candidate_plan_target(1) [OF 1(5)]
  show ?thesis unfolding 1(6,7) by blast
qed

definition example_broker_evidence :: RescueFstabBrokerDerivedEvidence where
  "example_broker_evidence = \<lparr>bde_session_id = ''S-1'', bde_plan_id = ''P-1'',
     bde_plan_hash = example_fingerprint, bde_target_fingerprint = example_fingerprint,
     bde_target_snapshot = example_fingerprint, bde_action_id = RESCUE_FSTAB_ACTION_ID,
     bde_finding_id = RESCUE_FSTAB_FINDING_ID, bde_finding_version = RESCUE_FSTAB_FINDING_VERSION,
     bde_resource_id = RESCUE_FSTAB_RESOURCE_ID,
     bde_evidence = ((RESCUE_FSTAB_EVIDENCE_IDS ! 0, example_fingerprint),
       (RESCUE_FSTAB_EVIDENCE_IDS ! 1, example_fingerprint))\<rparr>"

lemma candidate_plan_steps:
  "vp_steps (fstab_candidate_plan p f) = [\<lparr>as_action = RESCUE_FSTAB_ACTION_ID, as_risk = R2,
     as_target_fingerprint = f, as_evidence_ids = RESCUE_FSTAB_EVIDENCE_IDS,
     as_preconditions = [RESCUE_FSTAB_PREFLIGHT_ID], as_backup = Some RESCUE_FSTAB_BACKUP,
     as_validation = RESCUE_FSTAB_VALIDATION_ID, as_rollback = Some RESCUE_FSTAB_ROLLBACK_ID\<rparr>]"
  by (simp add: closed_plan_defs)

theorem broker_candidate_staging_bound_witness:
  "\<exists>s' a. stage_rescue_fstab_broker_candidate (example_rescue Observe)
       (fstab_candidate_plan ''P-1'' example_fingerprint) example_broker_evidence 4 = Inr (s', a) \<and>
     se_state s' = Plan \<and> rcb_session_id (adm_binding a) = ''S-1''"
proof -
  obtain a where "candidate_stage example_candidate_binding 4 = Inr a"
    using example_candidate_facts(3) by blast
  then have run: "stage_rescue_fstab_broker_candidate (example_rescue Observe)
      (fstab_candidate_plan ''P-1'' example_fingerprint) example_broker_evidence 4
      = Inr ((example_rescue Observe)\<lparr>se_state := Plan\<rparr>, a)"
    by (simp add: stage_rescue_fstab_broker_candidate_def example_rescue_fields
        candidate_plan_fields candidate_plan_steps example_candidate_facts
        example_broker_evidence_def)
  from broker_candidate_staging_bound [OF run] run show ?thesis
    by (auto simp: example_broker_evidence_def)
qed

text \<open>
  C25: the rollback path composes.  In a fresh Rescue session, the canonical rollback plan of
  valid identifiers is admitted for every binding that names it and the session's target, for
  either resource, unless the source approval already used the last sequence number; the
  admission it hands out expects exactly the next number.
\<close>

theorem canonical_rollback_is_staged:
  assumes "canonical_rescue_repair_rollback_plan sha r p i f v t = Inr (plan, h)"
    and "rrb_resource b = r" and "rrb_plan_id b = p" and "rrb_target_fingerprint b = f"
    and "unat (rsb_source_approval_sequence (rrb_source b)) < 2 ^ 64 - 1"
  shows "\<exists>a. stage_rescue_repair_rollback (Session_new f LinuxRescue) plan b
      = Inr ((Session_new f LinuxRescue)\<lparr>se_state := Plan\<rparr>, a) \<and> rad_binding a = b \<and>
    rad_next_approval_sequence a = rsb_source_approval_sequence (rrb_source b) + 1"
proof -
  have plan: "plan = rollback_plan_of r p f" and "resource_validate_plan r plan f = Inr ()"
    using assms(1)
    by (auto simp: canonical_rescue_repair_rollback_plan_def Let_def split: if_splits sum.splits)
  moreover have "vp_plan_id plan = p" "vp_target_fingerprint plan = f"
    unfolding plan by (simp_all add: rollback_plan_of_def)
  ultimately show ?thesis
    using assms(2-5)
    by (simp add: stage_rescue_repair_rollback_def Session_new_def rollback_admission_stage_def
        checked_add_def)
qed

theorem canonical_rollback_is_staged_witness:
  "\<exists>plan h a. canonical_rescue_repair_rollback_plan (\<lambda>_. []) Crypttab ''P-2'' ''RB-1''
       example_fingerprint ''B-1'' example_fingerprint = Inr (plan, h) \<and>
     stage_rescue_repair_rollback (Session_new example_fingerprint LinuxRescue) plan
       example_rollback_binding
       = Inr ((Session_new example_fingerprint LinuxRescue)\<lparr>se_state := Plan\<rparr>, a)"
proof -
  have "prefixed_id ''P-'' ''P-2''" "prefixed_id ''RB-'' ''RB-1''" "prefixed_id ''B-'' ''B-1''"
    by (simp_all add: prefixed_id_def ascii_class_defs)
  then obtain plan h where ok: "canonical_rescue_repair_rollback_plan (\<lambda>_. []) Crypttab ''P-2''
      ''RB-1'' example_fingerprint ''B-1'' example_fingerprint = Inr (plan, h)"
    by (simp add: canonical_rollback_plan_eq)
  from canonical_rollback_is_staged [OF this, of example_rollback_binding] ok
  show ?thesis by (simp add: example_rollback_binding_def) blast
qed

end
