(* ===== verification/KA_Lines.thy ===== *)
theory KA_Lines
  imports KA_Prelude
begin

text \<open>
  What the two configuration-file previews of \<^verbatim>\<open>packs/linux\<close> share: UTF-8 validation and
  \<^verbatim>\<open>u32\<close> parsing of the standard library, the loop that splits a document into lines, the
  loop that splits a line into fields, the loop that selects candidate lines, and the one-line
  edit that turns a line into a comment.  Offsets are natural numbers: documents are at most one
  mebibyte long, so they cannot wrap.
\<close>

section \<open>UTF-8 and decimal numbers\<close>

definition byte_in :: "nat \<Rightarrow> nat \<Rightarrow> char \<Rightarrow> bool" where
  "byte_in lo hi c \<longleftrightarrow> lo \<le> of_char c \<and> of_char c \<le> hi"

abbreviation cont :: "char \<Rightarrow> bool" where
  "cont \<equiv> byte_in 0x80 0xBF"

text \<open>\<^verbatim>\<open>std::str::from_utf8\<close>: the well-formed byte sequences of the Unicode standard.\<close>

definition utf8_len :: "char \<Rightarrow> nat" where
  "utf8_len a =
     (if byte_in 0 0x7F a then 1 else if byte_in 0xC2 0xDF a then 2
      else if byte_in 0xE0 0xEF a then 3 else if byte_in 0xF0 0xF4 a then 4 else 0)"

definition utf8_second :: "char \<Rightarrow> char \<Rightarrow> bool" where
  "utf8_second a b \<longleftrightarrow>
     (if byte_in 0xE0 0xE0 a then byte_in 0xA0 0xBF b
      else if byte_in 0xED 0xED a then byte_in 0x80 0x9F b
      else if byte_in 0xF0 0xF0 a then byte_in 0x90 0xBF b
      else if byte_in 0xF4 0xF4 a then byte_in 0x80 0x8F b else cont b)"

definition utf8_width :: "string \<Rightarrow> nat" where
  "utf8_width s =
     (if s = [] then 0
      else let k = utf8_len (s ! 0) in
        if length s < k \<or> 1 < k \<and> \<not> utf8_second (s ! 0) (s ! 1)
           \<or> \<not> list_all cont (drop 2 (take k s))
        then 0 else k)"

lemma utf8_width_le: "utf8_width s \<le> length s"
  by (simp add: utf8_width_def Let_def)

function utf8_valid :: "string \<Rightarrow> bool" where
  "utf8_valid s =
     (if s = [] then True
      else if utf8_width s = 0 then False else utf8_valid (drop (utf8_width s) s))"
  by pat_completeness auto
termination
  by (relation "measure length") auto

declare utf8_valid.simps [simp del]

lemma utf8_valid_Nil [simp]: "utf8_valid []"
  by (simp add: utf8_valid.simps)

lemma utf8_step:
  "s \<noteq> [] \<Longrightarrow> utf8_valid s \<longleftrightarrow> 0 < utf8_width s \<and> utf8_valid (drop (utf8_width s) s)"
  by (subst utf8_valid.simps) simp

text \<open>\<^verbatim>\<open>str::parse::<u32>\<close>: an optional plus sign, then digits, below \<open>2 ^ 32\<close>.\<close>

definition parse_u32 :: "string \<Rightarrow> nat option" where
  "parse_u32 s =
     (let ds = (case s of c # r \<Rightarrow> if c = CHR ''+'' then r else s | [] \<Rightarrow> []) in
      if ds = [] \<or> \<not> list_all ascii_digit ds \<or> digits_value ds \<ge> 2 ^ 32 then None
      else Some (digits_value ds))"

section \<open>Fields and lines\<close>

definition blank :: "char \<Rightarrow> bool" where
  "blank c \<longleftrightarrow> c = CHR '' '' \<or> c = CHR 0x09"

abbreviation newline :: char where
  "newline \<equiv> CHR 0x0A"

function scan_fields ::
    "(string \<Rightarrow> 'e + string) \<Rightarrow> bool \<Rightarrow> nat \<Rightarrow> 'e \<Rightarrow> string list \<Rightarrow> string \<Rightarrow> 'e + string list" where
  "scan_fields dec hash_ends limit err acc content =
     (let c = dropWhile blank content in
      if c = [] \<or> hash_ends \<and> hd c = CHR ''#'' then Inr acc
      else case dec (takeWhile (\<lambda>b. \<not> blank b) c) of
        Inl e \<Rightarrow> Inl e
      | Inr f \<Rightarrow>
          if length acc + 1 > limit then Inl err
          else scan_fields dec hash_ends limit err (acc @ [f]) (dropWhile (\<lambda>b. \<not> blank b) c))"
  by pat_completeness auto
termination
proof (relation "measure (\<lambda>(_, _, _, _, _, content). length content)", goal_cases)
  case 1
  then show ?case by simp
next
  case (2 dec hash_ends limit err acc content c f)
  then have "c \<noteq> []" "\<not> blank (hd c)" using hd_dropWhile [of blank content] by auto
  then have "length (dropWhile (\<lambda>b. \<not> blank b) c) < length c"
    by (cases c) (simp_all add: length_dropWhile_le le_imp_less_Suc)
  also have "\<dots> \<le> length content" using 2(1) by (simp add: length_dropWhile_le)
  finally show ?case by simp
qed

declare scan_fields.simps [simp del]

record ParsedLine =
  pl_start :: nat
  pl_content_end :: nat
  pl_line_number :: nat
  pl_fields :: "string list option"

function scan_lines ::
    "(string \<Rightarrow> 'e + string list option) \<Rightarrow> nat \<Rightarrow> nat \<Rightarrow> string \<Rightarrow> 'e + ParsedLine list" where
  "scan_lines pc start n rest =
     (if rest = [] then Inr []
      else
        let content = takeWhile (\<lambda>b. b \<noteq> newline) rest;
            after = dropWhile (\<lambda>b. b \<noteq> newline) rest;
            content_end = start + length content in
        case pc content of
          Inl e \<Rightarrow> Inl e
        | Inr fs \<Rightarrow>
            (case scan_lines pc (if after = [] then content_end else content_end + 1) (n + 1)
                    (tl after) of
               Inl e \<Rightarrow> Inl e
             | Inr ls \<Rightarrow> Inr (\<lparr>pl_start = start, pl_content_end = content_end,
                              pl_line_number = n, pl_fields = fs\<rparr> # ls)))"
  by pat_completeness auto
termination
proof (relation "measure (\<lambda>(_, _, _, rest). length rest)", goal_cases)
  case 1
  then show ?case by simp
next
  case (2 pc start n rest content after content_end fs)
  have "length after \<le> length rest" using 2(3) by (simp add: length_dropWhile_le)
  with 2(1) show ?case by (cases after) auto
qed

declare scan_lines.simps [simp del]

section \<open>Selection and edit\<close>

text \<open>The check of one line gives an error, nothing, or what is kept of a candidate.\<close>

fun select_lines ::
    "(string list \<Rightarrow> 'e + 'c option) \<Rightarrow> ParsedLine list \<Rightarrow> 'e + (ParsedLine \<times> 'c) list" where
  "select_lines chk [] = Inr []"
| "select_lines chk (l # ls) =
     (case pl_fields l of
        None \<Rightarrow> select_lines chk ls
      | Some fs \<Rightarrow>
          (case chk fs of
             Inl e \<Rightarrow> Inl e
           | Inr None \<Rightarrow> select_lines chk ls
           | Inr (Some c) \<Rightarrow>
               (case select_lines chk ls of Inl e \<Rightarrow> Inl e | Inr cs \<Rightarrow> Inr ((l, c) # cs))))"

definition slice :: "string \<Rightarrow> nat \<Rightarrow> nat \<Rightarrow> string" where
  "slice s a b = take (b - a) (drop a s)"

definition comment_out :: "string \<Rightarrow> string \<Rightarrow> ParsedLine \<Rightarrow> string" where
  "comment_out pre document target =
     take (pl_start target) document @ pre @
     slice document (pl_start target) (pl_content_end target) @
     drop (pl_content_end target) document"

section \<open>How a document is scanned\<close>

lemma map_sum_InrE:
  assumes "map_sum id f r = Inr v"
  obtains w where "r = Inr w" and "v = f w"
  using assms by (cases r) auto

lemma scan_Nil [simp]: "scan_lines pc st n [] = Inr []"
  by (simp add: scan_lines.simps)

definition line_at :: "nat \<Rightarrow> nat \<Rightarrow> string \<Rightarrow> string list option \<Rightarrow> ParsedLine" where
  "line_at st n content fs = \<lparr>pl_start = st, pl_content_end = st + length content,
     pl_line_number = n, pl_fields = fs\<rparr>"

text \<open>One step of the loop, for a line that ends at \<open>post\<close>.\<close>

lemma scan_line:
  assumes "newline \<notin> set content" and "post = [] \<or> hd post = newline"
    and "content \<noteq> [] \<or> post \<noteq> []"
  shows "scan_lines pc st n (content @ post) =
    (case pc content of
       Inl e \<Rightarrow> Inl e
     | Inr fs \<Rightarrow> map_sum id ((#) (line_at st n content fs))
         (scan_lines pc (st + length content + 1) (n + 1) (tl post)))"
proof -
  have "takeWhile (\<lambda>b. b \<noteq> newline) (content @ post) = content"
    and "dropWhile (\<lambda>b. b \<noteq> newline) (content @ post) = post"
    using assms(1,2) by (cases post; auto simp: takeWhile_append dropWhile_append)+
  then show ?thesis
    using assms(3)
    by (subst scan_lines.simps)
       (auto simp: Let_def line_at_def split: sum.splits)
qed

lemma line_split:
  assumes "rest \<noteq> []"
  obtains content post where "rest = content @ post" and "newline \<notin> set content"
    and "post = [] \<or> hd post = newline" and "content \<noteq> [] \<or> post \<noteq> []"
proof
  show "rest = takeWhile (\<lambda>b. b \<noteq> newline) rest @ dropWhile (\<lambda>b. b \<noteq> newline) rest" by simp
  show "newline \<notin> set (takeWhile (\<lambda>b. b \<noteq> newline) rest)" by (auto dest: set_takeWhileD)
  show "dropWhile (\<lambda>b. b \<noteq> newline) rest = [] \<or> hd (dropWhile (\<lambda>b. b \<noteq> newline) rest) = newline"
    using hd_dropWhile [of "\<lambda>b. b \<noteq> newline" rest] by auto
  show "takeWhile (\<lambda>b. b \<noteq> newline) rest \<noteq> [] \<or> dropWhile (\<lambda>b. b \<noteq> newline) rest \<noteq> []"
    using assms by (metis append_Nil takeWhile_dropWhile_id)
qed

text \<open>The part of a document before a line: empty, or ending with a newline.\<close>

definition whole_lines :: "string \<Rightarrow> bool" where
  "whole_lines pre \<longleftrightarrow> pre = [] \<or> last pre = newline"

lemma whole_lines_Nil [simp]: "whole_lines []"
  by (simp add: whole_lines_def)

lemma whole_lines_append: "whole_lines pre \<Longrightarrow> whole_lines (content @ newline # pre)"
  by (auto simp: whole_lines_def)

lemma scan_split:
  assumes "scan_lines pc st n rest = Inr (ls1 @ l # ls2)"
  shows "\<exists>pre content post fs. rest = pre @ content @ post \<and> whole_lines pre \<and>
    newline \<notin> set content \<and> (post = [] \<or> hd post = newline) \<and> (content \<noteq> [] \<or> post \<noteq> []) \<and>
    length ls1 = count_list pre newline \<and> scan_lines pc st n pre = Inr ls1 \<and>
    pc content = Inr fs \<and> l = line_at (st + length pre) (n + length ls1) content fs \<and>
    scan_lines pc (st + length pre + length content + 1) (n + length ls1 + 1) (tl post) = Inr ls2"
  using assms
proof (induction ls1 arbitrary: st n rest)
  case Nil
  then have "rest \<noteq> []" by auto
  then obtain content post where split: "rest = content @ post" "newline \<notin> set content"
    "post = [] \<or> hd post = newline" "content \<noteq> [] \<or> post \<noteq> []" by (rule line_split)
  with Nil obtain fs where "pc content = Inr fs" "l = line_at st n content fs"
    "scan_lines pc (st + length content + 1) (n + 1) (tl post) = Inr ls2"
    by (auto simp: scan_line split: sum.splits elim!: map_sum_InrE)
  with split show ?case
    by (intro exI [of _ "[]"] exI [of _ content] exI [of _ post] exI [of _ fs]) simp
next
  case (Cons a ls1)
  then have "rest \<noteq> []" by auto
  then obtain content post where split: "rest = content @ post" "newline \<notin> set content"
    "post = [] \<or> hd post = newline" "content \<noteq> [] \<or> post \<noteq> []" by (rule line_split)
  with Cons.prems obtain fs where here: "pc content = Inr fs" "a = line_at st n content fs"
    and more: "scan_lines pc (st + length content + 1) (n + 1) (tl post) = Inr (ls1 @ l # ls2)"
    by (auto simp: scan_line split: sum.splits elim!: map_sum_InrE)
  then have post: "post = newline # tl post" using split(3) by (cases post) auto
  from Cons.IH [OF more] obtain pre c q f where tail: "tl post = pre @ c @ q" "whole_lines pre"
    "newline \<notin> set c" "q = [] \<or> hd q = newline" "c \<noteq> [] \<or> q \<noteq> []"
    "length ls1 = count_list pre newline"
    "scan_lines pc (st + length content + 1) (n + 1) pre = Inr ls1" "pc c = Inr f"
    "l = line_at (st + length content + 1 + length pre) (n + 1 + length ls1) c f"
    "scan_lines pc (st + length content + 1 + length pre + length c + 1) (n + 1 + length ls1 + 1)
       (tl q) = Inr ls2" by blast
  let ?pre = "content @ newline # pre"
  have "scan_lines pc st n ?pre = Inr (a # ls1)"
    using scan_line [of content "newline # pre" pc st n] split(2) here tail(7) by simp
  moreover have "rest = ?pre @ c @ q" using split(1) post tail(1) by simp
  moreover have "length (a # ls1) = count_list ?pre newline"
    using split(2) tail(6) by (simp add: count_list_append)
  ultimately show ?case
    using tail whole_lines_append [OF tail(2), of content]
    by (intro exI [of _ ?pre] exI [of _ c] exI [of _ q] exI [of _ f]) (simp add: add_ac)
qed

text \<open>Scanning resumes after whole lines.\<close>

lemma scan_resume:
  assumes "scan_lines pc st n pre = Inr ls1" and "whole_lines pre"
  shows "scan_lines pc st n (pre @ rest) =
    map_sum id ((@) ls1) (scan_lines pc (st + length pre) (n + length ls1) rest)"
  using assms
proof (induction ls1 arbitrary: st n pre)
  case Nil
  have "pre = []"
  proof (rule ccontr)
    assume "pre \<noteq> []"
    then show False using Nil(1) by (cases rule: line_split)
        (auto simp: scan_line split: sum.splits elim!: map_sum_InrE)
  qed
  then show ?case by (cases "scan_lines pc st n rest") simp_all
next
  case (Cons a ls1)
  then have "pre \<noteq> []" by auto
  then obtain content post where split: "pre = content @ post" "newline \<notin> set content"
    "post = [] \<or> hd post = newline" "content \<noteq> [] \<or> post \<noteq> []" by (rule line_split)
  with Cons.prems(1) obtain fs where here: "pc content = Inr fs" "a = line_at st n content fs"
    and more: "scan_lines pc (st + length content + 1) (n + 1) (tl post) = Inr ls1"
    by (auto simp: scan_line split: sum.splits elim!: map_sum_InrE)
  have post: "post = newline # tl post"
    using split Cons.prems(2) by (cases post) (auto simp: whole_lines_def dest: last_in_set)
  then have whole: "whole_lines (tl post)"
    using Cons.prems(2) split(1) by (cases "tl post") (auto simp: whole_lines_def)
  have "scan_lines pc st n (content @ newline # tl post @ rest) =
      map_sum id ((#) a) (scan_lines pc (st + length content + 1) (n + 1) (tl post @ rest))"
    using scan_line [of content "newline # tl post @ rest" pc st n] split(2) here by simp
  also have "\<dots> = map_sum id ((@) (a # ls1)) (scan_lines pc
      (st + length content + 1 + length (tl post)) (n + 1 + length ls1) rest)"
    unfolding Cons.IH [OF more whole]
    by (cases "scan_lines pc (st + length content + 1 + length (tl post)) (n + 1 + length ls1) rest")
       simp_all
  also have "st + length content + 1 + length (tl post) = st + length pre"
    using arg_cong [OF post, of length] by (simp add: split(1))
  also have "content @ newline # tl post @ rest = pre @ rest"
    using arg_cong [OF post, of "\<lambda>p. content @ p @ rest"] by (simp add: split(1))
  finally show ?case by simp
qed

definition shift :: "nat \<Rightarrow> ParsedLine \<Rightarrow> ParsedLine" where
  "shift k l = l\<lparr>pl_start := pl_start l + k, pl_content_end := pl_content_end l + k\<rparr>"

lemma shift_fields [simp]: "pl_fields (shift k l) = pl_fields l"
  by (simp add: shift_def)

lemma shift_line_at: "shift k (line_at st n c f) = line_at (st + k) n c f"
  by (simp add: shift_def line_at_def)

lemma scan_shift:
  "scan_lines pc (st + k) n rest = map_sum id (map (shift k)) (scan_lines pc st n rest)"
proof (induction "length rest" arbitrary: st n rest rule: less_induct)
  case less
  show ?case
  proof (cases "rest = []")
    case False
    then obtain content post where split: "rest = content @ post" "newline \<notin> set content"
      "post = [] \<or> hd post = newline" "content \<noteq> [] \<or> post \<noteq> []" by (rule line_split)
    then have shorter: "length (tl post) < length rest" by (cases post) auto
    have "scan_lines pc (st + length content + 1 + k) (n + 1) (tl post) =
        map_sum id (map (shift k)) (scan_lines pc (st + length content + 1) (n + 1) (tl post))"
      using less [OF shorter] .
    then show ?thesis
      using split
      by (cases "scan_lines pc (st + length content + 1) (n + 1) (tl post)")
         (simp_all add: scan_line shift_line_at add_ac split: sum.splits)
  qed simp
qed

section \<open>What selection sees\<close>

lemma select_append:
  "select_lines chk (ls @ ms) =
     (case select_lines chk ls of
        Inl e \<Rightarrow> Inl e
      | Inr cs \<Rightarrow> map_sum id ((@) cs) (select_lines chk ms))"
proof (induction ls)
  case Nil
  then show ?case by (cases "select_lines chk ms") simp_all
next
  case (Cons l ls)
  then show ?case
    by (cases "select_lines chk ls"; cases "select_lines chk ms") (simp_all split: option.splits sum.splits)
qed

lemma select_shift:
  "select_lines chk (map (shift k) ls) = map_sum id (map (map_prod (shift k) id)) (select_lines chk ls)"
  by (induction ls) (auto split: option.splits sum.splits)

lemma select_member:
  assumes "select_lines chk ls = Inr cs" and "(l, c) \<in> set cs"
  shows "\<exists>fs. l \<in> set ls \<and> pl_fields l = Some fs \<and> chk fs = Inr (Some c)"
  using assms by (induction ls arbitrary: cs) (auto split: option.splits sum.splits)

lemma select_unique:
  assumes "select_lines chk ls = Inr [(l, c)]"
  shows "\<exists>ls1 ls2 fs. ls = ls1 @ l # ls2 \<and> pl_fields l = Some fs \<and> chk fs = Inr (Some c) \<and>
    select_lines chk ls1 = Inr [] \<and> select_lines chk ls2 = Inr []"
  using assms
proof (induction ls)
  case (Cons a ls)
  show ?case
  proof (cases "select_lines chk ls = Inr [(l, c)] \<and> select_lines chk [a] = Inr []")
    case True
    then obtain ls1 ls2 fs where "ls = ls1 @ l # ls2" "pl_fields l = Some fs"
      "chk fs = Inr (Some c)" "select_lines chk ls1 = Inr []" "select_lines chk ls2 = Inr []"
      using Cons.IH by blast
    moreover have "select_lines chk (a # ls1) = Inr []"
      using select_append [of chk "[a]" ls1] True calculation(4) by simp
    ultimately show ?thesis by (metis append_Cons)
  next
    case False
    then have "a = l" "select_lines chk ls = Inr []"
      "\<exists>fs. pl_fields a = Some fs \<and> chk fs = Inr (Some c)"
      using Cons.prems by (auto split: option.splits sum.splits)
    then show ?thesis by (metis append_Nil select_lines.simps(1))
  qed
qed simp

section \<open>Interface: turning one line into a comment\<close>

text \<open>
  What the edit of a preview relies on: the inserted text has no newline, and a line that starts
  with it has no fields.
\<close>

locale line_editor =
  fixes pc :: "string \<Rightarrow> 'e + string list option"
    and mark :: string
  assumes mark_inline: "newline \<notin> set mark"
    and mark_comments: "pc (mark @ content) = Inr fs \<Longrightarrow> fs = None"
begin

lemma edit_exact:
  assumes "scan_lines pc 0 1 doc = Inr ls" and "select_lines chk ls = Inr [(l, c)]"
  obtains pre content post ls1 ls2 fs where "doc = pre @ content @ post" and "whole_lines pre"
    and "newline \<notin> set content" and "post = [] \<or> hd post = newline"
    and "comment_out mark doc l = pre @ mark @ content @ post"
    and "l = line_at (length pre) (1 + count_list pre newline) content (Some fs)"
    and "pc content = Inr (Some fs)" and "chk fs = Inr (Some c)"
    and "scan_lines pc 0 1 pre = Inr ls1"
    and "scan_lines pc (length pre + length content + 1) (length ls1 + 2) (tl post) = Inr ls2"
    and "select_lines chk ls1 = Inr []" and "select_lines chk ls2 = Inr []"
proof -
  obtain ls1 ls2 fs where ls: "ls = ls1 @ l # ls2" "pl_fields l = Some fs" "chk fs = Inr (Some c)"
    "select_lines chk ls1 = Inr []" "select_lines chk ls2 = Inr []"
    using select_unique [OF assms(2)] by blast
  have "scan_lines pc 0 1 doc = Inr (ls1 @ l # ls2)" using assms(1) ls(1) by simp
  from scan_split [OF this]
  obtain pre content post f where parts: "doc = pre @ content @ post" "whole_lines pre"
    "newline \<notin> set content" "post = [] \<or> hd post = newline"
    "length ls1 = count_list pre newline" "scan_lines pc 0 1 pre = Inr ls1" "pc content = Inr f"
    "l = line_at (0 + length pre) (1 + length ls1) content f"
    "scan_lines pc (0 + length pre + length content + 1) (1 + length ls1 + 1) (tl post) = Inr ls2"
    by blast
  have f: "f = Some fs" using parts(8) ls(2) by (simp add: line_at_def)
  have "comment_out mark doc l = pre @ mark @ content @ post"
    unfolding parts(1,8) by (simp add: comment_out_def slice_def line_at_def)
  with parts ls f show ?thesis
    by (intro that [where pre = pre and content = content and post = post and fs = fs
          and ?ls1.0 = ls1 and ?ls2.0 = ls2]) (simp_all add: numeral_2_eq_2)
qed

lemma edit_scan:
  assumes "whole_lines pre" and "newline \<notin> set content" and "post = [] \<or> hd post = newline"
    and "pc content = Inr (Some fs)" and "scan_lines pc 0 1 pre = Inr ls1"
    and "scan_lines pc (length pre + length content + 1) (length ls1 + 2) (tl post) = Inr ls2"
  shows "scan_lines pc 0 1 (pre @ mark @ content @ post) =
    map_sum id (\<lambda>f. ls1 @ line_at (length pre) (1 + length ls1) (mark @ content) f
      # map (shift (length mark)) ls2) (pc (mark @ content))"
proof -
  have "mark @ content \<noteq> []" using mark_comments [of content] assms(4) by auto
  then have step: "scan_lines pc (length pre) (1 + length ls1) ((mark @ content) @ post) =
      (case pc (mark @ content) of Inl e \<Rightarrow> Inl e
       | Inr f \<Rightarrow> map_sum id ((#) (line_at (length pre) (1 + length ls1) (mark @ content) f))
           (scan_lines pc (length pre + length (mark @ content) + 1) (1 + length ls1 + 1) (tl post)))"
    using mark_inline assms(2,3) by (intro scan_line) auto
  have "scan_lines pc (length pre + length (mark @ content) + 1) (1 + length ls1 + 1) (tl post)
      = Inr (map (shift (length mark)) ls2)"
    using scan_shift [of pc "length pre + length content + 1" "length mark" "length ls1 + 2" "tl post"]
      assms(6) by (simp add: add_ac)
  with step scan_resume [OF assms(5,1), of "mark @ content @ post"] show ?thesis
    by (cases "pc (mark @ content)") simp_all
qed

lemma edit_settles:
  assumes "scan_lines pc 0 1 doc = Inr ls" and "select_lines chk ls = Inr [(l, c)]"
    and "scan_lines pc 0 1 (comment_out mark doc l) = Inr ms"
  shows "select_lines chk ms = Inr []"
proof (cases rule: edit_exact [OF assms(1,2)])
  case (1 pre content post ls1 ls2 fs)
  note scan = edit_scan [OF 1(2,3,4,7,9,10)]
  from assms(3) obtain f where f: "pc (mark @ content) = Inr f"
    and ms: "ms = ls1 @ line_at (length pre) (1 + length ls1) (mark @ content) f
      # map (shift (length mark)) ls2"
    unfolding 1(5) scan by (cases "pc (mark @ content)") simp_all
  have "f = None" using f by (rule mark_comments)
  then show ?thesis
    unfolding ms using 1(11,12) by (simp add: select_append select_shift line_at_def)
qed

lemma edit_rescans:
  assumes "scan_lines pc 0 1 doc = Inr ls" and "select_lines chk ls = Inr [(l, c)]"
    and "pc (mark @ slice doc (pl_start l) (pl_content_end l)) = Inr None"
  shows "\<exists>ms. scan_lines pc 0 1 (comment_out mark doc l) = Inr ms"
proof (cases rule: edit_exact [OF assms(1,2)])
  case (1 pre content post ls1 ls2 fs)
  have "slice doc (pl_start l) (pl_content_end l) = content"
    unfolding 1(1,6) by (simp add: slice_def line_at_def)
  then show ?thesis
    using assms(3) unfolding 1(5) edit_scan [OF 1(2,3,4,7,9,10)] by simp
qed

end

section \<open>UTF-8 and edits between lines\<close>

lemma utf8_width_eq:
  "0 < utf8_width s \<Longrightarrow> utf8_width s = utf8_len (s ! 0)"
  by (simp add: utf8_width_def Let_def split: if_splits)

text \<open>The width of the first character depends only on its own bytes.\<close>

lemma utf8_width_local:
  assumes "a \<noteq> []" and "utf8_len (a ! 0) \<le> length a"
  shows "utf8_width (a @ b) = utf8_width a"
proof -
  let ?k = "utf8_len (a ! 0)"
  have first: "(a @ b) ! 0 = a ! 0" using assms(1) by (simp add: nth_append)
  have bytes: "take ?k (a @ b) = take ?k a" using assms(2) by simp
  have second: "1 < ?k \<Longrightarrow> (a @ b) ! 1 = a ! 1" using assms(2) by (simp add: nth_append)
  have long: "\<not> length (a @ b) < ?k" "\<not> length a < ?k" using assms(2) by simp_all
  show ?thesis
    unfolding utf8_width_def Let_def first bytes using assms(1) long second
    by (cases "1 < ?k") simp_all
qed

lemma utf8_width_append:
  assumes "0 < utf8_width a"
  shows "utf8_width (a @ b) = utf8_width a"
proof (rule utf8_width_local)
  show "a \<noteq> []" using assms utf8_width_le [of a] by auto
  show "utf8_len (a ! 0) \<le> length a" using utf8_width_eq [OF assms] utf8_width_le [of a] by simp
qed

lemma utf8_width_prefix:
  assumes "0 < utf8_width (a @ b)" and "utf8_width (a @ b) \<le> length a"
  shows "0 < utf8_width a"
proof -
  have "a \<noteq> []" using assms by auto
  then have "utf8_len (a ! 0) \<le> length a"
    using utf8_width_eq [OF assms(1)] assms(2) by (simp add: nth_append)
  then show ?thesis using utf8_width_local [OF \<open>a \<noteq> []\<close>] assms(1) by simp
qed

lemma utf8_second_high: "utf8_second a b \<Longrightarrow> 0x80 \<le> (of_char b :: nat)"
  by (simp add: utf8_second_def byte_in_def split: if_splits)

lemma utf8_len_high: "1 < utf8_len a \<Longrightarrow> 0x80 \<le> (of_char a :: nat)"
  by (simp add: utf8_len_def byte_in_def split: if_splits)

lemma utf8_width_bytes:
  assumes "1 < utf8_width s" and "i < utf8_width s"
  shows "0x80 \<le> (of_char (s ! i) :: nat)"
proof -
  have w: "utf8_width s = utf8_len (s ! 0)" "utf8_second (s ! 0) (s ! 1)"
    "list_all cont (drop 2 (take (utf8_width s) s))"
    using assms(1) by (simp_all add: utf8_width_def Let_def split: if_splits)
  consider "i = 0" | "i = 1" | "2 \<le> i" by linarith
  then show ?thesis
  proof cases
    case 3
    then obtain j where "i = Suc (Suc j)" by (metis Suc_le_D Suc_le_mono numeral_2_eq_2)
    then have "s ! i = drop 2 (take (utf8_width s) s) ! (i - 2)"
      and "i - 2 < length (drop 2 (take (utf8_width s) s))"
      using assms utf8_width_le [of s] by simp_all
    with w(3) have "cont (s ! i)" by (simp add: list_all_length)
    then show ?thesis by (simp add: byte_in_def)
  qed (use assms w utf8_len_high utf8_second_high in auto)
qed

lemma utf8_later_byte:
  assumes "i < utf8_width s" and "1 < utf8_width s"
  shows "s ! i \<noteq> newline"
  using utf8_width_bytes [OF assms(2,1)] by auto

lemma utf8_append: "utf8_valid a \<Longrightarrow> utf8_valid (a @ b) = utf8_valid b"
proof (induction a rule: utf8_valid.induct)
  case (1 a)
  show ?case
  proof (cases "a = []")
    case False
    then have w: "0 < utf8_width a" "utf8_valid (drop (utf8_width a) a)"
      using 1(2) utf8_step [of a] by auto
    have "utf8_valid (a @ b) = utf8_valid (drop (utf8_width a) a @ b)"
      using False w utf8_width_le [of a] utf8_step [of "a @ b"]
      by (simp add: utf8_width_append)
    then show ?thesis using 1(1) False w by simp
  qed simp
qed

lemma utf8_ascii: "list_all (byte_in 0 0x7F) a \<Longrightarrow> utf8_valid a"
proof (induction a)
  case (Cons x a)
  then show ?case using utf8_step [of "x # a"] by (simp add: utf8_width_def utf8_len_def)
qed simp

lemma utf8_whole_lines: "utf8_valid (a @ b) \<Longrightarrow> whole_lines a \<Longrightarrow> utf8_valid a"
proof (induction "length a" arbitrary: a rule: less_induct)
  case less
  show ?case
  proof (cases "a = []")
    case False
    let ?w = "utf8_width (a @ b)"
    have w: "0 < ?w" "utf8_valid (drop ?w (a @ b))"
      using less.prems(1) False utf8_step [of "a @ b"] by auto
    have nl: "(a @ b) ! (length a - 1) = newline"
      using False less.prems(2) by (simp add: whole_lines_def last_conv_nth nth_append)
    have le: "?w \<le> length a"
    proof (rule ccontr)
      assume "\<not> ?w \<le> length a"
      moreover have "0 < length a" using False by simp
      ultimately have "length a - 1 < ?w" "1 < ?w" by linarith+
      then show False using utf8_later_byte nl by blast
    qed
    then have wa: "utf8_width a = ?w" "0 < utf8_width a"
      using utf8_width_prefix [OF w(1)] utf8_width_append [of a b] by auto
    have "whole_lines (drop ?w a)"
      using less.prems(2) by (cases "?w < length a") (auto simp: whole_lines_def)
    then have "utf8_valid (drop ?w a)"
      using less.hyps [of "drop ?w a"] w le False by simp
    then show ?thesis using utf8_step [OF False] wa by simp
  qed simp
qed

lemma utf8_insert:
  assumes "utf8_valid (a @ b)" and "whole_lines a" and "list_all (byte_in 0 0x7F) m"
  shows "utf8_valid (a @ m @ b)"
  using assms utf8_whole_lines [OF assms(1,2)] utf8_ascii [OF assms(3)] by (simp add: utf8_append)

end
