(* ===== verification/KA_Fstab_Preview.thy ===== *)
theory KA_Fstab_Preview
  imports KA_Lines
begin

text \<open>
  The pure preview of the Rescue \<^verbatim>\<open>fstab\<close> repair,
  \<^verbatim>\<open>packs/linux/src/rescue_fstab_candidate.rs\<close>: parsing, the observed UUID set, the rules that
  select the one line to disable, and the proposed document with its digests.  A
  \<^verbatim>\<open>BTreeSet<String>\<close> is the strictly increasing list of its elements in byte order, which is its
  iteration order.
\<close>

section \<open>Constants, data\<close>

definition MAX_FSTAB_BYTES :: nat where
  "MAX_FSTAB_BYTES = 1024 * 1024"

definition MAX_FSTAB_LINE_BYTES :: nat where
  "MAX_FSTAB_LINE_BYTES = 16 * 1024"

definition MAX_OBSERVED_UUIDS :: nat where
  "MAX_OBSERVED_UUIDS = 4096"

definition MAX_UUID_BYTES :: nat where
  "MAX_UUID_BYTES = 128"

definition COMMENT_PREFIX :: string where
  "COMMENT_PREFIX = ''# KernAid Rescue disabled missing UUID: ''"

definition OBSERVED_UUID_SET_HASH_DOMAIN :: string where
  "OBSERVED_UUID_SET_HASH_DOMAIN =
     domain_tag ''kernaid:linux.fstab.disable-missing-uuid.v1:observed-uuid-set:v1''"

definition DIFF_HASH_DOMAIN :: string where
  "DIFF_HASH_DOMAIN = domain_tag ''kernaid:linux.fstab.disable-missing-uuid.v1:diff:v1''"

datatype PreviewError =
    InvalidFstabSize
  | MalformedFstab
  | TooManyObservedUuids
  | InvalidObservedUuid
  | AmbiguousObservedUuid
  | RepairNotApplicable
  | AmbiguousTarget
  | CriticalMountMissing
  | UnsupportedMountMissing
  | UnsupportedEntryKind
  | UnsupportedFilesystem

record DisableMissingUuidPreview =
  dp_selected_uuid :: string
  dp_selected_mountpoint :: string
  dp_source_line :: nat
  dp_proposed_fstab :: string
  dp_before_sha256 :: string
  dp_observed_uuid_set_sha256 :: string
  dp_after_sha256 :: string
  dp_diff_sha256 :: string

section \<open>Parsing\<close>

definition octal_digit :: "char \<Rightarrow> bool" where
  "octal_digit c \<longleftrightarrow> byte_in 0x30 0x37 c"

definition control_byte :: "nat \<Rightarrow> bool" where
  "control_byte b \<longleftrightarrow> b < 0x20 \<or> b = 0x7F"

definition octal_value :: "char \<Rightarrow> char \<Rightarrow> char \<Rightarrow> nat" where
  "octal_value a b c = (of_char a - 48) * 64 + (of_char b - 48) * 8 + (of_char c - 48)"

fun decode_field :: "string \<Rightarrow> PreviewError + string" where
  "decode_field [] = Inr []"
| "decode_field (x # r) =
     (if x = CHR 0x5C then
        (case r of
           a # b # c # r' \<Rightarrow>
             if \<not> (octal_digit a \<and> octal_digit b \<and> octal_digit c)
                \<or> octal_value a b c > 255 \<or> control_byte (octal_value a b c)
             then Inl MalformedFstab
             else map_sum id ((#) (char_of (octal_value a b c))) (decode_field r')
         | _ \<Rightarrow> Inl MalformedFstab)
      else if control_byte (of_char x) then Inl MalformedFstab
      else map_sum id ((#) x) (decode_field r))"

definition fstab_content :: "string \<Rightarrow> PreviewError + string list option" where
  "fstab_content content =
     (if length content > MAX_FSTAB_LINE_BYTES \<or> CHR 0x0D \<in> set content then Inl MalformedFstab
      else case dropWhile blank content of
        [] \<Rightarrow> Inr None
      | c # _ \<Rightarrow>
          if c = CHR ''#'' then Inr None
          else case scan_fields decode_field False 6 MalformedFstab [] content of
            Inl e \<Rightarrow> Inl e
          | Inr fs \<Rightarrow>
              if \<not> (4 \<le> length fs \<and> length fs \<le> 6) then Inl MalformedFstab
              else if list_ex (\<lambda>v. \<not> utf8_valid v \<or> parse_u32 v = None) (drop 4 fs)
              then Inl MalformedFstab
              else Inr (Some fs))"

definition parse_fstab :: "string \<Rightarrow> PreviewError + ParsedLine list" where
  "parse_fstab bytes =
     (if bytes = [] \<or> length bytes > MAX_FSTAB_BYTES then Inl InvalidFstabSize
      else if CHR 0x00 \<in> set bytes \<or> \<not> utf8_valid bytes then Inl MalformedFstab
      else scan_lines fstab_content 0 1 bytes)"

section \<open>UUIDs and digests\<close>

text \<open>The input is ASCII once its characters are checked, so the UTF-8 check cannot fail.\<close>

definition normalize_uuid :: "string \<Rightarrow> PreviewError + string" where
  "normalize_uuid value =
     (if value = [] \<or> length value > MAX_UUID_BYTES \<or> hd value = CHR ''-'' \<or> last value = CHR ''-''
         \<or> \<not> list_all (\<lambda>b. ascii_hexdigit b \<or> b = CHR ''-'') value
      then Inl MalformedFstab
      else if \<not> utf8_valid value then Inl MalformedFstab
      else Inr (to_ascii_lowercase value))"

fun insert_normalized :: "string list \<Rightarrow> string list \<Rightarrow> PreviewError + string list" where
  "insert_normalized normalized [] = Inr normalized"
| "insert_normalized normalized (uuid # uuids) =
     (case normalize_uuid uuid of
        Inl _ \<Rightarrow> Inl InvalidObservedUuid
      | Inr value \<Rightarrow>
          if value \<in> set normalized then Inl AmbiguousObservedUuid
          else insert_normalized (insort value normalized) uuids)"

definition normalize_observed_uuids :: "string list \<Rightarrow> PreviewError + string list" where
  "normalize_observed_uuids observed_uuids =
     (if length observed_uuids > MAX_OBSERVED_UUIDS then Inl TooManyObservedUuids
      else insert_normalized [] observed_uuids)"

definition sha256_bytes :: "(string \<Rightarrow> string) \<Rightarrow> string \<Rightarrow> string" where
  "sha256_bytes sha bytes = ''sha256:'' @ sha bytes"

definition observed_uuid_set_preimage :: "string list \<Rightarrow> string" where
  "observed_uuid_set_preimage observed =
     OBSERVED_UUID_SET_HASH_DOMAIN @ u64_be (of_nat (length observed)) @ frames observed"

definition observed_uuid_set_sha256 :: "(string \<Rightarrow> string) \<Rightarrow> string list \<Rightarrow> string" where
  "observed_uuid_set_sha256 sha observed = ''sha256:'' @ sha (observed_uuid_set_preimage observed)"

definition diff_preimage :: "string \<Rightarrow> ParsedLine \<Rightarrow> string" where
  "diff_preimage fstab target =
     (let original = slice fstab (pl_start target) (pl_content_end target) in
      DIFF_HASH_DOMAIN @ u64_be (of_nat (pl_start target)) @
      u64_be (of_nat (pl_content_end target)) @ frame original @
      frame (COMMENT_PREFIX @ original))"

definition diff_sha256 :: "(string \<Rightarrow> string) \<Rightarrow> string \<Rightarrow> ParsedLine \<Rightarrow> string" where
  "diff_sha256 sha fstab target = ''sha256:'' @ sha (diff_preimage fstab target)"

section \<open>Selection rules\<close>

definition fstab_options :: "string list \<Rightarrow> PreviewError + string list" where
  "fstab_options fs =
     (if \<not> utf8_valid (fs ! 3) then Inl MalformedFstab
      else let values = split_on (CHR '','') (fs ! 3) in
        if list_ex (\<lambda>v. v = []) values then Inl MalformedFstab else Inr values)"

definition at_or_below :: "string \<Rightarrow> string \<Rightarrow> bool" where
  "at_or_below path root \<longleftrightarrow>
     path = root \<or>
     (case strip_prefix path root of None \<Rightarrow> False | Some suffix \<Rightarrow> starts_with suffix ''/'')"

definition is_critical_mount :: "string \<Rightarrow> string \<Rightarrow> bool" where
  "is_critical_mount mountpoint filesystem \<longleftrightarrow>
     mountpoint = ''/'' \<or> filesystem = ''swap'' \<or> mountpoint = ''swap'' \<or>
     list_ex (at_or_below mountpoint) [''/boot'', ''/etc'', ''/usr'', ''/var'', ''/home'']"

definition is_allowed_data_mount :: "string \<Rightarrow> bool" where
  "is_allowed_data_mount mountpoint \<longleftrightarrow>
     list_ex (\<lambda>p. case strip_prefix mountpoint p of
         None \<Rightarrow> False
       | Some suffix \<Rightarrow> suffix \<noteq> [] \<and>
           list_all (\<lambda>c. c \<noteq> [] \<and> c \<noteq> ''.'' \<and> c \<noteq> ''..'') (split_on (CHR ''/'') suffix))
       [''/mnt/'', ''/media/'', ''/srv/'']"

definition is_network_filesystem :: "string \<Rightarrow> bool" where
  "is_network_filesystem filesystem \<longleftrightarrow>
     List.member [''nfs'', ''nfs4'', ''cifs'', ''smb3'', ''9p'', ''ceph'', ''glusterfs'', ''sshfs'',
       ''fuse.sshfs'', ''davfs'', ''davfs2'', ''afs''] filesystem"

definition fstab_check ::
    "string list \<Rightarrow> string list \<Rightarrow> PreviewError + (string \<times> string) option" where
  "fstab_check observed fs =
     (case strip_prefix (fs ! 0) ''UUID='' of
        None \<Rightarrow> Inr None
      | Some raw_uuid \<Rightarrow>
          (case normalize_uuid raw_uuid of
             Inl e \<Rightarrow> Inl e
           | Inr uuid \<Rightarrow>
               if uuid \<in> set observed then Inr None
               else case fstab_options fs of
                 Inl e \<Rightarrow> Inl e
               | Inr entry_options \<Rightarrow>
                   if list_ex (\<lambda>o'. o' = ''nofail'' \<or> o' = ''noauto'') entry_options then Inr None
                   else if \<not> utf8_valid (fs ! 1) then Inl MalformedFstab
                   else if \<not> utf8_valid (fs ! 2) then Inl MalformedFstab
                   else if is_critical_mount (fs ! 1) (fs ! 2) then Inl CriticalMountMissing
                   else if list_ex (\<lambda>o'. o' = ''bind'' \<or> o' = ''rbind'' \<or> o' = ''_netdev'') entry_options
                           \<or> is_network_filesystem (fs ! 2)
                   then Inl UnsupportedEntryKind
                   else if fs ! 2 \<noteq> ''ext4'' then Inl UnsupportedFilesystem
                   else if \<not> is_allowed_data_mount (fs ! 1) then Inl UnsupportedMountMissing
                   else Inr (Some (uuid, fs ! 1))))"

section \<open>The preview\<close>

definition preview_disable_missing_uuid ::
    "(string \<Rightarrow> string) \<Rightarrow> string \<Rightarrow> string list \<Rightarrow> PreviewError + DisableMissingUuidPreview" where
  "preview_disable_missing_uuid sha fstab observed_uuids =
     (case normalize_observed_uuids observed_uuids of
        Inl e \<Rightarrow> Inl e
      | Inr observed \<Rightarrow>
          (case parse_fstab fstab of
             Inl e \<Rightarrow> Inl e
           | Inr parsed \<Rightarrow>
               (case select_lines (fstab_check observed) parsed of
                  Inl e \<Rightarrow> Inl e
                | Inr candidates \<Rightarrow>
                    (case candidates of
                       [] \<Rightarrow> Inl RepairNotApplicable
                     | [(target, uuid, mountpoint)] \<Rightarrow>
                         let proposed = comment_out COMMENT_PREFIX fstab target in
                         (case parse_fstab proposed of
                            Inl e \<Rightarrow> Inl e
                          | Inr _ \<Rightarrow>
                              Inr \<lparr>dp_selected_uuid = uuid, dp_selected_mountpoint = mountpoint,
                                   dp_source_line = pl_line_number target,
                                   dp_proposed_fstab = proposed,
                                   dp_before_sha256 = sha256_bytes sha fstab,
                                   dp_observed_uuid_set_sha256 = observed_uuid_set_sha256 sha observed,
                                   dp_after_sha256 = sha256_bytes sha proposed,
                                   dp_diff_sha256 = diff_sha256 sha fstab target\<rparr>)
                     | _ \<Rightarrow> Inl AmbiguousTarget))))"

interpretation fstab_editor: line_editor fstab_content COMMENT_PREFIX
  by unfold_locales
     (auto simp: COMMENT_PREFIX_def fstab_content_def blank_def split: if_splits)

section \<open>Field counts\<close>

text \<open>A parsed line has four to six fields, so the fields the rules index are there.\<close>

lemma fstab_content_fields:
  "fstab_content content = Inr (Some fs) \<Longrightarrow> 4 \<le> length fs \<and> length fs \<le> 6"
  by (auto simp: fstab_content_def split: if_splits list.splits sum.splits)

section \<open>What an accepted preview consists of\<close>

lemma preview_ok:
  assumes "preview_disable_missing_uuid sha fstab uuids = Inr p"
  obtains observed ls l ms where "normalize_observed_uuids uuids = Inr observed"
    and "parse_fstab fstab = Inr ls"
    and "select_lines (fstab_check observed) ls =
      Inr [(l, dp_selected_uuid p, dp_selected_mountpoint p)]"
    and "dp_source_line p = pl_line_number l"
    and "dp_proposed_fstab p = comment_out COMMENT_PREFIX fstab l"
    and "parse_fstab (dp_proposed_fstab p) = Inr ms"
proof -
  obtain observed where o': "normalize_observed_uuids uuids = Inr observed"
    using assms by (cases "normalize_observed_uuids uuids")
      (simp_all add: preview_disable_missing_uuid_def)
  obtain ls where ls: "parse_fstab fstab = Inr ls"
    using assms o' by (cases "parse_fstab fstab") (simp_all add: preview_disable_missing_uuid_def)
  obtain cs where cs: "select_lines (fstab_check observed) ls = Inr cs"
    using assms o' ls by (cases "select_lines (fstab_check observed) ls")
      (simp_all add: preview_disable_missing_uuid_def)
  obtain l u m where one: "cs = [(l, u, m)]"
    using assms o' ls cs
    by (auto simp: preview_disable_missing_uuid_def split: list.splits)
  obtain ms where ms: "parse_fstab (comment_out COMMENT_PREFIX fstab l) = Inr ms"
    using assms o' ls cs one by (cases "parse_fstab (comment_out COMMENT_PREFIX fstab l)")
      (simp_all add: preview_disable_missing_uuid_def Let_def)
  show ?thesis
    using assms o' ls cs one ms
    by (intro that [OF o' ls, of l ms]) (auto simp: preview_disable_missing_uuid_def Let_def)
qed

lemma parse_fstab_scan: "parse_fstab doc = Inr ls \<Longrightarrow> scan_lines fstab_content 0 1 doc = Inr ls"
  by (simp add: parse_fstab_def split: if_splits)

definition disables_only ::
    "string list \<Rightarrow> string \<Rightarrow> string \<Rightarrow> string list \<Rightarrow> bool" where
  "disables_only observed u m fs \<longleftrightarrow>
     (\<exists>raw. fs ! 0 = ''UUID='' @ raw \<and> normalize_uuid raw = Inr u) \<and> u \<notin> set observed \<and>
     m = fs ! 1 \<and> fs ! 2 = ''ext4'' \<and> is_allowed_data_mount m \<and> \<not> is_critical_mount m ''ext4'' \<and>
     set (split_on (CHR '','') (fs ! 3)) \<inter> {''nofail'', ''noauto'', ''bind'', ''rbind'', ''_netdev''} = {}"

lemma fstab_check_ok:
  assumes ok: "fstab_check observed fs = Inr (Some (u, m))"
  shows "disables_only observed u m fs"
proof -
  obtain raw where raw: "strip_prefix (fs ! 0) ''UUID='' = Some raw"
    using ok by (cases "strip_prefix (fs ! 0) ''UUID=''") (simp_all add: fstab_check_def)
  obtain v where v: "normalize_uuid raw = Inr v"
    using ok raw by (cases "normalize_uuid raw") (simp_all add: fstab_check_def)
  obtain os where os: "fstab_options fs = Inr os"
    using ok raw v
    by (cases "fstab_options fs") (simp_all add: fstab_check_def split: if_splits)
  have split: "os = split_on (CHR '','') (fs ! 3)"
    using os by (simp add: fstab_options_def Let_def split: if_splits)
  have checks: "v \<notin> set observed" "\<not> list_ex (\<lambda>o'. o' = ''nofail'' \<or> o' = ''noauto'') os"
    "\<not> is_critical_mount (fs ! 1) (fs ! 2)" "fs ! 2 = ''ext4''" "is_allowed_data_mount (fs ! 1)"
    "\<not> list_ex (\<lambda>o'. o' = ''bind'' \<or> o' = ''rbind'' \<or> o' = ''_netdev'') os" "v = u" "fs ! 1 = m"
    using ok by (auto simp: fstab_check_def raw v os split: if_splits)
  have "set os \<inter> {''nofail'', ''noauto'', ''bind'', ''rbind'', ''_netdev''} = {}"
    using checks(2,6) unfolding list_ex_iff by blast
  with checks raw v show ?thesis
    unfolding disables_only_def split [symmetric] by (auto simp: strip_prefix_Some_iff)
qed

section \<open>An example document\<close>

definition example_fstab :: string where
  "example_fstab = ''UUID=7 /mnt/d ext4 rw''"

abbreviation example_fields :: "string list" where
  "example_fields \<equiv> [''UUID=7'', ''/mnt/d'', ''ext4'', ''rw'']"

lemma example_fstab_plain:
  "newline \<notin> set example_fstab" "example_fstab \<noteq> []" "length example_fstab = 21"
  "CHR 0x00 \<notin> set example_fstab" "CHR 0x0D \<notin> set example_fstab" "utf8_valid example_fstab"
  by (simp_all add: example_fstab_def byte_in_def utf8_ascii)

lemma example_fstab_content: "fstab_content example_fstab = Inr (Some example_fields)"
proof -
  have "scan_fields decode_field False 6 MalformedFstab [] example_fstab = Inr example_fields"
    by (simp add: example_fstab_def scan_fields.simps blank_def control_byte_def)
  then show ?thesis
    unfolding fstab_content_def by (simp add: example_fstab_def blank_def MAX_FSTAB_LINE_BYTES_def)
qed

lemma example_fstab_parse:
  "parse_fstab example_fstab = Inr [line_at 0 1 example_fstab (Some example_fields)]"
  using scan_line [of example_fstab "[]" fstab_content 0 1] example_fstab_plain example_fstab_content
  by (simp add: parse_fstab_def MAX_FSTAB_BYTES_def)

lemma example_fstab_check: "fstab_check [] example_fields = Inr (Some (''7'', ''/mnt/d''))"
proof -
  have "utf8_valid ''7''" "utf8_valid ''/mnt/d''" "utf8_valid ''ext4''" "utf8_valid ''rw''"
    by (rule utf8_ascii, simp add: byte_in_def)+
  then show ?thesis
    by (simp add: fstab_check_def normalize_uuid_def MAX_UUID_BYTES_def ascii_class_defs
        to_ascii_lowercase_def fstab_options_def is_critical_mount_def at_or_below_def
        is_network_filesystem_def is_allowed_data_mount_def)
qed

lemma example_fstab_selected:
  "normalize_observed_uuids [] = Inr []"
  "select_lines (fstab_check []) [line_at 0 1 example_fstab (Some example_fields)]
     = Inr [(line_at 0 1 example_fstab (Some example_fields), ''7'', ''/mnt/d'')]"
  by (simp_all add: normalize_observed_uuids_def line_at_def example_fstab_check)

section \<open>When the preview succeeds\<close>

lemma fstab_comment_line:
  "fstab_content line = Inr f \<Longrightarrow>
   length line + length COMMENT_PREFIX \<le> MAX_FSTAB_LINE_BYTES \<Longrightarrow>
   fstab_content (COMMENT_PREFIX @ line) = Inr None"
  by (auto simp: fstab_content_def COMMENT_PREFIX_def blank_def split: if_splits)

lemma comment_prefix_ascii:
  "list_all (byte_in 0 0x7F) COMMENT_PREFIX" "CHR 0x00 \<notin> set COMMENT_PREFIX"
  by (simp_all add: COMMENT_PREFIX_def byte_in_def)

lemma proposed_parses:
  assumes parse: "parse_fstab fstab = Inr ls"
    and select: "select_lines (fstab_check observed) ls = Inr [(l, c)]"
    and size: "length fstab + length COMMENT_PREFIX \<le> MAX_FSTAB_BYTES"
    and line: "pl_content_end l - pl_start l + length COMMENT_PREFIX \<le> MAX_FSTAB_LINE_BYTES"
  shows "\<exists>ms. parse_fstab (comment_out COMMENT_PREFIX fstab l) = Inr ms"
proof (cases rule: fstab_editor.edit_exact [OF parse_fstab_scan [OF parse] select])
  case (1 before content after ls1 ls2 fs)
  have doc: "CHR 0x00 \<notin> set fstab" "utf8_valid fstab"
    using parse by (simp_all add: parse_fstab_def split: if_splits)
  have "slice fstab (pl_start l) (pl_content_end l) = content"
    and "pl_content_end l - pl_start l = length content"
    unfolding 1(1,6) by (simp_all add: slice_def line_at_def)
  then obtain ms where "scan_lines fstab_content 0 1 (comment_out COMMENT_PREFIX fstab l) = Inr ms"
    using fstab_editor.edit_rescans [OF parse_fstab_scan [OF parse] select]
      fstab_comment_line [OF 1(7)] line by force
  moreover have "utf8_valid (comment_out COMMENT_PREFIX fstab l)"
    unfolding 1(5) using utf8_insert [OF _ 1(2) comment_prefix_ascii(1)] doc(2) 1(1) by simp
  moreover have "CHR 0x00 \<notin> set (comment_out COMMENT_PREFIX fstab l)"
    unfolding 1(5) using doc(1) comment_prefix_ascii(2) 1(1) by simp
  moreover have "comment_out COMMENT_PREFIX fstab l \<noteq> []"
    "length (comment_out COMMENT_PREFIX fstab l) \<le> MAX_FSTAB_BYTES"
    unfolding 1(5) using size 1(1) by (simp_all add: COMMENT_PREFIX_def)
  ultimately show ?thesis by (simp add: parse_fstab_def)
qed

lemma preview_intro:
  assumes "normalize_observed_uuids uuids = Inr observed" and "parse_fstab fstab = Inr ls"
    and "select_lines (fstab_check observed) ls = Inr [(l, c)]"
    and "length fstab + length COMMENT_PREFIX \<le> MAX_FSTAB_BYTES"
    and "pl_content_end l - pl_start l + length COMMENT_PREFIX \<le> MAX_FSTAB_LINE_BYTES"
  shows "\<exists>p. preview_disable_missing_uuid sha fstab uuids = Inr p \<and>
    (dp_selected_uuid p, dp_selected_mountpoint p) = c"
proof -
  obtain ms where "parse_fstab (comment_out COMMENT_PREFIX fstab l) = Inr ms"
    using proposed_parses [OF assms(2-5)] by blast
  then show ?thesis
    using assms(1-3) by (cases c) (simp add: preview_disable_missing_uuid_def Let_def)
qed

lemma example_sizes:
  "length example_fstab + length COMMENT_PREFIX \<le> MAX_FSTAB_BYTES"
  "pl_content_end (line_at 0 1 example_fstab f) - pl_start (line_at 0 1 example_fstab f)
     + length COMMENT_PREFIX \<le> MAX_FSTAB_LINE_BYTES"
  by (simp_all add: line_at_def example_fstab_plain COMMENT_PREFIX_def MAX_FSTAB_BYTES_def
      MAX_FSTAB_LINE_BYTES_def)

lemma example_preview: "\<exists>p. preview_disable_missing_uuid (\<lambda>_. []) example_fstab [] = Inr p"
  using preview_intro [OF example_fstab_selected(1) example_fstab_parse example_fstab_selected(2)
      example_sizes] by blast

section \<open>Properties\<close>

text \<open>
  C8: an accepted preview changes the document in exactly one place.  It inserts the comment
  prefix at the start of one line and keeps every other byte; the reported line number is that
  line's; and the line is an active, mandatory \<^verbatim>\<open>ext4\<close> entry with an absent UUID, mounted below
  \<^verbatim>\<open>/mnt\<close>, \<^verbatim>\<open>/media\<close> or \<^verbatim>\<open>/srv\<close>, neither bound nor on the network.
\<close>

theorem fstab_preview_edit_exact:
  assumes "preview_disable_missing_uuid sha fstab uuids = Inr p"
  shows "\<exists>observed before line after fs. normalize_observed_uuids uuids = Inr observed \<and>
    fstab = before @ line @ after \<and> dp_proposed_fstab p = before @ COMMENT_PREFIX @ line @ after \<and>
    whole_lines before \<and> newline \<notin> set line \<and> (after = [] \<or> hd after = newline) \<and>
    dp_source_line p = 1 + count_list before newline \<and> fstab_content line = Inr (Some fs) \<and>
    disables_only observed (dp_selected_uuid p) (dp_selected_mountpoint p) fs"
  using assms
proof (cases rule: preview_ok)
  case (1 observed ls l ms)
  show ?thesis
  proof (cases rule: fstab_editor.edit_exact [OF parse_fstab_scan [OF 1(2)] 1(3)])
    case (1 before line after ls1 ls2 fs)
    with \<open>normalize_observed_uuids uuids = Inr observed\<close> \<open>dp_source_line p = pl_line_number l\<close>
      \<open>dp_proposed_fstab p = comment_out COMMENT_PREFIX fstab l\<close>
    have "normalize_observed_uuids uuids = Inr observed" "fstab = before @ line @ after"
      "dp_proposed_fstab p = before @ COMMENT_PREFIX @ line @ after" "whole_lines before"
      "newline \<notin> set line" "after = [] \<or> hd after = newline"
      "dp_source_line p = 1 + count_list before newline" "fstab_content line = Inr (Some fs)"
      "disables_only observed (dp_selected_uuid p) (dp_selected_mountpoint p) fs"
      by (simp_all add: line_at_def fstab_check_ok)
    then show ?thesis by blast
  qed
qed

theorem fstab_preview_edit_exact_witness:
  "\<exists>p. preview_disable_missing_uuid (\<lambda>_. []) example_fstab [] = Inr p \<and>
     length (dp_proposed_fstab p) = length COMMENT_PREFIX + length example_fstab"
proof -
  obtain p where ok: "preview_disable_missing_uuid (\<lambda>_. []) example_fstab [] = Inr p"
    using example_preview by blast
  from fstab_preview_edit_exact [OF ok] obtain before line after where
    doc: "example_fstab = before @ line @ after"
    and proposed: "dp_proposed_fstab p = before @ COMMENT_PREFIX @ line @ after" by blast
  have "length (dp_proposed_fstab p) = length COMMENT_PREFIX + length example_fstab"
    unfolding proposed doc by simp
  with ok show ?thesis by blast
qed

text \<open>
  C31: the repair settles.  Previewing the proposed document again, with the same observed UUIDs,
  finds nothing to repair: the edit neither leaves the entry active nor exposes another one.
\<close>

theorem fstab_preview_settles:
  assumes "preview_disable_missing_uuid sha fstab uuids = Inr p"
  shows "preview_disable_missing_uuid sha (dp_proposed_fstab p) uuids = Inl RepairNotApplicable"
  using assms
proof (cases rule: preview_ok)
  case (1 observed ls l ms)
  have "select_lines (fstab_check observed) ms = Inr []"
    using fstab_editor.edit_settles [OF parse_fstab_scan [OF 1(2)] 1(3)] parse_fstab_scan [OF 1(6)]
    unfolding 1(5) by blast
  then show ?thesis by (simp add: preview_disable_missing_uuid_def 1(1,6))
qed

theorem fstab_preview_settles_witness:
  "\<exists>p. preview_disable_missing_uuid (\<lambda>_. []) example_fstab [] = Inr p \<and>
     preview_disable_missing_uuid (\<lambda>_. []) (dp_proposed_fstab p) [] = Inl RepairNotApplicable"
  using example_preview fstab_preview_settles by blast

text \<open>
  C32: the preview succeeds whenever the rules select exactly one line and the edited document and
  line stay within their size limits.  The second parse, which guards the proposed document, can
  refuse for size only.
\<close>

theorem fstab_preview_succeeds:
  assumes "normalize_observed_uuids uuids = Inr observed" and "parse_fstab fstab = Inr ls"
    and "select_lines (fstab_check observed) ls = Inr [(l, c)]"
    and "length fstab + length COMMENT_PREFIX \<le> MAX_FSTAB_BYTES"
    and "pl_content_end l - pl_start l + length COMMENT_PREFIX \<le> MAX_FSTAB_LINE_BYTES"
  shows "\<exists>p. preview_disable_missing_uuid sha fstab uuids = Inr p \<and>
    (dp_selected_uuid p, dp_selected_mountpoint p) = c"
  using assms by (rule preview_intro)

theorem fstab_preview_succeeds_witness:
  "\<exists>p. preview_disable_missing_uuid (\<lambda>_. []) example_fstab [] = Inr p \<and>
     dp_selected_mountpoint p = ''/mnt/d''"
  using fstab_preview_succeeds [OF example_fstab_selected(1) example_fstab_parse
      example_fstab_selected(2) example_sizes, of "\<lambda>_. []"]
  by auto

end
