(* ===== verification/KA_Crypttab_Preview.thy ===== *)
theory KA_Crypttab_Preview
  imports KA_Lines
begin

text \<open>
  The pure preview of the Rescue \<^verbatim>\<open>crypttab\<close> repair,
  \<^verbatim>\<open>packs/linux/src/rescue_crypttab_candidate.rs\<close>.  It shares the line scanner and the edit with
  the \<^verbatim>\<open>fstab\<close> preview; constants whose names clash with that module carry the prefix
  \<^verbatim>\<open>CRYPTTAB\<close>.
\<close>

section \<open>Constants, data\<close>

definition MAX_DOCUMENT_BYTES :: nat where
  "MAX_DOCUMENT_BYTES = 1024 * 1024"

definition MAX_LINE_BYTES :: nat where
  "MAX_LINE_BYTES = 16 * 1024"

definition MAX_FIELDS :: nat where
  "MAX_FIELDS = 6"

definition CRYPTTAB_MAX_OBSERVED_UUIDS :: nat where
  "CRYPTTAB_MAX_OBSERVED_UUIDS = 4096"

definition CRYPTTAB_MAX_UUID_BYTES :: nat where
  "CRYPTTAB_MAX_UUID_BYTES = 128"

definition MAX_NAME_BYTES :: nat where
  "MAX_NAME_BYTES = 128"

definition CRYPTTAB_COMMENT_PREFIX :: string where
  "CRYPTTAB_COMMENT_PREFIX = ''# KernAid Rescue disabled missing crypttab UUID: ''"

definition UUID_SET_DOMAIN :: string where
  "UUID_SET_DOMAIN = domain_tag ''kernaid:linux.crypttab.disable-missing-uuid.v1:uuid-set:v1''"

definition FSTAB_CONSUMER_DOMAIN :: string where
  "FSTAB_CONSUMER_DOMAIN =
     domain_tag ''kernaid:linux.crypttab.disable-missing-uuid.v1:fstab-consumers:v1''"

definition DIFF_DOMAIN :: string where
  "DIFF_DOMAIN = domain_tag ''kernaid:linux.crypttab.disable-missing-uuid.v1:diff:v1''"

datatype CrypttabPreviewError =
    CInvalidCrypttabSize
  | CInvalidFstabSize
  | CMalformedCrypttab
  | CMalformedFstab
  | CTooManyObservedUuids
  | CInvalidObservedUuid
  | CAmbiguousObservedUuid
  | CRepairNotApplicable
  | CAmbiguousTarget
  | CCriticalMapping
  | CUnsupportedKeySource
  | CUnsupportedMapping
  | CMandatoryFstabConsumer

record DisableMissingCrypttabUuidPreview =
  cp_source_line :: nat
  cp_proposed_crypttab :: string
  cp_before_sha256 :: string
  cp_observed_uuid_set_sha256 :: string
  cp_fstab_consumer_set_sha256 :: string
  cp_after_sha256 :: string
  cp_diff_sha256 :: string

section \<open>Parsing\<close>

definition crypttab_content ::
    "CrypttabPreviewError \<Rightarrow> string \<Rightarrow> CrypttabPreviewError + string list option" where
  "crypttab_content malformed content =
     (if length content > MAX_LINE_BYTES \<or> CHR 0x0D \<in> set content
         \<or> list_ex (\<lambda>b. of_char b < (0x20 :: nat) \<and> b \<noteq> CHR 0x09) content
      then Inl malformed
      else case dropWhile blank content of
        [] \<Rightarrow> Inr None
      | c # _ \<Rightarrow>
          if c = CHR ''#'' then Inr None
          else map_sum id Some (scan_fields Inr True MAX_FIELDS malformed [] content))"

definition parse_lines ::
    "string \<Rightarrow> bool \<Rightarrow> CrypttabPreviewError \<Rightarrow> CrypttabPreviewError
     \<Rightarrow> CrypttabPreviewError + ParsedLine list" where
  "parse_lines bytes empty_allowed malformed invalid_size =
     (if length bytes > MAX_DOCUMENT_BYTES \<or> \<not> empty_allowed \<and> bytes = [] then Inl invalid_size
      else if CHR 0x00 \<in> set bytes \<or> \<not> utf8_valid bytes then Inl malformed
      else scan_lines (crypttab_content malformed) 0 1 bytes)"

section \<open>UUIDs, names, options\<close>

definition crypttab_normalize_uuid :: "string \<Rightarrow> string option" where
  "crypttab_normalize_uuid value =
     (if value = [] \<or> length value > CRYPTTAB_MAX_UUID_BYTES \<or> hd value = CHR ''-''
         \<or> last value = CHR ''-'' \<or> \<not> list_all (\<lambda>b. ascii_hexdigit b \<or> b = CHR ''-'') value
      then None
      else if \<not> utf8_valid value then None
      else Some (to_ascii_lowercase value))"

fun crypttab_insert_normalized ::
    "string list \<Rightarrow> string list \<Rightarrow> CrypttabPreviewError + string list" where
  "crypttab_insert_normalized normalized [] = Inr normalized"
| "crypttab_insert_normalized normalized (v # vs) =
     (case crypttab_normalize_uuid v of
        None \<Rightarrow> Inl CInvalidObservedUuid
      | Some uuid \<Rightarrow>
          if uuid \<in> set normalized then Inl CAmbiguousObservedUuid
          else crypttab_insert_normalized (insort uuid normalized) vs)"

definition normalize_observed :: "string list \<Rightarrow> CrypttabPreviewError + string list" where
  "normalize_observed vs =
     (if length vs > CRYPTTAB_MAX_OBSERVED_UUIDS then Inl CTooManyObservedUuids
      else crypttab_insert_normalized [] vs)"

definition valid_mapper_name :: "string \<Rightarrow> bool" where
  "valid_mapper_name value \<longleftrightarrow>
     value \<noteq> [] \<and> length value \<le> MAX_NAME_BYTES \<and> hd value \<noteq> CHR ''-'' \<and>
     list_all (\<lambda>b. ascii_alphanumeric b \<or> b \<in> {CHR ''_'', CHR ''.'', CHR ''+'', CHR ''-''}) value"

definition parse_options :: "string option \<Rightarrow> string list option" where
  "parse_options value =
     (case value of
        None \<Rightarrow> Some []
      | Some text \<Rightarrow>
          if \<not> utf8_valid text then None
          else if text = ''none'' \<or> text = ''-'' then Some []
          else let os = split_on (CHR '','') text in
            if list_ex (\<lambda>x. x = []) os then None else Some os)"

definition has_critical_option :: "string list \<Rightarrow> bool" where
  "has_critical_option os \<longleftrightarrow>
     list_ex (\<lambda>x. x \<in> {''initramfs'', ''x-initrd.attach'', ''swap'', ''resume'', ''_netdev''}
       \<or> starts_with x ''keyscript='') os"

text \<open>
  The source compares the lossily decoded name with ASCII literals.  Decoding replaces invalid
  bytes by a non-ASCII character and keeps ASCII bytes, so the comparisons agree on the bytes.
\<close>

definition critical_name :: "string \<Rightarrow> bool" where
  "critical_name name \<longleftrightarrow>
     (let lower = to_ascii_lowercase name in
      lower \<in> {''root'', ''cryptroot'', ''swap'', ''cryptswap'', ''resume''}
      \<or> starts_with lower ''cryptroot-'')"

section \<open>Consumers in fstab\<close>

definition octal :: "char \<Rightarrow> bool" where
  "octal c \<longleftrightarrow> byte_in 0x30 0x37 c"

definition unprintable :: "nat \<Rightarrow> bool" where
  "unprintable b \<longleftrightarrow> b < 0x20 \<or> b = 0x7F"

definition octal_byte :: "char \<Rightarrow> char \<Rightarrow> char \<Rightarrow> nat" where
  "octal_byte a b c = (of_char a - 48) * 64 + (of_char b - 48) * 8 + (of_char c - 48)"

fun decode_fstab_field :: "string \<Rightarrow> CrypttabPreviewError + string" where
  "decode_fstab_field [] = Inr []"
| "decode_fstab_field (x # r) =
     (if x \<noteq> CHR 0x5C then
        (if unprintable (of_char x) then Inl CMalformedFstab
         else map_sum id ((#) x) (decode_fstab_field r))
      else case r of
        a # b # c # r' \<Rightarrow>
          if \<not> (octal a \<and> octal b \<and> octal c) \<or> octal_byte a b c > 255
             \<or> unprintable (octal_byte a b c)
          then Inl CMalformedFstab
          else map_sum id ((#) (char_of (octal_byte a b c))) (decode_fstab_field r')
      | _ \<Rightarrow> Inl CMalformedFstab)"

fun decode_all :: "string list \<Rightarrow> CrypttabPreviewError + string list" where
  "decode_all [] = Inr []"
| "decode_all (f # fs) =
     (case decode_fstab_field f of
        Inl e \<Rightarrow> Inl e
      | Inr d \<Rightarrow> map_sum id ((#) d) (decode_all fs))"

definition mapper_source_matches :: "string \<Rightarrow> string \<Rightarrow> bool" where
  "mapper_source_matches source name \<longleftrightarrow>
     source = ''/dev/mapper/'' @ name \<or> source = ''/dev/disk/by-id/dm-name-'' @ name"

fun mandatory_consumer :: "string \<Rightarrow> ParsedLine list \<Rightarrow> CrypttabPreviewError + bool" where
  "mandatory_consumer name [] = Inr False"
| "mandatory_consumer name (l # ls) =
     (case pl_fields l of
        None \<Rightarrow> mandatory_consumer name ls
      | Some raw \<Rightarrow>
          if \<not> (4 \<le> length raw \<and> length raw \<le> 6) then Inl CMalformedFstab
          else case decode_all raw of
            Inl e \<Rightarrow> Inl e
          | Inr fs \<Rightarrow>
              if list_ex (\<lambda>v. \<not> utf8_valid v \<or> parse_u32 v = None) (drop 4 fs)
              then Inl CMalformedFstab
              else if \<not> mapper_source_matches (fs ! 0) name then mandatory_consumer name ls
              else if \<not> utf8_valid (fs ! 3) then Inl CMalformedFstab
              else let os = split_on (CHR '','') (fs ! 3) in
                if list_ex (\<lambda>x. x = []) os then Inl CMalformedFstab
                else if \<not> list_ex (\<lambda>x. x = ''nofail'' \<or> x = ''noauto'') os then Inr True
                else mandatory_consumer name ls)"

definition fstab_has_mandatory_consumer ::
    "string \<Rightarrow> string \<Rightarrow> CrypttabPreviewError + bool" where
  "fstab_has_mandatory_consumer fstab name =
     (case parse_lines fstab True CMalformedFstab CInvalidFstabSize of
        Inl e \<Rightarrow> Inl e
      | Inr ls \<Rightarrow> mandatory_consumer name ls)"

section \<open>Digests\<close>

definition crypttab_sha256 :: "(string \<Rightarrow> string) \<Rightarrow> string \<Rightarrow> string" where
  "crypttab_sha256 sha bytes = ''sha256:'' @ sha bytes"

definition uuid_set_sha256 :: "(string \<Rightarrow> string) \<Rightarrow> string list \<Rightarrow> string" where
  "uuid_set_sha256 sha vs =
     ''sha256:'' @ sha (UUID_SET_DOMAIN @ u64_be (of_nat (length vs)) @ frames vs)"

definition fstab_consumer_sha256 :: "(string \<Rightarrow> string) \<Rightarrow> string \<Rightarrow> string \<Rightarrow> string" where
  "fstab_consumer_sha256 sha fstab name =
     ''sha256:'' @ sha (FSTAB_CONSUMER_DOMAIN @ frame fstab @ frame name)"

definition crypttab_diff_sha256 :: "(string \<Rightarrow> string) \<Rightarrow> string \<Rightarrow> ParsedLine \<Rightarrow> string" where
  "crypttab_diff_sha256 sha document target =
     (let original = slice document (pl_start target) (pl_content_end target) in
      ''sha256:'' @ sha (DIFF_DOMAIN @ u64_be (of_nat (pl_start target)) @
        u64_be (of_nat (pl_content_end target)) @ frame original @
        frame (CRYPTTAB_COMMENT_PREFIX @ original)))"

section \<open>The preview\<close>

definition unsupported_option :: "string \<Rightarrow> bool" where
  "unsupported_option x \<longleftrightarrow>
     starts_with x ''keyfile-'' \<or> starts_with x ''header='' \<or> starts_with x ''pkcs11-uri='' \<or>
     starts_with x ''fido2-device='' \<or> starts_with x ''tpm2-device=''"

definition field_at :: "string list \<Rightarrow> nat \<Rightarrow> string option" where
  "field_at fs i = (if i < length fs then Some (fs ! i) else None)"

definition crypttab_check ::
    "string \<Rightarrow> string list \<Rightarrow> string list \<Rightarrow> CrypttabPreviewError + string option" where
  "crypttab_check fstab observed fs =
     (if \<not> (2 \<le> length fs \<and> length fs \<le> 4) then Inl CMalformedCrypttab
      else if \<not> valid_mapper_name (fs ! 0) then Inl CMalformedCrypttab
      else case strip_prefix (fs ! 1) ''UUID='' of
        None \<Rightarrow> Inr None
      | Some raw_uuid \<Rightarrow>
          (case crypttab_normalize_uuid raw_uuid of
             None \<Rightarrow> Inl CMalformedCrypttab
           | Some uuid \<Rightarrow>
               if uuid \<in> set observed then Inr None
               else if (case field_at fs 2 of None \<Rightarrow> False | Some v \<Rightarrow> v \<noteq> ''none'' \<and> v \<noteq> ''-'')
               then Inl CUnsupportedKeySource
               else case parse_options (field_at fs 3) of
                 None \<Rightarrow> Inl CMalformedCrypttab
               | Some os \<Rightarrow>
                   if list_ex (\<lambda>x. x = ''nofail'' \<or> x = ''noauto'') os then Inr None
                   else if critical_name (fs ! 0) \<or> has_critical_option os
                   then Inl CCriticalMapping
                   else if list_ex unsupported_option os then Inl CUnsupportedMapping
                   else case fstab_has_mandatory_consumer fstab (fs ! 0) of
                     Inl e \<Rightarrow> Inl e
                   | Inr True \<Rightarrow> Inl CMandatoryFstabConsumer
                   | Inr False \<Rightarrow> Inr (Some (fs ! 0))))"

abbreviation parse_crypttab :: "string \<Rightarrow> CrypttabPreviewError + ParsedLine list" where
  "parse_crypttab doc \<equiv> parse_lines doc False CMalformedCrypttab CInvalidCrypttabSize"

definition preview_disable_missing_crypttab_uuid ::
    "(string \<Rightarrow> string) \<Rightarrow> string \<Rightarrow> string \<Rightarrow> string list
     \<Rightarrow> CrypttabPreviewError + DisableMissingCrypttabUuidPreview" where
  "preview_disable_missing_crypttab_uuid sha crypttab fstab observed_uuids =
     (case normalize_observed observed_uuids of
        Inl e \<Rightarrow> Inl e
      | Inr observed \<Rightarrow>
          (case parse_crypttab crypttab of
             Inl e \<Rightarrow> Inl e
           | Inr ls \<Rightarrow>
               (case select_lines (crypttab_check fstab observed) ls of
                  Inl e \<Rightarrow> Inl e
                | Inr candidates \<Rightarrow>
                    (case candidates of
                       [] \<Rightarrow> Inl CRepairNotApplicable
                     | [(target, name)] \<Rightarrow>
                         let proposed = comment_out CRYPTTAB_COMMENT_PREFIX crypttab target in
                         (case parse_crypttab proposed of
                            Inl e \<Rightarrow> Inl e
                          | Inr _ \<Rightarrow>
                              Inr \<lparr>cp_source_line = pl_line_number target,
                                   cp_proposed_crypttab = proposed,
                                   cp_before_sha256 = crypttab_sha256 sha crypttab,
                                   cp_observed_uuid_set_sha256 = uuid_set_sha256 sha observed,
                                   cp_fstab_consumer_set_sha256 = fstab_consumer_sha256 sha fstab name,
                                   cp_after_sha256 = crypttab_sha256 sha proposed,
                                   cp_diff_sha256 = crypttab_diff_sha256 sha crypttab target\<rparr>)
                     | _ \<Rightarrow> Inl CAmbiguousTarget))))"

interpretation crypttab_editor: line_editor "crypttab_content malformed" CRYPTTAB_COMMENT_PREFIX
  for malformed
  by unfold_locales
     (auto simp: CRYPTTAB_COMMENT_PREFIX_def crypttab_content_def blank_def split: if_splits)

section \<open>What an accepted preview consists of\<close>

lemma crypttab_preview_ok:
  assumes "preview_disable_missing_crypttab_uuid sha crypttab fstab uuids = Inr p"
  obtains observed ls l name ms where "normalize_observed uuids = Inr observed"
    and "parse_crypttab crypttab = Inr ls"
    and "select_lines (crypttab_check fstab observed) ls = Inr [(l, name)]"
    and "cp_source_line p = pl_line_number l"
    and "cp_proposed_crypttab p = comment_out CRYPTTAB_COMMENT_PREFIX crypttab l"
    and "parse_crypttab (cp_proposed_crypttab p) = Inr ms"
proof -
  note prev = preview_disable_missing_crypttab_uuid_def
  obtain observed where o': "normalize_observed uuids = Inr observed"
    using assms by (cases "normalize_observed uuids") (simp_all add: prev)
  obtain ls where ls: "parse_crypttab crypttab = Inr ls"
    using assms o' by (cases "parse_crypttab crypttab") (simp_all add: prev)
  obtain cs where cs: "select_lines (crypttab_check fstab observed) ls = Inr cs"
    using assms o' ls by (cases "select_lines (crypttab_check fstab observed) ls") (simp_all add: prev)
  obtain l name where one: "cs = [(l, name)]"
    using assms o' ls cs by (auto simp: prev split: list.splits)
  obtain ms where ms: "parse_crypttab (comment_out CRYPTTAB_COMMENT_PREFIX crypttab l) = Inr ms"
    using assms o' ls cs one
    by (cases "parse_crypttab (comment_out CRYPTTAB_COMMENT_PREFIX crypttab l)")
       (simp_all add: prev Let_def)
  show ?thesis
    using assms o' ls cs one ms by (intro that [OF o' ls, of l name ms]) (auto simp: prev Let_def)
qed

lemma parse_crypttab_scan:
  "parse_crypttab doc = Inr ls \<Longrightarrow> scan_lines (crypttab_content CMalformedCrypttab) 0 1 doc = Inr ls"
  by (simp add: parse_lines_def split: if_splits)

text \<open>What the rules promise of the one mapping they select.\<close>

definition disables_mapping :: "string \<Rightarrow> string list \<Rightarrow> string list \<Rightarrow> bool" where
  "disables_mapping fstab observed fs \<longleftrightarrow>
     2 \<le> length fs \<and> length fs \<le> 4 \<and> valid_mapper_name (fs ! 0) \<and> \<not> critical_name (fs ! 0) \<and>
     (\<exists>raw u. fs ! 1 = ''UUID='' @ raw \<and> crypttab_normalize_uuid raw = Some u \<and> u \<notin> set observed) \<and>
     fstab_has_mandatory_consumer fstab (fs ! 0) = Inr False \<and>
     (\<exists>os. parse_options (field_at fs 3) = Some os \<and> \<not> has_critical_option os \<and>
        set os \<inter> {''nofail'', ''noauto''} = {})"

lemma crypttab_check_ok:
  assumes ok: "crypttab_check fstab observed fs = Inr (Some name)"
  shows "disables_mapping fstab observed fs \<and> name = fs ! 0"
proof -
  have shape: "2 \<le> length fs" "length fs \<le> 4" "valid_mapper_name (fs ! 0)"
    using ok by (auto simp: crypttab_check_def split: if_splits)
  obtain raw where raw: "strip_prefix (fs ! 1) ''UUID='' = Some raw"
    using ok shape by (cases "strip_prefix (fs ! 1) ''UUID=''") (simp_all add: crypttab_check_def)
  obtain u where u: "crypttab_normalize_uuid raw = Some u"
    using ok shape raw by (cases "crypttab_normalize_uuid raw") (simp_all add: crypttab_check_def)
  have absent: "u \<notin> set observed"
    using ok shape raw u by (auto simp: crypttab_check_def)
  obtain os where os: "parse_options (field_at fs 3) = Some os"
    using ok shape raw u absent
    by (cases "parse_options (field_at fs 3)") (simp_all add: crypttab_check_def split: if_splits)
  obtain b where b: "fstab_has_mandatory_consumer fstab (fs ! 0) = Inr b"
    using ok shape raw u absent os
    by (cases "fstab_has_mandatory_consumer fstab (fs ! 0)")
       (simp_all add: crypttab_check_def split: if_splits)
  have rest: "\<not> b" "\<not> list_ex (\<lambda>x. x = ''nofail'' \<or> x = ''noauto'') os"
    "\<not> critical_name (fs ! 0)" "\<not> has_critical_option os" "name = fs ! 0"
    using ok shape raw u absent os b
    by (cases b; auto simp: crypttab_check_def split: if_splits)+
  have "set os \<inter> {''nofail'', ''noauto''} = {}" using rest(2) unfolding list_ex_iff by blast
  then show ?thesis
    using shape raw u absent os b rest
    unfolding disables_mapping_def strip_prefix_Some_iff by auto
qed

section \<open>An example document\<close>

definition example_crypttab :: string where
  "example_crypttab = ''d UUID=7''"

lemma one_line_crypttab:
  assumes "crypttab_content CMalformedCrypttab doc = Inr f" and "doc \<noteq> []"
    and "list_all (byte_in 0x20 0x7F) doc" and "length doc \<le> 1000"
  shows "parse_crypttab doc = Inr [line_at 0 1 doc f]"
proof -
  have "newline \<notin> set doc" "CHR 0x00 \<notin> set doc"
    using assms(3) by (auto simp: list_all_iff byte_in_def)
  moreover have "utf8_valid doc"
    using assms(3) by (intro utf8_ascii) (auto simp: list_all_iff byte_in_def)
  ultimately show ?thesis
    using scan_line [of doc "[]" "crypttab_content CMalformedCrypttab" 0 1] assms
    by (simp add: parse_lines_def MAX_DOCUMENT_BYTES_def)
qed

lemma example_crypttab_parse:
  "parse_crypttab example_crypttab = Inr [line_at 0 1 example_crypttab (Some [''d'', ''UUID=7''])]"
  "parse_crypttab (CRYPTTAB_COMMENT_PREFIX @ example_crypttab)
     = Inr [line_at 0 1 (CRYPTTAB_COMMENT_PREFIX @ example_crypttab) None]"
  by (rule one_line_crypttab;
      simp add: crypttab_content_def example_crypttab_def CRYPTTAB_COMMENT_PREFIX_def blank_def
        scan_fields.simps byte_in_def MAX_LINE_BYTES_def MAX_FIELDS_def)+

lemma example_crypttab_check:
  "crypttab_check [] [] [''d'', ''UUID=7''] = Inr (Some ''d'')"
proof -
  have "utf8_valid ''7''" by (rule utf8_ascii) (simp add: byte_in_def)
  then show ?thesis
    by (simp add: crypttab_check_def valid_mapper_name_def MAX_NAME_BYTES_def ascii_class_defs
        crypttab_normalize_uuid_def CRYPTTAB_MAX_UUID_BYTES_def field_at_def parse_options_def
        critical_name_def to_ascii_lowercase_def has_critical_option_def starts_with_def
        fstab_has_mandatory_consumer_def parse_lines_def MAX_DOCUMENT_BYTES_def)
qed

lemma example_crypttab_preview:
  "\<exists>p. preview_disable_missing_crypttab_uuid (\<lambda>_. []) example_crypttab [] [] = Inr p"
proof -
  have "comment_out CRYPTTAB_COMMENT_PREFIX example_crypttab (line_at 0 1 example_crypttab f)
      = CRYPTTAB_COMMENT_PREFIX @ example_crypttab" for f
    by (simp add: comment_out_def slice_def line_at_def)
  moreover have "select_lines (crypttab_check [] [])
      [line_at 0 1 example_crypttab (Some [''d'', ''UUID=7''])]
      = Inr [(line_at 0 1 example_crypttab (Some [''d'', ''UUID=7'']), ''d'')]"
    by (simp add: line_at_def example_crypttab_check)
  moreover have "normalize_observed [] = Inr []" by (simp add: normalize_observed_def)
  ultimately show ?thesis
    unfolding preview_disable_missing_crypttab_uuid_def
    by (simp only: example_crypttab_parse sum.case list.case prod.case Let_def) blast
qed

section \<open>Properties\<close>

text \<open>
  C33: an accepted crypttab preview inserts the comment prefix at the start of exactly one line
  and keeps every other byte.  That line is a mapping with a valid, non-critical name and an
  absent UUID, without critical options, not marked optional, and nothing mandatory in
  \<^verbatim>\<open>fstab\<close> consumes it.
\<close>

theorem crypttab_preview_edit_exact:
  assumes "preview_disable_missing_crypttab_uuid sha crypttab fstab uuids = Inr p"
  shows "\<exists>observed before line after fs. normalize_observed uuids = Inr observed \<and>
    crypttab = before @ line @ after \<and>
    cp_proposed_crypttab p = before @ CRYPTTAB_COMMENT_PREFIX @ line @ after \<and>
    whole_lines before \<and> newline \<notin> set line \<and> (after = [] \<or> hd after = newline) \<and>
    cp_source_line p = 1 + count_list before newline \<and>
    crypttab_content CMalformedCrypttab line = Inr (Some fs) \<and> disables_mapping fstab observed fs"
  using assms
proof (cases rule: crypttab_preview_ok)
  case (1 observed ls l name ms)
  note outer = 1
  show ?thesis
  proof (cases rule: crypttab_editor.edit_exact [OF parse_crypttab_scan [OF 1(2)] 1(3)])
    case (1 before line after ls1 ls2 fs)
    then have "cp_proposed_crypttab p = before @ CRYPTTAB_COMMENT_PREFIX @ line @ after"
      "cp_source_line p = 1 + count_list before newline" "disables_mapping fstab observed fs"
      using outer by (simp_all add: line_at_def crypttab_check_ok)
    with outer(1) 1 show ?thesis by blast
  qed
qed

theorem crypttab_preview_edit_exact_witness:
  "\<exists>p. preview_disable_missing_crypttab_uuid (\<lambda>_. []) example_crypttab [] [] = Inr p \<and>
     length (cp_proposed_crypttab p) = length CRYPTTAB_COMMENT_PREFIX + length example_crypttab"
proof -
  obtain p where ok: "preview_disable_missing_crypttab_uuid (\<lambda>_. []) example_crypttab [] [] = Inr p"
    using example_crypttab_preview by blast
  from crypttab_preview_edit_exact [OF ok] obtain before line after where
    doc: "example_crypttab = before @ line @ after"
    and proposed: "cp_proposed_crypttab p = before @ CRYPTTAB_COMMENT_PREFIX @ line @ after" by blast
  have "length (cp_proposed_crypttab p) = length CRYPTTAB_COMMENT_PREFIX + length example_crypttab"
    unfolding proposed doc by simp
  with ok show ?thesis by blast
qed

text \<open>
  C34: previewing the proposed crypttab again, with the same evidence, finds nothing to repair.
\<close>

theorem crypttab_preview_settles:
  assumes "preview_disable_missing_crypttab_uuid sha crypttab fstab uuids = Inr p"
  shows "preview_disable_missing_crypttab_uuid sha (cp_proposed_crypttab p) fstab uuids
    = Inl CRepairNotApplicable"
  using assms
proof (cases rule: crypttab_preview_ok)
  case (1 observed ls l name ms)
  have "select_lines (crypttab_check fstab observed) ms = Inr []"
    using crypttab_editor.edit_settles [OF parse_crypttab_scan [OF 1(2)] 1(3)]
      parse_crypttab_scan [OF 1(6)] unfolding 1(5) by blast
  then show ?thesis by (simp add: preview_disable_missing_crypttab_uuid_def 1(1,6))
qed

theorem crypttab_preview_settles_witness:
  "\<exists>p. preview_disable_missing_crypttab_uuid (\<lambda>_. []) example_crypttab [] [] = Inr p \<and>
     preview_disable_missing_crypttab_uuid (\<lambda>_. []) (cp_proposed_crypttab p) [] []
       = Inl CRepairNotApplicable"
  using example_crypttab_preview crypttab_preview_settles by blast

end
