(* ===== verification/KA_Json.thy ===== *)
theory KA_Json
  imports KA_Prelude
begin

text \<open>
  Canonical JSON as the Fleet and update crates write it: \<^verbatim>\<open>validate_json_value\<close>,
  \<^verbatim>\<open>write_canonical_value\<close>, \<^verbatim>\<open>canonical_json\<close> and
  \<^verbatim>\<open>import_canonical\<close> of \<^verbatim>\<open>crates/fleet-policy/src/lib.rs\<close>, which
  \<^verbatim>\<open>crates/fleet-audit\<close> and \<^verbatim>\<open>crates/update-client\<close> repeat with their
  own error types.  A \<^verbatim>\<open>serde_json::Value\<close> is the datatype \<open>json\<close>; its object
  is a \<^verbatim>\<open>BTreeMap\<close>, an association list in strictly increasing key order.  The
  string literal \<^verbatim>\<open>serde_json\<close> writes and its two parsers are parameters.  The
  theory shows that on validated values the canonical bytes determine the value.
\<close>

section \<open>Values\<close>

text \<open>
  \<^verbatim>\<open>serde_json::Number\<close>: a non-negative integer, a negative one (at least
  \<open>- 2 ^ 63\<close>), or a float, kept as the text it prints.
\<close>

datatype number = PosInt u64 | NegInt int | Float string

datatype json =
    JNull
  | JBool bool
  | JNumber number
  | JString string
  | JArray "json list"
  | JObject "(string \<times> json) list"

text \<open>The object a \<^verbatim>\<open>BTreeMap\<close> holds after the given members were inserted.\<close>

definition object :: "(string \<times> json) list \<Rightarrow> json" where
  "object members = JObject (sort_key fst members)"

text \<open>
  What the crates answer when canonical JSON fails: the five error values of the crate at hand.
\<close>

record 'e json_errors =
  invalid_json :: 'e
  unsupported_value :: 'e
  unsafe_integer :: 'e
  non_canonical :: 'e
  too_large :: 'e

definition MAX_SAFE_JSON_INTEGER :: u64 where
  "MAX_SAFE_JSON_INTEGER = 9007199254740991"

section \<open>Validation and writing\<close>

text \<open>\<^verbatim>\<open>Iterator::try_for_each\<close>.\<close>

fun try_for_each :: "('a \<Rightarrow> 'e + unit) \<Rightarrow> 'a list \<Rightarrow> 'e + unit" where
  "try_for_each f [] = Inr ()"
| "try_for_each f (x # xs) = (case f x of Inl e \<Rightarrow> Inl e | Inr _ \<Rightarrow> try_for_each f xs)"

lemma try_for_each_cong [fundef_cong]:
  "xs = ys \<Longrightarrow> (\<And>x. x \<in> set ys \<Longrightarrow> f x = g x) \<Longrightarrow> try_for_each f xs = try_for_each g ys"
  by (induction xs arbitrary: ys) (auto split: sum.splits)

lemma try_for_each_Inr [simp]: "try_for_each f xs = Inr u \<longleftrightarrow> (\<forall>x \<in> set xs. f x = Inr ())"
  by (induction xs) auto

definition validate_number :: "'e json_errors \<Rightarrow> number \<Rightarrow> 'e + unit" where
  "validate_number E n =
     (case n of
        PosInt v \<Rightarrow> if v \<le> MAX_SAFE_JSON_INTEGER then Inr () else Inl (unsafe_integer E)
      | NegInt v \<Rightarrow> if nat \<bar>v\<bar> \<le> unat MAX_SAFE_JSON_INTEGER then Inr () else Inl (unsafe_integer E)
      | Float _ \<Rightarrow> Inl (unsupported_value E))"

fun validate_json_value :: "'e json_errors \<Rightarrow> json \<Rightarrow> 'e + unit" where
  "validate_json_value E JNull = Inr ()"
| "validate_json_value E (JBool b) = Inr ()"
| "validate_json_value E (JString s) = Inr ()"
| "validate_json_value E (JNumber n) = validate_number E n"
| "validate_json_value E (JArray vs) = try_for_each (validate_json_value E) vs"
| "validate_json_value E (JObject kvs) = try_for_each (\<lambda>kv. validate_json_value E (snd kv)) kvs"

fun decimal :: "nat \<Rightarrow> string" where
  "decimal n = (if n < 10 then [char_of (48 + n)] else decimal (n div 10) @ [char_of (48 + n mod 10)])"

declare decimal.simps [simp del]

definition number_text :: "number \<Rightarrow> string" where
  "number_text n =
     (case n of
        PosInt v \<Rightarrow> decimal (unat v)
      | NegInt v \<Rightarrow> CHR ''-'' # decimal (nat (- v))
      | Float t \<Rightarrow> t)"

text \<open>The pieces with a comma before every one but the first.\<close>

definition comma_separated :: "string list \<Rightarrow> string" where
  "comma_separated pieces =
     (case pieces of [] \<Rightarrow> [] | p # ps \<Rightarrow> p @ concat (map (\<lambda>q. CHR '','' # q) ps))"

text \<open>
  \<^verbatim>\<open>write_canonical_value\<close>: \<^const>\<open>None\<close> is its \<^verbatim>\<open>InvalidJson\<close>, for
  a key that has no value.  \<open>quote\<close> is \<^verbatim>\<open>serde_json::to_string\<close> on a string.
\<close>

fun write_canonical_value :: "(string \<Rightarrow> string) \<Rightarrow> json \<Rightarrow> string option" where
  "write_canonical_value quote JNull = Some ''null''"
| "write_canonical_value quote (JBool b) = Some (if b then ''true'' else ''false'')"
| "write_canonical_value quote (JNumber n) = Some (number_text n)"
| "write_canonical_value quote (JString s) = Some (quote s)"
| "write_canonical_value quote (JArray vs) =
     map_option (\<lambda>ts. ''['' @ comma_separated ts @ '']'')
       (those (map (write_canonical_value quote) vs))"
| "write_canonical_value quote (JObject kvs) =
     (let written = map (\<lambda>kv. (fst kv, write_canonical_value quote (snd kv))) kvs;
          member = (\<lambda>key. case map_of written key of
             Some (Some t) \<Rightarrow> Some (quote key @ '':'' @ t) | _ \<Rightarrow> None)
      in map_option (\<lambda>ts. ''{'' @ comma_separated ts @ ''}'')
           (those (map member (sort (map fst kvs)))))"

definition canonical_json :: "'e json_errors \<Rightarrow> (string \<Rightarrow> string) \<Rightarrow> json \<Rightarrow> 'e + string" where
  "canonical_json E quote v =
     (case validate_json_value E v of
        Inl e \<Rightarrow> Inl e
      | Inr _ \<Rightarrow>
          (case write_canonical_value quote v of
             None \<Rightarrow> Inl (invalid_json E)
           | Some bytes \<Rightarrow> Inr bytes))"

definition validate_size :: "'e json_errors \<Rightarrow> nat \<Rightarrow> nat \<Rightarrow> 'e + unit" where
  "validate_size E actual maximum =
     (if actual = 0 \<or> actual > maximum then Inl (too_large E) else Inr ())"

text \<open>
  \<open>from_value\<close> and \<open>from_doc\<close> are \<^verbatim>\<open>serde_json::from_slice\<close> at
  \<^verbatim>\<open>Value\<close> and at the document's type; \<open>to_json\<close> is the document's
  \<^verbatim>\<open>Serialize\<close> implementation.
\<close>

definition import_canonical ::
  "'e json_errors \<Rightarrow> (string \<Rightarrow> string) \<Rightarrow> (string \<Rightarrow> json option) \<Rightarrow> (string \<Rightarrow> 'a option) \<Rightarrow>
   ('a \<Rightarrow> json) \<Rightarrow> nat \<Rightarrow> string \<Rightarrow> 'e + 'a" where
  "import_canonical E quote from_value from_doc to_json maximum bytes =
     (case validate_size E (length bytes) maximum of Inl e \<Rightarrow> Inl e | Inr _ \<Rightarrow>
      case from_value bytes of None \<Rightarrow> Inl (invalid_json E) | Some v \<Rightarrow>
      case validate_json_value E v of Inl e \<Rightarrow> Inl e | Inr _ \<Rightarrow>
      case from_doc bytes of None \<Rightarrow> Inl (invalid_json E) | Some parsed \<Rightarrow>
      case canonical_json E quote (to_json parsed) of Inl e \<Rightarrow> Inl e | Inr canonical \<Rightarrow>
        if canonical \<noteq> bytes then Inl (non_canonical E) else Inr parsed)"

lemma import_canonical_Inr:
  "import_canonical E quote from_value from_doc to_json maximum bytes = Inr d \<longleftrightarrow>
   bytes \<noteq> [] \<and> length bytes \<le> maximum \<and>
   (\<exists>v. from_value bytes = Some v \<and> validate_json_value E v = Inr ()) \<and>
   from_doc bytes = Some d \<and> canonical_json E quote (to_json d) = Inr bytes"
  by (auto simp: import_canonical_def validate_size_def split: option.splits)

section \<open>Decimal numbers\<close>

lemma decimal_digits: "list_all ascii_digit (decimal n)"
proof (induction n rule: decimal.induct)
  case (1 n)
  have "n mod 10 < 10" by simp
  then have "n mod 10 \<le> 9" by simp
  with 1 show ?case
    by (subst decimal.simps) (simp add: ascii_digit_def [of "char_of _"] of_char_of)
qed

lemma decimal_nonempty [simp]: "decimal n \<noteq> []"
  by (subst decimal.simps) simp

lemma digits_value_decimal: "digits_value (decimal n) = n"
proof (induction n rule: decimal.induct)
  case (1 n)
  then show ?case
    by (subst decimal.simps) (auto simp: digits_value_def of_char_of)
qed

text \<open>A number is read back together with what follows it, when that is not another digit.\<close>

lemma decimal_rest:
  assumes "decimal m @ r = decimal n @ s"
    and "r = [] \<or> \<not> ascii_digit (hd r)" and "s = [] \<or> \<not> ascii_digit (hd s)"
  shows "m = n \<and> r = s"
proof -
  have span: "takeWhile ascii_digit (decimal k @ t) = decimal k"
    if "t = [] \<or> \<not> ascii_digit (hd t)" for k t
    using that decimal_digits [of k] by (cases t) (auto simp: list_all_iff takeWhile_append2)
  have "decimal m = decimal n"
    using span [OF assms(2), of m] span [OF assms(3), of n] assms(1) by simp
  with assms(1) show ?thesis by (metis append_eq_append_conv digits_value_decimal)
qed

section \<open>Canonical bytes determine the value\<close>

text \<open>
  The invariants of the Rust types: a \<^verbatim>\<open>NegInt\<close> is negative and the keys of a
  \<^verbatim>\<open>BTreeMap\<close> are strictly increasing.
\<close>

fun wf_json :: "json \<Rightarrow> bool" where
  "wf_json (JNumber n) = (case n of NegInt v \<Rightarrow> v < 0 | _ \<Rightarrow> True)"
| "wf_json (JArray vs) = list_all wf_json vs"
| "wf_json (JObject kvs) = (sorted_wrt (<) (map fst kvs) \<and> list_all (\<lambda>kv. wf_json (snd kv)) kvs)"
| "wf_json _ = True"

fun json_text :: "(string \<Rightarrow> string) \<Rightarrow> json \<Rightarrow> string" where
  "json_text quote JNull = ''null''"
| "json_text quote (JBool b) = (if b then ''true'' else ''false'')"
| "json_text quote (JNumber n) = number_text n"
| "json_text quote (JString s) = quote s"
| "json_text quote (JArray vs) = ''['' @ comma_separated (map (json_text quote) vs) @ '']''"
| "json_text quote (JObject kvs) =
     ''{'' @ comma_separated (map (\<lambda>kv. quote (fst kv) @ '':'' @ json_text quote (snd kv)) kvs) @ ''}''"

lemma those_map_Some [simp]: "those (map (\<lambda>x. Some (f x)) xs) = Some (map f xs)"
  by (induction xs) simp_all

lemma sorted_keys [simp]: "sorted_wrt (<) (ks :: 'a::linorder list) \<Longrightarrow> sort ks = ks"
  by (simp add: sorted_sort_id strict_sorted_imp_sorted)

lemma map_of_values:
  "distinct (map fst kvs) \<Longrightarrow> kv \<in> set kvs \<Longrightarrow>
   map_of (map (\<lambda>kv. (fst kv, g (snd kv))) kvs) (fst kv) = Some (g (snd kv))"
  by (induction kvs) (auto simp: image_iff)

lemma write_wf: "wf_json v \<Longrightarrow> write_canonical_value quote v = Some (json_text quote v)"
proof (induction v)
  case (JArray vs)
  then have "map (write_canonical_value quote) vs = map (\<lambda>v. Some (json_text quote v)) vs"
    by (simp add: list_all_iff)
  then have "those (map (write_canonical_value quote) vs) = Some (map (json_text quote) vs)"
    by (simp only: those_map_Some)
  then show ?case by simp
next
  case (JObject kvs)
  let ?written = "map (\<lambda>kv. (fst kv, write_canonical_value quote (snd kv))) kvs"
  let ?member = "\<lambda>key. case map_of ?written key of
      Some (Some t) \<Rightarrow> Some (quote key @ '':'' @ t) | _ \<Rightarrow> None"
  let ?text = "\<lambda>kv. quote (fst kv) @ '':'' @ json_text quote (snd kv)"
  have keys: "sorted_wrt (<) (map fst kvs)" using JObject.prems by simp
  then have dist: "distinct (map fst kvs)" by (simp add: strict_sorted_iff)
  have "?member (fst kv) = Some (?text kv)" if "kv \<in> set kvs" for kv
  proof -
    have "write_canonical_value quote (snd kv) = Some (json_text quote (snd kv))"
      using JObject that by (auto simp: list_all_iff snds.simps)
    then show ?thesis using map_of_values [OF dist that, of "write_canonical_value quote"] by simp
  qed
  then have "map ?member (map fst kvs) = map (\<lambda>kv. Some (?text kv)) kvs" by simp
  then show ?case using keys by (simp add: Let_def del: map_map)
qed simp_all

text \<open>
  What the code relies on from \<^verbatim>\<open>serde_json\<close>'s string literals: each starts with a
  quotation mark and can be read back together with what follows it.
\<close>

definition json_quoting :: "(string \<Rightarrow> string) \<Rightarrow> bool" where
  "json_quoting quote \<longleftrightarrow>
     self_delimiting quote (\<lambda>_. True) \<and> (\<forall>s. \<exists>t. quote s = CHR 0x22 # t)"

text \<open>A value ends where the text ends or one of the three closing characters follows.\<close>

definition ends :: "string \<Rightarrow> bool" where
  "ends r \<longleftrightarrow> r = [] \<or> hd r \<in> {CHR '','', CHR '']'', CHR ''}''}"

lemma ends_simps [simp]:
  "ends []" "ends (CHR '','' # r)" "ends (CHR '']'' # r)" "ends (CHR ''}'' # r)"
  by (simp_all add: ends_def)

lemma ends_not_digit: "ends r \<Longrightarrow> r = [] \<or> \<not> ascii_digit (hd r)"
  by (auto simp: ends_def ascii_digit_def)

definition reads_back :: "('a \<Rightarrow> string) \<Rightarrow> 'a \<Rightarrow> 'a \<Rightarrow> bool" where
  "reads_back enc v w \<longleftrightarrow>
     (\<forall>r s. ends r \<longrightarrow> ends s \<longrightarrow> enc v @ r = enc w @ s \<longrightarrow> v = w \<and> r = s)"

definition begins :: "string \<Rightarrow> bool" where
  "begins t \<longleftrightarrow> t \<noteq> [] \<and> hd t \<notin> {CHR '','', CHR '']'', CHR ''}''}"

lemma tail_rest:
  assumes "\<And>v w. v \<in> set vs \<Longrightarrow> w \<in> set ws \<Longrightarrow> reads_back enc v w"
    and "c = CHR '']'' \<or> c = CHR ''}''"
    and "concat (map (\<lambda>v. CHR '','' # enc v) vs) @ c # r = concat (map (\<lambda>v. CHR '','' # enc v) ws) @ c # s"
  shows "vs = ws \<and> r = s"
  using assms(1,3)
proof (induction vs arbitrary: ws)
  case Nil
  then show ?case using assms(2) by (cases ws) auto
next
  case (Cons v vs)
  then obtain w ws' where ws: "ws = w # ws'" using assms(2) by (cases ws) auto
  let ?rest = "\<lambda>vs r. concat (map (\<lambda>v. CHR '','' # enc v) vs) @ c # r"
  have "ends (?rest us t)" for us t using assms(2) by (cases us) auto
  moreover have "enc v @ ?rest vs r = enc w @ ?rest ws' s" using Cons.prems(2) ws by simp
  moreover have "reads_back enc v w" using Cons.prems(1) ws by simp
  ultimately have "v = w" and "?rest vs r = ?rest ws' s"
    unfolding reads_back_def by blast+
  then show ?case using Cons.IH [of ws'] Cons.prems(1) ws by simp
qed

lemma comma_separated_rest:
  assumes each: "\<And>v w. v \<in> set vs \<Longrightarrow> w \<in> set ws \<Longrightarrow> reads_back enc v w"
    and begins: "\<And>v. v \<in> set vs \<union> set ws \<Longrightarrow> begins (enc v)"
    and c: "c = CHR '']'' \<or> c = CHR ''}''"
    and eq: "comma_separated (map enc vs) @ c # r = comma_separated (map enc ws) @ c # s"
  shows "vs = ws \<and> r = s"
proof -
  have head: "c # r' \<noteq> enc v @ t" if "v \<in> set vs \<union> set ws" for v t r'
    using begins [OF that] c by (cases "enc v") (auto simp: begins_def)
  have "vs \<noteq> []" if "ws = w # ws'" for w ws'
    using head [of w] eq that by (force simp: comma_separated_def)
  moreover have "ws \<noteq> []" if "vs = v # vs'" for v vs'
    using head [of v] eq [symmetric] that by (force simp: comma_separated_def)
  ultimately consider "vs = []" "ws = []" | v vs' w ws' where "vs = v # vs'" "ws = w # ws'"
    by (metis neq_Nil_conv)
  then show ?thesis
  proof cases
    case 1
    then show ?thesis using eq by (simp add: comma_separated_def)
  next
    case 2
    let ?rest = "\<lambda>vs r. concat (map (\<lambda>v. CHR '','' # enc v) vs) @ c # r"
    have "ends (?rest us t)" for us t using c by (cases us) auto
    moreover have "enc v @ ?rest vs' r = enc w @ ?rest ws' s"
      using eq 2 by (simp add: comma_separated_def comp_def)
    moreover have "reads_back enc v w" using each 2 by simp
    ultimately have "v = w" and "?rest vs' r = ?rest ws' s"
      unfolding reads_back_def by blast+
    moreover have "reads_back enc x y" if "x \<in> set vs'" "y \<in> set ws'" for x y
      using each 2 that by simp
    ultimately show ?thesis using tail_rest [OF _ c, of vs' ws' enc r s] 2 by blast
  qed
qed

lemma number_begins: "number_text n = c # t \<Longrightarrow> n \<noteq> Float (c # t) \<Longrightarrow> ascii_digit c \<or> c = CHR ''-''"
  using decimal_digits by (auto simp: number_text_def split: number.splits dest: arg_cong [of _ _ "list_all ascii_digit"])

lemma number_rest:
  assumes "\<And>t. m \<noteq> Float t" "\<And>t. n \<noteq> Float t"
    and "wf_json (JNumber m)" "wf_json (JNumber n)" "ends r" "ends s"
    and eq: "number_text m @ r = number_text n @ s"
  shows "m = n \<and> r = s"
proof -
  have minus: "decimal k @ x \<noteq> CHR ''-'' # y" for k x y
    using decimal_digits [of k] by (cases "decimal k") (auto simp: ascii_digit_def)
  note rest = decimal_rest [OF _ ends_not_digit [OF \<open>ends r\<close>] ends_not_digit [OF \<open>ends s\<close>]]
  show ?thesis
  proof (cases m; cases n)
    fix a b assume m: "m = PosInt a" and n: "n = PosInt b"
    then have "unat a = unat b \<and> r = s" using eq by (intro rest) (simp add: number_text_def)
    then show ?thesis using m n by (metis word_unat_eq_iff)
  next
    fix a b assume m: "m = NegInt a" and n: "n = NegInt b"
    then have "nat (- a) = nat (- b) \<and> r = s" using eq by (intro rest) (simp add: number_text_def)
    then show ?thesis using m n assms(3,4) by auto
  qed (use assms minus in \<open>auto simp: number_text_def dest: sym\<close>)
qed

text \<open>The validated values: no floats, however deep.\<close>

fun float_free :: "json \<Rightarrow> bool" where
  "float_free (JNumber n) = (case n of Float _ \<Rightarrow> False | _ \<Rightarrow> True)"
| "float_free (JArray vs) = list_all float_free vs"
| "float_free (JObject kvs) = list_all (\<lambda>kv. float_free (snd kv)) kvs"
| "float_free _ = True"

lemma validated_float_free: "validate_json_value E v = Inr u \<Longrightarrow> float_free v"
proof (induction v)
  case (JNumber n)
  then show ?case by (auto simp: validate_number_def split: number.splits)
qed (auto simp: list_all_iff snds.simps)

text \<open>The first character tells the kinds of value apart.\<close>

fun json_kind :: "json \<Rightarrow> nat" where
  "json_kind JNull = 0"
| "json_kind (JBool b) = (if b then 1 else 2)"
| "json_kind (JString s) = 3"
| "json_kind (JArray vs) = 4"
| "json_kind (JObject kvs) = 5"
| "json_kind (JNumber n) = 6"

definition first_kind :: "char \<Rightarrow> nat" where
  "first_kind c =
     (if c = CHR ''n'' then 0 else if c = CHR ''t'' then 1 else if c = CHR ''f'' then 2
      else if c = CHR 0x22 then 3 else if c = CHR ''['' then 4 else if c = CHR ''{'' then 5
      else if ascii_digit c \<or> c = CHR ''-'' then 6 else 7)"

lemma json_text_begins:
  assumes "json_quoting quote" and "float_free v"
  obtains c t where "json_text quote v = c # t" and "first_kind c = json_kind v"
proof (cases v)
  case (JNumber n)
  then obtain c t where shape: "number_text n = c # t"
    using assms(2) by (cases n; cases "number_text n") (auto simp: number_text_def)
  moreover have "n \<noteq> Float (c # t)" using assms(2) JNumber by auto
  ultimately have "ascii_digit c \<or> c = CHR ''-''" by (rule number_begins)
  then have "first_kind c = 6" by (auto simp: first_kind_def ascii_digit_def)
  then show ?thesis using that shape JNumber by simp
next
  case (JString s)
  obtain t where "quote s = CHR 0x22 # t" using assms(1) unfolding json_quoting_def by blast
  then show ?thesis using that JString by (simp add: first_kind_def)
next
  case (JBool b)
  then show ?thesis using that by (cases b) (simp_all add: first_kind_def)
qed (use that in \<open>auto simp: first_kind_def\<close>)

lemma first_kind_le: "json_kind v \<le> 6"
  by (cases v) auto

lemma json_text_opens:
  assumes "json_quoting quote" and "float_free v"
  shows "begins (json_text quote v)"
proof -
  obtain c t where shape: "json_text quote v = c # t" and kind: "first_kind c = json_kind v"
    using json_text_begins [OF assms] .
  from kind first_kind_le [of v] have "first_kind c \<noteq> 7" by simp
  then have "c \<notin> {CHR '','', CHR '']'', CHR ''}''}" by (auto simp: first_kind_def ascii_digit_def)
  with shape show ?thesis by (simp add: begins_def)
qed

lemma same_kind:
  assumes "json_quoting quote" "float_free v" "float_free w"
    and "json_text quote v @ r = json_text quote w @ s"
  shows "json_kind v = json_kind w"
  using assms(4) json_text_begins [OF assms(1,2)] json_text_begins [OF assms(1,3)]
  by (metis append_Cons list.inject)

lemma member_reads_back:
  assumes "json_quoting quote" and "reads_back (json_text quote) (snd kv) (snd lw)"
  shows "reads_back (\<lambda>kv. quote (fst kv) @ '':'' @ json_text quote (snd kv)) kv lw"
proof -
  have "self_delimiting quote (\<lambda>_. True)" using assms(1) by (simp add: json_quoting_def)
  note quoted = self_delimiting.enc_rest [OF this TrueI TrueI]
  show ?thesis
    using assms(2) unfolding reads_back_def by (auto dest!: quoted intro: prod_eqI)
qed

lemma json_text_reads_back:
  assumes q: "json_quoting quote"
  shows "wf_json v \<Longrightarrow> wf_json w \<Longrightarrow> float_free v \<Longrightarrow> float_free w \<Longrightarrow>
    reads_back (json_text quote) v w"
proof (induction v arbitrary: w)
  case JNull
  have "JNull = w" if "json_text quote JNull @ r = json_text quote w @ s" for r s
    using same_kind [OF q JNull(3,4) that] by (cases w) (simp_all split: if_splits)
  then show ?case unfolding reads_back_def by fastforce
next
  case (JBool b)
  have "JBool b = w" if "json_text quote (JBool b) @ r = json_text quote w @ s" for r s
    using same_kind [OF q JBool(3,4) that] by (cases w) (simp_all split: if_splits)
  then show ?case unfolding reads_back_def by (metis same_append_eq)
next
  case (JString t)
  have "self_delimiting quote (\<lambda>_. True)" using q by (simp add: json_quoting_def)
  note quoted = self_delimiting.enc_rest [OF this TrueI TrueI]
  show ?case
    unfolding reads_back_def
  proof (intro allI impI)
    fix r s assume eq: "json_text quote (JString t) @ r = json_text quote w @ s"
    then obtain u where w: "w = JString u"
      using same_kind [OF q JString(3,4)] by (cases w) (auto split: if_splits)
    with eq show "JString t = w \<and> r = s" using quoted [of t r u s] by simp
  qed
next
  case (JNumber m)
  show ?case
    unfolding reads_back_def
  proof (intro allI impI)
    fix r s
    assume ends: "ends r" "ends s" and eq: "json_text quote (JNumber m) @ r = json_text quote w @ s"
    then obtain n where w: "w = JNumber n"
      using same_kind [OF q JNumber(3,4)] by (cases w) (auto split: if_splits)
    have "m = n \<and> r = s"
    proof (rule number_rest [OF _ _ JNumber(1) _ ends])
      show "m \<noteq> Float t" "n \<noteq> Float t" for t using JNumber w by auto
    qed (use JNumber w eq in simp_all)
    with w show "JNumber m = w \<and> r = s" by simp
  qed
next
  case (JArray vs)
  show ?case
    unfolding reads_back_def
  proof (intro allI impI)
    fix r s assume eq: "json_text quote (JArray vs) @ r = json_text quote w @ s"
    then obtain ws where w: "w = JArray ws"
      using same_kind [OF q JArray(4,5)] by (cases w) (auto split: if_splits)
    have "vs = ws \<and> r = s"
    proof (rule comma_separated_rest [where c = "CHR '']''"])
      show "reads_back (json_text quote) v w'" if "v \<in> set vs" "w' \<in> set ws" for v w'
        using JArray that w by (auto simp: list_all_iff)
      show "begins (json_text quote v)" if "v \<in> set vs \<union> set ws" for v
        using JArray.prems that w json_text_opens [OF q] by (auto simp: list_all_iff)
    qed (use eq w in auto)
    with w show "JArray vs = w \<and> r = s" by simp
  qed
next
  case (JObject kvs)
  let ?member = "\<lambda>kv. quote (fst kv) @ '':'' @ json_text quote (snd kv)"
  show ?case
    unfolding reads_back_def
  proof (intro allI impI)
    fix r s assume eq: "json_text quote (JObject kvs) @ r = json_text quote w @ s"
    then obtain lws where w: "w = JObject lws"
      using same_kind [OF q JObject(4,5)] by (cases w) (auto split: if_splits)
    have "kvs = lws \<and> r = s"
    proof (rule comma_separated_rest [where c = "CHR ''}''" and enc = ?member])
      show "reads_back ?member kv lw" if "kv \<in> set kvs" "lw \<in> set lws" for kv lw
      proof (rule member_reads_back [OF q])
        show "reads_back (json_text quote) (snd kv) (snd lw)"
          using JObject that w by (auto simp: list_all_iff snds.simps)
      qed
      show "begins (?member kv)" if "kv \<in> set kvs \<union> set lws" for kv
      proof -
        obtain t where "quote (fst kv) = CHR 0x22 # t" using q unfolding json_quoting_def by blast
        then show ?thesis by (simp add: begins_def)
      qed
    qed (use eq w in auto)
    with w show "JObject kvs = w \<and> r = s" by simp
  qed
qed

lemma json_text_inject:
  assumes "json_quoting quote" "wf_json v" "wf_json w" "float_free v" "float_free w"
    and "json_text quote v = json_text quote w"
  shows "v = w"
  using json_text_reads_back [OF assms(1-5)] assms(6) ends_simps(1) unfolding reads_back_def by blast

lemma canonical_json_Inr:
  "wf_json v \<Longrightarrow>
   canonical_json E quote v = Inr bytes \<longleftrightarrow> validate_json_value E v = Inr () \<and> bytes = json_text quote v"
  by (auto simp: canonical_json_def write_wf split: sum.splits)

lemma canonical_json_determines:
  assumes q: "json_quoting quote" and wf: "wf_json v" "wf_json w"
    and v: "canonical_json E quote v = Inr bytes" and w: "canonical_json F quote w = Inr bytes"
  shows "v = w"
proof -
  have "float_free v" "float_free w"
    using v w wf validated_float_free by (auto simp: canonical_json_Inr)
  moreover have "json_text quote v = json_text quote w"
    using v w wf by (simp add: canonical_json_Inr)
  ultimately show ?thesis using json_text_inject [OF q wf] by blast
qed

section \<open>Objects of structs\<close>

text \<open>
  A derived \<^verbatim>\<open>Serialize\<close> inserts the fields of a struct, whose names are distinct,
  into the map one by one.
\<close>

lemma wf_object [simp]:
  "distinct (map fst members) \<Longrightarrow>
   wf_json (object members) \<longleftrightarrow> list_all (\<lambda>kv. wf_json (snd kv)) members"
  by (auto simp: object_def strict_sorted_iff list_all_iff distinct_map
      intro!: inj_on_subset [where A = "set members"])

lemma object_inject:
  assumes "distinct (map fst ms)" and keys: "map fst ms = map fst ns" and "object ms = object ns"
  shows "ms = ns"
proof -
  have "set ms = set ns"
    using assms(3) by (metis json.inject(5) object_def set_sort)
  then have same: "map_of ms = map_of ns"
    using assms(1) keys by (simp add: map_of_inject_set)
  have "xs = map (\<lambda>k. (k, the (map_of xs k))) (map fst xs)"
    if "distinct (map fst xs)" for xs :: "(string \<times> json) list"
    unfolding map_map using that by (intro map_idI [symmetric]) (auto simp: map_of_is_SomeI)
  from this [of ms] this [of ns] show ?thesis using assms(1) keys same by simp
qed

lemma validate_object [simp]:
  "validate_json_value E (object members) = Inr () \<longleftrightarrow>
   (\<forall>kv \<in> set members. validate_json_value E (snd kv) = Inr ())"
  by (simp add: object_def)

lemma ucast_u16_inject: "(ucast (a :: u16) :: u64) = ucast b \<longleftrightarrow> a = b"
  by transfer (simp add: take_bit_take_bit)

lemma ucast_u8_inject: "(ucast (a :: u8) :: u64) = ucast b \<longleftrightarrow> a = b"
  by transfer (simp add: take_bit_take_bit)

lemma ucast_u32_inject: "(ucast (a :: u32) :: u64) = ucast b \<longleftrightarrow> a = b"
  by transfer (simp add: take_bit_take_bit)

lemmas ucast_inject = ucast_u8_inject ucast_u16_inject ucast_u32_inject

section \<open>A quoting that can be read back\<close>

text \<open>
  The plain JSON quoting: quotation marks around the bytes, with a backslash before each
  quotation mark and backslash.  It shows that \<^const>\<open>json_quoting\<close> can hold.
\<close>

definition escape_byte :: "char \<Rightarrow> string" where
  "escape_byte c = (if c = CHR 0x22 \<or> c = CHR 0x5C then [CHR 0x5C, c] else [c])"

definition plain_quote :: "string \<Rightarrow> string" where
  "plain_quote s = CHR 0x22 # concat (map escape_byte s) @ [CHR 0x22]"

lemma escape_byte_rest: "escape_byte c @ x = escape_byte d @ y \<Longrightarrow> c = d \<and> x = y"
  by (auto simp: escape_byte_def split: if_splits)

lemma escape_byte_not_quote: "escape_byte c @ x \<noteq> CHR 0x22 # y" "CHR 0x22 # y \<noteq> escape_byte c @ x"
  by (auto simp: escape_byte_def)

lemma escaped_rest:
  "concat (map escape_byte s) @ CHR 0x22 # x = concat (map escape_byte t) @ CHR 0x22 # y \<Longrightarrow>
   s = t \<and> x = y"
proof (induction s arbitrary: t)
  case Nil
  then show ?case by (cases t) (simp_all add: escape_byte_not_quote)
next
  case (Cons c s)
  then obtain d t' where t: "t = d # t'"
    by (cases t) (simp_all add: escape_byte_not_quote)
  then have "escape_byte c @ (concat (map escape_byte s) @ CHR 0x22 # x) =
    escape_byte d @ (concat (map escape_byte t') @ CHR 0x22 # y)"
    using Cons.prems by simp
  then have "c = d" and "concat (map escape_byte s) @ CHR 0x22 # x = concat (map escape_byte t') @ CHR 0x22 # y"
    using escape_byte_rest by blast+
  then show ?case using Cons.IH t by blast
qed

lemma plain_quote_json_quoting: "json_quoting plain_quote"
  unfolding json_quoting_def
proof
  show "self_delimiting plain_quote (\<lambda>_. True)"
  proof
    fix a b x y assume "plain_quote a @ x = plain_quote b @ y"
    then show "a = b \<and> x = y" by (intro escaped_rest) (simp add: plain_quote_def)
  qed
qed (simp add: plain_quote_def)

lemma length_plain_quote_simps:
  "length (plain_quote []) = 2"
  "length (plain_quote (c # s)) = length (escape_byte c) + length (plain_quote s)"
  by (simp_all add: plain_quote_def)

lemma length_plain_quote_le: "length (plain_quote s) \<le> 2 * length s + 2"
  by (induction s) (simp_all add: length_plain_quote_simps escape_byte_def)

section \<open>Property\<close>

text \<open>
  canonical JSON is total on the values the validator accepts and injective on them: when
  the canonical bytes of two values agree, even written by two crates, the values are equal.
\<close>

theorem canonical_json_injective:
  assumes "json_quoting quote" and "wf_json v" and "wf_json w"
  shows "is_ok (canonical_json E quote v) = is_ok (validate_json_value E v) \<and>
    (canonical_json E quote v = Inr bytes \<and> canonical_json F quote w = Inr bytes \<longrightarrow> v = w)"
  using canonical_json_determines [OF assms] assms(2) by (auto simp: is_ok_iff canonical_json_Inr)

definition sample_errors :: "nat json_errors" where
  "sample_errors = \<lparr>invalid_json = 0, unsupported_value = 1, unsafe_integer = 2,
     non_canonical = 3, too_large = 4\<rparr>"

theorem canonical_json_injective_witness:
  "let v = object [(''b'', JNumber (PosInt 12)), (''a'', JArray [JNull, JBool True])];
       w = JObject [(''a'', JArray [JNull, JBool True]), (''b'', JNumber (PosInt 12))];
       bytes = [CHR ''{'', CHR 0x22, CHR ''a'', CHR 0x22] @ '':[null,true],'' @
         [CHR 0x22, CHR ''b'', CHR 0x22] @ '':12}''
   in canonical_json sample_errors plain_quote w = Inr bytes \<and>
      canonical_json sample_errors plain_quote v = Inr bytes \<and> v = w"
proof -
  let ?v = "object [(''b'', JNumber (PosInt 12)), (''a'', JArray [JNull, JBool True])]"
  let ?w = "JObject [(''a'', JArray [JNull, JBool True]), (''b'', JNumber (PosInt 12))]"
  let ?bytes = "[CHR ''{'', CHR 0x22, CHR ''a'', CHR 0x22] @ '':[null,true],'' @
    [CHR 0x22, CHR ''b'', CHR 0x22] @ '':12}''"
  have wf: "wf_json ?v" "wf_json ?w" by (simp_all add: object_def)
  have "canonical_json sample_errors plain_quote ?w = Inr ?bytes"
    by (simp add: canonical_json_Inr wf validate_number_def MAX_SAFE_JSON_INTEGER_def
        comma_separated_def plain_quote_def escape_byte_def number_text_def decimal.simps char_of_def bit_0)
  moreover have "canonical_json sample_errors plain_quote ?v = Inr ?bytes"
    by (simp add: canonical_json_Inr wf validate_number_def MAX_SAFE_JSON_INTEGER_def
        comma_separated_def plain_quote_def escape_byte_def number_text_def decimal.simps char_of_def bit_0 object_def)
  ultimately show ?thesis
    using canonical_json_injective [OF plain_quote_json_quoting wf,
      where E = sample_errors and F = sample_errors] by simp
qed

end
