(* ===== verification/KA_Documents.thy ===== *)
theory KA_Documents
  imports KA_Json
begin

text \<open>
  What the signed documents of the program share (\<^verbatim>\<open>crates/fleet-policy\<close>,
  \<^verbatim>\<open>crates/fleet-audit\<close>, \<^verbatim>\<open>crates/update-client\<close>,
  \<^verbatim>\<open>crates/entitlements\<close> and \<^verbatim>\<open>crates/device-identity\<close>): the
  third-party functions they call, hexadecimal digests, the field validators, the base64url
  signature field, binary search, and the anti-rollback register every durable checkpoint
  implements, as an interface with the history it guarantees.
\<close>

section \<open>Third-party functions\<close>

text \<open>
  One record holds the functions of other packages: \<^verbatim>\<open>serde_json\<close>'s string literal
  and its serialisation of a \<^verbatim>\<open>Value\<close> (\<^verbatim>\<open>to_vec\<close>),
  \<^verbatim>\<open>base64\<close>'s URL-safe unpadded codec, SHA-256 (to 32 raw bytes), Ed25519 (signing
  keys and verifying keys are 32 bytes, signatures 64) and RFC 3339 and URL parsing.
\<close>

record Url =
  url_scheme :: string
  url_host :: "string option"
  url_username :: string
  url_password :: "string option"
  url_fragment :: "string option"

record crates =
  quote_str :: "string \<Rightarrow> string"
  json_to_vec :: "json \<Rightarrow> string"
  b64_encode :: "string \<Rightarrow> string"
  b64_decode :: "string \<Rightarrow> string option"
  sha256 :: "string \<Rightarrow> string"
  ed_sign :: "string \<Rightarrow> string \<Rightarrow> string"
  ed_public :: "string \<Rightarrow> string"
  ed_valid_key :: "string \<Rightarrow> bool"
  ed_verify_strict :: "string \<Rightarrow> string \<Rightarrow> string \<Rightarrow> bool"
  rfc3339_ok :: "string \<Rightarrow> bool"
  url_parse :: "string \<Rightarrow> Url option"

text \<open>The documented behaviour the theorems rely on, one name for each fact.\<close>

definition to_vec_lossless :: "crates \<Rightarrow> bool" where
  "to_vec_lossless X \<longleftrightarrow>
     (\<forall>v w. wf_json v \<and> float_free v \<and> wf_json w \<and> float_free w \<and> json_to_vec X v = json_to_vec X w \<longrightarrow> v = w)"

definition sha256_width :: "crates \<Rightarrow> bool" where
  "sha256_width X \<longleftrightarrow> (\<forall>m. length (sha256 X m) = 32)"

definition b64_codec :: "crates \<Rightarrow> bool" where
  "b64_codec X \<longleftrightarrow>
     (\<forall>s. b64_decode X (b64_encode X s) = Some s \<and> CHR ''='' \<notin> set (b64_encode X s) \<and>
        length (b64_encode X s) = (length s * 8 + 5) div 6)"

definition ed25519_correct :: "crates \<Rightarrow> bool" where
  "ed25519_correct X \<longleftrightarrow>
     (\<forall>seed m. length (ed_sign X seed m) = 64 \<and> ed_valid_key X (ed_public X seed) \<and>
        ed_verify_strict X (ed_public X seed) m (ed_sign X seed m))"

section \<open>Hexadecimal digests\<close>

definition hex_digit :: "nat \<Rightarrow> char" where
  "hex_digit n = (if n < 10 then char_of (48 + n) else char_of (87 + n))"

text \<open>\<^verbatim>\<open>format!("{byte:02x}")\<close> on every byte.\<close>

definition hex_byte :: "char \<Rightarrow> string" where
  "hex_byte b = [hex_digit (of_char b div 16), hex_digit (of_char b mod 16)]"

definition hex_sha256 :: "string \<Rightarrow> string" where
  "hex_sha256 digest = concat (map hex_byte digest)"

definition hex_nibble :: "char \<Rightarrow> nat option" where
  "hex_nibble c =
     (if ascii_digit c then Some (of_char c - 48)
      else if lower_af c then Some (of_char c - 97 + 10) else None)"

lemma hex_digit_lower_hex: "n < 16 \<Longrightarrow> lower_hex (hex_digit n)"
  by (auto simp: hex_digit_def lower_hex_def ascii_digit_def lower_af_def of_char_of)

lemma hex_nibble_digit [simp]: "n < 16 \<Longrightarrow> hex_nibble (hex_digit n) = Some n"
  by (auto simp: hex_digit_def hex_nibble_def ascii_digit_def lower_af_def of_char_of)

lemma of_char_div_16: "(of_char (b :: char) :: nat) div 16 < 16"
proof -
  have "(of_char b :: nat) < 16 * 16" using nat_of_char_less_256 [of b] by simp
  then show ?thesis by (rule less_mult_imp_div_less)
qed

lemma length_hex_sha256 [simp]: "length (hex_sha256 d) = 2 * length d"
  by (induction d) (simp_all add: hex_sha256_def hex_byte_def)

lemma hex_sha256_lower_hex: "list_all lower_hex (hex_sha256 d)"
  by (induction d) (simp_all add: hex_sha256_def hex_byte_def hex_digit_lower_hex of_char_div_16)

text \<open>\<^verbatim>\<open>chunks_exact(2)\<close> with the two nibbles of each pair.\<close>

fun unhex :: "string \<Rightarrow> string option" where
  "unhex (a # b # r) =
     (case (hex_nibble a, hex_nibble b) of
        (Some high, Some low) \<Rightarrow> map_option (Cons (char_of (16 * high + low))) (unhex r)
      | _ \<Rightarrow> None)"
| "unhex _ = Some []"

lemma unhex_hex_sha256 [simp]: "unhex (hex_sha256 d) = Some d"
proof (induction d)
  case (Cons b d)
  have "(of_char b :: nat) = 16 * (of_char b div 16) + of_char b mod 16" by simp
  then have "char_of (16 * (of_char b div 16) + of_char b mod 16 :: nat) = b"
    by (metis char_of_char)
  then show ?case using Cons by (simp add: hex_sha256_def hex_byte_def of_char_div_16)
qed (simp add: hex_sha256_def)

lemma hex_nibble_Some: "hex_nibble c = Some n \<Longrightarrow> n < 16 \<and> hex_digit n = c"
proof -
  assume nibble: "hex_nibble c = Some n"
  have "char_of (of_char c :: nat) = c" by simp
  with nibble show ?thesis
    by (auto simp: hex_nibble_def hex_digit_def ascii_digit_def lower_af_def split: if_splits)
qed

lemma hex_sha256_unhex: "unhex v = Some d \<Longrightarrow> even (length v) \<Longrightarrow> hex_sha256 d = v"
proof (induction v arbitrary: d rule: unhex.induct)
  case (1 a b r)
  then obtain high low e where nibbles: "hex_nibble a = Some high" "hex_nibble b = Some low"
    and rest: "unhex r = Some e" "d = char_of (16 * high + low) # e"
    by (auto split: option.splits)
  note nibble = hex_nibble_Some [OF nibbles(1)] hex_nibble_Some [OF nibbles(2)]
  then have "hex_byte (char_of (16 * high + low)) = [a, b]"
    by (simp add: hex_byte_def of_char_of)
  then show ?case using 1 nibbles rest by (simp add: hex_sha256_def)
qed (simp_all add: hex_sha256_def)

lemma hex_sha256_inject: "hex_sha256 d = hex_sha256 e \<Longrightarrow> d = e"
  by (metis option.inject unhex_hex_sha256)

section \<open>Field validators\<close>

text \<open>
  The crates repeat these functions with their own \<^verbatim>\<open>InvalidField\<close>, which is the
  argument \<open>invalid\<close>.
\<close>

definition MAX_ID_BYTES :: nat where
  "MAX_ID_BYTES = 160"

definition SIGNATURE_BYTES :: nat where
  "SIGNATURE_BYTES = 64"

definition id_byte :: "char \<Rightarrow> bool" where
  "id_byte b \<longleftrightarrow> ascii_alphanumeric b \<or> b \<in> set ''-_.:/''"

definition validate_identifier :: "(string \<Rightarrow> 'e) \<Rightarrow> string \<Rightarrow> string \<Rightarrow> 'e + unit" where
  "validate_identifier invalid field v =
     (if v = [] \<or> length v > MAX_ID_BYTES \<or> \<not> list_all id_byte v then Inl (invalid field)
      else Inr ())"

definition validate_safe_nonzero :: "(string \<Rightarrow> 'e) \<Rightarrow> string \<Rightarrow> u64 \<Rightarrow> 'e + unit" where
  "validate_safe_nonzero invalid field v =
     (if v = 0 \<or> v > MAX_SAFE_JSON_INTEGER then Inl (invalid field) else Inr ())"

definition validate_sha256 :: "(string \<Rightarrow> 'e) \<Rightarrow> string \<Rightarrow> string \<Rightarrow> 'e + unit" where
  "validate_sha256 invalid field v =
     (if length v \<noteq> 64 \<or> \<not> list_all lower_hex v then Inl (invalid field) else Inr ())"

text \<open>The canonical \<^verbatim>\<open>KA-\<close> device fingerprint: 96 bits in lower-case hexadecimal.\<close>

definition valid_device_id :: "string \<Rightarrow> bool" where
  "valid_device_id v =
     (case strip_prefix v ''KA-'' of
        None \<Rightarrow> False
      | Some suffix \<Rightarrow> \<not> (length suffix \<noteq> 24 \<or> \<not> list_all lower_hex suffix))"

definition validate_device_id :: "(string \<Rightarrow> 'e) \<Rightarrow> string \<Rightarrow> 'e + unit" where
  "validate_device_id invalid v =
     (if valid_device_id v then Inr () else Inl (invalid ''deviceId''))"

lemma validate_identifier_Inr [validator]:
  "validate_identifier invalid field v = Inr u \<longleftrightarrow> v \<noteq> [] \<and> length v \<le> 160 \<and> list_all id_byte v"
  by (auto simp: validate_identifier_def MAX_ID_BYTES_def)

lemma validate_safe_nonzero_Inr [validator]:
  "validate_safe_nonzero invalid field v = Inr u \<longleftrightarrow> v \<noteq> 0 \<and> v \<le> MAX_SAFE_JSON_INTEGER"
  by (auto simp: validate_safe_nonzero_def)

lemma validate_sha256_Inr [validator]:
  "validate_sha256 invalid field v = Inr u \<longleftrightarrow> length v = 64 \<and> list_all lower_hex v"
  by (auto simp: validate_sha256_def)

lemma validate_device_id_Inr [validator]:
  "validate_device_id invalid v = Inr u \<longleftrightarrow> valid_device_id v"
  by (auto simp: validate_device_id_def)

lemma validate_hex_sha256 [simp]:
  "length d = 32 \<Longrightarrow> validate_sha256 invalid field (hex_sha256 d) = Inr ()"
  by (simp add: validate_sha256_def hex_sha256_lower_hex)

definition decode_signature :: "(string \<Rightarrow> 'e) \<Rightarrow> crates \<Rightarrow> string \<Rightarrow> 'e + string" where
  "decode_signature invalid X encoded =
     (if CHR ''='' \<in> set encoded \<or> length encoded \<noteq> 86 then Inl (invalid ''signature'')
      else case b64_decode X encoded of None \<Rightarrow> Inl (invalid ''signature'') | Some decoded \<Rightarrow>
        if length decoded \<noteq> SIGNATURE_BYTES \<or> b64_encode X decoded \<noteq> encoded
        then Inl (invalid ''signature'') else Inr decoded)"

lemma decode_signature_Inr [validator]:
  "decode_signature invalid X encoded = Inr sig \<longleftrightarrow>
   CHR ''='' \<notin> set encoded \<and> length encoded = 86 \<and> b64_decode X encoded = Some sig \<and>
   length sig = 64 \<and> b64_encode X sig = encoded"
  by (auto simp: decode_signature_def SIGNATURE_BYTES_def split: option.splits if_splits)

lemma decode_encoded_signature [simp]:
  "b64_codec X \<Longrightarrow> length sig = 64 \<Longrightarrow> decode_signature invalid X (b64_encode X sig) = Inr sig"
  by (simp add: decode_signature_Inr b64_codec_def)

section \<open>Binary search\<close>

text \<open>
  \<^verbatim>\<open>slice::binary_search_by\<close> as the standard library implements it: the interval
  \<open>base ..< base + width\<close> is halved until one element is left, which is then compared.
\<close>

function search_base :: "'a::linorder list \<Rightarrow> 'a \<Rightarrow> nat \<Rightarrow> nat \<Rightarrow> nat" where
  "search_base xs key base width =
     (if width \<le> 1 then base
      else let half = width div 2; mid = base + half
           in search_base xs key (if xs ! mid > key then base else mid) (width - half))"
  by pat_completeness auto
termination
  by (relation "measure (\<lambda>(xs, key, base, width). width)") auto

declare search_base.simps [simp del]

definition binary_search :: "'a::linorder list \<Rightarrow> 'a \<Rightarrow> bool" where
  "binary_search xs key = (xs \<noteq> [] \<and> xs ! search_base xs key 0 (length xs) = key)"

lemma search_base_in: "0 < width \<Longrightarrow> search_base xs key base width \<in> {base ..< base + width}"
proof (induction xs key base width rule: search_base.induct)
  case (1 xs key base width)
  show ?case
  proof (cases "width \<le> 1")
    case True
    with 1 show ?thesis by (subst search_base.simps) simp
  next
    case False
    let ?mid = "base + width div 2"
    from False have "0 < width - width div 2" by simp
    with 1(1) [OF False refl refl]
    have "search_base xs key (if xs ! ?mid > key then base else ?mid) (width - width div 2)
      \<in> {(if xs ! ?mid > key then base else ?mid) ..<
          (if xs ! ?mid > key then base else ?mid) + (width - width div 2)}"
      by simp
    with False show ?thesis
      by (subst search_base.simps) (auto simp: Let_def split: if_splits)
  qed
qed

lemma search_base_finds:
  "sorted_wrt (<) xs \<Longrightarrow> base + width \<le> length xs \<Longrightarrow> i \<in> {base ..< base + width} \<Longrightarrow>
   search_base xs (xs ! i) base width = i"
proof (induction xs "xs ! i" base width rule: search_base.induct)
  case (1 xs base width)
  show ?case
  proof (cases "width \<le> 1")
    case True
    with 1(4) show ?thesis by (subst search_base.simps) simp
  next
    case False
    let ?mid = "base + width div 2"
    have side: "xs ! ?mid > xs ! i \<longleftrightarrow> i < ?mid"
    proof
      assume "xs ! ?mid > xs ! i"
      then show "i < ?mid"
        using 1(2,3,4) by (metis atLeastLessThan_iff leD less_imp_le linorder_neqE_nat
          order_less_le_trans sorted_wrt_nth_less)
    next
      assume "i < ?mid"
      then show "xs ! ?mid > xs ! i"
        using 1(2,3,4) False by (intro sorted_wrt_nth_less [OF 1(2)]) auto
    qed
    have "search_base xs (xs ! i) (if xs ! ?mid > xs ! i then base else ?mid) (width - width div 2) = i"
      using 1(1) [OF False refl refl] 1(2,3,4) side by auto
    then show ?thesis using False by (subst search_base.simps) (simp add: Let_def)
  qed
qed

text \<open>On strictly increasing lists the search finds exactly the members.\<close>

theorem binary_search_member:
  assumes "sorted_wrt (<) xs"
  shows "binary_search xs key \<longleftrightarrow> key \<in> set xs"
proof
  assume "binary_search xs key"
  then show "key \<in> set xs"
    using search_base_in [of "length xs" xs key 0]
    by (auto simp: binary_search_def dest: nth_mem [of "search_base xs key 0 (length xs)"])
next
  assume "key \<in> set xs"
  then obtain i where "i < length xs" "key = xs ! i" by (auto simp: in_set_conv_nth)
  then show "binary_search xs key"
    using search_base_finds [OF assms, of 0 "length xs" i] by (auto simp: binary_search_def)
qed

section \<open>Interface: anti-rollback registers\<close>

text \<open>
  The abstract specification of every durable checkpoint of the program: a register that holds
  nothing, or the highest sequence number admitted so far with the digest of the document that
  carried it.  It refuses a lower number, and the same number with another digest.
\<close>

type_synonym register = "(u64 \<times> string) option"

fun register_admit :: "register \<Rightarrow> u64 \<Rightarrow> string \<Rightarrow> register option" where
  "register_admit None n h = Some (Some (n, h))"
| "register_admit (Some (m, g)) n h =
     (if n < m \<or> (n = m \<and> h \<noteq> g) then None else Some (Some (n, h)))"

text \<open>
  What every checkpoint promises over the documents it has accepted, in order: their numbers
  never go back, two with the same number have the same digest, and the checkpoint holds the
  number and digest of the last.
\<close>

definition never_goes_back ::
  "('s \<Rightarrow> register) \<Rightarrow> ('d \<Rightarrow> u64) \<Rightarrow> ('d \<Rightarrow> string) \<Rightarrow> 's \<times> 'd list \<Rightarrow> bool" where
  "never_goes_back held number digest = (\<lambda>(checkpoint, accepted).
     sorted (map number accepted) \<and>
     (\<forall>d \<in> set accepted. \<forall>e \<in> set accepted. number d = number e \<longrightarrow> digest d = digest e) \<and>
     (accepted \<noteq> [] \<longrightarrow> held checkpoint = Some (number (last accepted), digest (last accepted))))"

text \<open>
  A checkpoint refines the register when every document it admits is admitted by the register
  it represents, with the same result.
\<close>

locale anti_rollback =
  fixes admit :: "'s \<Rightarrow> 'd \<Rightarrow> 'e + 's"
    and held :: "'s \<Rightarrow> register"
    and number :: "'d \<Rightarrow> u64"
    and digest :: "'d \<Rightarrow> string"
  assumes refines: "admit s d = Inr s' \<Longrightarrow> register_admit (held s) (number d) (digest d) = Some (held s')"
begin

lemma holds: "admit s d = Inr s' \<Longrightarrow> held s' = Some (number d, digest d)"
  using refines [of s d s'] by (cases "(held s, number d, digest d)" rule: register_admit.cases) (auto split: if_splits)

lemma refuses_rollback: "held s = Some (m, g) \<Longrightarrow> number d < m \<Longrightarrow> \<not> is_ok (admit s d)"
  using refines [of s d] by (cases "admit s d") auto

lemma refuses_conflict:
  "held s = Some (m, g) \<Longrightarrow> number d = m \<Longrightarrow> digest d \<noteq> g \<Longrightarrow> \<not> is_ok (admit s d)"
  using refines [of s d] by (cases "admit s d") auto

definition consistent :: "'s \<Rightarrow> 'd list \<Rightarrow> bool" where
  "consistent s acc \<longleftrightarrow>
     sorted (map number acc) \<and>
     (\<forall>d \<in> set acc. \<forall>e \<in> set acc. number d = number e \<longrightarrow> digest d = digest e) \<and>
     (acc \<noteq> [] \<longrightarrow> held s = Some (number (last acc), digest (last acc)))"

lemma last_is_highest: "sorted (map number acc) \<Longrightarrow> d \<in> set acc \<Longrightarrow> number d \<le> number (last acc)"
  by (induction acc) auto

lemma consistent_step:
  assumes "consistent s acc" and "admit s d = Inr s'"
  shows "consistent s' (acc @ [d])"
proof (cases "acc = []")
  case True
  then show ?thesis using holds [OF assms(2)] by (simp add: consistent_def)
next
  case False
  with assms(1) have held: "held s = Some (number (last acc), digest (last acc))"
    and sorted: "sorted (map number acc)"
    and same: "\<And>d e. d \<in> set acc \<Longrightarrow> e \<in> set acc \<Longrightarrow> number d = number e \<Longrightarrow> digest d = digest e"
    unfolding consistent_def by blast+
  have "\<not> (number d < number (last acc) \<or> (number d = number (last acc) \<and> digest d \<noteq> digest (last acc)))"
    using refines [OF assms(2)] held by (simp split: if_splits)
  then have up: "number (last acc) \<le> number d"
    and eq: "number d = number (last acc) \<Longrightarrow> digest d = digest (last acc)"
    by (simp_all add: not_less)
  have top: "number e \<le> number (last acc)" if "e \<in> set acc" for e
    using last_is_highest [OF sorted that] .
  have new: "digest e = digest d" if "e \<in> set acc" "number e = number d" for e
  proof -
    have last: "number e = number (last acc)" using top [OF that(1)] up that(2) by simp
    then have "digest e = digest (last acc)" by (rule same [OF that(1) last_in_set [OF False]])
    then show ?thesis using eq last that(2) by simp
  qed
  have "sorted (map number (acc @ [d]))"
    using sorted order_trans [OF top up] by (simp add: sorted_append)
  moreover have "digest x = digest y"
    if "x \<in> set (acc @ [d])" "y \<in> set (acc @ [d])" "number x = number y" for x y
  proof -
    have "x \<in> set acc \<or> x = d" "y \<in> set acc \<or> y = d" using that(1,2) by auto
    then show ?thesis using same new that(3) by metis
  qed
  moreover have "held s' = Some (number (last (acc @ [d])), digest (last (acc @ [d])))"
    using holds [OF assms(2)] by simp
  ultimately show ?thesis unfolding consistent_def by blast
qed

text \<open>
  Over any sequence of documents, the admitted ones never go back, two with the same number
  have the same digest, and the checkpoint holds the last of them.
\<close>

lemma history:
  assumes "attempts admit s ds = (t, acc)"
  shows "consistent t acc"
  using attempts_history [of consistent s admit ds] consistent_step assms
  by (simp add: consistent_def [of s "[]"])

lemma run_never_goes_back: "never_goes_back held number digest (attempts admit s ds)"
proof (cases "attempts admit s ds")
  case (Pair t acc)
  from history [OF Pair] show ?thesis unfolding Pair never_goes_back_def consistent_def case_prod_conv .
qed

lemma history_from:
  assumes "attempts admit s ds = (t, acc)" and "held s = Some (m, g)" and "d \<in> set acc"
  shows "m \<le> number d \<and> (number d = m \<longrightarrow> digest d = g)"
proof -
  let ?low = "\<lambda>d. m \<le> number d \<and> (number d = m \<longrightarrow> digest d = g)"
  let ?P = "\<lambda>s acc. (\<exists>n h. held s = Some (n, h) \<and> m \<le> n \<and> (n = m \<longrightarrow> h = g)) \<and> (\<forall>d \<in> set acc. ?low d)"
  have "?P (fst (attempts admit s ds)) (snd (attempts admit s ds))"
  proof (rule attempts_history)
    show "?P s []" using assms(2) by simp
    show "?P s' (acc @ [d])" if "?P s acc" "admit s d = Inr s'" for s acc d s'
    proof -
      from that(1) obtain n h where n: "held s = Some (n, h)" "m \<le> n" "n = m \<longrightarrow> h = g"
        and low: "\<forall>d \<in> set acc. ?low d" by blast
      have "\<not> (number d < n \<or> (number d = n \<and> digest d \<noteq> h))"
        using refines [OF that(2)] n(1) by (simp split: if_splits)
      with n(2,3) have "?low d" by auto
      with low holds [OF that(2)] show ?thesis by simp
    qed
  qed
  then show ?thesis using assms(1,3) by simp
qed

end

end
