(* ===== verification/KA_Base64.thy ===== *)
theory KA_Base64
  imports KA_Documents
begin

text \<open>
  URL-safe base64 without padding (RFC 4648), on the bits of the bytes, and one record of
  third-party functions that has every documented behaviour the theorems name.  The record is
  what the concrete instances of the theorems use; the theorems themselves hold for every
  record with the named behaviour.
\<close>

section \<open>Bits of bytes\<close>

fun char_bits :: "char \<Rightarrow> bool list" where
  "char_bits (Char b0 b1 b2 b3 b4 b5 b6 b7) = [b7, b6, b5, b4, b3, b2, b1, b0]"

fun bits_char :: "bool list \<Rightarrow> char" where
  "bits_char [b7, b6, b5, b4, b3, b2, b1, b0] = Char b0 b1 b2 b3 b4 b5 b6 b7"
| "bits_char _ = CHR 0x00"

lemma bits_char_bits [simp]: "bits_char (char_bits c) = c" "length (char_bits c) = 8"
  by (cases c; simp)+

function octets :: "bool list \<Rightarrow> string" where
  "octets bs = (if length bs < 8 then [] else bits_char (take 8 bs) # octets (drop 8 bs))"
  by pat_completeness auto
termination by (relation "measure length") auto

declare octets.simps [simp del]

lemma octets_bits [simp]: "octets (concat (map char_bits s)) = s"
  by (induction s) (simp_all add: octets.simps [of "char_bits _ @ _"] octets.simps [of "[]"])

lemma length_bits [simp]: "length (concat (map char_bits s)) = 8 * length s"
  by (induction s) simp_all

section \<open>The alphabet\<close>

definition alphabet :: string where
  "alphabet = ''ABCDEFGHIJKLMNOPQRSTUVWXYZabcdefghijklmnopqrstuvwxyz0123456789-_''"

definition sextet_value :: "bool list \<Rightarrow> nat" where
  "sextet_value bs = foldl (\<lambda>v b. 2 * v + of_bool b) 0 bs"

definition symbol :: "bool list \<Rightarrow> char" where
  "symbol bs = alphabet ! sextet_value bs"

definition value_bits :: "nat \<Rightarrow> bool list" where
  "value_bits n = map (\<lambda>k. odd (n div 2 ^ k)) [5, 4, 3, 2, 1, 0]"

fun index_of :: "char \<Rightarrow> string \<Rightarrow> nat option" where
  "index_of c [] = None"
| "index_of c (d # ds) = (if c = d then Some 0 else map_option Suc (index_of c ds))"

definition unsymbol :: "char \<Rightarrow> bool list option" where
  "unsymbol c = map_option value_bits (index_of c alphabet)"

lemma index_of_nth: "distinct xs \<Longrightarrow> n < length xs \<Longrightarrow> index_of (xs ! n) xs = Some n"
proof (induction xs arbitrary: n)
  case (Cons x xs)
  then show ?case by (cases n) (auto simp: nth_mem)
qed simp

lemma alphabet_distinct: "distinct alphabet" "length alphabet = 64" "CHR ''='' \<notin> set alphabet"
  by (simp_all add: alphabet_def)

lemma sextet_bound: "length bs = 6 \<Longrightarrow> sextet_value bs < 64 \<and> value_bits (sextet_value bs) = bs"
proof -
  assume "length bs = 6"
  then obtain a b c d e f where "bs = [a, b, c, d, e, f]"
    by (auto simp: eval_nat_numeral length_Suc_conv)
  then show ?thesis
    by (cases a; cases b; cases c; cases d; cases e; cases f)
      (simp_all add: sextet_value_def value_bits_def)
qed

lemma unsymbol_symbol: "length bs = 6 \<Longrightarrow> unsymbol (symbol bs) = Some bs"
  using sextet_bound [of bs] alphabet_distinct by (simp add: unsymbol_def symbol_def index_of_nth)

lemma symbol_not_pad: "length bs = 6 \<Longrightarrow> symbol bs \<noteq> CHR ''=''"
  using sextet_bound [of bs] alphabet_distinct by (metis nth_mem symbol_def)

section \<open>The codec\<close>

function symbols :: "bool list \<Rightarrow> string" where
  "symbols bs = (if bs = [] then [] else symbol (take 6 (bs @ replicate 6 False)) # symbols (drop 6 bs))"
  by pat_completeness auto
termination by (relation "measure length") auto

declare symbols.simps [simp del]

definition url_safe_no_pad_encode :: "string \<Rightarrow> string" where
  "url_safe_no_pad_encode s = symbols (concat (map char_bits s))"

definition url_safe_no_pad_decode :: "string \<Rightarrow> string option" where
  "url_safe_no_pad_decode e =
     (case those (map unsymbol e) of
        None \<Rightarrow> None
      | Some sextets \<Rightarrow>
          (let bits = concat sextets; whole = 8 * (length bits div 8) in
           if length e mod 4 = 1 \<or> True \<in> set (drop whole bits) then None
           else Some (octets (take whole bits))))"

lemma length_symbols: "length (symbols bs) = (length bs + 5) div 6"
proof (induction bs rule: symbols.induct)
  case (1 bs)
  show ?case
  proof (cases "bs = []")
    case False
    have "(length bs - 6 + 5) div 6 + 1 = (length bs + 5) div 6"
      using False by (cases bs rule: rev_cases) (auto simp: nat_diff_split, presburger)
    then show ?thesis using 1 False by (subst symbols.simps) simp
  qed (simp add: symbols.simps)
qed

lemma symbols_no_pad: "CHR ''='' \<notin> set (symbols bs)"
proof (induction bs rule: symbols.induct)
  case (1 bs)
  have "length (take 6 (bs @ replicate 6 False)) = 6" by simp
  note pad = symbol_not_pad [OF this]
  show ?case
  proof (cases "bs = []")
    case False
    then have "symbols bs = symbol (take 6 (bs @ replicate 6 False)) # symbols (drop 6 bs)"
      by (subst symbols.simps) (simp only: if_False)
    with pad 1 [OF False] show ?thesis by (metis set_ConsD)
  qed (simp add: symbols.simps)
qed

lemma unsymbols:
  "\<exists>sextets pad. those (map unsymbol (symbols bs)) = Some sextets \<and> pad < 6 \<and>
     concat sextets = bs @ replicate pad False"
proof (induction bs rule: symbols.induct)
  case (1 bs)
  show ?case
  proof (cases "bs = []")
    case True
    then show ?thesis by (simp add: symbols.simps)
  next
    case False
    let ?block = "take 6 (bs @ replicate 6 False)"
    have block: "unsymbol (symbol ?block) = Some ?block" by (rule unsymbol_symbol) simp
    from 1 [OF False] obtain sextets pad where rest: "those (map unsymbol (symbols (drop 6 bs))) = Some sextets"
      "pad < 6" "concat sextets = drop 6 bs @ replicate pad False" by blast
    have whole: "those (map unsymbol (symbols bs)) = Some (?block # sextets)"
      using False block rest(1) by (subst symbols.simps) simp
    show ?thesis
    proof (cases "length bs \<ge> 6")
      case True
      then have "concat (?block # sextets) = bs @ replicate pad False" using rest(3) by simp
      with whole rest(2) show ?thesis by blast
    next
      case short: False
      then have "sextets = []"
        using rest(1) by (simp add: symbols.simps)
      moreover have "?block = bs @ replicate (6 - length bs) False" using short by simp
      moreover have "6 - length bs < 6" using False by simp
      ultimately show ?thesis using whole by fastforce
    qed
  qed
qed

lemma decode_encode: "url_safe_no_pad_decode (url_safe_no_pad_encode s) = Some s"
proof -
  let ?bits = "concat (map char_bits s)"
  obtain sextets pad where sextets: "those (map unsymbol (symbols ?bits)) = Some sextets" "pad < 6"
    "concat sextets = ?bits @ replicate pad False" using unsymbols by blast
  then have len: "length (concat sextets) div 8 = length s" by simp
  have "length (symbols ?bits) mod 4 \<noteq> 1" unfolding length_symbols length_bits by presburger
  then show ?thesis
    using sextets len by (simp add: url_safe_no_pad_decode_def url_safe_no_pad_encode_def)
qed

section \<open>One record with every named behaviour\<close>

definition sample_crates :: crates where
  "sample_crates =
     \<lparr>quote_str = plain_quote, json_to_vec = json_text plain_quote, b64_encode = url_safe_no_pad_encode, b64_decode = url_safe_no_pad_decode,
      sha256 = (\<lambda>m. take 32 (m @ replicate 32 CHR 0x00)),
      ed_sign = (\<lambda>seed m. take 64 (seed @ m @ replicate 64 CHR 0x00)), ed_public = (\<lambda>seed. seed),
      ed_valid_key = (\<lambda>key. True),
      ed_verify_strict = (\<lambda>key m sig. sig = take 64 (key @ m @ replicate 64 CHR 0x00)),
      rfc3339_ok = (\<lambda>t. True),
      url_parse = (\<lambda>u. Some \<lparr>url_scheme = ''https'', url_host = Some u, url_username = [],
        url_password = None, url_fragment = None\<rparr>)\<rparr>"

lemma sample_crates_behaviour:
  "json_quoting (quote_str sample_crates)" "b64_codec sample_crates" "sha256_width sample_crates"
  "ed25519_correct sample_crates" "to_vec_lossless sample_crates"
proof -
  have "length (url_safe_no_pad_encode s) = (length s * 8 + 5) div 6" for s
    by (simp add: url_safe_no_pad_encode_def length_symbols mult.commute)
  moreover have "CHR ''='' \<notin> set (url_safe_no_pad_encode s)" for s
    by (simp add: url_safe_no_pad_encode_def symbols_no_pad)
  ultimately show "b64_codec sample_crates"
    by (simp add: sample_crates_def b64_codec_def decode_encode)
  show "to_vec_lossless sample_crates"
    unfolding to_vec_lossless_def using json_text_inject [OF plain_quote_json_quoting]
    by (auto simp: sample_crates_def)
qed (auto simp: sample_crates_def sha256_width_def ed25519_correct_def plain_quote_json_quoting)

lemma sample_crates_simps [simp]:
  "quote_str sample_crates = plain_quote" "json_to_vec sample_crates = json_text plain_quote" "b64_encode sample_crates = url_safe_no_pad_encode"
  "sha256 sample_crates m = take 32 (m @ replicate 32 CHR 0x00)"
  "ed_sign sample_crates seed m = take 64 (seed @ m @ replicate 64 CHR 0x00)"
  "ed_public sample_crates seed = seed" "ed_valid_key sample_crates key"
  "rfc3339_ok sample_crates t"
  "url_parse sample_crates u = Some \<lparr>url_scheme = ''https'', url_host = Some u, url_username = [],
     url_password = None, url_fragment = None\<rparr>"
  by (simp_all add: sample_crates_def)

lemma zero_signature [simp]:
  "b64_decode sample_crates (url_safe_no_pad_encode (replicate 64 CHR 0x00)) = Some (replicate 64 CHR 0x00)"
  "length (url_safe_no_pad_encode (replicate 64 CHR 0x00)) = 86"
  "CHR ''='' \<notin> set (url_safe_no_pad_encode (replicate 64 CHR 0x00))"
  using sample_crates_behaviour(2) by (simp_all add: b64_codec_def)

text \<open>The same functions with a verifier that accepts every signature.\<close>

definition release_crates :: crates where
  "release_crates = sample_crates\<lparr>ed_verify_strict := (\<lambda>_ _ _. True)\<rparr>"

lemma release_crates_simps:
  "quote_str release_crates = plain_quote" "b64_decode release_crates = b64_decode sample_crates"
  "b64_encode release_crates = url_safe_no_pad_encode"
  "rfc3339_ok release_crates t" "ed_valid_key release_crates key" "ed_verify_strict release_crates key m sig"
  "sha256 release_crates = sha256 sample_crates" "sha256_width release_crates" "json_quoting (quote_str release_crates)"
  using sample_crates_behaviour(1,3) by (simp_all add: release_crates_def sha256_width_def)

end
