(* ===== verification/KA_Update.thy ===== *)
theory KA_Update
  imports KA_Base64
begin

text \<open>
  The device update client, \<^verbatim>\<open>crates/update-client/src/lib.rs\<close>: signed release
  manifests, their availability on a device, the anti-rollback checkpoint, and the A/B slot
  state that is persisted around staging, bounded boot attempts and rollback.
\<close>

section \<open>Data\<close>

datatype UpdatePlatform = Rescue | Windows | Linux | Macos

datatype UpdateArchitecture = X86_64 | Aarch64

datatype ReleaseRing = RingCanary | RingStable

datatype UpdateRing = Hold | Canary | Stable

record ArtifactDescriptor =
  ad_url :: string
  ad_size_bytes :: u64
  ad_sha256 :: string

record Rollout =
  ro_basis_points :: u16
  ro_seed :: string

record UpdateManifestContent =
  uc_sequence :: u64
  uc_release_id :: string
  uc_release_version :: string
  uc_platform :: UpdatePlatform
  uc_architecture :: UpdateArchitecture
  uc_release_ring :: ReleaseRing
  uc_rollout :: Rollout
  uc_issued_at_unix :: u64
  uc_not_before_unix :: u64
  uc_expires_at_unix :: u64
  uc_artifact :: ArtifactDescriptor
  uc_emergency_rollback :: bool

record SignedUpdateManifest =
  um_schema :: string
  um_sequence :: u64
  um_release_id :: string
  um_release_version :: string
  um_platform :: UpdatePlatform
  um_architecture :: UpdateArchitecture
  um_release_ring :: ReleaseRing
  um_rollout :: Rollout
  um_issued_at_unix :: u64
  um_not_before_unix :: u64
  um_expires_at_unix :: u64
  um_artifact :: ArtifactDescriptor
  um_emergency_rollback :: bool
  um_signature :: string

datatype Availability =
    Eligible | InvalidContext | PlatformMismatch | ArchitectureMismatch | NotYetValid
  | AvExpired | Held | RingMismatch | RolloutDeferred

datatype UpdateError =
    UInvalidField string
  | UInvalidTimeWindow
  | UInvalidJson
  | UUnsupportedJsonValue
  | UUnsafeInteger
  | UNonCanonicalJson
  | UDocumentTooLarge
  | UInvalidSignature
  | USequenceRollback
  | USequenceConflict
  | UNotEligible Availability
  | UArtifactMismatch
  | UInvalidBootAttempts
  | UInvalidTransition
  | UWrongRunningSlot
  | UInvalidState

definition UPDATE_MANIFEST_SCHEMA :: string where
  "UPDATE_MANIFEST_SCHEMA = ''dev.kernaid.update.manifest.v1''"

definition UPDATE_CHECKPOINT_SCHEMA :: string where
  "UPDATE_CHECKPOINT_SCHEMA = ''dev.kernaid.update.checkpoint.v1''"

definition UPDATE_STATE_SCHEMA :: string where
  "UPDATE_STATE_SCHEMA = ''dev.kernaid.update.state.v1''"

definition UPDATE_SIGNATURE_DOMAIN :: string where
  "UPDATE_SIGNATURE_DOMAIN = domain_tag ''kernaid:update:manifest:v1''"

definition MAX_BOOT_ATTEMPTS :: u8 where
  "MAX_BOOT_ATTEMPTS = 5"

definition MAX_MANIFEST_BYTES :: nat where
  "MAX_MANIFEST_BYTES = 64 * 1024"

definition MAX_VERSION_BYTES :: nat where
  "MAX_VERSION_BYTES = 128"

definition MAX_URL_BYTES :: nat where
  "MAX_URL_BYTES = 4 * 1024"

definition MAX_ARTIFACT_BYTES :: u64 where
  "MAX_ARTIFACT_BYTES = 1099511627776"

definition ROLLOUT_BASIS_POINTS :: u16 where
  "ROLLOUT_BASIS_POINTS = 10000"

definition MAX_UPDATE_CHECKPOINT_BYTES :: nat where
  "MAX_UPDATE_CHECKPOINT_BYTES = 4 * 1024"

definition MAX_STATE_BYTES :: nat where
  "MAX_STATE_BYTES = 16 * 1024"

definition update_json_errors :: "UpdateError json_errors" where
  "update_json_errors = \<lparr>invalid_json = UInvalidJson, unsupported_value = UUnsupportedJsonValue,
     unsafe_integer = UUnsafeInteger, non_canonical = UNonCanonicalJson,
     too_large = UDocumentTooLarge\<rparr>"

definition update_canonical_json :: "crates \<Rightarrow> json \<Rightarrow> UpdateError + string" where
  "update_canonical_json X = canonical_json update_json_errors (quote_str X)"

section \<open>Validators\<close>

definition validate_artifact :: "crates \<Rightarrow> ArtifactDescriptor \<Rightarrow> UpdateError + unit" where
  "validate_artifact X a =
     (if ad_size_bytes a = 0 \<or> ad_size_bytes a > MAX_ARTIFACT_BYTES
         \<or> ad_size_bytes a > MAX_SAFE_JSON_INTEGER
      then Inl (UInvalidField ''artifact.sizeBytes'')
      else case validate_sha256 UInvalidField ''artifact.sha256'' (ad_sha256 a) of Inl e \<Rightarrow> Inl e | Inr _ \<Rightarrow>
        if ad_url a = [] \<or> length (ad_url a) > MAX_URL_BYTES then Inl (UInvalidField ''artifact.url'')
        else case url_parse X (ad_url a) of
            None \<Rightarrow> Inl (UInvalidField ''artifact.url'')
          | Some parsed \<Rightarrow>
              if url_scheme parsed \<noteq> ''https'' \<or> Option.is_none (url_host parsed) \<or> url_username parsed \<noteq> []
                 \<or> \<not> Option.is_none (url_password parsed) \<or> \<not> Option.is_none (url_fragment parsed)
              then Inl (UInvalidField ''artifact.url'') else Inr ())"

definition ascii_graphic :: "char \<Rightarrow> bool" where
  "ascii_graphic b \<longleftrightarrow> 33 \<le> (of_char b :: nat) \<and> (of_char b :: nat) \<le> 126"

definition validate_version :: "string \<Rightarrow> UpdateError + unit" where
  "validate_version v =
     (if v = [] \<or> length v > MAX_VERSION_BYTES
         \<or> \<not> list_all (\<lambda>b. ascii_graphic b \<and> b \<noteq> CHR 0x22 \<and> b \<noteq> CHR 0x5C) v
      then Inl (UInvalidField ''releaseVersion'') else Inr ())"

definition decode_sha256 :: "string \<Rightarrow> UpdateError + string" where
  "decode_sha256 v =
     (case validate_sha256 UInvalidField ''sha256'' v of Inl e \<Rightarrow> Inl e | Inr _ \<Rightarrow>
      case unhex v of None \<Rightarrow> Inl (UInvalidField ''sha256'') | Some bytes \<Rightarrow> Inr bytes)"

definition update_signature_message :: "string \<Rightarrow> UpdateError + string" where
  "update_signature_message payload =
     (if length UPDATE_SIGNATURE_DOMAIN + length payload \<ge> 2 ^ 64 then Inl UDocumentTooLarge
      else Inr (UPDATE_SIGNATURE_DOMAIN @ payload))"

definition in_rollout :: "crates \<Rightarrow> string \<Rightarrow> string \<Rightarrow> u16 \<Rightarrow> bool" where
  "in_rollout X device_id seed basis_points =
     (if basis_points = 0 then False
      else if basis_points = ROLLOUT_BASIS_POINTS then True
      else let digest = sha256 X (domain_tag ''kernaid:update:rollout:v1'' @ seed @ [CHR 0x00] @ device_id);
               cohort = (of_nat (256 * of_char (digest ! 0) + of_char (digest ! 1)) :: u16)
                 mod ROLLOUT_BASIS_POINTS
           in cohort < basis_points)"

section \<open>Signed manifests\<close>

fun platform_name :: "UpdatePlatform \<Rightarrow> string" where
  "platform_name Rescue = ''rescue''"
| "platform_name Windows = ''windows''"
| "platform_name Linux = ''linux''"
| "platform_name Macos = ''macos''"

fun architecture_name :: "UpdateArchitecture \<Rightarrow> string" where
  "architecture_name X86_64 = ''x86_64''"
| "architecture_name Aarch64 = ''aarch64''"

fun release_ring_name :: "ReleaseRing \<Rightarrow> string" where
  "release_ring_name RingCanary = ''canary''"
| "release_ring_name RingStable = ''stable''"

definition artifact_json :: "ArtifactDescriptor \<Rightarrow> json" where
  "artifact_json a = object
     [(''url'', JString (ad_url a)), (''sizeBytes'', JNumber (PosInt (ad_size_bytes a))),
      (''sha256'', JString (ad_sha256 a))]"

definition rollout_json :: "Rollout \<Rightarrow> json" where
  "rollout_json r = object
     [(''basisPoints'', JNumber (PosInt (ucast (ro_basis_points r)))), (''seed'', JString (ro_seed r))]"

text \<open>The members of \<^verbatim>\<open>UnsignedUpdateManifest\<close>; the signed manifest adds its signature.\<close>

definition manifest_members :: "SignedUpdateManifest \<Rightarrow> (string \<times> json) list" where
  "manifest_members m =
     [(''schema'', JString (um_schema m)),
      (''sequence'', JNumber (PosInt (um_sequence m))),
      (''releaseId'', JString (um_release_id m)),
      (''releaseVersion'', JString (um_release_version m)),
      (''platform'', JString (platform_name (um_platform m))),
      (''architecture'', JString (architecture_name (um_architecture m))),
      (''releaseRing'', JString (release_ring_name (um_release_ring m))),
      (''rollout'', rollout_json (um_rollout m)),
      (''issuedAtUnix'', JNumber (PosInt (um_issued_at_unix m))),
      (''notBeforeUnix'', JNumber (PosInt (um_not_before_unix m))),
      (''expiresAtUnix'', JNumber (PosInt (um_expires_at_unix m))),
      (''artifact'', artifact_json (um_artifact m)),
      (''emergencyRollback'', JBool (um_emergency_rollback m))]"

definition manifest_json :: "SignedUpdateManifest \<Rightarrow> json" where
  "manifest_json m = object (manifest_members m @ [(''signature'', JString (um_signature m))])"

definition manifest_unsigned_canonical :: "crates \<Rightarrow> SignedUpdateManifest \<Rightarrow> UpdateError + string" where
  "manifest_unsigned_canonical X m = update_canonical_json X (object (manifest_members m))"

definition manifest_validate_unsigned :: "crates \<Rightarrow> SignedUpdateManifest \<Rightarrow> UpdateError + unit" where
  "manifest_validate_unsigned X m = checks
     [refuse (UInvalidField ''schema'') (um_schema m \<noteq> UPDATE_MANIFEST_SCHEMA),
      validate_safe_nonzero UInvalidField ''sequence'' (um_sequence m),
      validate_identifier UInvalidField ''releaseId'' (um_release_id m),
      validate_version (um_release_version m),
      validate_safe_nonzero UInvalidField ''issuedAtUnix'' (um_issued_at_unix m),
      validate_safe_nonzero UInvalidField ''notBeforeUnix'' (um_not_before_unix m),
      validate_safe_nonzero UInvalidField ''expiresAtUnix'' (um_expires_at_unix m),
      refuse UInvalidTimeWindow
        (um_issued_at_unix m > um_not_before_unix m \<or> um_not_before_unix m \<ge> um_expires_at_unix m),
      refuse (UInvalidField ''rollout.basisPoints'') (ro_basis_points (um_rollout m) > ROLLOUT_BASIS_POINTS),
      validate_identifier UInvalidField ''rollout.seed'' (ro_seed (um_rollout m)),
      validate_artifact X (um_artifact m)]"

definition manifest_validate :: "crates \<Rightarrow> SignedUpdateManifest \<Rightarrow> UpdateError + unit" where
  "manifest_validate X m =
     (case manifest_validate_unsigned X m of Inl e \<Rightarrow> Inl e | Inr _ \<Rightarrow>
      case decode_signature UInvalidField X (um_signature m) of Inl e \<Rightarrow> Inl e | Inr _ \<Rightarrow> Inr ())"

definition manifest_export_canonical :: "crates \<Rightarrow> SignedUpdateManifest \<Rightarrow> UpdateError + string" where
  "manifest_export_canonical X m =
     (case manifest_validate X m of Inl e \<Rightarrow> Inl e | Inr _ \<Rightarrow>
      case update_canonical_json X (manifest_json m) of Inl e \<Rightarrow> Inl e | Inr bytes \<Rightarrow>
      case validate_size update_json_errors (length bytes) MAX_MANIFEST_BYTES of Inl e \<Rightarrow> Inl e | Inr _ \<Rightarrow>
      Inr bytes)"

record VerifiedUpdate =
  vu_manifest :: SignedUpdateManifest
  vu_manifest_sha256 :: string

definition manifest_verify :: "crates \<Rightarrow> SignedUpdateManifest \<Rightarrow> string \<Rightarrow> UpdateError + VerifiedUpdate" where
  "manifest_verify X m trust_anchor =
     (case manifest_validate X m of Inl e \<Rightarrow> Inl e | Inr _ \<Rightarrow>
      case decode_signature UInvalidField X (um_signature m) of Inl e \<Rightarrow> Inl e | Inr signature \<Rightarrow>
      case manifest_unsigned_canonical X m of Inl e \<Rightarrow> Inl e | Inr canonical \<Rightarrow>
      case update_signature_message canonical of Inl e \<Rightarrow> Inl e | Inr message \<Rightarrow>
      if \<not> ed_verify_strict X trust_anchor message signature then Inl UInvalidSignature
      else case manifest_export_canonical X m of Inl e \<Rightarrow> Inl e | Inr exact \<Rightarrow>
      Inr \<lparr>vu_manifest = m, vu_manifest_sha256 = sha256 X exact\<rparr>)"

definition manifest_sign :: "crates \<Rightarrow> UpdateManifestContent \<Rightarrow> string \<Rightarrow> UpdateError + SignedUpdateManifest" where
  "manifest_sign X content signing_key =
     (let manifest = \<lparr>um_schema = UPDATE_MANIFEST_SCHEMA, um_sequence = uc_sequence content,
        um_release_id = uc_release_id content, um_release_version = uc_release_version content,
        um_platform = uc_platform content, um_architecture = uc_architecture content,
        um_release_ring = uc_release_ring content, um_rollout = uc_rollout content,
        um_issued_at_unix = uc_issued_at_unix content, um_not_before_unix = uc_not_before_unix content,
        um_expires_at_unix = uc_expires_at_unix content, um_artifact = uc_artifact content,
        um_emergency_rollback = uc_emergency_rollback content, um_signature = []\<rparr>
      in case manifest_validate_unsigned X manifest of Inl e \<Rightarrow> Inl e | Inr _ \<Rightarrow>
      case manifest_unsigned_canonical X manifest of Inl e \<Rightarrow> Inl e | Inr canonical \<Rightarrow>
      case update_signature_message canonical of Inl e \<Rightarrow> Inl e | Inr message \<Rightarrow>
      let signed = manifest\<lparr>um_signature := b64_encode X (ed_sign X signing_key message)\<rparr>
      in case manifest_validate X signed of Inl e \<Rightarrow> Inl e | Inr _ \<Rightarrow> Inr signed)"

definition manifest_import_and_verify ::
  "crates \<Rightarrow> (string \<Rightarrow> json option) \<Rightarrow> (string \<Rightarrow> SignedUpdateManifest option) \<Rightarrow> string \<Rightarrow> string \<Rightarrow>
   UpdateError + VerifiedUpdate" where
  "manifest_import_and_verify X from_value from_doc bytes trust_anchor =
     (case import_canonical update_json_errors (quote_str X) from_value from_doc manifest_json
         MAX_MANIFEST_BYTES bytes of Inl e \<Rightarrow> Inl e | Inr manifest \<Rightarrow>
      manifest_verify X manifest trust_anchor)"

section \<open>Availability\<close>

record UpdateContext =
  ctx_device_id :: string
  ctx_platform :: UpdatePlatform
  ctx_architecture :: UpdateArchitecture
  ctx_update_ring :: UpdateRing
  ctx_now_unix :: u64

definition availability :: "crates \<Rightarrow> VerifiedUpdate \<Rightarrow> UpdateContext \<Rightarrow> Availability" where
  "availability X u context =
     (let m = vu_manifest u in
      if ctx_now_unix context = 0 \<or> ctx_now_unix context > MAX_SAFE_JSON_INTEGER
         \<or> \<not> is_ok (validate_device_id UInvalidField (ctx_device_id context)) then InvalidContext
      else if ctx_platform context \<noteq> um_platform m then PlatformMismatch
      else if ctx_architecture context \<noteq> um_architecture m then ArchitectureMismatch
      else if ctx_now_unix context < um_not_before_unix m then NotYetValid
      else if ctx_now_unix context \<ge> um_expires_at_unix m then AvExpired
      else if um_emergency_rollback m then Eligible
      else if ctx_update_ring context = Hold then Held
      else if um_release_ring m = RingCanary \<and> ctx_update_ring context \<noteq> Canary then RingMismatch
      else if \<not> in_rollout X (ctx_device_id context) (ro_seed (um_rollout m)) (ro_basis_points (um_rollout m))
      then RolloutDeferred
      else Eligible)"

section \<open>Checkpoint and admission\<close>

record UpdateCheckpoint =
  uk_schema :: string
  uk_sequence :: u64
  uk_release_id :: string
  uk_manifest_sha256 :: string

definition update_checkpoint_from_verified :: "VerifiedUpdate \<Rightarrow> UpdateCheckpoint" where
  "update_checkpoint_from_verified u =
     \<lparr>uk_schema = UPDATE_CHECKPOINT_SCHEMA, uk_sequence = um_sequence (vu_manifest u),
      uk_release_id = um_release_id (vu_manifest u),
      uk_manifest_sha256 = hex_sha256 (vu_manifest_sha256 u)\<rparr>"

definition update_checkpoint_validate :: "UpdateCheckpoint \<Rightarrow> UpdateError + unit" where
  "update_checkpoint_validate k =
     (if uk_schema k \<noteq> UPDATE_CHECKPOINT_SCHEMA then Inl (UInvalidField ''checkpoint.schema'') else
      case validate_safe_nonzero UInvalidField ''checkpoint.sequence'' (uk_sequence k) of Inl e \<Rightarrow> Inl e | Inr _ \<Rightarrow>
      case validate_identifier UInvalidField ''checkpoint.releaseId'' (uk_release_id k) of Inl e \<Rightarrow> Inl e | Inr _ \<Rightarrow>
      validate_sha256 UInvalidField ''checkpoint.manifestSha256'' (uk_manifest_sha256 k))"

definition update_checkpoint_json :: "UpdateCheckpoint \<Rightarrow> json" where
  "update_checkpoint_json k = object
     [(''schema'', JString (uk_schema k)), (''sequence'', JNumber (PosInt (uk_sequence k))),
      (''releaseId'', JString (uk_release_id k)), (''manifestSha256'', JString (uk_manifest_sha256 k))]"

definition update_checkpoint_export :: "crates \<Rightarrow> UpdateCheckpoint \<Rightarrow> UpdateError + string" where
  "update_checkpoint_export X k =
     (case update_checkpoint_validate k of Inl e \<Rightarrow> Inl e | Inr _ \<Rightarrow>
      case update_canonical_json X (update_checkpoint_json k) of Inl e \<Rightarrow> Inl e | Inr bytes \<Rightarrow>
      case validate_size update_json_errors (length bytes) MAX_UPDATE_CHECKPOINT_BYTES of Inl e \<Rightarrow> Inl e | Inr _ \<Rightarrow>
      Inr bytes)"

definition update_checkpoint_import ::
  "crates \<Rightarrow> (string \<Rightarrow> json option) \<Rightarrow> (string \<Rightarrow> UpdateCheckpoint option) \<Rightarrow> string \<Rightarrow>
   UpdateError + UpdateCheckpoint" where
  "update_checkpoint_import X from_value from_doc bytes =
     (case import_canonical update_json_errors (quote_str X) from_value from_doc update_checkpoint_json
         MAX_UPDATE_CHECKPOINT_BYTES bytes of Inl e \<Rightarrow> Inl e | Inr checkpoint \<Rightarrow>
      case update_checkpoint_validate checkpoint of Inl e \<Rightarrow> Inl e | Inr _ \<Rightarrow> Inr checkpoint)"

datatype UpdateCheckpointAdmission = UFirst | UAdvanced | UIdempotentReplay

record AdmittedUpdate =
  au_verified :: VerifiedUpdate
  au_admission :: UpdateCheckpointAdmission

record AdmissionOutcome =
  ao_update :: AdmittedUpdate
  ao_next_checkpoint :: UpdateCheckpoint

definition admit_update :: "UpdateCheckpoint option \<Rightarrow> VerifiedUpdate \<Rightarrow> UpdateError + AdmissionOutcome" where
  "admit_update checkpoint verified =
     (let outcome = (\<lambda>admission next. \<lparr>ao_update = \<lparr>au_verified = verified, au_admission = admission\<rparr>,
        ao_next_checkpoint = next\<rparr>)
      in case checkpoint of
        Some existing \<Rightarrow>
          (case update_checkpoint_validate existing of Inl e \<Rightarrow> Inl e | Inr _ \<Rightarrow>
           if um_sequence (vu_manifest verified) < uk_sequence existing then Inl USequenceRollback
           else if um_sequence (vu_manifest verified) = uk_sequence existing then
             if hex_sha256 (vu_manifest_sha256 verified) \<noteq> uk_manifest_sha256 existing
             then Inl USequenceConflict
             else Inr (outcome UIdempotentReplay existing)
           else Inr (outcome UAdvanced (update_checkpoint_from_verified verified)))
      | None \<Rightarrow> Inr (outcome UFirst (update_checkpoint_from_verified verified)))"

section \<open>The A/B slot state\<close>

record CompletedArtifact =
  ca_size_bytes :: u64
  ca_sha256 :: string

datatype Slot = A | B

fun inactive :: "Slot \<Rightarrow> Slot" where
  "inactive A = B"
| "inactive B = A"

datatype UpdatePhase = PhaseStable | PhaseStaged | PhasePendingBoot | PhaseRollbackPending

record PendingUpdate =
  pu_release_id :: string
  pu_sequence :: u64
  pu_manifest_sha256 :: string
  pu_artifact_sha256 :: string
  pu_target_slot :: Slot
  pu_previous_slot :: Slot
  pu_attempts_remaining :: u8
  pu_max_attempts :: u8
  pu_emergency_rollback :: bool

record UpdateState =
  us_schema :: string
  us_phase :: UpdatePhase
  us_active_slot :: Slot
  us_rollback_slot :: Slot
  us_pending :: "PendingUpdate option"

datatype BootAction =
    BootStable Slot
  | TryPending Slot Slot
  | Rollback Slot Slot

record BootTransition =
  bt_state :: UpdateState
  bt_action :: BootAction

record StagePlan =
  sp_pending :: PendingUpdate

record LocalRollbackPlan =
  lr_slot :: Slot
  lr_previous_slot :: Slot

definition UpdateState_new :: "Slot \<Rightarrow> UpdateState" where
  "UpdateState_new active =
     \<lparr>us_schema = UPDATE_STATE_SCHEMA, us_phase = PhaseStable, us_active_slot = active,
      us_rollback_slot = inactive active, us_pending = None\<rparr>"

definition update_state_validate :: "UpdateState \<Rightarrow> UpdateError + unit" where
  "update_state_validate s =
     (if us_schema s \<noteq> UPDATE_STATE_SCHEMA \<or> us_active_slot s = us_rollback_slot s then Inl UInvalidState
      else case (us_phase s, us_pending s) of
        (PhaseStable, None) \<Rightarrow> Inr ()
      | (PhaseStable, Some _) \<Rightarrow> Inl UInvalidState
      | (_, None) \<Rightarrow> Inl UInvalidState
      | (_, Some p) \<Rightarrow>
          (case validate_identifier UInvalidField ''state.pending.releaseId'' (pu_release_id p) of Inl e \<Rightarrow> Inl e | Inr _ \<Rightarrow>
           case validate_safe_nonzero UInvalidField ''state.pending.sequence'' (pu_sequence p) of Inl e \<Rightarrow> Inl e | Inr _ \<Rightarrow>
           case validate_sha256 UInvalidField ''state.pending.manifestSha256'' (pu_manifest_sha256 p) of Inl e \<Rightarrow> Inl e | Inr _ \<Rightarrow>
           case validate_sha256 UInvalidField ''state.pending.artifactSha256'' (pu_artifact_sha256 p) of Inl e \<Rightarrow> Inl e | Inr _ \<Rightarrow>
           if pu_previous_slot p \<noteq> us_active_slot s \<or> pu_target_slot p \<noteq> inactive (us_active_slot s)
              \<or> pu_max_attempts p = 0 \<or> pu_max_attempts p > MAX_BOOT_ATTEMPTS
              \<or> pu_attempts_remaining p > pu_max_attempts p
           then Inl UInvalidState else Inr ()))"

definition validated :: "UpdateState \<Rightarrow> UpdateError + UpdateState" where
  "validated s = (case update_state_validate s of Inl e \<Rightarrow> Inl e | Inr _ \<Rightarrow> Inr s)"

definition plan_stage ::
  "crates \<Rightarrow> UpdateState \<Rightarrow> AdmittedUpdate \<Rightarrow> UpdateContext \<Rightarrow> CompletedArtifact \<Rightarrow> u8 \<Rightarrow>
   UpdateError + StagePlan" where
  "plan_stage X s admitted context evidence max_boot_attempts =
     (case update_state_validate s of Inl e \<Rightarrow> Inl e | Inr _ \<Rightarrow>
      if us_phase s \<noteq> PhaseStable \<or> us_pending s \<noteq> None then Inl UInvalidTransition
      else let verified = au_verified admitted; m = vu_manifest verified;
               reason = availability X verified context in
      if reason \<noteq> Eligible then Inl (UNotEligible reason)
      else if \<not> (1 \<le> max_boot_attempts \<and> max_boot_attempts \<le> MAX_BOOT_ATTEMPTS)
      then Inl UInvalidBootAttempts
      else case decode_sha256 (ad_sha256 (um_artifact m)) of Inl e \<Rightarrow> Inl e | Inr expected \<Rightarrow>
      if ca_size_bytes evidence \<noteq> ad_size_bytes (um_artifact m) \<or> ca_sha256 evidence \<noteq> expected
      then Inl UArtifactMismatch
      else Inr \<lparr>sp_pending =
        \<lparr>pu_release_id = um_release_id m, pu_sequence = um_sequence m,
         pu_manifest_sha256 = hex_sha256 (vu_manifest_sha256 verified),
         pu_artifact_sha256 = ad_sha256 (um_artifact m),
         pu_target_slot = inactive (us_active_slot s), pu_previous_slot = us_active_slot s,
         pu_attempts_remaining = max_boot_attempts, pu_max_attempts = max_boot_attempts,
         pu_emergency_rollback = um_emergency_rollback m\<rparr>\<rparr>)"

definition confirm_staged :: "UpdateState \<Rightarrow> StagePlan \<Rightarrow> UpdateError + UpdateState" where
  "confirm_staged s plan =
     (case update_state_validate s of Inl e \<Rightarrow> Inl e | Inr _ \<Rightarrow>
      if us_phase s \<noteq> PhaseStable \<or> pu_previous_slot (sp_pending plan) \<noteq> us_active_slot s
         \<or> pu_target_slot (sp_pending plan) \<noteq> inactive (us_active_slot s)
      then Inl UInvalidTransition
      else validated (s\<lparr>us_phase := PhaseStaged, us_pending := Some (sp_pending plan)\<rparr>))"

definition arm_pending_boot :: "UpdateState \<Rightarrow> UpdateError + UpdateState" where
  "arm_pending_boot s =
     (case update_state_validate s of Inl e \<Rightarrow> Inl e | Inr _ \<Rightarrow>
      if us_phase s \<noteq> PhaseStaged then Inl UInvalidTransition
      else validated (s\<lparr>us_phase := PhasePendingBoot\<rparr>))"

definition next_boot :: "UpdateState \<Rightarrow> UpdateError + BootTransition" where
  "next_boot s =
     (case update_state_validate s of Inl e \<Rightarrow> Inl e | Inr _ \<Rightarrow>
      case us_phase s of
        PhaseStable \<Rightarrow> Inr \<lparr>bt_state = s, bt_action = BootStable (us_active_slot s)\<rparr>
      | PhaseStaged \<Rightarrow> Inl UInvalidTransition
      | PhaseRollbackPending \<Rightarrow>
          (case us_pending s of None \<Rightarrow> Inl UInvalidState | Some p \<Rightarrow>
           Inr \<lparr>bt_state = s, bt_action = Rollback (pu_previous_slot p) (pu_target_slot p)\<rparr>)
      | PhasePendingBoot \<Rightarrow>
          (case us_pending s of None \<Rightarrow> Inl UInvalidState | Some p \<Rightarrow>
           if pu_attempts_remaining p = 0 then
             (case validated (s\<lparr>us_phase := PhaseRollbackPending\<rparr>) of Inl e \<Rightarrow> Inl e | Inr state \<Rightarrow>
              Inr \<lparr>bt_state = state, bt_action = Rollback (pu_previous_slot p) (pu_target_slot p)\<rparr>)
           else
             (case validated (s\<lparr>us_pending :=
                 Some (p\<lparr>pu_attempts_remaining := pu_attempts_remaining p - 1\<rparr>)\<rparr>) of Inl e \<Rightarrow> Inl e | Inr state \<Rightarrow>
              Inr \<lparr>bt_state = state, bt_action = TryPending (pu_target_slot p) (pu_previous_slot p)\<rparr>)))"

definition mark_good :: "UpdateState \<Rightarrow> Slot \<Rightarrow> UpdateError + UpdateState" where
  "mark_good s running_slot =
     (case update_state_validate s of Inl e \<Rightarrow> Inl e | Inr _ \<Rightarrow>
      if us_phase s \<noteq> PhasePendingBoot then Inl UInvalidTransition
      else case us_pending s of None \<Rightarrow> Inl UInvalidState | Some p \<Rightarrow>
      if running_slot \<noteq> pu_target_slot p then Inl UWrongRunningSlot
      else validated ((UpdateState_new running_slot)\<lparr>us_rollback_slot := pu_previous_slot p\<rparr>))"

definition record_failure :: "UpdateState \<Rightarrow> UpdateError + UpdateState" where
  "record_failure s =
     (case update_state_validate s of Inl e \<Rightarrow> Inl e | Inr _ \<Rightarrow>
      if us_phase s \<noteq> PhasePendingBoot then Inl UInvalidTransition
      else validated (s\<lparr>us_phase := PhaseRollbackPending\<rparr>))"

definition confirm_rollback :: "UpdateState \<Rightarrow> Slot \<Rightarrow> UpdateError + UpdateState" where
  "confirm_rollback s running_slot =
     (case update_state_validate s of Inl e \<Rightarrow> Inl e | Inr _ \<Rightarrow>
      if us_phase s \<noteq> PhaseRollbackPending then Inl UInvalidTransition
      else case us_pending s of None \<Rightarrow> Inl UInvalidState | Some p \<Rightarrow>
      if running_slot \<noteq> pu_previous_slot p then Inl UWrongRunningSlot
      else validated ((UpdateState_new running_slot)\<lparr>us_rollback_slot := pu_target_slot p\<rparr>))"

definition plan_local_rollback :: "UpdateState \<Rightarrow> UpdateError + LocalRollbackPlan" where
  "plan_local_rollback s =
     (case update_state_validate s of Inl e \<Rightarrow> Inl e | Inr _ \<Rightarrow>
      if us_phase s = PhaseStable
      then Inr \<lparr>lr_slot = us_rollback_slot s, lr_previous_slot = us_active_slot s\<rparr>
      else case us_pending s of None \<Rightarrow> Inl UInvalidState | Some p \<Rightarrow>
      Inr \<lparr>lr_slot = pu_previous_slot p, lr_previous_slot = pu_target_slot p\<rparr>)"

definition confirm_local_rollback :: "UpdateState \<Rightarrow> LocalRollbackPlan \<Rightarrow> Slot \<Rightarrow> UpdateError + UpdateState" where
  "confirm_local_rollback s plan running_slot =
     (case update_state_validate s of Inl e \<Rightarrow> Inl e | Inr _ \<Rightarrow>
      case (if us_phase s = PhaseStable
            then Inr (lr_slot plan = us_rollback_slot s \<and> lr_previous_slot plan = us_active_slot s)
            else case us_pending s of None \<Rightarrow> Inl UInvalidState | Some p \<Rightarrow>
              Inr (lr_slot plan = pu_previous_slot p \<and> lr_previous_slot plan = pu_target_slot p))
      of Inl e \<Rightarrow> Inl e | Inr valid_plan \<Rightarrow>
      if \<not> valid_plan \<or> running_slot \<noteq> lr_slot plan then Inl UInvalidTransition
      else validated ((UpdateState_new running_slot)\<lparr>us_rollback_slot := lr_previous_slot plan\<rparr>))"

fun slot_name :: "Slot \<Rightarrow> string" where
  "slot_name A = ''A''"
| "slot_name B = ''B''"

fun phase_name :: "UpdatePhase \<Rightarrow> string" where
  "phase_name PhaseStable = ''stable''"
| "phase_name PhaseStaged = ''staged''"
| "phase_name PhasePendingBoot = ''pending_boot''"
| "phase_name PhaseRollbackPending = ''rollback_pending''"

definition pending_json :: "PendingUpdate \<Rightarrow> json" where
  "pending_json p = object
     [(''releaseId'', JString (pu_release_id p)), (''sequence'', JNumber (PosInt (pu_sequence p))),
      (''manifestSha256'', JString (pu_manifest_sha256 p)),
      (''artifactSha256'', JString (pu_artifact_sha256 p)),
      (''targetSlot'', JString (slot_name (pu_target_slot p))),
      (''previousSlot'', JString (slot_name (pu_previous_slot p))),
      (''attemptsRemaining'', JNumber (PosInt (ucast (pu_attempts_remaining p)))),
      (''maxAttempts'', JNumber (PosInt (ucast (pu_max_attempts p)))),
      (''emergencyRollback'', JBool (pu_emergency_rollback p))]"

definition update_state_json :: "UpdateState \<Rightarrow> json" where
  "update_state_json s = object
     [(''schema'', JString (us_schema s)), (''phase'', JString (phase_name (us_phase s))),
      (''activeSlot'', JString (slot_name (us_active_slot s))),
      (''rollbackSlot'', JString (slot_name (us_rollback_slot s))),
      (''pending'', case us_pending s of None \<Rightarrow> JNull | Some p \<Rightarrow> pending_json p)]"

definition update_state_export :: "crates \<Rightarrow> UpdateState \<Rightarrow> UpdateError + string" where
  "update_state_export X s =
     (case update_state_validate s of Inl e \<Rightarrow> Inl e | Inr _ \<Rightarrow>
      case update_canonical_json X (update_state_json s) of Inl e \<Rightarrow> Inl e | Inr bytes \<Rightarrow>
      case validate_size update_json_errors (length bytes) MAX_STATE_BYTES of Inl e \<Rightarrow> Inl e | Inr _ \<Rightarrow>
      Inr bytes)"

definition update_state_import ::
  "crates \<Rightarrow> (string \<Rightarrow> json option) \<Rightarrow> (string \<Rightarrow> UpdateState option) \<Rightarrow> string \<Rightarrow>
   UpdateError + UpdateState" where
  "update_state_import X from_value from_doc bytes =
     (case import_canonical update_json_errors (quote_str X) from_value from_doc update_state_json
         MAX_STATE_BYTES bytes of Inl e \<Rightarrow> Inl e | Inr state \<Rightarrow>
      case update_state_validate state of Inl e \<Rightarrow> Inl e | Inr _ \<Rightarrow> Inr state)"

section \<open>Slots and valid states\<close>

lemma inactive_simps [simp]: "inactive (inactive s) = s" "inactive s \<noteq> s" "s \<noteq> inactive s"
  by (cases s; simp)+

lemma other_slot: "s \<noteq> t \<longleftrightarrow> t = inactive s"
  by (cases s; cases t) simp_all

definition valid_pending :: "Slot \<Rightarrow> PendingUpdate \<Rightarrow> bool" where
  "valid_pending active p \<longleftrightarrow>
     validate_identifier UInvalidField ''state.pending.releaseId'' (pu_release_id p) = Inr () \<and>
     validate_safe_nonzero UInvalidField ''state.pending.sequence'' (pu_sequence p) = Inr () \<and>
     validate_sha256 UInvalidField ''state.pending.manifestSha256'' (pu_manifest_sha256 p) = Inr () \<and>
     validate_sha256 UInvalidField ''state.pending.artifactSha256'' (pu_artifact_sha256 p) = Inr () \<and>
     pu_previous_slot p = active \<and> pu_target_slot p = inactive active \<and>
     pu_max_attempts p \<noteq> 0 \<and> pu_max_attempts p \<le> MAX_BOOT_ATTEMPTS \<and>
     pu_attempts_remaining p \<le> pu_max_attempts p"

text \<open>A valid state has two distinct slots, and a pending update exactly when it is not stable.\<close>

lemma update_state_valid_iff:
  "update_state_validate s = Inr u \<longleftrightarrow>
   us_schema s = UPDATE_STATE_SCHEMA \<and> us_rollback_slot s = inactive (us_active_slot s) \<and>
   (if us_phase s = PhaseStable then us_pending s = None
    else \<exists>p. us_pending s = Some p \<and> valid_pending (us_active_slot s) p)"
  by (cases "us_phase s"; cases "us_pending s")
    (auto simp: update_state_validate_def valid_pending_def not_less
      other_slot [of "us_active_slot s" "us_rollback_slot s"])

lemma validated_Inr: "validated s = Inr t \<longleftrightarrow> t = s \<and> update_state_validate s = Inr ()"
  by (auto simp: validated_def)

lemma new_state_valid [simp]:
  "update_state_validate (UpdateState_new s) = Inr ()"
  by (simp add: update_state_valid_iff UpdateState_new_def)

lemma new_state_rollback [simp]:
  "(UpdateState_new s)\<lparr>us_rollback_slot := inactive s\<rparr> = UpdateState_new s"
  by (simp add: UpdateState_new_def)

section \<open>Specification: a known-good slot\<close>

text \<open>
  What the slot state promises: there is always one known-good slot; the other one is only ever
  tried, a bounded number of times, and replaces the known-good slot only when it is declared
  good or when the operator rolls back.
\<close>

datatype trial =
    Settled Slot
  | Prepared Slot nat
  | Trying Slot nat
  | Reverting Slot

text \<open>What happens to the device, as the client is told or decides; a boot carries the action it chose.\<close>

datatype update_event =
    EvStaged nat
  | EvArmed
  | EvBoot BootAction
  | EvGood Slot
  | EvFailed
  | EvRolledBack Slot
  | EvLocalRollback Slot

fun trial_next :: "trial \<Rightarrow> update_event \<Rightarrow> trial option" where
  "trial_next t (EvStaged n) = (case t of Settled g \<Rightarrow> if 1 \<le> n \<and> n \<le> 5 then Some (Prepared g n) else None | _ \<Rightarrow> None)"
| "trial_next t EvArmed = (case t of Prepared g n \<Rightarrow> Some (Trying g n) | _ \<Rightarrow> None)"
| "trial_next t (EvBoot action) =
     (case t of
        Settled g \<Rightarrow> if action = BootStable g then Some t else None
      | Prepared g n \<Rightarrow> None
      | Trying g 0 \<Rightarrow> if action = Rollback g (inactive g) then Some (Reverting g) else None
      | Trying g (Suc n) \<Rightarrow> if action = TryPending (inactive g) g then Some (Trying g n) else None
      | Reverting g \<Rightarrow> if action = Rollback g (inactive g) then Some t else None)"
| "trial_next t (EvGood slot) =
     (case t of Trying g n \<Rightarrow> if slot = inactive g then Some (Settled slot) else None | _ \<Rightarrow> None)"
| "trial_next t EvFailed = (case t of Trying g n \<Rightarrow> Some (Reverting g) | _ \<Rightarrow> None)"
| "trial_next t (EvRolledBack slot) =
     (case t of Reverting g \<Rightarrow> if slot = g then Some (Settled g) else None | _ \<Rightarrow> None)"
| "trial_next t (EvLocalRollback slot) =
     (let back = (case t of Settled g \<Rightarrow> inactive g | Prepared g _ \<Rightarrow> g | Trying g _ \<Rightarrow> g | Reverting g \<Rightarrow> g)
      in if slot = back then Some (Settled back) else None)"

fun trial_run :: "trial \<Rightarrow> update_event list \<Rightarrow> trial option" where
  "trial_run t [] = Some t"
| "trial_run t (e # es) = (case trial_next t e of None \<Rightarrow> None | Some u \<Rightarrow> trial_run u es)"

definition remaining :: "UpdateState \<Rightarrow> nat" where
  "remaining s = (case us_pending s of None \<Rightarrow> 0 | Some p \<Rightarrow> unat (pu_attempts_remaining p))"

definition trial_of :: "UpdateState \<Rightarrow> trial" where
  "trial_of s =
     (case us_phase s of
        PhaseStable \<Rightarrow> Settled (us_active_slot s)
      | PhaseStaged \<Rightarrow> Prepared (us_active_slot s) (remaining s)
      | PhasePendingBoot \<Rightarrow> Trying (us_active_slot s) (remaining s)
      | PhaseRollbackPending \<Rightarrow> Reverting (us_active_slot s))"

text \<open>One successful operation of the client on its persisted state, with what it means for the device.\<close>

inductive update_step :: "crates \<Rightarrow> UpdateState \<Rightarrow> update_event \<Rightarrow> UpdateState \<Rightarrow> bool" for X where
  stage: "plan_stage X s0 admitted context evidence k = Inr plan \<Longrightarrow> confirm_staged s plan = Inr t \<Longrightarrow>
    update_step X s (EvStaged (unat k)) t"
| arm_boot: "arm_pending_boot s = Inr t \<Longrightarrow> update_step X s EvArmed t"
| boot: "next_boot s = Inr bt \<Longrightarrow> update_step X s (EvBoot (bt_action bt)) (bt_state bt)"
| mark: "mark_good s slot = Inr t \<Longrightarrow> update_step X s (EvGood slot) t"
| failure: "record_failure s = Inr t \<Longrightarrow> update_step X s EvFailed t"
| rollback: "confirm_rollback s slot = Inr t \<Longrightarrow> update_step X s (EvRolledBack slot) t"
| local_rollback: "confirm_local_rollback s lplan slot = Inr t \<Longrightarrow> update_step X s (EvLocalRollback slot) t"

inductive update_run :: "crates \<Rightarrow> UpdateState \<Rightarrow> update_event list \<Rightarrow> UpdateState \<Rightarrow> bool" for X where
  stop: "update_run X s [] s"
| go: "update_step X s e t \<Longrightarrow> update_run X t es u \<Longrightarrow> update_run X s (e # es) u"

lemma plan_stage_attempts:
  "plan_stage X s admitted context evidence k = Inr plan \<Longrightarrow>
   pu_attempts_remaining (sp_pending plan) = k \<and> 1 \<le> k \<and> k \<le> MAX_BOOT_ATTEMPTS"
  by (auto simp: plan_stage_def Let_def)

lemma trial_of_new [simp]: "trial_of (UpdateState_new s) = Settled s"
  by (simp add: trial_of_def UpdateState_new_def)

lemma unat_minus_one_u8: "a \<noteq> 0 \<Longrightarrow> unat (a :: u8) = Suc (unat (a - 1))"
  by (simp add: unat_minus_one unat_gt_0)

text \<open>A pending update of a valid state, as the specification sees it.\<close>

lemma valid_pendingE:
  assumes "update_state_validate s = Inr ()" and "us_phase s \<noteq> PhaseStable"
  obtains p where "us_pending s = Some p" and "pu_previous_slot p = us_active_slot s"
    and "pu_target_slot p = inactive (us_active_slot s)" and "remaining s = unat (pu_attempts_remaining p)"
  using assms by (auto simp: update_state_valid_iff valid_pending_def remaining_def)

lemma stage_simulates:
  assumes "plan_stage X s0 admitted context evidence k = Inr plan" and "confirm_staged s plan = Inr t"
  shows "trial_next (trial_of s) (EvStaged (unat k)) = Some (trial_of t)"
proof -
  have k: "pu_attempts_remaining (sp_pending plan) = k" "1 \<le> k" "k \<le> 5"
    using plan_stage_attempts [OF assms(1)] by (auto simp: MAX_BOOT_ATTEMPTS_def)
  then have "1 \<le> unat k" "unat k \<le> 5"
    by (simp_all add: word_le_nat_alt)
  moreover have "us_phase s = PhaseStable" and "t = s\<lparr>us_phase := PhaseStaged, us_pending := Some (sp_pending plan)\<rparr>"
    using assms(2) by (auto simp: confirm_staged_def validated_Inr)
  ultimately show ?thesis using k(1) by (simp add: trial_of_def remaining_def)
qed

text \<open>On a valid state the boot decision is the one of the specification, and always taken unless an update is only staged.\<close>

lemma boot_iff:
  assumes "update_state_validate s = Inr ()"
  shows "(\<exists>t. next_boot s = Inr \<lparr>bt_state = t, bt_action = action\<rparr> \<and> update_state_validate t = Inr () \<and> trial_of t = T)
    \<longleftrightarrow> trial_next (trial_of s) (EvBoot action) = Some T"
proof (cases "us_phase s")
  case PhasePendingBoot
  then obtain p where p: "us_pending s = Some p" "pu_previous_slot p = us_active_slot s"
      "pu_target_slot p = inactive (us_active_slot s)" "remaining s = unat (pu_attempts_remaining p)"
    using assms valid_pendingE [of s] by auto
  have rollback: "update_state_validate (s\<lparr>us_phase := PhaseRollbackPending\<rparr>) = Inr ()"
    using assms PhasePendingBoot p(1) by (auto simp: update_state_valid_iff)
  have fewer: "pu_attempts_remaining p - 1 \<le> pu_max_attempts p" if "pu_attempts_remaining p \<noteq> 0"
    using assms PhasePendingBoot p(1) unat_minus_one_u8 [OF that]
    by (auto simp: update_state_valid_iff valid_pending_def word_le_nat_alt)
  then have attempt: "update_state_validate (s\<lparr>us_pending :=
      Some (p\<lparr>pu_attempts_remaining := pu_attempts_remaining p - 1\<rparr>)\<rparr>) = Inr ()" if "pu_attempts_remaining p \<noteq> 0"
    using that assms PhasePendingBoot p(1) by (auto simp: update_state_valid_iff valid_pending_def)
  show ?thesis
  proof (cases "pu_attempts_remaining p = 0")
    case True
    then show ?thesis using assms PhasePendingBoot p rollback
      by (auto simp: next_boot_def validated_def trial_of_def)
  next
    case False
    then show ?thesis using assms PhasePendingBoot p attempt [OF False] unat_minus_one_u8 [OF False]
      by (auto simp: next_boot_def validated_def trial_of_def remaining_def)
  qed
next
  case PhaseRollbackPending
  then show ?thesis using assms valid_pendingE [of s] by (force simp: next_boot_def trial_of_def)
qed (use assms in \<open>auto simp: next_boot_def trial_of_def split: option.splits\<close>)

text \<open>Each of the other operations succeeds exactly when the specification has its event, and with that result.\<close>

lemma arm_iff:
  assumes "update_state_validate s = Inr ()"
  shows "(\<exists>t. arm_pending_boot s = Inr t \<and> trial_of t = T) \<longleftrightarrow> trial_next (trial_of s) EvArmed = Some T"
    and "(\<exists>t. record_failure s = Inr t \<and> trial_of t = T) \<longleftrightarrow> trial_next (trial_of s) EvFailed = Some T"
proof -
  have "update_state_validate (s\<lparr>us_phase := q\<rparr>) = Inr ()" if "us_phase s \<noteq> PhaseStable" "q \<noteq> PhaseStable" for q
    using assms that by (auto simp: update_state_valid_iff)
  then show "(\<exists>t. arm_pending_boot s = Inr t \<and> trial_of t = T) \<longleftrightarrow> trial_next (trial_of s) EvArmed = Some T"
    and "(\<exists>t. record_failure s = Inr t \<and> trial_of t = T) \<longleftrightarrow> trial_next (trial_of s) EvFailed = Some T"
    using assms
    by (auto simp: arm_pending_boot_def record_failure_def validated_def trial_of_def remaining_def split: UpdatePhase.splits)
qed

lemma new_state_validated [simp]:
  "validated ((UpdateState_new (inactive s))\<lparr>us_rollback_slot := s\<rparr>) = Inr (UpdateState_new (inactive s))"
  "validated ((UpdateState_new s)\<lparr>us_rollback_slot := inactive s\<rparr>) = Inr (UpdateState_new s)"
  using new_state_rollback [of "inactive s"] by (simp_all add: validated_def)

lemma settle_Inr:
  assumes "update_state_validate s = Inr ()"
  shows "mark_good s slot = Inr t \<longleftrightarrow>
      us_phase s = PhasePendingBoot \<and> slot = inactive (us_active_slot s) \<and> t = UpdateState_new slot"
    and "confirm_rollback s slot = Inr t \<longleftrightarrow>
      us_phase s = PhaseRollbackPending \<and> slot = us_active_slot s \<and> t = UpdateState_new slot"
proof -
  show "mark_good s slot = Inr t \<longleftrightarrow>
      us_phase s = PhasePendingBoot \<and> slot = inactive (us_active_slot s) \<and> t = UpdateState_new slot"
  proof (cases "us_phase s = PhasePendingBoot")
    case True
    then obtain p where "us_pending s = Some p" "pu_previous_slot p = us_active_slot s" "pu_target_slot p = inactive (us_active_slot s)"
      using valid_pendingE [OF assms] by auto
    then show ?thesis using assms True by (auto simp: mark_good_def simp del: new_state_rollback)
  qed (use assms in \<open>simp add: mark_good_def\<close>)
  show "confirm_rollback s slot = Inr t \<longleftrightarrow>
      us_phase s = PhaseRollbackPending \<and> slot = us_active_slot s \<and> t = UpdateState_new slot"
  proof (cases "us_phase s = PhaseRollbackPending")
    case True
    then obtain p where "us_pending s = Some p" "pu_previous_slot p = us_active_slot s" "pu_target_slot p = inactive (us_active_slot s)"
      using valid_pendingE [OF assms] by auto
    then show ?thesis using assms True by (auto simp: confirm_rollback_def simp del: new_state_rollback)
  qed (use assms in \<open>simp add: confirm_rollback_def\<close>)
qed

lemma settle_iff:
  assumes "update_state_validate s = Inr ()"
  shows "(\<exists>t. mark_good s slot = Inr t \<and> trial_of t = T) \<longleftrightarrow> trial_next (trial_of s) (EvGood slot) = Some T"
    and "(\<exists>t. confirm_rollback s slot = Inr t \<and> trial_of t = T) \<longleftrightarrow> trial_next (trial_of s) (EvRolledBack slot) = Some T"
  unfolding settle_Inr [OF assms] by (auto simp: trial_of_def [of s] split: UpdatePhase.splits)

lemma local_rollback_iff:
  assumes "update_state_validate s = Inr ()"
  shows "(\<exists>lplan t. confirm_local_rollback s lplan slot = Inr t \<and> trial_of t = T) \<longleftrightarrow>
    trial_next (trial_of s) (EvLocalRollback slot) = Some T"
proof -
  define previous where "previous = (if us_phase s = PhaseStable then us_active_slot s else inactive (us_active_slot s))"
  have "confirm_local_rollback s lplan slot =
      (if lr_slot lplan = inactive previous \<and> lr_previous_slot lplan = previous \<and> slot = inactive previous
       then Inr (UpdateState_new slot) else Inl UInvalidTransition)" for lplan
  proof (cases "us_phase s = PhaseStable")
    case True
    moreover have "us_rollback_slot s = inactive (us_active_slot s)" using assms by (simp add: update_state_valid_iff)
    ultimately show ?thesis using assms
      by (auto simp: confirm_local_rollback_def previous_def simp del: new_state_rollback)
  next
    case False
    with assms show ?thesis
      by (rule valid_pendingE) (use assms False in \<open>auto simp: confirm_local_rollback_def previous_def simp del: new_state_rollback\<close>)
  qed
  moreover have "\<exists>lplan :: LocalRollbackPlan. lr_slot lplan = inactive previous \<and> lr_previous_slot lplan = previous"
    by (rule exI [of _ "\<lparr>lr_slot = inactive previous, lr_previous_slot = previous\<rparr>"]) simp
  moreover have "trial_next (trial_of s) (EvLocalRollback slot) =
      (if slot = inactive previous then Some (Settled slot) else None)"
    by (cases "us_phase s") (auto simp: trial_of_def previous_def)
  ultimately show ?thesis by auto
qed

lemma update_step_valid:
  "update_step X s e t \<Longrightarrow> update_state_validate s = Inr () \<and> update_state_validate t = Inr ()"
  by (induction rule: update_step.induct)
    (auto simp: confirm_staged_def arm_pending_boot_def next_boot_def mark_good_def record_failure_def
      confirm_rollback_def confirm_local_rollback_def validated_Inr split: option.splits UpdatePhase.splits if_splits sum.splits)

lemma update_step_simulates:
  assumes "update_step X s e t"
  shows "trial_next (trial_of s) e = Some (trial_of t)"
proof -
  note valid = update_step_valid [OF assms]
  from assms show ?thesis
  proof cases
    case (boot bt)
    then show ?thesis using boot_iff [of s "bt_action bt" "trial_of t"] valid by (cases bt) auto
  qed (use valid in \<open>auto simp only: stage_simulates
      simp: arm_iff [symmetric] settle_iff [symmetric] local_rollback_iff [symmetric] simp del: trial_next.simps\<close>)
qed

lemma update_step_enabled:
  assumes "update_state_validate s = Inr ()" and "trial_next (trial_of s) e = Some T" and "\<forall>n. e \<noteq> EvStaged n"
  shows "\<exists>t. update_step X s e t \<and> trial_of t = T"
proof (cases e)
  case (EvBoot action)
  then obtain t where "next_boot s = Inr \<lparr>bt_state = t, bt_action = action\<rparr>" "trial_of t = T"
    using boot_iff [OF assms(1), of action T] assms(2) by blast
  then show ?thesis using EvBoot update_step.boot [of s _ X] by fastforce
qed (use assms(2,3) arm_iff [OF assms(1)] settle_iff [OF assms(1)] local_rollback_iff [OF assms(1)]
    in \<open>blast intro: update_step.intros\<close>)+


lemma remaining_le: "update_state_validate s = Inr u \<Longrightarrow> remaining s \<le> 5"
  by (cases "us_pending s")
    (auto simp: remaining_def update_state_valid_iff valid_pending_def MAX_BOOT_ATTEMPTS_def
      word_le_nat_alt split: if_splits)

section \<open>Boots\<close>

text \<open>The boots of a device whose pending slot never reports back: each persists its state first.\<close>

fun boots :: "nat \<Rightarrow> UpdateState \<Rightarrow> UpdateError + (UpdateState \<times> BootAction list)" where
  "boots 0 s = Inr (s, [])"
| "boots (Suc n) s =
     (case next_boot s of Inl e \<Rightarrow> Inl e | Inr bt \<Rightarrow>
      case boots n (bt_state bt) of Inl e \<Rightarrow> Inl e | Inr (t, actions) \<Rightarrow> Inr (t, bt_action bt # actions))"

lemma boots_reverting:
  assumes "update_state_validate s = Inr ()" and "us_phase s = PhaseRollbackPending"
  shows "boots n s = Inr (s, replicate n (Rollback (us_active_slot s) (inactive (us_active_slot s))))"
  using assms
  by (induction n) (auto simp: next_boot_def update_state_valid_iff valid_pending_def)

lemma boots_pending:
  assumes "update_state_validate s = Inr ()" and "us_phase s = PhasePendingBoot"
  shows "\<exists>t. boots (remaining s + Suc k) s =
      Inr (t, replicate (remaining s) (TryPending (inactive (us_active_slot s)) (us_active_slot s)) @
              replicate (Suc k) (Rollback (us_active_slot s) (inactive (us_active_slot s)))) \<and>
    us_phase t = PhaseRollbackPending \<and> us_active_slot t = us_active_slot s \<and>
    update_state_validate t = Inr ()"
  using assms
proof (induction "remaining s" arbitrary: s)
  case 0
  then obtain p where p: "us_pending s = Some p" "valid_pending (us_active_slot s) p"
    by (auto simp: update_state_valid_iff)
  let ?t = "s\<lparr>us_phase := PhaseRollbackPending\<rparr>"
  have "pu_attempts_remaining p = 0" using 0(1) p(1) by (simp add: remaining_def unat_eq_0)
  moreover have valid: "update_state_validate ?t = Inr ()"
    using 0(2,3) by (auto simp: update_state_valid_iff)
  ultimately have "next_boot s =
    Inr \<lparr>bt_state = ?t, bt_action = Rollback (us_active_slot s) (inactive (us_active_slot s))\<rparr>"
    using 0(2,3) p by (simp add: next_boot_def validated_def valid_pending_def)
  then show ?case using boots_reverting [OF valid, of k] valid 0(1) by simp
next
  case (Suc n)
  then obtain p where p: "us_pending s = Some p" "valid_pending (us_active_slot s) p"
    by (auto simp: update_state_valid_iff)
  let ?t = "s\<lparr>us_pending := Some (p\<lparr>pu_attempts_remaining := pu_attempts_remaining p - 1\<rparr>)\<rparr>"
  have some: "pu_attempts_remaining p \<noteq> 0" using Suc(2) p(1) by (auto simp: remaining_def)
  have n: "n = remaining ?t" using Suc(2) p(1) unat_minus_one_u8 [OF some] by (simp add: remaining_def)
  have "pu_attempts_remaining p - 1 \<le> pu_max_attempts p"
    using p(2) unat_minus_one_u8 [OF some] by (simp add: valid_pending_def word_le_nat_alt)
  then have valid: "update_state_validate ?t = Inr ()"
    using Suc(3,4) p by (simp add: update_state_valid_iff valid_pending_def)
  then have next_state: "next_boot s =
    Inr \<lparr>bt_state = ?t, bt_action = TryPending (inactive (us_active_slot s)) (us_active_slot s)\<rparr>"
    using Suc(3,4) p some by (simp add: next_boot_def validated_def valid_pending_def)
  from Suc(1) [OF n valid] Suc(4) next_state show ?case
    by (auto simp: Suc(2) [symmetric] n [symmetric])
qed

section \<open>Admission\<close>

definition update_checkpoint_admit :: "UpdateCheckpoint option \<Rightarrow> VerifiedUpdate \<Rightarrow> UpdateError + UpdateCheckpoint option" where
  "update_checkpoint_admit checkpoint verified =
     map_sum id (\<lambda>outcome. Some (ao_next_checkpoint outcome)) (admit_update checkpoint verified)"

definition update_held :: "UpdateCheckpoint option \<Rightarrow> register" where
  "update_held checkpoint = map_option (\<lambda>k. (uk_sequence k, uk_manifest_sha256 k)) checkpoint"

interpretation update_register: anti_rollback update_checkpoint_admit update_held
  "\<lambda>u. um_sequence (vu_manifest u)" "\<lambda>u. hex_sha256 (vu_manifest_sha256 u)"
proof
  fix s d s'
  assume "update_checkpoint_admit s d = Inr s'"
  then show "register_admit (update_held s) (um_sequence (vu_manifest d)) (hex_sha256 (vu_manifest_sha256 d)) =
    Some (update_held s')"
    by (cases s) (auto simp: update_checkpoint_admit_def admit_update_def Let_def update_held_def
        update_checkpoint_from_verified_def split: if_splits)
qed

section \<open>Authenticity\<close>

lemma decode_sha256_Inr: "decode_sha256 v = Inr d \<Longrightarrow> hex_sha256 d = v"
  by (auto simp: decode_sha256_def validate_sha256_Inr split: option.splits intro!: hex_sha256_unhex)

lemma manifest_verify_Inr:
  assumes "manifest_verify X m anchor = Inr v"
  obtains canonical message signature exact where
    "manifest_unsigned_canonical X m = Inr canonical" and "message = UPDATE_SIGNATURE_DOMAIN @ canonical"
    and "b64_encode X signature = um_signature m" and "ed_verify_strict X anchor message signature"
    and "update_canonical_json X (manifest_json m) = Inr exact"
    and "v = \<lparr>vu_manifest = m, vu_manifest_sha256 = sha256 X exact\<rparr>"
    and "manifest_validate X m = Inr ()"
  using assms that
  by (fastforce simp: manifest_verify_def decode_signature_Inr update_signature_message_def
      manifest_export_canonical_def)

lemma manifest_import_Inr:
  assumes "manifest_import_and_verify X from_value from_doc bytes anchor = Inr v"
  obtains canonical signature where
    "manifest_unsigned_canonical X (vu_manifest v) = Inr canonical"
    and "b64_encode X signature = um_signature (vu_manifest v)"
    and "ed_verify_strict X anchor (UPDATE_SIGNATURE_DOMAIN @ canonical) signature"
    and "update_canonical_json X (manifest_json (vu_manifest v)) = Inr bytes"
    and "vu_manifest_sha256 v = sha256 X bytes"
proof -
  obtain m where "manifest_verify X m anchor = Inr v"
    and "canonical_json update_json_errors (quote_str X) (manifest_json m) = Inr bytes"
    using assms by (auto simp: manifest_import_and_verify_def import_canonical_Inr)
  then show ?thesis
    using that by (elim manifest_verify_Inr) (auto simp: update_canonical_json_def)
qed

lemma plan_stage_Inr:
  assumes "plan_stage X s admitted ctx evidence k = Inr plan"
  defines "m \<equiv> vu_manifest (au_verified admitted)"
  shows "availability X (au_verified admitted) ctx = Eligible"
    and "hex_sha256 (ca_sha256 evidence) = ad_sha256 (um_artifact m)"
    and "ca_size_bytes evidence = ad_size_bytes (um_artifact m)"
    and "sp_pending plan = \<lparr>pu_release_id = um_release_id m, pu_sequence = um_sequence m,
      pu_manifest_sha256 = hex_sha256 (vu_manifest_sha256 (au_verified admitted)),
      pu_artifact_sha256 = ad_sha256 (um_artifact m), pu_target_slot = inactive (us_active_slot s),
      pu_previous_slot = us_active_slot s, pu_attempts_remaining = k, pu_max_attempts = k,
      pu_emergency_rollback = um_emergency_rollback m\<rparr>"
    and "update_state_validate s = Inr ()" and "us_phase s = PhaseStable" and "1 \<le> k" and "k \<le> MAX_BOOT_ATTEMPTS"
  using assms(1) unfolding m_def by (auto simp: plan_stage_def Let_def dest!: decode_sha256_Inr)

lemma eligible_iff:
  "availability X u ctx = Eligible \<longleftrightarrow>
   ctx_now_unix ctx \<noteq> 0 \<and> ctx_now_unix ctx \<le> MAX_SAFE_JSON_INTEGER \<and> is_ok (validate_device_id UInvalidField (ctx_device_id ctx)) \<and>
   um_platform (vu_manifest u) = ctx_platform ctx \<and> um_architecture (vu_manifest u) = ctx_architecture ctx \<and>
   um_not_before_unix (vu_manifest u) \<le> ctx_now_unix ctx \<and> ctx_now_unix ctx < um_expires_at_unix (vu_manifest u) \<and>
   (um_emergency_rollback (vu_manifest u) \<or>
    ctx_update_ring ctx \<noteq> Hold \<and> (um_release_ring (vu_manifest u) = RingCanary \<longrightarrow> ctx_update_ring ctx = Canary) \<and>
    in_rollout X (ctx_device_id ctx) (ro_seed (um_rollout (vu_manifest u))) (ro_basis_points (um_rollout (vu_manifest u))))"
  by (auto simp: availability_def Let_def)

lemma admit_update_Inr:
  "admit_update checkpoint v = Inr out \<Longrightarrow> au_verified (ao_update out) = v \<and>
   (\<forall>k. checkpoint = Some k \<longrightarrow> uk_sequence k < um_sequence (vu_manifest v) \<or>
      uk_sequence k = um_sequence (vu_manifest v) \<and> uk_manifest_sha256 k = hex_sha256 (vu_manifest_sha256 v))"
  by (auto simp: admit_update_def Let_def split: option.splits if_splits)

section \<open>The signed message determines the manifest\<close>

lemma names_inject:
  "platform_name p = platform_name q \<Longrightarrow> p = q"
  "architecture_name a = architecture_name b \<Longrightarrow> a = b"
  "release_ring_name r = release_ring_name t \<Longrightarrow> r = t"
  subgoal by (cases p; cases q) simp_all
  subgoal by (cases a; cases b) simp_all
  subgoal by (cases r; cases t) simp_all
  done

lemma artifact_json_inject: "artifact_json a = artifact_json b \<Longrightarrow> a = b"
  unfolding artifact_json_def by (drule object_inject [rotated 2]) simp_all

lemma rollout_json_inject: "rollout_json r = rollout_json t \<Longrightarrow> r = t"
  unfolding rollout_json_def
  by (drule object_inject [rotated 2]) (simp_all add: ucast_inject)

lemma manifest_members_wf [simp]: "wf_json (object (manifest_members m))" "wf_json (manifest_json m)"
  by (simp_all add: manifest_members_def manifest_json_def rollout_json_def artifact_json_def)

lemma manifest_members_inject:
  assumes "object (manifest_members m) = object (manifest_members n)"
  shows "m = n\<lparr>um_signature := um_signature m\<rparr>"
proof -
  have "manifest_members m = manifest_members n"
    using assms by (rule object_inject [rotated 2]) (simp_all add: manifest_members_def)
  then show ?thesis
    using artifact_json_inject [of "um_artifact m"] rollout_json_inject [of "um_rollout m"] names_inject
    by (auto simp: manifest_members_def)
qed

lemma update_state_json_inject:
  assumes "update_state_json s = update_state_json t"
  shows "s = t"
proof -
  have slot: "slot_name a = slot_name b \<longleftrightarrow> a = b" for a b by (cases a; cases b) simp_all
  have phase: "phase_name a = phase_name b \<longleftrightarrow> a = b" for a b by (cases a; cases b) simp_all
  have pending: "p = q" if "pending_json p = pending_json q" for p q
    using that unfolding pending_json_def
    by (drule_tac object_inject [rotated 2]) (simp_all add: slot ucast_inject)
  have nonnull: "pending_json p \<noteq> JNull" "JNull \<noteq> pending_json p" for p
    by (simp_all add: pending_json_def object_def)
  show ?thesis
    using assms unfolding update_state_json_def
    by (drule_tac object_inject [rotated 2])
      (auto simp: slot phase nonnull split: option.splits dest: pending)
qed

text \<open>The bytes of a persisted state determine it, and only a valid state is read back.\<close>

lemma update_state_round_trip:
  assumes quoting: "json_quoting (quote_str X)"
    and exported: "update_state_export X s = Inr bytes"
    and imported: "update_state_import X from_value from_doc bytes = Inr t"
  shows "s = t \<and> update_state_validate t = Inr ()"
proof -
  have wf: "wf_json (update_state_json s)" for s
    by (cases "us_pending s") (simp_all add: update_state_json_def pending_json_def)
  have "update_canonical_json X (update_state_json s) = Inr bytes"
    using exported by (auto simp: update_state_export_def)
  moreover have "update_canonical_json X (update_state_json t) = Inr bytes"
    and "update_state_validate t = Inr ()"
    using imported by (auto simp: update_state_import_def import_canonical_Inr update_canonical_json_def)
  ultimately show ?thesis
    using canonical_json_determines [OF quoting wf wf] update_state_json_inject
    unfolding update_canonical_json_def by blast
qed

lemma update_message_binds:
  assumes "json_quoting (quote_str X)"
    and "manifest_unsigned_canonical X m = Inr c" and "manifest_unsigned_canonical X n = Inr c"
  shows "m = n\<lparr>um_signature := um_signature m\<rparr>"
  using assms canonical_json_determines [OF assms(1) manifest_members_wf(1) manifest_members_wf(1)]
  by (intro manifest_members_inject) (auto simp: manifest_unsigned_canonical_def update_canonical_json_def)

section \<open>A concrete release\<close>

definition sample_manifest :: SignedUpdateManifest where
  "sample_manifest = \<lparr>um_schema = UPDATE_MANIFEST_SCHEMA, um_sequence = 7, um_release_id = ''r7'',
     um_release_version = ''1.2.0'', um_platform = Linux, um_architecture = X86_64,
     um_release_ring = RingStable, um_rollout = \<lparr>ro_basis_points = 10000, ro_seed = ''s''\<rparr>,
     um_issued_at_unix = 100, um_not_before_unix = 100, um_expires_at_unix = 200,
     um_artifact = \<lparr>ad_url = ''https://k.dev/i'', ad_size_bytes = 4096,
       ad_sha256 = hex_sha256 (replicate 32 CHR 0x00)\<rparr>,
     um_emergency_rollback = False, um_signature = url_safe_no_pad_encode (replicate 64 CHR 0x00)\<rparr>"

definition sample_context :: UpdateContext where
  "sample_context = \<lparr>ctx_device_id = ''KA-000000000000000000000000'', ctx_platform = Linux,
     ctx_architecture = X86_64, ctx_update_ring = Stable, ctx_now_unix = 150\<rparr>"

lemma sample_bytes_short:
  "length (json_text plain_quote (manifest_json sample_manifest)) \<le> 65536"
  "length (json_text plain_quote (object (manifest_members sample_manifest))) \<le> 65536"
proof -
  have "length (plain_quote (hex_sha256 (replicate 32 CHR 0x00))) \<le> 130"
    using length_plain_quote_le [of "hex_sha256 (replicate 32 CHR 0x00)"] by simp
  moreover have "length (plain_quote (url_safe_no_pad_encode (replicate 64 CHR 0x00))) \<le> 174"
    using length_plain_quote_le [of "url_safe_no_pad_encode (replicate 64 CHR 0x00)"] by simp
  ultimately show
    "length (json_text plain_quote (manifest_json sample_manifest)) \<le> 65536"
    "length (json_text plain_quote (object (manifest_members sample_manifest))) \<le> 65536"
    by (simp_all add: manifest_json_def manifest_members_def sample_manifest_def object_def
      UPDATE_MANIFEST_SCHEMA_def rollout_json_def artifact_json_def comma_separated_def
      length_plain_quote_simps escape_byte_def number_text_def decimal.simps)
qed

lemma sample_valid: "manifest_validate release_crates sample_manifest = Inr ()"
  by (simp add: manifest_validate_def manifest_validate_unsigned_def sample_manifest_def release_crates_def
    validator decode_signature_def SIGNATURE_BYTES_def
    validate_safe_nonzero_def validate_identifier_def validate_version_def validate_artifact_def
    MAX_SAFE_JSON_INTEGER_def MAX_ID_BYTES_def id_byte_def ascii_class_defs MAX_VERSION_BYTES_def
    ascii_graphic_def ROLLOUT_BASIS_POINTS_def MAX_ARTIFACT_BYTES_def MAX_URL_BYTES_def
   )

lemma sample_canonical:
  "update_canonical_json release_crates (manifest_json sample_manifest) =
     Inr (json_text plain_quote (manifest_json sample_manifest))"
  "manifest_unsigned_canonical release_crates sample_manifest =
     Inr (json_text plain_quote (object (manifest_members sample_manifest)))"
  unfolding update_canonical_json_def manifest_unsigned_canonical_def release_crates_def
  by (simp_all add: canonical_json_def write_wf manifest_json_def manifest_members_def sample_manifest_def
      rollout_json_def artifact_json_def validate_number_def MAX_SAFE_JSON_INTEGER_def)

abbreviation sample_bytes :: string where
  "sample_bytes \<equiv> json_text plain_quote (manifest_json sample_manifest)"

lemma sample_import:
  "manifest_import_and_verify release_crates (\<lambda>_. Some JNull) (\<lambda>_. Some sample_manifest) sample_bytes key =
   Inr \<lparr>vu_manifest = sample_manifest, vu_manifest_sha256 = sha256 release_crates sample_bytes\<rparr>"
proof -
  have nonempty: "sample_bytes \<noteq> []" by (simp add: manifest_json_def object_def)
  then have "import_canonical update_json_errors (quote_str release_crates) (\<lambda>_. Some JNull)
     (\<lambda>_. Some sample_manifest) manifest_json MAX_MANIFEST_BYTES sample_bytes = Inr sample_manifest"
    using sample_canonical(1) sample_bytes_short
    by (auto simp: import_canonical_Inr update_canonical_json_def MAX_MANIFEST_BYTES_def)
  moreover have "manifest_export_canonical release_crates sample_manifest = Inr sample_bytes"
    using sample_bytes_short nonempty
    by (simp add: manifest_export_canonical_def sample_valid sample_canonical validate_size_def
        MAX_MANIFEST_BYTES_def)
  moreover have "update_signature_message (json_text plain_quote (object (manifest_members sample_manifest))) =
      Inr (UPDATE_SIGNATURE_DOMAIN @ json_text plain_quote (object (manifest_members sample_manifest)))"
    using sample_bytes_short
    by (simp add: update_signature_message_def UPDATE_SIGNATURE_DOMAIN_def domain_tag_def)
  moreover have "\<exists>sig. decode_signature UInvalidField release_crates (um_signature sample_manifest) = Inr sig"
    using sample_valid by (auto simp: manifest_validate_def)
  moreover have "ed_verify_strict release_crates k m sig" for k m sig
    by (simp add: release_crates_def)
  ultimately show ?thesis
    by (auto simp: manifest_import_and_verify_def manifest_verify_def sample_valid sample_canonical)
qed

abbreviation sample_verified :: VerifiedUpdate where
  "sample_verified \<equiv> \<lparr>vu_manifest = sample_manifest, vu_manifest_sha256 = sha256 release_crates sample_bytes\<rparr>"

abbreviation sample_admitted :: AdmittedUpdate where
  "sample_admitted \<equiv> \<lparr>au_verified = sample_verified, au_admission = UAdvanced\<rparr>"

definition sample_checkpoint :: UpdateCheckpoint where
  "sample_checkpoint = \<lparr>uk_schema = UPDATE_CHECKPOINT_SCHEMA, uk_sequence = 5, uk_release_id = ''r5'',
     uk_manifest_sha256 = hex_sha256 (replicate 32 CHR 0x00)\<rparr>"

abbreviation sample_artifact :: CompletedArtifact where
  "sample_artifact \<equiv> \<lparr>ca_size_bytes = 4096, ca_sha256 = replicate 32 CHR 0x00\<rparr>"

definition sample_plan :: StagePlan where
  "sample_plan = \<lparr>sp_pending = \<lparr>pu_release_id = ''r7'', pu_sequence = 7,
     pu_manifest_sha256 = hex_sha256 (sha256 release_crates sample_bytes),
     pu_artifact_sha256 = hex_sha256 (replicate 32 CHR 0x00), pu_target_slot = B, pu_previous_slot = A,
     pu_attempts_remaining = 3, pu_max_attempts = 3, pu_emergency_rollback = False\<rparr>\<rparr>"

definition sample_staged :: UpdateState where
  "sample_staged = (UpdateState_new A)\<lparr>us_phase := PhaseStaged, us_pending := Some (sp_pending sample_plan)\<rparr>"

lemma sample_plan_stage:
  "plan_stage release_crates (UpdateState_new A) sample_admitted sample_context sample_artifact 3 = Inr sample_plan"
proof -
  have "availability release_crates sample_verified sample_context = Eligible"
    by (simp add: availability_def sample_manifest_def sample_context_def validate_device_id_def
        valid_device_id_def lower_hex_def ascii_class_defs MAX_SAFE_JSON_INTEGER_def in_rollout_def
        ROLLOUT_BASIS_POINTS_def)
  moreover have "decode_sha256 (hex_sha256 (replicate 32 CHR 0x00)) = Inr (replicate 32 CHR 0x00)"
    by (simp add: decode_sha256_def del: replicate.simps)
  ultimately show ?thesis
    by (simp add: plan_stage_def sample_plan_def MAX_BOOT_ATTEMPTS_def sample_manifest_def)
      (simp add: UpdateState_new_def)
qed

lemma sample_confirm: "confirm_staged (UpdateState_new A) sample_plan = Inr sample_staged"
proof -
  have "length (sha256 release_crates sample_bytes) = 32" by (simp add: release_crates_def)
  then have "update_state_validate sample_staged = Inr ()"
    by (simp add: update_state_valid_iff sample_staged_def UpdateState_new_def valid_pending_def sample_plan_def
      validate_safe_nonzero_def validate_identifier_def MAX_SAFE_JSON_INTEGER_def MAX_ID_BYTES_def
      id_byte_def ascii_class_defs MAX_BOOT_ATTEMPTS_def)
  then show ?thesis
    by (simp add: confirm_staged_def validated_def sample_staged_def)
      (simp add: sample_plan_def UpdateState_new_def)
qed

definition sample_armed :: UpdateState where
  "sample_armed = sample_staged\<lparr>us_phase := PhasePendingBoot\<rparr>"

lemma sample_armed_valid:
  "update_state_validate sample_armed = Inr ()" "us_phase sample_armed = PhasePendingBoot"
  "us_active_slot sample_armed = A" "remaining sample_armed = 3"
proof -
  have "update_state_validate sample_staged = Inr ()"
    using sample_confirm by (auto simp: confirm_staged_def validated_Inr)
  then show "update_state_validate sample_armed = Inr ()"
    by (auto simp: update_state_valid_iff sample_armed_def sample_staged_def)
qed (simp_all add: sample_armed_def sample_staged_def UpdateState_new_def remaining_def sample_plan_def)

lemma sample_run:
  "update_step release_crates (UpdateState_new A) (EvStaged 3) sample_staged"
  "update_step release_crates sample_staged EvArmed sample_armed"
  "update_step release_crates sample_armed (EvGood B) (UpdateState_new B)"
proof -
  show "update_step release_crates (UpdateState_new A) (EvStaged 3) sample_staged"
    using stage [OF sample_plan_stage sample_confirm] by simp
  have "update_state_validate sample_staged = Inr ()"
    using sample_confirm by (auto simp: confirm_staged_def validated_Inr)
  then have "arm_pending_boot sample_staged = Inr sample_armed"
    using sample_armed_valid
    by (simp add: arm_pending_boot_def validated_def sample_armed_def sample_staged_def)
  then show "update_step release_crates sample_staged EvArmed sample_armed" by (rule arm_boot)
  show "update_step release_crates sample_armed (EvGood B) (UpdateState_new B)"
    using sample_armed_valid by (intro mark) (simp add: settle_Inr)
qed

section \<open>Properties\<close>

text \<open>
  C3: the persisted A/B state refines the known-good slot, operation by operation.  Whatever operations
  succeed on a fresh state, the state they leave passes its validation, its slots differ and at
  most five attempts are left; the events of these operations, in their order, are a run of the specification that ends in the
  image of that state.  So a boot tries the other slot only while attempts are left and uses one
  up, a slot becomes active only by being declared good while it is tried or by a rollback to it.
  Conversely every event but a new staging that the specification allows next is an operation that succeeds.
\<close>

theorem update_slots_refine:
  assumes "update_run X (UpdateState_new g) es s"
  shows "update_state_validate s = Inr () \<and> us_rollback_slot s = inactive (us_active_slot s) \<and> remaining s \<le> 5 \<and>
    trial_run (Settled g) es = Some (trial_of s) \<and>
    (\<forall>e T. trial_next (trial_of s) e = Some T \<and> (\<forall>n. e \<noteq> EvStaged n) \<longrightarrow>
      (\<exists>t. update_step X s e t \<and> trial_of t = T))"
proof -
  have "update_state_validate s = Inr () \<and> trial_run (trial_of r) es = Some (trial_of s)"
    if "update_run X r es s" "update_state_validate r = Inr ()" for r
    using that by (induction rule: update_run.induct) (simp_all add: update_step_simulates update_step_valid)
  from this [OF assms] have valid: "update_state_validate s = Inr ()" and run: "trial_run (Settled g) es = Some (trial_of s)"
    by simp_all
  then have "us_rollback_slot s = inactive (us_active_slot s)" by (simp add: update_state_valid_iff)
  with valid run show ?thesis using remaining_le [OF valid] update_step_enabled [OF valid] by blast
qed

theorem update_slots_refine_witness:
  "update_run release_crates (UpdateState_new A) [EvStaged 3, EvArmed, EvGood B] (UpdateState_new B) \<and>
   trial_run (Settled A) [EvStaged 3, EvArmed, EvGood B] = Some (trial_of (UpdateState_new B)) \<and>
   (\<exists>t. update_step release_crates (UpdateState_new B) (EvLocalRollback A) t \<and> trial_of t = Settled A)"
proof -
  have run: "update_run release_crates (UpdateState_new A) [EvStaged 3, EvArmed, EvGood B] (UpdateState_new B)"
    using sample_run by (blast intro: update_run.intros)
  moreover have "trial_next (trial_of (UpdateState_new B)) (EvLocalRollback A) = Some (Settled A)" by simp
  ultimately show ?thesis using update_slots_refine [OF run] by blast
qed

text \<open>
  C37: local rollback is always available: in every valid state a rollback plan exists, and
  confirming it settles the device on the other slot when it was stable and on the known-good
  slot when an update was under way.
\<close>

theorem local_rollback_available:
  assumes "update_state_validate s = Inr ()"
  shows "\<exists>plan. plan_local_rollback s = Inr plan \<and>
    confirm_local_rollback s plan (lr_slot plan) =
      Inr (UpdateState_new (if us_phase s = PhaseStable then us_rollback_slot s else us_active_slot s))"
proof (cases "us_phase s = PhaseStable")
  case True
  then show ?thesis
    using assms new_state_rollback [of "inactive (us_active_slot s)"]
    by (auto simp: plan_local_rollback_def confirm_local_rollback_def update_state_valid_iff [of s]
        validated_def)
next
  case False
  then obtain p where "us_pending s = Some p" "valid_pending (us_active_slot s) p"
    using assms by (auto simp: update_state_valid_iff)
  then show ?thesis
    using assms False
    by (auto simp: plan_local_rollback_def confirm_local_rollback_def validated_def valid_pending_def)
qed

theorem local_rollback_available_witness:
  "\<exists>plan. plan_local_rollback sample_armed = Inr plan \<and>
     confirm_local_rollback sample_armed plan (lr_slot plan) = Inr (UpdateState_new A)"
  using local_rollback_available [OF sample_armed_valid(1)] sample_armed_valid by simp

text \<open>
  C36: boot attempts terminate: a pending slot that never reports back is tried exactly as often
  as attempts remain, at most five times; every later boot goes to the known-good slot, and
  confirming it settles the device there.
\<close>

theorem pending_boots_bounded:
  assumes "update_state_validate s = Inr ()" and "us_phase s = PhasePendingBoot"
  shows "remaining s \<le> 5 \<and>
    (\<exists>t. boots (remaining s + Suc k) s =
        Inr (t, replicate (remaining s) (TryPending (inactive (us_active_slot s)) (us_active_slot s)) @
                replicate (Suc k) (Rollback (us_active_slot s) (inactive (us_active_slot s)))) \<and>
      confirm_rollback t (us_active_slot s) = Inr (UpdateState_new (us_active_slot s)))"
proof -
  have settles: "confirm_rollback t g = Inr (UpdateState_new g)"
    if "update_state_validate t = Inr ()" "us_phase t = PhaseRollbackPending" "us_active_slot t = g" for t g
    using that by (auto simp: confirm_rollback_def update_state_valid_iff [of t] valid_pending_def validated_def)
  show ?thesis using boots_pending [OF assms, of k] settles remaining_le [OF assms(1)] by blast
qed

theorem pending_boots_bounded_witness:
  "\<exists>t. boots 5 sample_armed =
      Inr (t, replicate 3 (TryPending B A) @ replicate 2 (Rollback A B)) \<and>
    confirm_rollback t A = Inr (UpdateState_new A)"
  using pending_boots_bounded [OF sample_armed_valid(1,2), of 1] sample_armed_valid(3,4)
  by (simp add: numeral_2_eq_2)

text \<open>
  C5: what is staged is what was signed.  When canonical manifest bytes are imported, verified,
  admitted and planned, then the trust anchor verified the domain-separated unsigned manifest; the
  artifact that was downloaded has the digest and the size the manifest names; the pending update carries the
  release, the sequence number, the digest of exactly those bytes and the digest of the manifest's artifact, for the
  inactive slot; the manifest is newer than the checkpoint or the one the checkpoint
  names; the device is of the manifest's platform and architecture and within its time window;
  and unless the manifest is an emergency rollback, the device is not held, is of the ring and in the rollout.
\<close>

theorem staged_update_authentic:
  assumes verified: "manifest_import_and_verify X from_value from_doc bytes anchor = Inr v"
    and admitted: "admit_update checkpoint v = Inr out"
    and plan: "plan_stage X s (ao_update out) ctx evidence k = Inr plan"
  defines "m \<equiv> vu_manifest v"
  shows "(\<exists>canonical signature.
      manifest_unsigned_canonical X m = Inr canonical \<and> b64_encode X signature = um_signature m \<and>
      ed_verify_strict X anchor (UPDATE_SIGNATURE_DOMAIN @ canonical) signature) \<and>
    hex_sha256 (ca_sha256 evidence) = ad_sha256 (um_artifact m) \<and>
    ca_size_bytes evidence = ad_size_bytes (um_artifact m) \<and>
    sp_pending plan = \<lparr>pu_release_id = um_release_id m, pu_sequence = um_sequence m,
      pu_manifest_sha256 = hex_sha256 (sha256 X bytes), pu_artifact_sha256 = ad_sha256 (um_artifact m),
      pu_target_slot = inactive (us_active_slot s), pu_previous_slot = us_active_slot s,
      pu_attempts_remaining = k, pu_max_attempts = k, pu_emergency_rollback = um_emergency_rollback m\<rparr> \<and>
    (\<forall>ck. checkpoint = Some ck \<longrightarrow> uk_sequence ck < um_sequence m \<or>
      uk_sequence ck = um_sequence m \<and> uk_manifest_sha256 ck = hex_sha256 (sha256 X bytes)) \<and>
    um_platform m = ctx_platform ctx \<and> um_architecture m = ctx_architecture ctx \<and>
    um_not_before_unix m \<le> ctx_now_unix ctx \<and> ctx_now_unix ctx < um_expires_at_unix m \<and>
    (um_emergency_rollback m \<or>
      ctx_update_ring ctx \<noteq> Hold \<and> (um_release_ring m = RingCanary \<longrightarrow> ctx_update_ring ctx = Canary) \<and>
      in_rollout X (ctx_device_id ctx) (ro_seed (um_rollout m)) (ro_basis_points (um_rollout m)))"
proof -
  have out: "au_verified (ao_update out) = v" using admit_update_Inr [OF admitted] by simp
  note staged = plan_stage_Inr [OF plan, unfolded out]
  have signed: "\<exists>canonical signature.
      manifest_unsigned_canonical X m = Inr canonical \<and> b64_encode X signature = um_signature m \<and>
      ed_verify_strict X anchor (UPDATE_SIGNATURE_DOMAIN @ canonical) signature"
    unfolding m_def using verified by (rule manifest_import_Inr) blast
  have digest: "vu_manifest_sha256 v = sha256 X bytes" using verified by (rule manifest_import_Inr)
  have eligible: "um_platform m = ctx_platform ctx" "um_architecture m = ctx_architecture ctx"
      "um_not_before_unix m \<le> ctx_now_unix ctx" "ctx_now_unix ctx < um_expires_at_unix m"
      "um_emergency_rollback m \<or>
        ctx_update_ring ctx \<noteq> Hold \<and> (um_release_ring m = RingCanary \<longrightarrow> ctx_update_ring ctx = Canary) \<and>
        in_rollout X (ctx_device_id ctx) (ro_seed (um_rollout m)) (ro_basis_points (um_rollout m))"
    using staged(1) unfolding eligible_iff m_def by blast+
  have fresh: "\<forall>ck. checkpoint = Some ck \<longrightarrow> uk_sequence ck < um_sequence m \<or>
      uk_sequence ck = um_sequence m \<and> uk_manifest_sha256 ck = hex_sha256 (sha256 X bytes)"
    using admit_update_Inr [OF admitted] unfolding m_def digest by blast
  show ?thesis
    using staged(2-4) [folded m_def] eligible fresh by (intro conjI signed) (simp_all add: digest)
qed

theorem staged_update_authentic_witness:
  "manifest_import_and_verify release_crates (\<lambda>_. Some JNull) (\<lambda>_. Some sample_manifest) sample_bytes [] = Inr sample_verified \<and>
   admit_update (Some sample_checkpoint) sample_verified = Inr \<lparr>ao_update = sample_admitted,
     ao_next_checkpoint = update_checkpoint_from_verified sample_verified\<rparr> \<and>
   plan_stage release_crates (UpdateState_new A) sample_admitted sample_context sample_artifact 3 = Inr sample_plan \<and>
   ad_sha256 (um_artifact sample_manifest) = hex_sha256 (ca_sha256 sample_artifact) \<and>
   pu_artifact_sha256 (sp_pending sample_plan) = ad_sha256 (um_artifact sample_manifest) \<and>
   uk_sequence sample_checkpoint < um_sequence sample_manifest"
proof -
  let ?outcome = "\<lparr>ao_update = sample_admitted,
    ao_next_checkpoint = update_checkpoint_from_verified sample_verified\<rparr>"
  have "update_checkpoint_validate sample_checkpoint = Inr ()"
    by (simp add: update_checkpoint_validate_def sample_checkpoint_def validate_safe_nonzero_def
      validate_identifier_def MAX_SAFE_JSON_INTEGER_def MAX_ID_BYTES_def id_byte_def ascii_class_defs del: replicate.simps)
  then have admit: "admit_update (Some sample_checkpoint) sample_verified = Inr ?outcome"
    by (simp add: admit_update_def sample_checkpoint_def sample_manifest_def)
  have plan: "plan_stage release_crates (UpdateState_new A) (ao_update ?outcome) sample_context
      sample_artifact 3 = Inr sample_plan"
    using sample_plan_stage by simp
  note staged_update_authentic [OF sample_import [of "[]"] admit plan]
  moreover have "uk_sequence sample_checkpoint \<noteq> um_sequence sample_manifest"
    by (simp add: sample_checkpoint_def sample_manifest_def)
  ultimately show ?thesis using sample_import [of "[]"] admit sample_plan_stage by simp
qed

end
