(* ===== verification/KA_Fleet_Policy.thy ===== *)
theory KA_Fleet_Policy
  imports KA_Base64
begin

text \<open>
  Signed Fleet policies, \<^verbatim>\<open>crates/fleet-policy/src/lib.rs\<close>: bundles and their
  validation, signing and verification, the evaluation that intersects Fleet rules with local
  facts, and the revision checkpoint.
\<close>

section \<open>Data\<close>

datatype RiskLevel = FR0 | FR1 | FR2 | FR3

fun risk_rank :: "RiskLevel \<Rightarrow> nat" where
  "risk_rank FR0 = 0"
| "risk_rank FR1 = 1"
| "risk_rank FR2 = 2"
| "risk_rank FR3 = 3"

instantiation RiskLevel :: linorder
begin

definition less_eq_RiskLevel :: "RiskLevel \<Rightarrow> RiskLevel \<Rightarrow> bool" where
  "less_eq_RiskLevel a b \<longleftrightarrow> risk_rank a \<le> risk_rank b"

definition less_RiskLevel :: "RiskLevel \<Rightarrow> RiskLevel \<Rightarrow> bool" where
  "less_RiskLevel a b \<longleftrightarrow> risk_rank a < risk_rank b"

instance
proof
  fix a b :: RiskLevel
  show "a \<le> b \<Longrightarrow> b \<le> a \<Longrightarrow> a = b"
    by (cases a; cases b) (simp_all add: less_eq_RiskLevel_def)
qed (auto simp: less_eq_RiskLevel_def less_RiskLevel_def)

end

datatype ProviderMode = AnthropicApi | Offline | OpenaiApi | OpenaiCompatible | Enterprise | GeminiApi

fun wire_name :: "ProviderMode \<Rightarrow> string" where
  "wire_name AnthropicApi = ''anthropic_api''"
| "wire_name Offline = ''offline''"
| "wire_name OpenaiApi = ''openai_api''"
| "wire_name OpenaiCompatible = ''openai_compatible''"
| "wire_name Enterprise = ''enterprise''"
| "wire_name GeminiApi = ''gemini_api''"

datatype FleetUpdateRing = FleetHold | FleetCanary | FleetStable

datatype Assignments = AllDevices | DeviceIds "string list"

definition applies_to :: "Assignments \<Rightarrow> string \<Rightarrow> bool" where
  "applies_to a device_id =
     (case a of AllDevices \<Rightarrow> True | DeviceIds ids \<Rightarrow> binary_search ids device_id)"

record PolicyRules =
  pr_max_risk :: RiskLevel
  pr_local_approval_from :: RiskLevel
  pr_allowed_action_ids :: "string list"
  pr_denied_action_ids :: "string list"
  pr_allow_evidence_upload :: bool
  pr_retention_days :: u16
  pr_provider_modes :: "ProviderMode list"
  pr_update_ring :: FleetUpdateRing
  pr_emergency_rollback_always_allowed :: bool

record PolicyBundleContent =
  pc_tenant_id :: string
  pc_policy_id :: string
  pc_revision :: u64
  pc_issued_at_unix :: u64
  pc_not_before_unix :: u64
  pc_offline_allowed_until_unix :: u64
  pc_expires_at_unix :: u64
  pc_assignments :: Assignments
  pc_rules :: PolicyRules

record SignedPolicyBundle =
  pb_schema :: string
  pb_tenant_id :: string
  pb_policy_id :: string
  pb_revision :: u64
  pb_issued_at_unix :: u64
  pb_not_before_unix :: u64
  pb_offline_allowed_until_unix :: u64
  pb_expires_at_unix :: u64
  pb_assignments :: Assignments
  pb_rules :: PolicyRules
  pb_signature :: string

datatype FleetPolicyError =
    FInvalidField string
  | FInvalidTimeWindow
  | FInvalidJson
  | FUnsupportedJsonValue
  | FUnsafeInteger
  | FNonCanonicalJson
  | FBundleTooLarge
  | FInvalidSignature
  | FUnexpectedTenant
  | FUnexpectedPolicy
  | FRevisionRollback
  | FRevisionConflict

definition POLICY_BUNDLE_SCHEMA :: string where
  "POLICY_BUNDLE_SCHEMA = ''dev.kernaid.fleet.policy-bundle.v1''"

definition POLICY_CHECKPOINT_SCHEMA :: string where
  "POLICY_CHECKPOINT_SCHEMA = ''dev.kernaid.fleet.policy-checkpoint.v1''"

definition POLICY_SIGNATURE_DOMAIN :: string where
  "POLICY_SIGNATURE_DOMAIN = domain_tag ''kernaid:fleet:policy:v1''"

definition MAX_RETENTION_DAYS :: u16 where
  "MAX_RETENTION_DAYS = 3650"

definition MAX_POLICY_BYTES :: nat where
  "MAX_POLICY_BYTES = 1024 * 1024"

definition MAX_POLICY_CHECKPOINT_BYTES :: nat where
  "MAX_POLICY_CHECKPOINT_BYTES = 4 * 1024"

definition MAX_ASSIGNED_DEVICES :: nat where
  "MAX_ASSIGNED_DEVICES = 4096"

definition MAX_ACTION_IDS :: nat where
  "MAX_ACTION_IDS = 1024"

definition MAX_PROVIDER_MODES :: nat where
  "MAX_PROVIDER_MODES = 6"

definition policy_json_errors :: "FleetPolicyError json_errors" where
  "policy_json_errors = \<lparr>invalid_json = FInvalidJson, unsupported_value = FUnsupportedJsonValue,
     unsafe_integer = FUnsafeInteger, non_canonical = FNonCanonicalJson, too_large = FBundleTooLarge\<rparr>"

definition policy_canonical_json :: "crates \<Rightarrow> json \<Rightarrow> FleetPolicyError + string" where
  "policy_canonical_json X = canonical_json policy_json_errors (quote_str X)"

section \<open>Validators\<close>

definition validate_sorted_unique_strings ::
  "string \<Rightarrow> string list \<Rightarrow> (string \<Rightarrow> FleetPolicyError + unit) \<Rightarrow> FleetPolicyError + unit" where
  "validate_sorted_unique_strings field vs validate =
     (case try_for_each validate vs of Inl e \<Rightarrow> Inl e | Inr _ \<Rightarrow>
      if list_ex (\<lambda>(a, b). a \<ge> b) (windows2 vs) then Inl (FInvalidField field) else Inr ())"

definition validate_assignments :: "Assignments \<Rightarrow> FleetPolicyError + unit" where
  "validate_assignments a =
     (case a of
        AllDevices \<Rightarrow> Inr ()
      | DeviceIds ids \<Rightarrow>
          if ids = [] \<or> length ids > MAX_ASSIGNED_DEVICES then Inl (FInvalidField ''assignments.deviceIds'')
          else validate_sorted_unique_strings ''assignments.deviceIds'' ids (validate_device_id FInvalidField))"

definition contains_sorted :: "string list \<Rightarrow> string \<Rightarrow> bool" where
  "contains_sorted vs expected = binary_search vs expected"

definition validate_rules :: "PolicyRules \<Rightarrow> FleetPolicyError + unit" where
  "validate_rules r =
     (case validate_sorted_unique_strings ''rules.allowedActionIds'' (pr_allowed_action_ids r)
         (validate_identifier FInvalidField ''rules.allowedActionIds'') of Inl e \<Rightarrow> Inl e | Inr _ \<Rightarrow>
      case validate_sorted_unique_strings ''rules.deniedActionIds'' (pr_denied_action_ids r)
         (validate_identifier FInvalidField ''rules.deniedActionIds'') of Inl e \<Rightarrow> Inl e | Inr _ \<Rightarrow>
      if length (pr_allowed_action_ids r) > MAX_ACTION_IDS \<or> length (pr_denied_action_ids r) > MAX_ACTION_IDS
         \<or> list_ex (\<lambda>action. contains_sorted (pr_denied_action_ids r) action) (pr_allowed_action_ids r)
      then Inl (FInvalidField ''rules.actionIds'')
      else if \<not> (1 \<le> pr_retention_days r \<and> pr_retention_days r \<le> MAX_RETENTION_DAYS)
      then Inl (FInvalidField ''rules.retentionDays'')
      else if pr_provider_modes r = [] \<or> length (pr_provider_modes r) > MAX_PROVIDER_MODES
         \<or> list_ex (\<lambda>(a, b). wire_name a \<ge> wire_name b) (windows2 (pr_provider_modes r))
      then Inl (FInvalidField ''rules.providerModes'')
      else if \<not> pr_emergency_rollback_always_allowed r
      then Inl (FInvalidField ''rules.emergencyRollbackAlwaysAllowed'')
      else Inr ())"

definition policy_validate_unsigned :: "SignedPolicyBundle \<Rightarrow> FleetPolicyError + unit" where
  "policy_validate_unsigned b = checks
     [refuse (FInvalidField ''schema'') (pb_schema b \<noteq> POLICY_BUNDLE_SCHEMA),
      validate_identifier FInvalidField ''tenantId'' (pb_tenant_id b),
      validate_identifier FInvalidField ''policyId'' (pb_policy_id b),
      validate_safe_nonzero FInvalidField ''revision'' (pb_revision b),
      validate_safe_nonzero FInvalidField ''issuedAtUnix'' (pb_issued_at_unix b),
      validate_safe_nonzero FInvalidField ''notBeforeUnix'' (pb_not_before_unix b),
      validate_safe_nonzero FInvalidField ''offlineAllowedUntilUnix'' (pb_offline_allowed_until_unix b),
      validate_safe_nonzero FInvalidField ''expiresAtUnix'' (pb_expires_at_unix b),
      refuse FInvalidTimeWindow
        (pb_issued_at_unix b > pb_not_before_unix b
         \<or> pb_not_before_unix b > pb_offline_allowed_until_unix b
         \<or> pb_offline_allowed_until_unix b > pb_expires_at_unix b),
      validate_assignments (pb_assignments b),
      validate_rules (pb_rules b)]"

definition policy_validate :: "crates \<Rightarrow> SignedPolicyBundle \<Rightarrow> FleetPolicyError + unit" where
  "policy_validate X b =
     (case policy_validate_unsigned b of Inl e \<Rightarrow> Inl e | Inr _ \<Rightarrow>
      case decode_signature FInvalidField X (pb_signature b) of Inl e \<Rightarrow> Inl e | Inr _ \<Rightarrow> Inr ())"

section \<open>Signed bundles\<close>

fun risk_name :: "RiskLevel \<Rightarrow> string" where
  "risk_name FR0 = ''R0''"
| "risk_name FR1 = ''R1''"
| "risk_name FR2 = ''R2''"
| "risk_name FR3 = ''R3''"

fun fleet_ring_name :: "FleetUpdateRing \<Rightarrow> string" where
  "fleet_ring_name FleetHold = ''hold''"
| "fleet_ring_name FleetCanary = ''canary''"
| "fleet_ring_name FleetStable = ''stable''"

definition assignments_json :: "Assignments \<Rightarrow> json" where
  "assignments_json a =
     (case a of
        AllDevices \<Rightarrow> object [(''all'', JBool True)]
      | DeviceIds ids \<Rightarrow> object [(''deviceIds'', JArray (map JString ids))])"

definition rules_json :: "PolicyRules \<Rightarrow> json" where
  "rules_json r = object
     [(''maxRisk'', JString (risk_name (pr_max_risk r))),
      (''localApprovalFrom'', JString (risk_name (pr_local_approval_from r))),
      (''allowedActionIds'', JArray (map JString (pr_allowed_action_ids r))),
      (''deniedActionIds'', JArray (map JString (pr_denied_action_ids r))),
      (''allowEvidenceUpload'', JBool (pr_allow_evidence_upload r)),
      (''retentionDays'', JNumber (PosInt (ucast (pr_retention_days r)))),
      (''providerModes'', JArray (map (\<lambda>m. JString (wire_name m)) (pr_provider_modes r))),
      (''updateRing'', JString (fleet_ring_name (pr_update_ring r))),
      (''emergencyRollbackAlwaysAllowed'', JBool (pr_emergency_rollback_always_allowed r))]"

definition policy_members :: "SignedPolicyBundle \<Rightarrow> (string \<times> json) list" where
  "policy_members b =
     [(''schema'', JString (pb_schema b)),
      (''tenantId'', JString (pb_tenant_id b)),
      (''policyId'', JString (pb_policy_id b)),
      (''revision'', JNumber (PosInt (pb_revision b))),
      (''issuedAtUnix'', JNumber (PosInt (pb_issued_at_unix b))),
      (''notBeforeUnix'', JNumber (PosInt (pb_not_before_unix b))),
      (''offlineAllowedUntilUnix'', JNumber (PosInt (pb_offline_allowed_until_unix b))),
      (''expiresAtUnix'', JNumber (PosInt (pb_expires_at_unix b))),
      (''assignments'', assignments_json (pb_assignments b)),
      (''rules'', rules_json (pb_rules b))]"

definition policy_json :: "SignedPolicyBundle \<Rightarrow> json" where
  "policy_json b = object (policy_members b @ [(''signature'', JString (pb_signature b))])"

definition policy_unsigned_canonical :: "crates \<Rightarrow> SignedPolicyBundle \<Rightarrow> FleetPolicyError + string" where
  "policy_unsigned_canonical X b = policy_canonical_json X (object (policy_members b))"

definition policy_signature_message :: "string \<Rightarrow> FleetPolicyError + string" where
  "policy_signature_message payload =
     (if length POLICY_SIGNATURE_DOMAIN + 8 + length payload \<ge> 2 ^ 64 then Inl FBundleTooLarge
      else Inr (POLICY_SIGNATURE_DOMAIN @ frame payload))"

definition policy_export_canonical :: "crates \<Rightarrow> SignedPolicyBundle \<Rightarrow> FleetPolicyError + string" where
  "policy_export_canonical X b =
     (case policy_validate X b of Inl e \<Rightarrow> Inl e | Inr _ \<Rightarrow>
      case policy_canonical_json X (policy_json b) of Inl e \<Rightarrow> Inl e | Inr bytes \<Rightarrow>
      case validate_size policy_json_errors (length bytes) MAX_POLICY_BYTES of Inl e \<Rightarrow> Inl e | Inr _ \<Rightarrow>
      Inr bytes)"

record VerifiedPolicyBundle =
  vp_bundle :: SignedPolicyBundle
  vp_digest :: string

definition policy_verify ::
  "crates \<Rightarrow> SignedPolicyBundle \<Rightarrow> string \<Rightarrow> string \<Rightarrow> FleetPolicyError + VerifiedPolicyBundle" where
  "policy_verify X b trust_anchor expected_tenant_id =
     (case policy_validate X b of Inl e \<Rightarrow> Inl e | Inr _ \<Rightarrow>
      case validate_identifier FInvalidField ''expectedTenantId'' expected_tenant_id of Inl e \<Rightarrow> Inl e | Inr _ \<Rightarrow>
      if pb_tenant_id b \<noteq> expected_tenant_id then Inl FUnexpectedTenant
      else case decode_signature FInvalidField X (pb_signature b) of Inl e \<Rightarrow> Inl e | Inr signature \<Rightarrow>
      case policy_unsigned_canonical X b of Inl e \<Rightarrow> Inl e | Inr unsigned_bytes \<Rightarrow>
      case policy_signature_message unsigned_bytes of Inl e \<Rightarrow> Inl e | Inr message \<Rightarrow>
      if \<not> ed_verify_strict X trust_anchor message signature then Inl FInvalidSignature
      else case policy_export_canonical X b of Inl e \<Rightarrow> Inl e | Inr canonical \<Rightarrow>
      Inr \<lparr>vp_bundle = b, vp_digest = sha256 X canonical\<rparr>)"

definition policy_sign :: "crates \<Rightarrow> PolicyBundleContent \<Rightarrow> string \<Rightarrow> FleetPolicyError + SignedPolicyBundle" where
  "policy_sign X content signing_key =
     (let bundle = \<lparr>pb_schema = POLICY_BUNDLE_SCHEMA, pb_tenant_id = pc_tenant_id content,
        pb_policy_id = pc_policy_id content, pb_revision = pc_revision content,
        pb_issued_at_unix = pc_issued_at_unix content, pb_not_before_unix = pc_not_before_unix content,
        pb_offline_allowed_until_unix = pc_offline_allowed_until_unix content,
        pb_expires_at_unix = pc_expires_at_unix content, pb_assignments = pc_assignments content,
        pb_rules = pc_rules content, pb_signature = []\<rparr>
      in case policy_validate_unsigned bundle of Inl e \<Rightarrow> Inl e | Inr _ \<Rightarrow>
      case policy_unsigned_canonical X bundle of Inl e \<Rightarrow> Inl e | Inr unsigned_bytes \<Rightarrow>
      case policy_signature_message unsigned_bytes of Inl e \<Rightarrow> Inl e | Inr message \<Rightarrow>
      let signed = bundle\<lparr>pb_signature := b64_encode X (ed_sign X signing_key message)\<rparr>
      in case policy_validate X signed of Inl e \<Rightarrow> Inl e | Inr _ \<Rightarrow> Inr signed)"

definition policy_import_and_verify ::
  "crates \<Rightarrow> (string \<Rightarrow> json option) \<Rightarrow> (string \<Rightarrow> SignedPolicyBundle option) \<Rightarrow> string \<Rightarrow> string \<Rightarrow> string \<Rightarrow>
   FleetPolicyError + VerifiedPolicyBundle" where
  "policy_import_and_verify X from_value from_doc bytes trust_anchor expected_tenant_id =
     (case import_canonical policy_json_errors (quote_str X) from_value from_doc policy_json
         MAX_POLICY_BYTES bytes of Inl e \<Rightarrow> Inl e | Inr bundle \<Rightarrow>
      policy_verify X bundle trust_anchor expected_tenant_id)"

section \<open>Evaluation\<close>

datatype TransportState = TransportOnline | TransportOffline

datatype PolicyOperation = Diagnostic | NewRepair | StartedRollback

record PolicyEvaluation =
  pe_device_id :: string
  pe_action_id :: string
  pe_action_risk :: "RiskLevel option"
  pe_local_max_risk :: RiskLevel
  pe_local_approval_from :: RiskLevel
  pe_locally_known :: bool
  pe_locally_allowed :: bool
  pe_operation :: PolicyOperation
  pe_transport :: TransportState
  pe_now_unix :: u64

datatype DenyReason =
    InvalidLocalContext | UnknownLocalAction | LocallyDenied | UnknownOrUnsupportedRisk
  | ExceedsLocalRiskCeiling | DeviceNotAssigned | PolicyNotYetValid | PolicyExpired
  | OfflineWindowElapsed | ExceedsFleetRiskCeiling | FleetDeniedAction | ActionNotFleetAllowed

text \<open>\<open>NewRepairAllowed local_approval_required audit_required\<close> and
  \<open>StartedRollbackAllowed audit_required\<close>.\<close>

datatype PolicyDecision =
    DiagnosticsAllowed
  | NewRepairAllowed bool bool
  | StartedRollbackAllowed bool
  | PolicyDenied DenyReason

definition evaluate_new_repair :: "VerifiedPolicyBundle \<Rightarrow> PolicyEvaluation \<Rightarrow> RiskLevel \<Rightarrow> PolicyDecision" where
  "evaluate_new_repair v request action_risk =
     (let b = vp_bundle v; rules = pb_rules b in
      if \<not> applies_to (pb_assignments b) (pe_device_id request) then PolicyDenied DeviceNotAssigned
      else if pe_now_unix request < pb_not_before_unix b then PolicyDenied PolicyNotYetValid
      else if pe_now_unix request \<ge> pb_expires_at_unix b then PolicyDenied PolicyExpired
      else if pe_transport request = TransportOffline \<and> pe_now_unix request > pb_offline_allowed_until_unix b
      then PolicyDenied OfflineWindowElapsed
      else if action_risk > pr_max_risk rules then PolicyDenied ExceedsFleetRiskCeiling
      else if contains_sorted (pr_denied_action_ids rules) (pe_action_id request) then PolicyDenied FleetDeniedAction
      else if \<not> contains_sorted (pr_allowed_action_ids rules) (pe_action_id request)
      then PolicyDenied ActionNotFleetAllowed
      else let effective_approval_from = min (pe_local_approval_from request) (pr_local_approval_from rules)
           in NewRepairAllowed (action_risk \<ge> effective_approval_from) True)"

definition evaluate :: "VerifiedPolicyBundle \<Rightarrow> PolicyEvaluation \<Rightarrow> PolicyDecision" where
  "evaluate v request =
     (if pe_now_unix request = 0 \<or> pe_now_unix request > MAX_SAFE_JSON_INTEGER
         \<or> \<not> is_ok (validate_device_id FInvalidField (pe_device_id request))
         \<or> \<not> is_ok (validate_identifier FInvalidField ''actionId'' (pe_action_id request))
      then PolicyDenied InvalidLocalContext
      else if \<not> pe_locally_known request then PolicyDenied UnknownLocalAction
      else if \<not> pe_locally_allowed request then PolicyDenied LocallyDenied
      else case pe_action_risk request of
        None \<Rightarrow> PolicyDenied UnknownOrUnsupportedRisk
      | Some action_risk \<Rightarrow>
          if action_risk > pe_local_max_risk request then PolicyDenied ExceedsLocalRiskCeiling
          else case pe_operation request of
            Diagnostic \<Rightarrow> DiagnosticsAllowed
          | StartedRollback \<Rightarrow> StartedRollbackAllowed True
          | NewRepair \<Rightarrow> evaluate_new_repair v request action_risk)"

definition applies_to_device :: "VerifiedPolicyBundle \<Rightarrow> string \<Rightarrow> bool" where
  "applies_to_device v device_id =
     (is_ok (validate_device_id FInvalidField device_id) \<and> applies_to (pb_assignments (vp_bundle v)) device_id)"

definition is_applicable_to :: "VerifiedPolicyBundle \<Rightarrow> string \<Rightarrow> u64 \<Rightarrow> TransportState \<Rightarrow> bool" where
  "is_applicable_to v device_id now_unix transport \<longleftrightarrow>
     now_unix \<noteq> 0 \<and> now_unix \<le> MAX_SAFE_JSON_INTEGER \<and> applies_to_device v device_id \<and>
     now_unix \<ge> pb_not_before_unix (vp_bundle v) \<and> now_unix < pb_expires_at_unix (vp_bundle v) \<and>
     (transport = TransportOnline \<or> now_unix \<le> pb_offline_allowed_until_unix (vp_bundle v))"

definition evidence_upload_allowed :: "VerifiedPolicyBundle \<Rightarrow> bool \<Rightarrow> bool" where
  "evidence_upload_allowed v locally_allowed = (locally_allowed \<and> pr_allow_evidence_upload (pb_rules (vp_bundle v)))"

definition effective_retention_days :: "VerifiedPolicyBundle \<Rightarrow> u16 \<Rightarrow> u16" where
  "effective_retention_days v local_maximum_days = min local_maximum_days (pr_retention_days (pb_rules (vp_bundle v)))"

definition provider_mode_allowed :: "VerifiedPolicyBundle \<Rightarrow> ProviderMode \<Rightarrow> bool \<Rightarrow> bool" where
  "provider_mode_allowed v mode locally_allowed =
     (locally_allowed \<and> mode \<in> set (pr_provider_modes (pb_rules (vp_bundle v))))"

section \<open>Checkpoint\<close>

record PolicyCheckpoint =
  pk_schema :: string
  pk_tenant_id :: string
  pk_policy_id :: string
  pk_revision :: u64
  pk_bundle_sha256 :: string

datatype PolicyCheckpointAdmission = FAdvanced | FIdempotentReplay

definition policy_checkpoint_from_verified :: "VerifiedPolicyBundle \<Rightarrow> PolicyCheckpoint" where
  "policy_checkpoint_from_verified v =
     \<lparr>pk_schema = POLICY_CHECKPOINT_SCHEMA, pk_tenant_id = pb_tenant_id (vp_bundle v),
      pk_policy_id = pb_policy_id (vp_bundle v), pk_revision = pb_revision (vp_bundle v),
      pk_bundle_sha256 = hex_sha256 (vp_digest v)\<rparr>"

definition policy_checkpoint_validate :: "PolicyCheckpoint \<Rightarrow> FleetPolicyError + unit" where
  "policy_checkpoint_validate k =
     (if pk_schema k \<noteq> POLICY_CHECKPOINT_SCHEMA then Inl (FInvalidField ''checkpoint.schema'') else
      case validate_identifier FInvalidField ''checkpoint.tenantId'' (pk_tenant_id k) of Inl e \<Rightarrow> Inl e | Inr _ \<Rightarrow>
      case validate_identifier FInvalidField ''checkpoint.policyId'' (pk_policy_id k) of Inl e \<Rightarrow> Inl e | Inr _ \<Rightarrow>
      case validate_safe_nonzero FInvalidField ''checkpoint.revision'' (pk_revision k) of Inl e \<Rightarrow> Inl e | Inr _ \<Rightarrow>
      validate_sha256 FInvalidField ''checkpoint.bundleSha256'' (pk_bundle_sha256 k))"

definition policy_checkpoint_admit ::
  "PolicyCheckpoint \<Rightarrow> VerifiedPolicyBundle \<Rightarrow> FleetPolicyError + (PolicyCheckpoint \<times> PolicyCheckpointAdmission)" where
  "policy_checkpoint_admit k policy =
     (case policy_checkpoint_validate k of Inl e \<Rightarrow> Inl e | Inr _ \<Rightarrow>
      if pk_tenant_id k \<noteq> pb_tenant_id (vp_bundle policy) then Inl FUnexpectedTenant
      else if pk_policy_id k \<noteq> pb_policy_id (vp_bundle policy) then Inl FUnexpectedPolicy
      else if pb_revision (vp_bundle policy) < pk_revision k then Inl FRevisionRollback
      else let digest = hex_sha256 (vp_digest policy) in
      if pb_revision (vp_bundle policy) = pk_revision k then
        if digest = pk_bundle_sha256 k then Inr (k, FIdempotentReplay) else Inl FRevisionConflict
      else Inr (k\<lparr>pk_revision := pb_revision (vp_bundle policy), pk_bundle_sha256 := digest\<rparr>, FAdvanced))"

definition policy_checkpoint_json :: "PolicyCheckpoint \<Rightarrow> json" where
  "policy_checkpoint_json k = object
     [(''schema'', JString (pk_schema k)), (''tenantId'', JString (pk_tenant_id k)),
      (''policyId'', JString (pk_policy_id k)), (''revision'', JNumber (PosInt (pk_revision k))),
      (''bundleSha256'', JString (pk_bundle_sha256 k))]"

definition policy_checkpoint_export :: "crates \<Rightarrow> PolicyCheckpoint \<Rightarrow> FleetPolicyError + string" where
  "policy_checkpoint_export X k =
     (case policy_checkpoint_validate k of Inl e \<Rightarrow> Inl e | Inr _ \<Rightarrow>
      case policy_canonical_json X (policy_checkpoint_json k) of Inl e \<Rightarrow> Inl e | Inr bytes \<Rightarrow>
      case validate_size policy_json_errors (length bytes) MAX_POLICY_CHECKPOINT_BYTES of Inl e \<Rightarrow> Inl e | Inr _ \<Rightarrow>
      Inr bytes)"

definition policy_checkpoint_import ::
  "crates \<Rightarrow> (string \<Rightarrow> json option) \<Rightarrow> (string \<Rightarrow> PolicyCheckpoint option) \<Rightarrow> string \<Rightarrow>
   FleetPolicyError + PolicyCheckpoint" where
  "policy_checkpoint_import X from_value from_doc bytes =
     (case import_canonical policy_json_errors (quote_str X) from_value from_doc policy_checkpoint_json
         MAX_POLICY_CHECKPOINT_BYTES bytes of Inl e \<Rightarrow> Inl e | Inr checkpoint \<Rightarrow>
      case policy_checkpoint_validate checkpoint of Inl e \<Rightarrow> Inl e | Inr _ \<Rightarrow> Inr checkpoint)"

section \<open>Validated bundles\<close>

lemma validate_sorted_unique_Inr:
  "validate_sorted_unique_strings field vs f = Inr u \<longleftrightarrow>
   (\<forall>v \<in> set vs. f v = Inr ()) \<and> sorted_wrt (<) vs"
  by (auto simp: validate_sorted_unique_strings_def windows2_strictly_sorted [symmetric])

lemma validate_rules_Inr:
  assumes "validate_rules r = Inr u"
  shows "sorted_wrt (<) (pr_allowed_action_ids r)" "sorted_wrt (<) (pr_denied_action_ids r)"
    "set (pr_allowed_action_ids r) \<inter> set (pr_denied_action_ids r) = {}"
  using assms
  by (auto simp: validate_rules_def validate_sorted_unique_Inr contains_sorted_def binary_search_member
      list_ex_iff split: if_splits)

lemma validate_assignments_Inr:
  "validate_assignments a = Inr u \<Longrightarrow>
   applies_to a device \<longleftrightarrow> (case a of AllDevices \<Rightarrow> True | DeviceIds ids \<Rightarrow> device \<in> set ids)"
  by (auto simp: validate_assignments_def validate_sorted_unique_Inr applies_to_def binary_search_member
      split: Assignments.splits if_splits)

lemma policy_validate_unsigned_Inr:
  "policy_validate_unsigned b = Inr u \<Longrightarrow>
   validate_assignments (pb_assignments b) = Inr () \<and> validate_rules (pb_rules b) = Inr ()"
  by (auto simp: policy_validate_unsigned_def)

section \<open>The checkpoint is an anti-rollback register\<close>

interpretation policy_register: anti_rollback
  "\<lambda>k v. map_sum id fst (policy_checkpoint_admit k v)"
  "\<lambda>k. Some (pk_revision k, pk_bundle_sha256 k)"
  "\<lambda>v. pb_revision (vp_bundle v)" "\<lambda>v. hex_sha256 (vp_digest v)"
proof
  fix s d s'
  assume "map_sum id fst (policy_checkpoint_admit s d) = Inr s'"
  then show "register_admit (Some (pk_revision s, pk_bundle_sha256 s)) (pb_revision (vp_bundle d))
    (hex_sha256 (vp_digest d)) = Some (Some (pk_revision s', pk_bundle_sha256 s'))"
    by (auto simp: policy_checkpoint_admit_def Let_def split: if_splits)
qed

section \<open>The signed message determines the bundle\<close>

lemma map_JString_inject [simp]: "map JString xs = map JString ys \<longleftrightarrow> xs = ys"
  by (simp add: inj_map_eq_map inj_def)

lemma policy_names_inject:
  "risk_name a = risk_name b \<longleftrightarrow> a = b" "fleet_ring_name r = fleet_ring_name t \<longleftrightarrow> r = t"
  "map (\<lambda>m. JString (wire_name m)) ms = map (\<lambda>m. JString (wire_name m)) ns \<longleftrightarrow> ms = ns"
proof -
  show "risk_name a = risk_name b \<longleftrightarrow> a = b" by (cases a; cases b) simp_all
  show "fleet_ring_name r = fleet_ring_name t \<longleftrightarrow> r = t" by (cases r; cases t) simp_all
  have "inj (\<lambda>m. JString (wire_name m))"
  proof (rule injI)
    fix m n assume "JString (wire_name m) = JString (wire_name n)"
    then show "m = n" by (cases m; cases n) simp_all
  qed
  then show "map (\<lambda>m. JString (wire_name m)) ms = map (\<lambda>m. JString (wire_name m)) ns \<longleftrightarrow> ms = ns"
    by (rule inj_map_eq_map)
qed

lemma rules_json_inject: "rules_json r = rules_json t \<Longrightarrow> r = t"
  unfolding rules_json_def
  by (drule object_inject [rotated 2]) (simp_all add: policy_names_inject ucast_inject)

lemma assignments_json_inject: "assignments_json a = assignments_json b \<Longrightarrow> a = b"
  by (cases a; cases b) (simp_all add: assignments_json_def object_def)

lemma policy_members_wf [simp]: "wf_json (object (policy_members b))"
  by (simp add: policy_members_def rules_json_def assignments_json_def list_all_iff split: Assignments.split)

lemma policy_message_binds:
  assumes quoting: "json_quoting (quote_str X)"
    and "policy_unsigned_canonical X b = Inr c" and "policy_unsigned_canonical X d = Inr c"
  shows "b = d\<lparr>pb_signature := pb_signature b\<rparr>"
proof -
  have "object (policy_members b) = object (policy_members d)"
    using assms canonical_json_determines [OF quoting policy_members_wf policy_members_wf]
    by (auto simp: policy_unsigned_canonical_def policy_canonical_json_def)
  then have "policy_members b = policy_members d"
    by (rule object_inject [rotated 2]) (simp_all add: policy_members_def)
  then show ?thesis
    using rules_json_inject [of "pb_rules b"] assignments_json_inject [of "pb_assignments b"]
    by (auto simp: policy_members_def)
qed

section \<open>Properties\<close>

text \<open>The local facts a Fleet policy can never override.\<close>

definition locally_admissible :: "PolicyEvaluation \<Rightarrow> bool" where
  "locally_admissible q \<longleftrightarrow>
     pe_now_unix q \<noteq> 0 \<and> pe_now_unix q \<le> MAX_SAFE_JSON_INTEGER \<and> valid_device_id (pe_device_id q) \<and>
     is_ok (validate_identifier FInvalidField ''actionId'' (pe_action_id q)) \<and>
     pe_locally_known q \<and> pe_locally_allowed q \<and>
     (\<exists>risk. pe_action_risk q = Some risk \<and> risk \<le> pe_local_max_risk q)"

text \<open>What a bundle asks of a new repair, over the sets its sorted lists stand for.\<close>

definition fleet_admits :: "SignedPolicyBundle \<Rightarrow> PolicyEvaluation \<Rightarrow> RiskLevel \<Rightarrow> bool" where
  "fleet_admits b q risk \<longleftrightarrow>
     (\<forall>ids. pb_assignments b = DeviceIds ids \<longrightarrow> pe_device_id q \<in> set ids) \<and>
     pb_not_before_unix b \<le> pe_now_unix q \<and> pe_now_unix q < pb_expires_at_unix b \<and>
     (pe_transport q = TransportOffline \<longrightarrow> pe_now_unix q \<le> pb_offline_allowed_until_unix b) \<and>
     risk \<le> pr_max_risk (pb_rules b) \<and>
     pe_action_id q \<in> set (pr_allowed_action_ids (pb_rules b))"

lemma evaluate_new_repair_iff:
  assumes "policy_validate_unsigned (vp_bundle v) = Inr ()"
  shows "evaluate_new_repair v q risk = NewRepairAllowed approval audit \<longleftrightarrow>
    fleet_admits (vp_bundle v) q risk \<and> audit \<and>
    approval = (pe_local_approval_from q \<le> risk \<or> pr_local_approval_from (pb_rules (vp_bundle v)) \<le> risk)"
proof -
  note parts = policy_validate_unsigned_Inr [OF assms]
  note rules = validate_rules_Inr [OF conjunct2 [OF parts]]
  have "contains_sorted (pr_allowed_action_ids (pb_rules (vp_bundle v))) a \<longleftrightarrow>
      a \<in> set (pr_allowed_action_ids (pb_rules (vp_bundle v)))"
    and "contains_sorted (pr_denied_action_ids (pb_rules (vp_bundle v))) a \<longleftrightarrow>
      a \<in> set (pr_denied_action_ids (pb_rules (vp_bundle v)))" for a
    using rules by (simp_all add: contains_sorted_def binary_search_member)
  moreover have "applies_to (pb_assignments (vp_bundle v)) d \<longleftrightarrow>
      (\<forall>ids. pb_assignments (vp_bundle v) = DeviceIds ids \<longrightarrow> d \<in> set ids)" for d
    using validate_assignments_Inr [OF conjunct1 [OF parts], of d] by (auto split: Assignments.splits)
  ultimately show ?thesis
    using rules(3)
    by (auto simp: evaluate_new_repair_def fleet_admits_def Let_def not_less min_le_iff_disj)
qed

text \<open>
  C9: Fleet policy only restricts.  For a validated bundle, a new repair is allowed exactly when
  the local facts and the Fleet rules both allow it, always with an audit obligation, and local
  approval is required as soon as either side requires it.  Diagnostics, and a rollback that was
  started, with its audit obligation, are allowed exactly when the local facts allow them, whatever
  the bundle says.
\<close>

theorem policy_only_restricts:
  assumes "policy_validate_unsigned (vp_bundle v) = Inr ()"
  shows "(evaluate v q = NewRepairAllowed approval audit \<longleftrightarrow>
      locally_admissible q \<and> pe_operation q = NewRepair \<and> audit \<and>
      (\<exists>risk. pe_action_risk q = Some risk \<and> fleet_admits (vp_bundle v) q risk \<and>
        approval = (pe_local_approval_from q \<le> risk \<or>
          pr_local_approval_from (pb_rules (vp_bundle v)) \<le> risk))) \<and>
    (evaluate v q = DiagnosticsAllowed \<longleftrightarrow> locally_admissible q \<and> pe_operation q = Diagnostic) \<and>
    (evaluate v q = StartedRollbackAllowed audit \<longleftrightarrow> locally_admissible q \<and> pe_operation q = StartedRollback \<and> audit)"
proof -
  have new: "evaluate_new_repair v q risk \<noteq> DiagnosticsAllowed" "evaluate_new_repair v q risk \<noteq> StartedRollbackAllowed audit"
    for risk by (simp_all add: evaluate_new_repair_def Let_def)
  show ?thesis
    by (auto simp: evaluate_def locally_admissible_def evaluate_new_repair_iff [OF assms] new not_less
      validate_device_id_def split: option.splits PolicyOperation.splits if_splits)
qed

definition sample_bundle :: SignedPolicyBundle where
  "sample_bundle = \<lparr>pb_schema = POLICY_BUNDLE_SCHEMA, pb_tenant_id = ''t'', pb_policy_id = ''p'',
     pb_revision = 3, pb_issued_at_unix = 100, pb_not_before_unix = 100,
     pb_offline_allowed_until_unix = 150, pb_expires_at_unix = 200,
     pb_assignments = DeviceIds [''KA-000000000000000000000000''],
     pb_rules = \<lparr>pr_max_risk = FR2, pr_local_approval_from = FR2, pr_allowed_action_ids = [''a.fix'', ''b.fix''],
       pr_denied_action_ids = [''c.fix''], pr_allow_evidence_upload = False, pr_retention_days = 30,
       pr_provider_modes = [Offline], pr_update_ring = FleetStable,
       pr_emergency_rollback_always_allowed = True\<rparr>,
     pb_signature = url_safe_no_pad_encode (replicate 64 CHR 0x00)\<rparr>"

definition sample_request :: PolicyEvaluation where
  "sample_request = \<lparr>pe_device_id = ''KA-000000000000000000000000'', pe_action_id = ''b.fix'',
     pe_action_risk = Some FR1, pe_local_max_risk = FR3, pe_local_approval_from = FR1,
     pe_locally_known = True, pe_locally_allowed = True, pe_operation = NewRepair,
     pe_transport = TransportOffline, pe_now_unix = 120\<rparr>"

lemma sample_bundle_valid: "policy_validate_unsigned sample_bundle = Inr ()"
  by (simp add: policy_validate_unsigned_def sample_bundle_def validator validate_identifier_def
    validate_safe_nonzero_def validate_assignments_def validate_rules_def validate_sorted_unique_Inr
    contains_sorted_def binary_search_member MAX_ID_BYTES_def id_byte_def ascii_class_defs
    MAX_SAFE_JSON_INTEGER_def MAX_ASSIGNED_DEVICES_def MAX_ACTION_IDS_def MAX_RETENTION_DAYS_def
    MAX_PROVIDER_MODES_def valid_device_id_def lower_hex_def)

theorem policy_only_restricts_witness:
  "policy_validate_unsigned sample_bundle = Inr () \<and>
   evaluate \<lparr>vp_bundle = sample_bundle, vp_digest = []\<rparr> sample_request = NewRepairAllowed True True \<and>
   evaluate \<lparr>vp_bundle = sample_bundle, vp_digest = []\<rparr>
     (sample_request\<lparr>pe_action_id := ''c.fix'', pe_operation := StartedRollback\<rparr>) = StartedRollbackAllowed True"
proof -
  let ?v = "\<lparr>vp_bundle = sample_bundle, vp_digest = []\<rparr>"
  have valid: "policy_validate_unsigned (vp_bundle ?v) = Inr ()" using sample_bundle_valid by simp
  have "locally_admissible sample_request" "locally_admissible (sample_request\<lparr>pe_action_id := ''c.fix'', pe_operation := StartedRollback\<rparr>)"
    by (simp_all add: locally_admissible_def sample_request_def
      validate_identifier_def MAX_ID_BYTES_def id_byte_def ascii_class_defs MAX_SAFE_JSON_INTEGER_def
      valid_device_id_def lower_hex_def less_eq_RiskLevel_def)
  moreover have "fleet_admits sample_bundle sample_request FR1"
    by (simp add: fleet_admits_def sample_bundle_def sample_request_def less_eq_RiskLevel_def)
  ultimately show ?thesis
    using policy_only_restricts [OF valid, of sample_request True True]
      policy_only_restricts [OF valid, of "sample_request\<lparr>pe_action_id := ''c.fix'', pe_operation := StartedRollback\<rparr>" True True] valid
    by (simp add: sample_request_def sample_bundle_def less_eq_RiskLevel_def)
qed

end
