(* ===== verification/KA_Entitlements.thy ===== *)
theory KA_Entitlements
  imports KA_Base64
begin

text \<open>
  Offline-verifiable licences, \<^verbatim>\<open>crates/entitlements/src/lib.rs\<close>: entitlement and
  revocation documents, their signatures and checkpoints, and the capabilities a verified
  entitlement gives a device at a time.
\<close>

section \<open>Data\<close>

datatype Plan = Retail | Pro | FleetPlan | EnterprisePlan

datatype Feature = Audit | ConsumerRepair | EnterpriseProviders | EnterpriseRepair | Fleet | Policy | Updates

fun feature_rank :: "Feature \<Rightarrow> nat" where
  "feature_rank Audit = 0"
| "feature_rank ConsumerRepair = 1"
| "feature_rank EnterpriseProviders = 2"
| "feature_rank EnterpriseRepair = 3"
| "feature_rank Fleet = 4"
| "feature_rank Policy = 5"
| "feature_rank Updates = 6"

instantiation Feature :: linorder
begin

definition less_eq_Feature :: "Feature \<Rightarrow> Feature \<Rightarrow> bool" where
  "less_eq_Feature a b \<longleftrightarrow> feature_rank a \<le> feature_rank b"

definition less_Feature :: "Feature \<Rightarrow> Feature \<Rightarrow> bool" where
  "less_Feature a b \<longleftrightarrow> feature_rank a < feature_rank b"

instance
proof
  fix a b :: Feature
  show "a \<le> b \<Longrightarrow> b \<le> a \<Longrightarrow> a = b"
    by (cases a; cases b) (simp_all add: less_eq_Feature_def)
qed (auto simp: less_eq_Feature_def less_Feature_def)

end

record EntitlementLimits =
  el_max_tool_devices :: u32
  el_max_technicians :: u32
  el_max_managed_assets :: u32

record EntitlementClaims =
  ec_schema :: string
  ec_entitlement_id :: string
  ec_tenant_id :: string
  ec_sequence :: u64
  ec_plan :: Plan
  ec_features :: "Feature list"
  ec_device_ids :: "string list"
  ec_limits :: EntitlementLimits
  ec_issued_at_unix :: u64
  ec_not_before_unix :: u64
  ec_offline_lease_until_unix :: u64
  ec_expires_at_unix :: u64
  ec_grace_until_unix :: u64

record EntitlementEnvelope =
  ee_claims :: EntitlementClaims
  ee_signature :: string

record RevocationClaims =
  rc_schema :: string
  rc_sequence :: u64
  rc_issued_at_unix :: u64
  rc_revoked_entitlement_ids :: "string list"

record RevocationEnvelope =
  re_claims :: RevocationClaims
  re_signature :: string

record EntitlementCheckpoint =
  ek_entitlement_id :: string
  ek_tenant_id :: string
  ek_highest_sequence :: u64
  ek_envelope_sha256 :: string

record RevocationCheckpoint =
  rk_highest_sequence :: u64
  rk_envelope_sha256 :: string

record VerifiedEntitlement =
  ve_envelope :: EntitlementEnvelope
  ve_envelope_sha256 :: string
  ve_checkpoint :: EntitlementCheckpoint

record VerifiedRevocations =
  vr_envelope :: RevocationEnvelope
  vr_envelope_sha256 :: string
  vr_checkpoint :: RevocationCheckpoint

datatype EntitlementState =
    EntNotYetValid | EntActive | RefreshRequired | Grace | EntExpired | Revoked | EntDeviceNotAssigned

record LicensedCapabilities =
  lc_state :: EntitlementState
  lc_diagnostics :: bool
  lc_report_export :: bool
  lc_rollback :: bool
  lc_consumer_repair :: bool
  lc_enterprise_repair :: bool
  lc_fleet_sync :: bool
  lc_cached_policy :: bool
  lc_audit_upload :: bool
  lc_updates :: bool
  lc_enterprise_providers :: bool

datatype EntitlementError =
    EDocumentTooLarge | EInvalidDocument | ENonCanonicalDocument | EInvalidClaims | EInvalidSignature
  | EWrongTrustAnchor | ERollbackDetected | ESequenceConflict | ECheckpointMismatch

definition ENTITLEMENT_SCHEMA :: string where
  "ENTITLEMENT_SCHEMA = ''dev.kernaid.entitlement.v1''"

definition REVOCATIONS_SCHEMA :: string where
  "REVOCATIONS_SCHEMA = ''dev.kernaid.entitlement-revocations.v1''"

definition ENTITLEMENT_DOMAIN :: string where
  "ENTITLEMENT_DOMAIN = domain_tag ''KERNAID-ENTITLEMENT-V1''"

definition REVOCATIONS_DOMAIN :: string where
  "REVOCATIONS_DOMAIN = domain_tag ''KERNAID-ENTITLEMENT-REVOCATIONS-V1''"

definition MAX_DOCUMENT_BYTES :: nat where
  "MAX_DOCUMENT_BYTES = 64 * 1024"

definition MAX_SAFE_INTEGER :: u64 where
  "MAX_SAFE_INTEGER = 9007199254740991"

section \<open>Validators\<close>

definition safe_positive :: "u64 \<Rightarrow> bool" where
  "safe_positive v = (v > 0 \<and> v \<le> MAX_SAFE_INTEGER)"

definition safe_timestamp :: "u64 \<Rightarrow> bool" where
  "safe_timestamp v = (v \<le> MAX_SAFE_INTEGER)"

definition valid_id :: "string \<Rightarrow> bool" where
  "valid_id v = (v \<noteq> [] \<and> length v \<le> 128 \<and> list_all (\<lambda>b. ascii_alphanumeric b \<or> b \<in> set ''._:-'') v)"

definition strictly_sorted :: "'a::linorder list \<Rightarrow> bool" where
  "strictly_sorted vs = list_all (\<lambda>(a, b). a < b) (windows2 vs)"

definition validate_entitlement_claims :: "EntitlementClaims \<Rightarrow> EntitlementError + unit" where
  "validate_entitlement_claims c =
     (if ec_schema c \<noteq> ENTITLEMENT_SCHEMA
         \<or> \<not> valid_id (ec_entitlement_id c)
         \<or> \<not> valid_id (ec_tenant_id c)
         \<or> \<not> safe_positive (ec_sequence c)
         \<or> length (ec_features c) > 16
         \<or> ec_device_ids c = []
         \<or> length (ec_device_ids c) > 4096
         \<or> el_max_tool_devices (ec_limits c) = 0
         \<or> el_max_technicians (ec_limits c) = 0
         \<or> el_max_managed_assets (ec_limits c) = 0
         \<or> length (ec_device_ids c) > unat (el_max_tool_devices (ec_limits c))
         \<or> \<not> strictly_sorted (ec_features c)
         \<or> \<not> strictly_sorted (ec_device_ids c)
         \<or> list_ex (\<lambda>device. \<not> valid_id device) (ec_device_ids c)
         \<or> \<not> safe_timestamp (ec_issued_at_unix c)
         \<or> \<not> safe_timestamp (ec_not_before_unix c)
         \<or> \<not> safe_timestamp (ec_offline_lease_until_unix c)
         \<or> \<not> safe_timestamp (ec_expires_at_unix c)
         \<or> \<not> safe_timestamp (ec_grace_until_unix c)
         \<or> ec_issued_at_unix c > ec_not_before_unix c
         \<or> ec_not_before_unix c > ec_offline_lease_until_unix c
         \<or> ec_offline_lease_until_unix c > ec_expires_at_unix c
         \<or> ec_expires_at_unix c > ec_grace_until_unix c
      then Inl EInvalidClaims else Inr ())"

definition validate_revocation_claims :: "RevocationClaims \<Rightarrow> EntitlementError + unit" where
  "validate_revocation_claims c =
     (if rc_schema c \<noteq> REVOCATIONS_SCHEMA
         \<or> \<not> safe_positive (rc_sequence c)
         \<or> \<not> safe_timestamp (rc_issued_at_unix c)
         \<or> length (rc_revoked_entitlement_ids c) > 65536
         \<or> \<not> strictly_sorted (rc_revoked_entitlement_ids c)
         \<or> list_ex (\<lambda>entitlement. \<not> valid_id entitlement) (rc_revoked_entitlement_ids c)
      then Inl EInvalidClaims else Inr ())"

section \<open>Documents\<close>

fun validate_canonical_value :: "json \<Rightarrow> EntitlementError + unit" where
  "validate_canonical_value JNull = Inr ()"
| "validate_canonical_value (JBool b) = Inr ()"
| "validate_canonical_value (JString s) = Inr ()"
| "validate_canonical_value (JNumber n) =
     (case n of PosInt v \<Rightarrow> if v \<le> MAX_SAFE_INTEGER then Inr () else Inl EInvalidClaims
      | _ \<Rightarrow> Inl EInvalidClaims)"
| "validate_canonical_value (JArray vs) = try_for_each validate_canonical_value vs"
| "validate_canonical_value (JObject kvs) = try_for_each (\<lambda>kv. validate_canonical_value (snd kv)) kvs"

definition entitlement_canonical_json :: "crates \<Rightarrow> json \<Rightarrow> EntitlementError + string" where
  "entitlement_canonical_json X v =
     (case validate_canonical_value v of Inl e \<Rightarrow> Inl e | Inr _ \<Rightarrow> Inr (json_to_vec X v))"

definition entitlement_signature_message :: "string \<Rightarrow> string \<Rightarrow> string" where
  "entitlement_signature_message domain canonical_claims = domain @ frame canonical_claims"

definition parse_canonical ::
  "crates \<Rightarrow> (string \<Rightarrow> 'a option) \<Rightarrow> ('a \<Rightarrow> json) \<Rightarrow> string \<Rightarrow> EntitlementError + 'a" where
  "parse_canonical X from_doc to_json document =
     (if length document > MAX_DOCUMENT_BYTES then Inl EDocumentTooLarge
      else case from_doc document of None \<Rightarrow> Inl EInvalidDocument | Some parsed \<Rightarrow>
      case entitlement_canonical_json X (to_json parsed) of Inl e \<Rightarrow> Inl e | Inr canonical \<Rightarrow>
      if canonical \<noteq> document then Inl ENonCanonicalDocument else Inr parsed)"

fun plan_name :: "Plan \<Rightarrow> string" where
  "plan_name Retail = ''retail''"
| "plan_name Pro = ''pro''"
| "plan_name FleetPlan = ''fleet''"
| "plan_name EnterprisePlan = ''enterprise''"

fun feature_name :: "Feature \<Rightarrow> string" where
  "feature_name Audit = ''audit''"
| "feature_name ConsumerRepair = ''consumer_repair''"
| "feature_name EnterpriseProviders = ''enterprise_providers''"
| "feature_name EnterpriseRepair = ''enterprise_repair''"
| "feature_name Fleet = ''fleet''"
| "feature_name Policy = ''policy''"
| "feature_name Updates = ''updates''"

definition limits_json :: "EntitlementLimits \<Rightarrow> json" where
  "limits_json l = object
     [(''maxToolDevices'', JNumber (PosInt (ucast (el_max_tool_devices l)))),
      (''maxTechnicians'', JNumber (PosInt (ucast (el_max_technicians l)))),
      (''maxManagedAssets'', JNumber (PosInt (ucast (el_max_managed_assets l))))]"

definition claims_json :: "EntitlementClaims \<Rightarrow> json" where
  "claims_json c = object
     [(''schema'', JString (ec_schema c)),
      (''entitlementId'', JString (ec_entitlement_id c)),
      (''tenantId'', JString (ec_tenant_id c)),
      (''sequence'', JNumber (PosInt (ec_sequence c))),
      (''plan'', JString (plan_name (ec_plan c))),
      (''features'', JArray (map (\<lambda>f. JString (feature_name f)) (ec_features c))),
      (''deviceIds'', JArray (map JString (ec_device_ids c))),
      (''limits'', limits_json (ec_limits c)),
      (''issuedAtUnix'', JNumber (PosInt (ec_issued_at_unix c))),
      (''notBeforeUnix'', JNumber (PosInt (ec_not_before_unix c))),
      (''offlineLeaseUntilUnix'', JNumber (PosInt (ec_offline_lease_until_unix c))),
      (''expiresAtUnix'', JNumber (PosInt (ec_expires_at_unix c))),
      (''graceUntilUnix'', JNumber (PosInt (ec_grace_until_unix c)))]"

definition entitlement_envelope_json :: "EntitlementEnvelope \<Rightarrow> json" where
  "entitlement_envelope_json e =
     object [(''claims'', claims_json (ee_claims e)), (''signature'', JString (ee_signature e))]"

definition revocation_claims_json :: "RevocationClaims \<Rightarrow> json" where
  "revocation_claims_json c = object
     [(''schema'', JString (rc_schema c)), (''sequence'', JNumber (PosInt (rc_sequence c))),
      (''issuedAtUnix'', JNumber (PosInt (rc_issued_at_unix c))),
      (''revokedEntitlementIds'', JArray (map JString (rc_revoked_entitlement_ids c)))]"

definition revocation_envelope_json :: "RevocationEnvelope \<Rightarrow> json" where
  "revocation_envelope_json e =
     object [(''claims'', revocation_claims_json (re_claims e)), (''signature'', JString (re_signature e))]"

definition verify_signature :: "crates \<Rightarrow> string \<Rightarrow> json \<Rightarrow> string \<Rightarrow> string \<Rightarrow> EntitlementError + unit" where
  "verify_signature X domain claims encoded_signature trusted_public_key =
     (case b64_decode X encoded_signature of None \<Rightarrow> Inl EInvalidSignature | Some decoded \<Rightarrow>
      if length decoded \<noteq> SIGNATURE_BYTES then Inl EInvalidSignature
      else if b64_encode X decoded \<noteq> encoded_signature then Inl EInvalidSignature
      else if \<not> ed_valid_key X trusted_public_key then Inl EWrongTrustAnchor
      else case entitlement_canonical_json X claims of Inl e \<Rightarrow> Inl e | Inr claims_bytes \<Rightarrow>
      if \<not> ed_verify_strict X trusted_public_key (entitlement_signature_message domain claims_bytes) decoded
      then Inl EInvalidSignature else Inr ())"

definition sha256_hex :: "crates \<Rightarrow> string \<Rightarrow> string" where
  "sha256_hex X bytes = hex_sha256 (sha256 X bytes)"

section \<open>Checkpoints\<close>

definition next_entitlement_checkpoint ::
  "EntitlementClaims \<Rightarrow> string \<Rightarrow> EntitlementCheckpoint option \<Rightarrow> EntitlementError + EntitlementCheckpoint" where
  "next_entitlement_checkpoint claims digest checkpoint =
     (let next = \<lparr>ek_entitlement_id = ec_entitlement_id claims, ek_tenant_id = ec_tenant_id claims,
        ek_highest_sequence = ec_sequence claims, ek_envelope_sha256 = digest\<rparr>
      in case checkpoint of None \<Rightarrow> Inr next | Some retained \<Rightarrow>
        if ek_entitlement_id retained \<noteq> ec_entitlement_id claims
           \<or> ek_tenant_id retained \<noteq> ec_tenant_id claims then Inl ECheckpointMismatch
        else if ec_sequence claims < ek_highest_sequence retained then Inl ERollbackDetected
        else if ec_sequence claims = ek_highest_sequence retained \<and> ek_envelope_sha256 retained \<noteq> digest
        then Inl ESequenceConflict
        else Inr next)"

definition next_revocation_checkpoint ::
  "RevocationClaims \<Rightarrow> string \<Rightarrow> RevocationCheckpoint option \<Rightarrow> EntitlementError + RevocationCheckpoint" where
  "next_revocation_checkpoint claims digest checkpoint =
     (let next = \<lparr>rk_highest_sequence = rc_sequence claims, rk_envelope_sha256 = digest\<rparr>
      in case checkpoint of None \<Rightarrow> Inr next | Some retained \<Rightarrow>
        if rc_sequence claims < rk_highest_sequence retained then Inl ERollbackDetected
        else if rc_sequence claims = rk_highest_sequence retained \<and> rk_envelope_sha256 retained \<noteq> digest
        then Inl ESequenceConflict
        else Inr next)"

section \<open>Signing and verification\<close>

definition sign_entitlement :: "crates \<Rightarrow> EntitlementClaims \<Rightarrow> string \<Rightarrow> EntitlementError + string" where
  "sign_entitlement X claims signing_key =
     (case validate_entitlement_claims claims of Inl e \<Rightarrow> Inl e | Inr _ \<Rightarrow>
      case entitlement_canonical_json X (claims_json claims) of Inl e \<Rightarrow> Inl e | Inr claims_bytes \<Rightarrow>
      let signature = ed_sign X signing_key (entitlement_signature_message ENTITLEMENT_DOMAIN claims_bytes)
      in entitlement_canonical_json X
        (entitlement_envelope_json \<lparr>ee_claims = claims, ee_signature = b64_encode X signature\<rparr>))"

definition verify_entitlement ::
  "crates \<Rightarrow> (string \<Rightarrow> EntitlementEnvelope option) \<Rightarrow> string \<Rightarrow> string \<Rightarrow> EntitlementCheckpoint option \<Rightarrow>
   EntitlementError + VerifiedEntitlement" where
  "verify_entitlement X from_doc document trusted_public_key checkpoint =
     (case parse_canonical X from_doc entitlement_envelope_json document of Inl e \<Rightarrow> Inl e | Inr envelope \<Rightarrow>
      case validate_entitlement_claims (ee_claims envelope) of Inl e \<Rightarrow> Inl e | Inr _ \<Rightarrow>
      case verify_signature X ENTITLEMENT_DOMAIN (claims_json (ee_claims envelope)) (ee_signature envelope)
          trusted_public_key of Inl e \<Rightarrow> Inl e | Inr _ \<Rightarrow>
      let digest = sha256_hex X document in
      case next_entitlement_checkpoint (ee_claims envelope) digest checkpoint of Inl e \<Rightarrow> Inl e | Inr next \<Rightarrow>
      Inr \<lparr>ve_envelope = envelope, ve_envelope_sha256 = digest, ve_checkpoint = next\<rparr>)"

definition sign_revocations :: "crates \<Rightarrow> RevocationClaims \<Rightarrow> string \<Rightarrow> EntitlementError + string" where
  "sign_revocations X claims signing_key =
     (case validate_revocation_claims claims of Inl e \<Rightarrow> Inl e | Inr _ \<Rightarrow>
      case entitlement_canonical_json X (revocation_claims_json claims) of Inl e \<Rightarrow> Inl e | Inr claims_bytes \<Rightarrow>
      let signature = ed_sign X signing_key (entitlement_signature_message REVOCATIONS_DOMAIN claims_bytes)
      in entitlement_canonical_json X
        (revocation_envelope_json \<lparr>re_claims = claims, re_signature = b64_encode X signature\<rparr>))"

definition verify_revocations ::
  "crates \<Rightarrow> (string \<Rightarrow> RevocationEnvelope option) \<Rightarrow> string \<Rightarrow> string \<Rightarrow> RevocationCheckpoint option \<Rightarrow>
   EntitlementError + VerifiedRevocations" where
  "verify_revocations X from_doc document trusted_public_key checkpoint =
     (case parse_canonical X from_doc revocation_envelope_json document of Inl e \<Rightarrow> Inl e | Inr envelope \<Rightarrow>
      case validate_revocation_claims (re_claims envelope) of Inl e \<Rightarrow> Inl e | Inr _ \<Rightarrow>
      case verify_signature X REVOCATIONS_DOMAIN (revocation_claims_json (re_claims envelope)) (re_signature envelope)
          trusted_public_key of Inl e \<Rightarrow> Inl e | Inr _ \<Rightarrow>
      let digest = sha256_hex X document in
      case next_revocation_checkpoint (re_claims envelope) digest checkpoint of Inl e \<Rightarrow> Inl e | Inr next \<Rightarrow>
      Inr \<lparr>vr_envelope = envelope, vr_envelope_sha256 = digest, vr_checkpoint = next\<rparr>)"

section \<open>Capabilities\<close>

definition has_feature :: "EntitlementClaims \<Rightarrow> Feature \<Rightarrow> bool" where
  "has_feature claims feature = binary_search (ec_features claims) feature"

definition entitlement_state ::
  "EntitlementClaims \<Rightarrow> bool \<Rightarrow> bool \<Rightarrow> u64 \<Rightarrow> EntitlementState" where
  "entitlement_state claims revoked assigned now_unix =
     (if revoked then Revoked
      else if \<not> assigned then EntDeviceNotAssigned
      else if now_unix < ec_not_before_unix claims then EntNotYetValid
      else if now_unix \<le> ec_offline_lease_until_unix claims then EntActive
      else if now_unix \<le> ec_expires_at_unix claims then RefreshRequired
      else if now_unix \<le> ec_grace_until_unix claims then Grace
      else EntExpired)"

definition capabilities ::
  "VerifiedEntitlement \<Rightarrow> VerifiedRevocations option \<Rightarrow> string \<Rightarrow> u64 \<Rightarrow> LicensedCapabilities" where
  "capabilities entitlement revocations device_id now_unix =
     (let claims = ee_claims (ve_envelope entitlement);
          revoked = (case revocations of None \<Rightarrow> False | Some list \<Rightarrow>
            binary_search (rc_revoked_entitlement_ids (re_claims (vr_envelope list))) (ec_entitlement_id claims));
          assigned = binary_search (ec_device_ids claims) device_id;
          state = entitlement_state claims revoked assigned now_unix;
          repair_window = (state = EntActive \<or> state = RefreshRequired \<or> state = Grace);
          active = (state = EntActive)
      in \<lparr>lc_state = state, lc_diagnostics = True, lc_report_export = True, lc_rollback = True,
          lc_consumer_repair = (repair_window \<and> has_feature claims ConsumerRepair),
          lc_enterprise_repair = (repair_window \<and> has_feature claims EnterpriseRepair),
          lc_fleet_sync = (active \<and> has_feature claims Fleet),
          lc_cached_policy = (repair_window \<and> has_feature claims Policy),
          lc_audit_upload = (active \<and> has_feature claims Audit),
          lc_updates = (active \<and> has_feature claims Updates),
          lc_enterprise_providers = (repair_window \<and> has_feature claims EnterpriseProviders)\<rparr>)"

section \<open>Lemmas\<close>

lemma strictly_sorted_iff: "strictly_sorted vs \<longleftrightarrow> sorted_wrt (<) vs"
  unfolding strictly_sorted_def windows2_strictly_sorted [symmetric]
  by (auto simp: list_all_iff list_ex_iff not_le)

lemma validated_claims:
  assumes "validate_entitlement_claims c = Inr u"
  shows "sorted_wrt (<) (ec_features c)" "sorted_wrt (<) (ec_device_ids c)"
    "ec_not_before_unix c \<le> ec_offline_lease_until_unix c"
    "ec_offline_lease_until_unix c \<le> ec_expires_at_unix c" "ec_expires_at_unix c \<le> ec_grace_until_unix c"
  using assms by (simp_all add: validate_entitlement_claims_def strictly_sorted_iff not_less)

lemma validated_revocations:
  "validate_revocation_claims c = Inr u \<Longrightarrow> sorted_wrt (<) (rc_revoked_entitlement_ids c)"
  by (simp add: validate_revocation_claims_def strictly_sorted_iff)

lemma verified_entitlement_valid:
  "verify_entitlement X from_doc document key checkpoint = Inr v \<Longrightarrow>
   validate_entitlement_claims (ee_claims (ve_envelope v)) = Inr ()"
  by (auto simp: verify_entitlement_def Let_def)

lemma verified_revocations_valid:
  "verify_revocations X from_doc document key checkpoint = Inr r \<Longrightarrow>
   validate_revocation_claims (re_claims (vr_envelope r)) = Inr ()"
  by (auto simp: verify_revocations_def Let_def)

interpretation entitlement_register: anti_rollback
  "\<lambda>checkpoint (claims, digest). map_sum id Some (next_entitlement_checkpoint claims digest checkpoint)"
  "map_option (\<lambda>k. (ek_highest_sequence k, ek_envelope_sha256 k))"
  "\<lambda>(claims, digest). ec_sequence claims" "\<lambda>(claims, digest). digest"
proof
  fix s :: "EntitlementCheckpoint option" and d :: "EntitlementClaims \<times> string" and s'
  assume "(case d of (claims, digest) \<Rightarrow> map_sum id Some (next_entitlement_checkpoint claims digest s)) = Inr s'"
  then show "register_admit (map_option (\<lambda>k. (ek_highest_sequence k, ek_envelope_sha256 k)) s)
      (case d of (claims, digest) \<Rightarrow> ec_sequence claims) (case d of (claims, digest) \<Rightarrow> digest) =
    Some (map_option (\<lambda>k. (ek_highest_sequence k, ek_envelope_sha256 k)) s')"
    by (cases s; cases d) (auto simp: next_entitlement_checkpoint_def Let_def split: if_splits)
qed

interpretation revocation_register: anti_rollback
  "\<lambda>checkpoint (claims, digest). map_sum id Some (next_revocation_checkpoint claims digest checkpoint)"
  "map_option (\<lambda>k. (rk_highest_sequence k, rk_envelope_sha256 k))"
  "\<lambda>(claims, digest). rc_sequence claims" "\<lambda>(claims, digest). digest"
proof
  fix s :: "RevocationCheckpoint option" and d :: "RevocationClaims \<times> string" and s'
  assume "(case d of (claims, digest) \<Rightarrow> map_sum id Some (next_revocation_checkpoint claims digest s)) = Inr s'"
  then show "register_admit (map_option (\<lambda>k. (rk_highest_sequence k, rk_envelope_sha256 k)) s)
      (case d of (claims, digest) \<Rightarrow> rc_sequence claims) (case d of (claims, digest) \<Rightarrow> digest) =
    Some (map_option (\<lambda>k. (rk_highest_sequence k, rk_envelope_sha256 k)) s')"
    by (cases s; cases d) (auto simp: next_revocation_checkpoint_def Let_def split: if_splits)
qed

lemma entitlement_state_windows:
  assumes "validate_entitlement_claims c = Inr ()"
  shows "entitlement_state c revoked assigned now = EntActive \<longleftrightarrow>
      \<not> revoked \<and> assigned \<and> ec_not_before_unix c \<le> now \<and> now \<le> ec_offline_lease_until_unix c"
    and "entitlement_state c revoked assigned now \<in> {EntActive, RefreshRequired, Grace} \<longleftrightarrow>
      \<not> revoked \<and> assigned \<and> ec_not_before_unix c \<le> now \<and> now \<le> ec_grace_until_unix c"
  using validated_claims(3-5) [OF assms] by (auto simp: entitlement_state_def not_less not_le)

section \<open>The signed message determines the claims\<close>

lemma validated_canonical_float_free: "validate_canonical_value v = Inr u \<Longrightarrow> float_free v"
proof (induction v)
  case (JNumber n)
  then show ?case by (cases n) simp_all
qed (auto simp: list_all_iff snds.simps)

lemma entitlement_canonical_determines:
  assumes "to_vec_lossless X" "wf_json v" "wf_json w"
    and "entitlement_canonical_json X v = Inr c" "entitlement_canonical_json X w = Inr c"
  shows "v = w"
  using assms validated_canonical_float_free
  by (fastforce simp: to_vec_lossless_def entitlement_canonical_json_def)

lemma claims_json_wf [simp]:
  "wf_json (claims_json c)" "wf_json (revocation_claims_json r)"
  by (simp_all add: claims_json_def revocation_claims_json_def limits_json_def list_all_iff)

lemma claims_json_inject: "claims_json c = claims_json d \<Longrightarrow> c = d"
proof -
  assume eq: "claims_json c = claims_json d"
  have plan: "plan_name p = plan_name q \<longleftrightarrow> p = q" for p q by (cases p; cases q) simp_all
  have "inj (\<lambda>f. JString (feature_name f))"
  proof (rule injI)
    fix f g assume "JString (feature_name f) = JString (feature_name g)"
    then show "f = g" by (cases f; cases g) simp_all
  qed
  note features = inj_map_eq_map [OF this]
  have strings: "map JString xs = map JString ys \<longleftrightarrow> xs = ys" for xs ys
    by (simp add: inj_map_eq_map inj_def)
  have limits: "l = m" if "limits_json l = limits_json m" for l m
    using that unfolding limits_json_def
    by (drule_tac object_inject [rotated 2]) (simp_all add: ucast_inject)
  show ?thesis
    using eq unfolding claims_json_def
    by (drule_tac object_inject [rotated 2]) (auto simp: plan features strings dest: limits)
qed

lemma revocation_claims_json_inject: "revocation_claims_json c = revocation_claims_json d \<Longrightarrow> c = d"
  unfolding revocation_claims_json_def
  by (drule object_inject [rotated 2]) (simp_all add: inj_map_eq_map inj_def)

section \<open>Properties\<close>

text \<open>
  C11: a verified entitlement never takes the local safety functions away, and gives a paid one
  exactly when it lists its feature and the device, the entitlement is not on the verified
  revocation list, and the time is within the lease (services) or within the grace period
  (repairs, cached policy and enterprise providers).
\<close>

theorem entitlement_capabilities_exact:
  assumes verified: "verify_entitlement X from_doc document key checkpoint = Inr e"
    and revoked: "\<forall>r. revocations = Some r \<longrightarrow>
      (\<exists>rfrom rdoc rkey rck. verify_revocations X rfrom rdoc rkey rck = Inr r)"
  shows "let claims = ee_claims (ve_envelope e); c = capabilities e revocations device now;
      granted = (\<lambda>feature until. feature \<in> set (ec_features claims) \<and> device \<in> set (ec_device_ids claims) \<and>
        (\<forall>r. revocations = Some r \<longrightarrow>
          ec_entitlement_id claims \<notin> set (rc_revoked_entitlement_ids (re_claims (vr_envelope r)))) \<and>
        ec_not_before_unix claims \<le> now \<and> now \<le> until)
    in lc_diagnostics c \<and> lc_report_export c \<and> lc_rollback c \<and>
      lc_consumer_repair c = granted ConsumerRepair (ec_grace_until_unix claims) \<and>
      lc_enterprise_repair c = granted EnterpriseRepair (ec_grace_until_unix claims) \<and>
      lc_cached_policy c = granted Policy (ec_grace_until_unix claims) \<and>
      lc_enterprise_providers c = granted EnterpriseProviders (ec_grace_until_unix claims) \<and>
      lc_fleet_sync c = granted Fleet (ec_offline_lease_until_unix claims) \<and>
      lc_audit_upload c = granted Audit (ec_offline_lease_until_unix claims) \<and>
      lc_updates c = granted Updates (ec_offline_lease_until_unix claims)"
proof -
  let ?claims = "ee_claims (ve_envelope e)"
  note valid = verified_entitlement_valid [OF verified]
  note sorted = validated_claims(1,2) [OF valid]
  have features: "has_feature ?claims f \<longleftrightarrow> f \<in> set (ec_features ?claims)" for f
    using sorted by (simp add: has_feature_def binary_search_member)
  have listed: "binary_search (rc_revoked_entitlement_ids (re_claims (vr_envelope r))) i \<longleftrightarrow>
      i \<in> set (rc_revoked_entitlement_ids (re_claims (vr_envelope r)))" if "revocations = Some r" for r i
  proof (rule binary_search_member)
    show "sorted_wrt (<) (rc_revoked_entitlement_ids (re_claims (vr_envelope r)))"
      using revoked that verified_revocations_valid validated_revocations by blast
  qed
  let ?revoked = "case revocations of None \<Rightarrow> False | Some list \<Rightarrow>
      binary_search (rc_revoked_entitlement_ids (re_claims (vr_envelope list))) (ec_entitlement_id ?claims)"
  let ?spared = "\<forall>r. revocations = Some r \<longrightarrow>
      ec_entitlement_id ?claims \<notin> set (rc_revoked_entitlement_ids (re_claims (vr_envelope r)))"
  let ?state = "entitlement_state ?claims ?revoked (binary_search (ec_device_ids ?claims) device) now"
  have spared: "(\<not> ?revoked) = ?spared" using listed by (cases revocations) auto
  have window: "(?state = EntActive \<or> ?state = RefreshRequired \<or> ?state = Grace) =
      (?spared \<and> device \<in> set (ec_device_ids ?claims) \<and> ec_not_before_unix ?claims \<le> now \<and>
       now \<le> ec_grace_until_unix ?claims)"
    using entitlement_state_windows(2) [OF valid, of ?revoked "binary_search (ec_device_ids ?claims) device" now]
    unfolding spared [symmetric] binary_search_member [OF sorted(2)] by simp
  have active: "(?state = EntActive) =
      (?spared \<and> device \<in> set (ec_device_ids ?claims) \<and> ec_not_before_unix ?claims \<le> now \<and>
       now \<le> ec_offline_lease_until_unix ?claims)"
    using entitlement_state_windows(1) [OF valid, of ?revoked "binary_search (ec_device_ids ?claims) device" now]
    unfolding spared [symmetric] binary_search_member [OF sorted(2)] by simp
  show ?thesis
    unfolding capabilities_def Let_def LicensedCapabilities.select_convs features window
    unfolding active by blast
qed

definition sample_claims :: EntitlementClaims where
  "sample_claims = \<lparr>ec_schema = ENTITLEMENT_SCHEMA, ec_entitlement_id = ''e1'', ec_tenant_id = ''t1'',
     ec_sequence = 4, ec_plan = Pro, ec_features = [ConsumerRepair, Fleet], ec_device_ids = [''d1'', ''d2''],
     ec_limits = \<lparr>el_max_tool_devices = 2, el_max_technicians = 1, el_max_managed_assets = 1\<rparr>,
     ec_issued_at_unix = 10, ec_not_before_unix = 10, ec_offline_lease_until_unix = 20,
     ec_expires_at_unix = 30, ec_grace_until_unix = 40\<rparr>"

definition sample_envelope :: EntitlementEnvelope where
  "sample_envelope = \<lparr>ee_claims = sample_claims,
     ee_signature = url_safe_no_pad_encode (replicate 64 CHR 0x00)\<rparr>"

abbreviation sample_document :: string where
  "sample_document \<equiv> json_text plain_quote (entitlement_envelope_json sample_envelope)"

lemma sample_document_short: "length sample_document \<le> 65536"
proof -
  have "length (plain_quote (url_safe_no_pad_encode (replicate 64 CHR 0x00))) \<le> 174"
    using length_plain_quote_le [of "url_safe_no_pad_encode (replicate 64 CHR 0x00)"] by simp
  then show ?thesis
    by (simp add: entitlement_envelope_json_def claims_json_def sample_claims_def sample_envelope_def object_def
      ENTITLEMENT_SCHEMA_def limits_json_def comma_separated_def length_plain_quote_simps escape_byte_def
      number_text_def decimal.simps)
qed

lemma sample_claims_canonical:
  "validate_canonical_value (claims_json sample_claims) = Inr ()"
  "validate_canonical_value (entitlement_envelope_json sample_envelope) = Inr ()"
  by (simp_all add: entitlement_envelope_json_def claims_json_def sample_claims_def sample_envelope_def
      limits_json_def object_def MAX_SAFE_INTEGER_def)

lemma sample_claims_valid: "validate_entitlement_claims sample_claims = Inr ()"
  by (simp add: validate_entitlement_claims_def sample_claims_def valid_id_def ascii_class_defs
      safe_positive_def safe_timestamp_def MAX_SAFE_INTEGER_def strictly_sorted_iff less_Feature_def)

lemma sample_verified_entitlement:
  "verify_entitlement release_crates (\<lambda>_. Some sample_envelope) sample_document key None =
   Inr \<lparr>ve_envelope = sample_envelope, ve_envelope_sha256 = sha256_hex release_crates sample_document,
     ve_checkpoint = \<lparr>ek_entitlement_id = ''e1'', ek_tenant_id = ''t1'', ek_highest_sequence = 4,
       ek_envelope_sha256 = sha256_hex release_crates sample_document\<rparr>\<rparr>"
proof -
  have "parse_canonical release_crates (\<lambda>_. Some sample_envelope) entitlement_envelope_json sample_document =
      Inr sample_envelope"
    using sample_document_short
    by (simp add: parse_canonical_def MAX_DOCUMENT_BYTES_def entitlement_canonical_json_def
        sample_claims_canonical release_crates_def)
  moreover have "verify_signature release_crates ENTITLEMENT_DOMAIN (claims_json sample_claims)
      (url_safe_no_pad_encode (replicate 64 CHR 0x00)) key = Inr ()"
    by (simp add: verify_signature_def release_crates_def SIGNATURE_BYTES_def entitlement_canonical_json_def
        sample_claims_canonical)
  moreover have "ee_claims sample_envelope = sample_claims"
    "ee_signature sample_envelope = url_safe_no_pad_encode (replicate 64 CHR 0x00)"
    by (simp_all add: sample_envelope_def)
  moreover have "ec_entitlement_id sample_claims = ''e1''" "ec_tenant_id sample_claims = ''t1''"
    "ec_sequence sample_claims = 4"
    by (simp_all add: sample_claims_def)
  ultimately show ?thesis
    by (simp add: verify_entitlement_def Let_def sample_claims_valid next_entitlement_checkpoint_def)
qed

theorem entitlement_capabilities_exact_witness:
  "\<exists>e. verify_entitlement release_crates (\<lambda>_. Some sample_envelope) sample_document [] None = Inr e \<and>
     lc_rollback (capabilities e None ''d2'' 35) \<and> lc_consumer_repair (capabilities e None ''d2'' 35) \<and>
     \<not> lc_fleet_sync (capabilities e None ''d2'' 35)"
proof -
  note verified = sample_verified_entitlement [of "[]"]
  have "\<forall>r. None = Some r \<longrightarrow> (\<exists>rfrom rdoc rkey rck. verify_revocations release_crates rfrom rdoc rkey rck = Inr r)"
    by simp
  from entitlement_capabilities_exact [OF verified this, of "''d2''" 35] verified show ?thesis
    by (simp add: Let_def sample_envelope_def sample_claims_def)
qed

end
