(* ===== verification/KA_Identity.thy ===== *)
theory KA_Identity
  imports KA_Base64
begin

text \<open>
  Device identities and signed reports, \<^verbatim>\<open>crates/device-identity/src/lib.rs\<close>: the
  device fingerprint, report and protocol signatures, and the report envelope whose complete
  content is signed, with its verification against a pinned key or a pinned fingerprint.
\<close>

section \<open>Data\<close>

datatype IdentityError =
    InvalidSeedLength
  | InvalidPublicKey
  | InvalidDeviceId
  | MissingTrustAnchor
  | UnexpectedPublicKey
  | UnexpectedDeviceId
  | IInvalidSignature
  | InvalidEnvelopeField string
  | InvalidBase64Url string
  | InvalidPayloadMediaType
  | PayloadTooLarge
  | PayloadHashMismatch
  | InvalidProtocolDomain
  | ProtocolPayloadTooLarge

record DeviceIdentity =
  di_signing_key :: string

record SignedReport =
  sr_payload :: string
  sr_public_key :: string
  sr_signature :: string

record SignedReportEnvelope =
  se_schema :: string
  se_kind :: string
  se_algorithm :: string
  se_device_id :: string
  se_journal_sequence :: u64
  se_journal_entry_hash :: string
  se_payload_media_type :: string
  se_payload_sha256 :: string
  se_payload :: string
  se_public_key :: string
  se_signature :: string

record EnvelopeContent =
  ct_schema :: string
  ct_kind :: string
  ct_algorithm :: string
  ct_device_id :: string
  ct_journal_sequence :: u64
  ct_journal_entry_hash :: string
  ct_payload_media_type :: string
  ct_payload_sha256 :: string
  ct_payload :: string
  ct_public_key :: string

definition SIGNED_REPORT_DOMAIN :: string where
  "SIGNED_REPORT_DOMAIN = domain_tag ''KERNAID-SIGNED-REPORT-V1''"

definition SIGNED_REPORT_ENVELOPE_DOMAIN :: string where
  "SIGNED_REPORT_ENVELOPE_DOMAIN = domain_tag ''KERNAID-SIGNED-REPORT-ENVELOPE-V1''"

definition PUBLIC_KEY_BYTES :: nat where
  "PUBLIC_KEY_BYTES = 32"

definition HASH_BYTES :: nat where
  "HASH_BYTES = 32"

definition MAX_MEDIA_TYPE_BYTES :: nat where
  "MAX_MEDIA_TYPE_BYTES = 255"

definition MAX_PROTOCOL_DOMAIN_BYTES :: nat where
  "MAX_PROTOCOL_DOMAIN_BYTES = 255"

definition MAX_PROTOCOL_PAYLOAD_BYTES :: nat where
  "MAX_PROTOCOL_PAYLOAD_BYTES = 1024 * 1024"

definition MAX_SIGNED_REPORT_PAYLOAD_BYTES :: nat where
  "MAX_SIGNED_REPORT_PAYLOAD_BYTES = 1024 * 1024"

definition SIGNED_REPORT_ENVELOPE_SCHEMA :: string where
  "SIGNED_REPORT_ENVELOPE_SCHEMA = ''https://schemas.kernaid.dev/v1/signed-report-envelope.json''"

definition SIGNED_REPORT_ENVELOPE_KIND :: string where
  "SIGNED_REPORT_ENVELOPE_KIND = ''kernaid.signed-report''"

definition SIGNED_REPORT_ENVELOPE_ALGORITHM :: string where
  "SIGNED_REPORT_ENVELOPE_ALGORITHM = ''Ed25519''"

section \<open>Identities\<close>

definition identity_from_seed :: "string \<Rightarrow> IdentityError + DeviceIdentity" where
  "identity_from_seed seed =
     (if length seed \<noteq> 32 then Inl InvalidSeedLength else Inr \<lparr>di_signing_key = seed\<rparr>)"

definition identity_public_key :: "crates \<Rightarrow> DeviceIdentity \<Rightarrow> string" where
  "identity_public_key X identity = ed_public X (di_signing_key identity)"

definition device_id_for_public_key :: "crates \<Rightarrow> string \<Rightarrow> string" where
  "device_id_for_public_key X public_key = ''KA-'' @ hex_sha256 (take 12 (sha256 X public_key))"

definition identity_device_id :: "crates \<Rightarrow> DeviceIdentity \<Rightarrow> string" where
  "identity_device_id X identity = device_id_for_public_key X (identity_public_key X identity)"

definition identity_validate_device_id :: "string \<Rightarrow> IdentityError + unit" where
  "identity_validate_device_id device_id =
     (case strip_prefix device_id ''KA-'' of
        None \<Rightarrow> Inl InvalidDeviceId
      | Some hex \<Rightarrow>
          if length hex \<noteq> 24 \<or> \<not> list_all lower_hex hex then Inl InvalidDeviceId
          else Inr ())"

definition sign_domain_separated_payload ::
  "crates \<Rightarrow> DeviceIdentity \<Rightarrow> string \<Rightarrow> string \<Rightarrow> IdentityError + string" where
  "sign_domain_separated_payload X identity domain payload =
     (if domain = [] \<or> length domain > MAX_PROTOCOL_DOMAIN_BYTES \<or> last domain \<noteq> CHR 0x00
      then Inl InvalidProtocolDomain
      else if length payload > MAX_PROTOCOL_PAYLOAD_BYTES then Inl ProtocolPayloadTooLarge
      else Inr (ed_sign X (di_signing_key identity) (domain @ payload)))"

section \<open>Signed reports\<close>

definition identity_signature_message :: "string \<Rightarrow> string \<Rightarrow> string" where
  "identity_signature_message domain payload = domain @ be_bytes 16 (length payload) @ payload"

definition report_signature_message :: "string \<Rightarrow> string" where
  "report_signature_message payload = identity_signature_message SIGNED_REPORT_DOMAIN payload"

definition sign_report :: "crates \<Rightarrow> DeviceIdentity \<Rightarrow> string \<Rightarrow> SignedReport" where
  "sign_report X identity payload =
     \<lparr>sr_payload = payload, sr_public_key = identity_public_key X identity,
      sr_signature = ed_sign X (di_signing_key identity) (report_signature_message payload)\<rparr>"

definition report_verify :: "crates \<Rightarrow> SignedReport \<Rightarrow> string \<Rightarrow> IdentityError + unit" where
  "report_verify X r expected_public_key =
     (if sr_public_key r \<noteq> expected_public_key then Inl UnexpectedPublicKey
      else if \<not> ed_valid_key X expected_public_key then Inl InvalidPublicKey
      else if \<not> ed_verify_strict X expected_public_key (report_signature_message (sr_payload r)) (sr_signature r)
      then Inl IInvalidSignature else Inr ())"

section \<open>Validators and base64url\<close>

definition validate_constant_field :: "string \<Rightarrow> string \<Rightarrow> string \<Rightarrow> IdentityError + unit" where
  "validate_constant_field field actual expected =
     (if actual \<noteq> expected then Inl (InvalidEnvelopeField field) else Inr ())"

definition validate_payload :: "string \<Rightarrow> IdentityError + unit" where
  "validate_payload payload =
     (if length payload > MAX_SIGNED_REPORT_PAYLOAD_BYTES then Inl PayloadTooLarge else Inr ())"

definition is_media_type_token :: "string \<Rightarrow> bool" where
  "is_media_type_token v =
     (v \<noteq> [] \<and> list_all (\<lambda>b. ascii_alphanumeric b \<or> b \<in> set ''!#$%&*+-.^_`|~'' \<or> b = CHR 0x27) v)"

text \<open>
  \<^verbatim>\<open>str::trim\<close> on printable ASCII, which the byte check of the same condition enforces:
  the space is its only white space.
\<close>

definition trim_spaces :: "string \<Rightarrow> string" where
  "trim_spaces v = rev (dropWhile (\<lambda>c. c = CHR '' '') (rev (dropWhile (\<lambda>c. c = CHR '' '') v)))"

definition validate_media_type :: "string \<Rightarrow> IdentityError + unit" where
  "validate_media_type media_type =
     (let essence = takeWhile (\<lambda>c. c \<noteq> CHR '';'') media_type;
          parameters = (case dropWhile (\<lambda>c. c \<noteq> CHR '';'') media_type of [] \<Rightarrow> None | _ # r \<Rightarrow> Some r);
          parameters_are_valid = (case parameters of None \<Rightarrow> True | Some p \<Rightarrow> trim_spaces p \<noteq> []);
          has_valid_essence = (case split_on (CHR ''/'') essence of
            [major, minor] \<Rightarrow> is_media_type_token major \<and> is_media_type_token minor | _ \<Rightarrow> False)
      in if media_type = [] \<or> length media_type > MAX_MEDIA_TYPE_BYTES
          \<or> \<not> list_all (\<lambda>b. 0x20 \<le> (of_char b :: nat) \<and> (of_char b :: nat) \<le> 0x7e) media_type
          \<or> trim_spaces media_type \<noteq> media_type
          \<or> \<not> has_valid_essence \<or> \<not> parameters_are_valid
         then Inl InvalidPayloadMediaType else Inr ())"

definition decode_base64url :: "crates \<Rightarrow> string \<Rightarrow> string \<Rightarrow> IdentityError + string" where
  "decode_base64url X encoded field =
     (case b64_decode X encoded of None \<Rightarrow> Inl (InvalidBase64Url field) | Some decoded \<Rightarrow>
      if b64_encode X decoded \<noteq> encoded then Inl (InvalidBase64Url field) else Inr decoded)"

definition decode_fixed_base64url :: "crates \<Rightarrow> nat \<Rightarrow> string \<Rightarrow> string \<Rightarrow> IdentityError + string" where
  "decode_fixed_base64url X n encoded field =
     (let expected_encoded_bytes = n div 3 * 4 + (if n mod 3 = 0 then 0 else if n mod 3 = 1 then 2 else 3) in
      if length encoded \<noteq> expected_encoded_bytes then Inl (InvalidBase64Url field)
      else case decode_base64url X encoded field of Inl e \<Rightarrow> Inl e | Inr decoded \<Rightarrow>
      if length decoded \<noteq> n then Inl (InvalidBase64Url field) else Inr decoded)"

definition decode_payload :: "crates \<Rightarrow> string \<Rightarrow> IdentityError + string" where
  "decode_payload X encoded =
     (let max_encoded_bytes = (MAX_SIGNED_REPORT_PAYLOAD_BYTES + 2) div 3 * 4 in
      if length encoded > max_encoded_bytes then Inl PayloadTooLarge
      else case decode_base64url X encoded ''payload'' of Inl e \<Rightarrow> Inl e | Inr decoded \<Rightarrow>
      case validate_payload decoded of Inl e \<Rightarrow> Inl e | Inr _ \<Rightarrow> Inr decoded)"

definition decode_public_key_base64url :: "crates \<Rightarrow> string \<Rightarrow> IdentityError + string" where
  "decode_public_key_base64url X encoded = decode_fixed_base64url X PUBLIC_KEY_BYTES encoded ''publicKey''"

section \<open>Report envelopes\<close>

definition envelope_signature_message :: "EnvelopeContent \<Rightarrow> string" where
  "envelope_signature_message c =
     SIGNED_REPORT_ENVELOPE_DOMAIN @ frame (ct_schema c) @ frame (ct_kind c) @ frame (ct_algorithm c) @
     frame (ct_device_id c) @ u64_be (ct_journal_sequence c) @ frame (ct_journal_entry_hash c) @
     frame (ct_payload_media_type c) @ frame (ct_payload_sha256 c) @ frame (ct_payload c) @
     frame (ct_public_key c)"

definition sign_report_envelope ::
  "crates \<Rightarrow> DeviceIdentity \<Rightarrow> string \<Rightarrow> string \<Rightarrow> u64 \<Rightarrow> string \<Rightarrow> IdentityError + SignedReportEnvelope" where
  "sign_report_envelope X identity payload payload_media_type journal_sequence journal_entry_hash =
     (case validate_payload payload of Inl e \<Rightarrow> Inl e | Inr _ \<Rightarrow>
      case validate_media_type payload_media_type of Inl e \<Rightarrow> Inl e | Inr _ \<Rightarrow>
      if journal_sequence = 0 then Inl (InvalidEnvelopeField ''journalSequence'')
      else let public_key = identity_public_key X identity;
               device_id = identity_device_id X identity;
               payload_hash = sha256 X payload;
               content = \<lparr>ct_schema = SIGNED_REPORT_ENVELOPE_SCHEMA, ct_kind = SIGNED_REPORT_ENVELOPE_KIND,
                 ct_algorithm = SIGNED_REPORT_ENVELOPE_ALGORITHM, ct_device_id = device_id,
                 ct_journal_sequence = journal_sequence, ct_journal_entry_hash = journal_entry_hash,
                 ct_payload_media_type = payload_media_type, ct_payload_sha256 = payload_hash,
                 ct_payload = payload, ct_public_key = public_key\<rparr>;
               signature = ed_sign X (di_signing_key identity) (envelope_signature_message content)
      in Inr \<lparr>se_schema = SIGNED_REPORT_ENVELOPE_SCHEMA, se_kind = SIGNED_REPORT_ENVELOPE_KIND,
        se_algorithm = SIGNED_REPORT_ENVELOPE_ALGORITHM, se_device_id = device_id,
        se_journal_sequence = journal_sequence, se_journal_entry_hash = b64_encode X journal_entry_hash,
        se_payload_media_type = payload_media_type, se_payload_sha256 = b64_encode X payload_hash,
        se_payload = b64_encode X payload, se_public_key = b64_encode X public_key,
        se_signature = b64_encode X signature\<rparr>)"

definition verify_zeroizing :: "crates \<Rightarrow> SignedReportEnvelope \<Rightarrow> string \<Rightarrow> IdentityError + string" where
  "verify_zeroizing X e expected_public_key =
     and_then (checks
       [validate_constant_field ''schema'' (se_schema e) SIGNED_REPORT_ENVELOPE_SCHEMA,
        validate_constant_field ''kind'' (se_kind e) SIGNED_REPORT_ENVELOPE_KIND,
        validate_constant_field ''algorithm'' (se_algorithm e) SIGNED_REPORT_ENVELOPE_ALGORITHM,
        refuse (InvalidEnvelopeField ''journalSequence'') (se_journal_sequence e = 0),
        validate_media_type (se_payload_media_type e)]) (\<lambda>_.
     and_then (decode_fixed_base64url X PUBLIC_KEY_BYTES (se_public_key e) ''publicKey'') (\<lambda>embedded.
     and_then (checks
       [refuse UnexpectedPublicKey (embedded \<noteq> expected_public_key),
        refuse InvalidPublicKey (\<not> ed_valid_key X expected_public_key),
        refuse (InvalidEnvelopeField ''deviceId'')
          (se_device_id e \<noteq> device_id_for_public_key X expected_public_key)]) (\<lambda>_.
     and_then (decode_fixed_base64url X HASH_BYTES (se_journal_entry_hash e) ''journalEntryHash'') (\<lambda>journal_hash.
     and_then (decode_fixed_base64url X HASH_BYTES (se_payload_sha256 e) ''payloadSha256'') (\<lambda>payload_hash.
     and_then (decode_payload X (se_payload e)) (\<lambda>payload.
     and_then (refuse PayloadHashMismatch (payload_hash \<noteq> sha256 X payload)) (\<lambda>_.
     and_then (decode_fixed_base64url X SIGNATURE_BYTES (se_signature e) ''signature'') (\<lambda>signature.
     let content = \<lparr>ct_schema = se_schema e, ct_kind = se_kind e, ct_algorithm = se_algorithm e,
       ct_device_id = se_device_id e, ct_journal_sequence = se_journal_sequence e,
       ct_journal_entry_hash = journal_hash, ct_payload_media_type = se_payload_media_type e,
       ct_payload_sha256 = payload_hash, ct_payload = payload, ct_public_key = embedded\<rparr>
     in and_then (refuse IInvalidSignature
         (\<not> ed_verify_strict X expected_public_key (envelope_signature_message content) signature))
       (\<lambda>_. Inr payload)))))))))"

definition verify_for_device_id :: "crates \<Rightarrow> SignedReportEnvelope \<Rightarrow> string \<Rightarrow> IdentityError + string" where
  "verify_for_device_id X e expected_device_id =
     (case identity_validate_device_id expected_device_id of Inl er \<Rightarrow> Inl er | Inr _ \<Rightarrow>
      case decode_fixed_base64url X PUBLIC_KEY_BYTES (se_public_key e) ''publicKey'' of Inl er \<Rightarrow> Inl er | Inr embedded \<Rightarrow>
      if device_id_for_public_key X embedded \<noteq> expected_device_id then Inl UnexpectedDeviceId
      else verify_zeroizing X e embedded)"

definition verify_with_trust_anchors ::
  "crates \<Rightarrow> SignedReportEnvelope \<Rightarrow> string option \<Rightarrow> string option \<Rightarrow> IdentityError + string" where
  "verify_with_trust_anchors X e expected_device_id expected_public_key =
     (if expected_device_id = None \<and> expected_public_key = None then Inl MissingTrustAnchor
      else case (case expected_device_id of None \<Rightarrow> Inr () | Some device_id \<Rightarrow> identity_validate_device_id device_id) of
        Inl er \<Rightarrow> Inl er
      | Inr _ \<Rightarrow>
          (case expected_public_key of
             Some public_key \<Rightarrow>
               if (case expected_device_id of None \<Rightarrow> False
                   | Some device_id \<Rightarrow> device_id_for_public_key X public_key \<noteq> device_id)
               then Inl UnexpectedDeviceId else verify_zeroizing X e public_key
           | None \<Rightarrow>
               (case expected_device_id of None \<Rightarrow> Inl MissingTrustAnchor
                | Some device_id \<Rightarrow> verify_for_device_id X e device_id)))"

section \<open>Lemmas\<close>

lemma base64url_length: "(n * 8 + 5) div 6 = n div 3 * 4 + (if n mod 3 = 0 then 0 else if n mod 3 = 1 then 2 else 3)"
  for n :: nat
proof -
  define k r where "k = n div 3" and "r = n mod 3"
  then have n: "n = 3 * k + r" and r: "r = 0 \<or> r = 1 \<or> r = 2" by auto
  have "(n * 8 + 5) div 6 = k * 4 + (8 * r + 5) div 6"
    unfolding n by (simp add: div_mult_self1 [of 6 "8 * r + 5" "4 * k", symmetric] algebra_simps)
  then show ?thesis using r unfolding k_def [symmetric] r_def [symmetric] by auto
qed

lemma decode_encoded [simp]:
  assumes "b64_codec X"
  shows "decode_base64url X (b64_encode X s) field = Inr s"
    and "length s = n \<Longrightarrow> decode_fixed_base64url X n (b64_encode X s) field = Inr s"
    and "length s \<le> MAX_SIGNED_REPORT_PAYLOAD_BYTES \<Longrightarrow> decode_payload X (b64_encode X s) = Inr s"
proof -
  have codec: "b64_decode X (b64_encode X s) = Some s" "length (b64_encode X s) = (length s * 8 + 5) div 6"
    using assms by (simp_all add: b64_codec_def)
  show decoded: "decode_base64url X (b64_encode X s) field = Inr s" for field
    using codec by (simp add: decode_base64url_def)
  show "decode_fixed_base64url X n (b64_encode X s) field = Inr s" if "length s = n"
    using that codec(2) by (simp add: decode_fixed_base64url_def decoded base64url_length [of n])
  show "decode_payload X (b64_encode X s) = Inr s" if "length s \<le> MAX_SIGNED_REPORT_PAYLOAD_BYTES"
  proof -
    have "(length s * 8 + 5) div 6 \<le> 1398104"
      using that by (simp add: MAX_SIGNED_REPORT_PAYLOAD_BYTES_def)
    then show ?thesis
      using that codec(2)
      by (simp add: decode_payload_def decoded validate_payload_def MAX_SIGNED_REPORT_PAYLOAD_BYTES_def)
  qed
qed

lemma device_id_valid:
  assumes "sha256_width X"
  shows "identity_validate_device_id (device_id_for_public_key X key) = Inr ()"
    and "valid_device_id (device_id_for_public_key X key)"
  using assms hex_sha256_lower_hex
  by (simp_all add: identity_validate_device_id_def valid_device_id_def device_id_for_public_key_def
      sha256_width_def)

lemma sign_report_envelope_Inr:
  assumes "sign_report_envelope X identity payload media n hash = Inr e"
  shows "length payload \<le> MAX_SIGNED_REPORT_PAYLOAD_BYTES" "validate_media_type media = Inr ()" "n \<noteq> 0"
    "e = \<lparr>se_schema = SIGNED_REPORT_ENVELOPE_SCHEMA, se_kind = SIGNED_REPORT_ENVELOPE_KIND,
        se_algorithm = SIGNED_REPORT_ENVELOPE_ALGORITHM, se_device_id = identity_device_id X identity,
        se_journal_sequence = n, se_journal_entry_hash = b64_encode X hash,
        se_payload_media_type = media, se_payload_sha256 = b64_encode X (sha256 X payload),
        se_payload = b64_encode X payload, se_public_key = b64_encode X (identity_public_key X identity),
        se_signature = b64_encode X (ed_sign X (di_signing_key identity) (envelope_signature_message
          \<lparr>ct_schema = SIGNED_REPORT_ENVELOPE_SCHEMA, ct_kind = SIGNED_REPORT_ENVELOPE_KIND,
           ct_algorithm = SIGNED_REPORT_ENVELOPE_ALGORITHM, ct_device_id = identity_device_id X identity,
           ct_journal_sequence = n, ct_journal_entry_hash = hash, ct_payload_media_type = media,
           ct_payload_sha256 = sha256 X payload, ct_payload = payload,
           ct_public_key = identity_public_key X identity\<rparr>))\<rparr>"
  using assms by (auto simp: sign_report_envelope_def Let_def validate_payload_def)

lemma verify_signed:
  assumes X: "sha256_width X" "b64_codec X" "ed25519_correct X"
    and key: "length (identity_public_key X identity) = 32" and hash: "length hash = 32"
    and signed: "sign_report_envelope X identity payload media n hash = Inr e"
  shows "verify_zeroizing X e (identity_public_key X identity) = Inr payload"
    and "verify_for_device_id X e (identity_device_id X identity) = Inr payload"
proof -
  note e = sign_report_envelope_Inr [OF signed]
  have sig: "length (ed_sign X seed m) = 64" "ed_valid_key X (ed_public X seed)"
    "ed_verify_strict X (ed_public X seed) m (ed_sign X seed m)" "length (sha256 X payload) = 32" for seed m
    using X by (simp_all add: ed25519_correct_def sha256_width_def)
  note key' = key [unfolded identity_public_key_def]
  show zeroizing: "verify_zeroizing X e (identity_public_key X identity) = Inr payload"
    using key' hash sig e(1-3)
    by (simp add: verify_zeroizing_def e(4) Let_def validate_constant_field_def decode_encoded [OF X(2)]
        PUBLIC_KEY_BYTES_def HASH_BYTES_def SIGNATURE_BYTES_def identity_device_id_def identity_public_key_def)
  have "decode_fixed_base64url X PUBLIC_KEY_BYTES (se_public_key e) ''publicKey'' = Inr (identity_public_key X identity)"
    using key by (simp add: e(4) PUBLIC_KEY_BYTES_def decode_encoded [OF X(2)])
  then show "verify_for_device_id X e (identity_device_id X identity) = Inr payload"
    using zeroizing device_id_valid(1) [OF X(1)]
    by (simp add: verify_for_device_id_def identity_device_id_def)
qed

lemma verify_zeroizing_key:
  "verify_zeroizing X e key = Inr p \<Longrightarrow>
   decode_fixed_base64url X PUBLIC_KEY_BYTES (se_public_key e) ''publicKey'' = Inr key"
  unfolding verify_zeroizing_def Let_def by auto

definition content_texts :: "EnvelopeContent \<Rightarrow> string list" where
  "content_texts c = [ct_schema c, ct_kind c, ct_algorithm c, ct_device_id c, ct_journal_entry_hash c,
     ct_payload_media_type c, ct_payload_sha256 c, ct_payload c, ct_public_key c]"

lemma envelope_message_binds:
  assumes eq: "envelope_signature_message c = envelope_signature_message d"
    and fits: "list_all fits (content_texts c)" "list_all fits (content_texts d)"
  shows "c = d"
proof -
  let ?head = "\<lambda>c. [ct_schema c, ct_kind c, ct_algorithm c, ct_device_id c]"
  let ?tail = "\<lambda>c. [ct_journal_entry_hash c, ct_payload_media_type c, ct_payload_sha256 c, ct_payload c,
    ct_public_key c]"
  have "frames (?head c) @ (u64_be (ct_journal_sequence c) @ frames (?tail c)) =
    frames (?head d) @ (u64_be (ct_journal_sequence d) @ frames (?tail d))"
    using eq by (simp add: envelope_signature_message_def frames_def)
  from frames_rest [OF this] have "?head c = ?head d \<and>
    u64_be (ct_journal_sequence c) @ frames (?tail c) = u64_be (ct_journal_sequence d) @ frames (?tail d)"
    using fits by (simp add: content_texts_def)
  then have head: "?head c = ?head d" and rest:
    "u64_be (ct_journal_sequence c) @ frames (?tail c) = u64_be (ct_journal_sequence d) @ frames (?tail d)"
    by blast+
  from be64.enc_rest [OF TrueI TrueI rest]
  have seq: "ct_journal_sequence c = ct_journal_sequence d" and tail: "frames (?tail c) @ [] = frames (?tail d) @ []"
    by simp_all
  from frames_rest [OF tail] have "?tail c = ?tail d" using fits by (simp add: content_texts_def)
  with head seq show ?thesis by simp
qed

section \<open>Properties\<close>

text \<open>
  C38: a report envelope an identity signs is accepted under each kind of trust anchor (the pinned
  key, the pinned device fingerprint, and both), returns exactly the signed payload, and is
  accepted under no other key.
\<close>

theorem report_envelope_round_trip:
  assumes X: "sha256_width X" "b64_codec X" "ed25519_correct X"
    and key: "length (identity_public_key X identity) = 32" and hash: "length hash = 32"
    and signed: "sign_report_envelope X identity payload media n hash = Inr e"
  shows "verify_with_trust_anchors X e None (Some (identity_public_key X identity)) = Inr payload \<and>
    verify_with_trust_anchors X e (Some (identity_device_id X identity)) None = Inr payload \<and>
    verify_with_trust_anchors X e (Some (identity_device_id X identity)) (Some (identity_public_key X identity)) =
      Inr payload \<and>
    (\<forall>other q. verify_zeroizing X e other = Inr q \<longrightarrow> other = identity_public_key X identity \<and> q = payload)"
proof -
  note verified = verify_signed [OF assms]
  have "other = identity_public_key X identity" if "verify_zeroizing X e other = Inr q" for other q
    using verify_zeroizing_key [OF that] key
    by (simp add: sign_report_envelope_Inr(4) [OF signed] PUBLIC_KEY_BYTES_def decode_encoded [OF X(2)])
  then have only: "\<forall>other q. verify_zeroizing X e other = Inr q \<longrightarrow> other = identity_public_key X identity \<and> q = payload"
    using verified(1) by (metis sum.inject(2))
  have "identity_validate_device_id (identity_device_id X identity) = Inr ()"
    using device_id_valid(1) [OF X(1)] by (simp add: identity_device_id_def)
  moreover have "device_id_for_public_key X (identity_public_key X identity) = identity_device_id X identity"
    by (simp add: identity_device_id_def)
  ultimately show ?thesis
    using verified by (intro conjI only) (simp_all add: verify_with_trust_anchors_def)
qed

theorem report_envelope_round_trip_witness:
  "\<exists>e. sign_report_envelope sample_crates \<lparr>di_signing_key = replicate 32 CHR ''k''\<rparr> ''ok'' ''text/plain'' 1
      (replicate 32 CHR 0x00) = Inr e \<and>
    verify_with_trust_anchors sample_crates e None (Some (replicate 32 CHR ''k'')) = Inr ''ok''"
proof -
  let ?identity = "\<lparr>di_signing_key = replicate 32 CHR ''k''\<rparr>"
  have "validate_media_type ''text/plain'' = Inr ()"
    by (simp add: validate_media_type_def MAX_MEDIA_TYPE_BYTES_def trim_spaces_def is_media_type_token_def
        ascii_class_defs)
  then obtain e where e: "sign_report_envelope sample_crates ?identity ''ok'' ''text/plain'' 1
      (replicate 32 CHR 0x00) = Inr e"
    by (simp add: sign_report_envelope_def validate_payload_def MAX_SIGNED_REPORT_PAYLOAD_BYTES_def Let_def)
  have "verify_with_trust_anchors sample_crates e None (Some (identity_public_key sample_crates ?identity)) =
      Inr ''ok''"
    using report_envelope_round_trip [OF sample_crates_behaviour(3,2,4) _ _ e]
    by (simp add: identity_public_key_def)
  with e show ?thesis by (simp add: identity_public_key_def)
qed

end
