(* ===== verification/KA_Fleet_Audit.thy ===== *)
theory KA_Fleet_Audit
  imports KA_Identity
begin

text \<open>
  Signed, hash-chained audit events, \<^verbatim>\<open>crates/fleet-audit/src/lib.rs\<close>: event
  content and its validation, envelopes signed with the device identity, and the checkpoint that
  admits the events of one session in order.
\<close>

section \<open>Data\<close>

datatype AuditKind =
    DiagnosticStarted | DiagnosticCompleted | RepairProposed | AuthorizationDecision | RepairStarted
  | RepairCompleted | RollbackStarted | RollbackCompleted | PolicyApplied

datatype AuditOutcome = Pending | Started | Allowed | Succeeded | Failed | Denied | Cancelled

datatype AuditRisk = AR0 | AR1 | AR2 | AR3 | AR4

record AuditEventContent =
  av_tenant_id :: string
  av_session_id :: string
  av_event_id :: string
  av_sequence :: u64
  av_previous_event_sha256 :: "string option"
  av_occurred_at :: string
  av_kind :: AuditKind
  av_outcome :: AuditOutcome
  av_risk :: "AuditRisk option"
  av_action_id :: "string option"
  av_target_sha256 :: "string option"
  av_report_sha256 :: "string option"
  av_evidence_sha256 :: "string list"

record SignedAuditEnvelope =
  ae_schema :: string
  ae_tenant_id :: string
  ae_device_id :: string
  ae_session_id :: string
  ae_event_id :: string
  ae_sequence :: u64
  ae_previous_event_sha256 :: "string option"
  ae_occurred_at :: string
  ae_kind :: AuditKind
  ae_outcome :: AuditOutcome
  ae_risk :: "AuditRisk option"
  ae_action_id :: "string option"
  ae_target_sha256 :: "string option"
  ae_report_sha256 :: "string option"
  ae_evidence_sha256 :: "string list"
  ae_signature :: string

datatype FleetAuditError =
    AInvalidField string
  | AInvalidEventSemantics
  | AInvalidJson
  | AUnsupportedJsonValue
  | AUnsafeInteger
  | ANonCanonicalJson
  | AEventTooLarge
  | AInvalidSignature
  | AUnexpectedTenant
  | AUnexpectedDevice
  | AInvalidChainStart
  | AUnexpectedChain
  | ANonContiguousSequence
  | AChainFork
  | ASequenceExhausted

definition AUDIT_ENVELOPE_SCHEMA :: string where
  "AUDIT_ENVELOPE_SCHEMA = ''dev.kernaid.fleet.audit-envelope.v1''"

definition AUDIT_CHECKPOINT_SCHEMA :: string where
  "AUDIT_CHECKPOINT_SCHEMA = ''dev.kernaid.fleet.audit-checkpoint.v1''"

definition AUDIT_SIGNATURE_DOMAIN :: string where
  "AUDIT_SIGNATURE_DOMAIN = domain_tag ''kernaid:fleet:audit:v1''"

definition MAX_EVENT_BYTES :: nat where
  "MAX_EVENT_BYTES = 64 * 1024"

definition MAX_AUDIT_CHECKPOINT_BYTES :: nat where
  "MAX_AUDIT_CHECKPOINT_BYTES = 4 * 1024"

definition MAX_TIMESTAMP_BYTES :: nat where
  "MAX_TIMESTAMP_BYTES = 64"

definition MAX_EVIDENCE_DIGESTS :: nat where
  "MAX_EVIDENCE_DIGESTS = 64"

definition audit_json_errors :: "FleetAuditError json_errors" where
  "audit_json_errors = \<lparr>invalid_json = AInvalidJson, unsupported_value = AUnsupportedJsonValue,
     unsafe_integer = AUnsafeInteger, non_canonical = ANonCanonicalJson, too_large = AEventTooLarge\<rparr>"

definition audit_canonical_json :: "crates \<Rightarrow> json \<Rightarrow> FleetAuditError + string" where
  "audit_canonical_json X = canonical_json audit_json_errors (quote_str X)"

section \<open>Validators\<close>

definition validate_sequence_and_chain :: "u64 \<Rightarrow> string option \<Rightarrow> FleetAuditError + unit" where
  "validate_sequence_and_chain sequence previous_event_sha256 =
     (case validate_safe_nonzero AInvalidField ''sequence'' sequence of Inl e \<Rightarrow> Inl e | Inr _ \<Rightarrow>
      case previous_event_sha256 of
        None \<Rightarrow> if sequence = 1 then Inr () else Inl (AInvalidField ''previousEventSha256'')
      | Some digest \<Rightarrow>
          if sequence = 1 then Inl (AInvalidField ''previousEventSha256'')
          else validate_sha256 AInvalidField ''previousEventSha256'' digest)"

definition validate_kind_outcome :: "AuditKind \<Rightarrow> AuditOutcome \<Rightarrow> FleetAuditError + unit" where
  "validate_kind_outcome kind outcome =
     (let valid = (case kind of
          DiagnosticStarted \<Rightarrow> outcome = Started
        | RepairStarted \<Rightarrow> outcome = Started
        | RollbackStarted \<Rightarrow> outcome = Started
        | DiagnosticCompleted \<Rightarrow> outcome \<in> {Succeeded, Failed, Cancelled}
        | RepairCompleted \<Rightarrow> outcome \<in> {Succeeded, Failed, Cancelled}
        | RollbackCompleted \<Rightarrow> outcome \<in> {Succeeded, Failed, Cancelled}
        | RepairProposed \<Rightarrow> outcome = Pending
        | AuthorizationDecision \<Rightarrow> outcome \<in> {Allowed, Denied}
        | PolicyApplied \<Rightarrow> outcome \<in> {Succeeded, Failed})
      in if \<not> valid then Inl AInvalidEventSemantics else Inr ())"

definition validate_action ::
  "AuditKind \<Rightarrow> AuditOutcome \<Rightarrow> AuditRisk option \<Rightarrow> string option \<Rightarrow> FleetAuditError + unit" where
  "validate_action kind outcome risk action_id =
     (case (case action_id of None \<Rightarrow> Inr () | Some a \<Rightarrow> validate_identifier AInvalidField ''actionId'' a) of
        Inl e \<Rightarrow> Inl e
      | Inr _ \<Rightarrow>
          let action_required = (kind \<in> {RepairProposed, AuthorizationDecision, RepairStarted, RepairCompleted,
            RollbackStarted, RollbackCompleted})
          in if action_required \<and> (action_id = None \<or> risk = None) then Inl AInvalidEventSemantics
          else if risk = Some AR4 \<and> \<not> (kind = AuthorizationDecision \<and> outcome = Denied)
          then Inl AInvalidEventSemantics
          else Inr ())"

definition validate_timestamp :: "crates \<Rightarrow> string \<Rightarrow> FleetAuditError + unit" where
  "validate_timestamp X v =
     (if v = [] \<or> length v > MAX_TIMESTAMP_BYTES \<or> \<not> rfc3339_ok X v then Inl (AInvalidField ''occurredAt'')
      else Inr ())"

definition validate_optional_sha256 :: "string \<Rightarrow> string option \<Rightarrow> FleetAuditError + unit" where
  "validate_optional_sha256 field v =
     (case v of None \<Rightarrow> Inr () | Some d \<Rightarrow> validate_sha256 AInvalidField field d)"

definition validate_evidence_digests :: "string list \<Rightarrow> FleetAuditError + unit" where
  "validate_evidence_digests vs =
     (if length vs > MAX_EVIDENCE_DIGESTS then Inl (AInvalidField ''evidenceSha256'')
      else case try_for_each (validate_sha256 AInvalidField ''evidenceSha256'') vs of Inl e \<Rightarrow> Inl e | Inr _ \<Rightarrow>
      if list_ex (\<lambda>(a, b). a \<ge> b) (windows2 vs) then Inl (AInvalidField ''evidenceSha256'') else Inr ())"

text \<open>The identity crate's device-id check with its error mapped to a field of this crate.\<close>

definition audit_validate_device_id :: "string \<Rightarrow> string \<Rightarrow> FleetAuditError + unit" where
  "audit_validate_device_id field device_id =
     (case identity_validate_device_id device_id of Inl _ \<Rightarrow> Inl (AInvalidField field) | Inr _ \<Rightarrow> Inr ())"

definition audit_validate_unsigned :: "crates \<Rightarrow> SignedAuditEnvelope \<Rightarrow> FleetAuditError + unit" where
  "audit_validate_unsigned X e = checks
     [refuse (AInvalidField ''schema'') (ae_schema e \<noteq> AUDIT_ENVELOPE_SCHEMA),
      validate_identifier AInvalidField ''tenantId'' (ae_tenant_id e),
      audit_validate_device_id ''deviceId'' (ae_device_id e),
      validate_identifier AInvalidField ''sessionId'' (ae_session_id e),
      validate_identifier AInvalidField ''eventId'' (ae_event_id e),
      validate_sequence_and_chain (ae_sequence e) (ae_previous_event_sha256 e),
      validate_timestamp X (ae_occurred_at e),
      validate_kind_outcome (ae_kind e) (ae_outcome e),
      validate_action (ae_kind e) (ae_outcome e) (ae_risk e) (ae_action_id e),
      validate_optional_sha256 ''targetSha256'' (ae_target_sha256 e),
      validate_optional_sha256 ''reportSha256'' (ae_report_sha256 e),
      validate_evidence_digests (ae_evidence_sha256 e)]"

definition audit_validate :: "crates \<Rightarrow> SignedAuditEnvelope \<Rightarrow> FleetAuditError + unit" where
  "audit_validate X e =
     (case audit_validate_unsigned X e of Inl er \<Rightarrow> Inl er | Inr _ \<Rightarrow>
      case decode_signature AInvalidField X (ae_signature e) of Inl er \<Rightarrow> Inl er | Inr _ \<Rightarrow> Inr ())"

section \<open>Envelopes\<close>

fun audit_kind_name :: "AuditKind \<Rightarrow> string" where
  "audit_kind_name DiagnosticStarted = ''diagnostic_started''"
| "audit_kind_name DiagnosticCompleted = ''diagnostic_completed''"
| "audit_kind_name RepairProposed = ''repair_proposed''"
| "audit_kind_name AuthorizationDecision = ''authorization_decision''"
| "audit_kind_name RepairStarted = ''repair_started''"
| "audit_kind_name RepairCompleted = ''repair_completed''"
| "audit_kind_name RollbackStarted = ''rollback_started''"
| "audit_kind_name RollbackCompleted = ''rollback_completed''"
| "audit_kind_name PolicyApplied = ''policy_applied''"

fun audit_outcome_name :: "AuditOutcome \<Rightarrow> string" where
  "audit_outcome_name Pending = ''pending''"
| "audit_outcome_name Started = ''started''"
| "audit_outcome_name Allowed = ''allowed''"
| "audit_outcome_name Succeeded = ''succeeded''"
| "audit_outcome_name Failed = ''failed''"
| "audit_outcome_name Denied = ''denied''"
| "audit_outcome_name Cancelled = ''cancelled''"

fun audit_risk_name :: "AuditRisk \<Rightarrow> string" where
  "audit_risk_name AR0 = ''R0''"
| "audit_risk_name AR1 = ''R1''"
| "audit_risk_name AR2 = ''R2''"
| "audit_risk_name AR3 = ''R3''"
| "audit_risk_name AR4 = ''R4''"

definition optional_json :: "string option \<Rightarrow> json" where
  "optional_json v = (case v of None \<Rightarrow> JNull | Some s \<Rightarrow> JString s)"

definition audit_members :: "SignedAuditEnvelope \<Rightarrow> (string \<times> json) list" where
  "audit_members e =
     [(''schema'', JString (ae_schema e)),
      (''tenantId'', JString (ae_tenant_id e)),
      (''deviceId'', JString (ae_device_id e)),
      (''sessionId'', JString (ae_session_id e)),
      (''eventId'', JString (ae_event_id e)),
      (''sequence'', JNumber (PosInt (ae_sequence e))),
      (''previousEventSha256'', optional_json (ae_previous_event_sha256 e)),
      (''occurredAt'', JString (ae_occurred_at e)),
      (''kind'', JString (audit_kind_name (ae_kind e))),
      (''outcome'', JString (audit_outcome_name (ae_outcome e))),
      (''risk'', optional_json (map_option audit_risk_name (ae_risk e))),
      (''actionId'', optional_json (ae_action_id e)),
      (''targetSha256'', optional_json (ae_target_sha256 e)),
      (''reportSha256'', optional_json (ae_report_sha256 e)),
      (''evidenceSha256'', JArray (map JString (ae_evidence_sha256 e)))]"

definition audit_json :: "SignedAuditEnvelope \<Rightarrow> json" where
  "audit_json e = object (audit_members e @ [(''signature'', JString (ae_signature e))])"

definition audit_unsigned_canonical :: "crates \<Rightarrow> SignedAuditEnvelope \<Rightarrow> FleetAuditError + string" where
  "audit_unsigned_canonical X e = audit_canonical_json X (object (audit_members e))"

definition audit_signature_payload :: "string \<Rightarrow> FleetAuditError + string" where
  "audit_signature_payload canonical =
     (if length AUDIT_SIGNATURE_DOMAIN + 8 + length canonical \<ge> 2 ^ 64 then Inl AEventTooLarge
      else Inr (AUDIT_SIGNATURE_DOMAIN @ frame canonical))"

definition export_offline :: "crates \<Rightarrow> SignedAuditEnvelope \<Rightarrow> FleetAuditError + string" where
  "export_offline X e =
     (case audit_validate X e of Inl er \<Rightarrow> Inl er | Inr _ \<Rightarrow>
      case audit_canonical_json X (audit_json e) of Inl er \<Rightarrow> Inl er | Inr bytes \<Rightarrow>
      case validate_size audit_json_errors (length bytes) MAX_EVENT_BYTES of Inl er \<Rightarrow> Inl er | Inr _ \<Rightarrow>
      Inr bytes)"

definition event_sha256 :: "crates \<Rightarrow> SignedAuditEnvelope \<Rightarrow> FleetAuditError + string" where
  "event_sha256 X e =
     (case export_offline X e of Inl er \<Rightarrow> Inl er | Inr bytes \<Rightarrow> Inr (hex_sha256 (sha256 X bytes)))"

record VerifiedAuditEnvelope =
  va_envelope :: SignedAuditEnvelope
  va_digest :: string

definition audit_sign ::
  "crates \<Rightarrow> DeviceIdentity \<Rightarrow> AuditEventContent \<Rightarrow> FleetAuditError + SignedAuditEnvelope" where
  "audit_sign X identity content =
     (let envelope = \<lparr>ae_schema = AUDIT_ENVELOPE_SCHEMA, ae_tenant_id = av_tenant_id content,
        ae_device_id = identity_device_id X identity, ae_session_id = av_session_id content,
        ae_event_id = av_event_id content, ae_sequence = av_sequence content,
        ae_previous_event_sha256 = av_previous_event_sha256 content,
        ae_occurred_at = av_occurred_at content, ae_kind = av_kind content, ae_outcome = av_outcome content,
        ae_risk = av_risk content, ae_action_id = av_action_id content,
        ae_target_sha256 = av_target_sha256 content, ae_report_sha256 = av_report_sha256 content,
        ae_evidence_sha256 = av_evidence_sha256 content, ae_signature = []\<rparr>
      in and_then (audit_validate_unsigned X envelope) (\<lambda>_.
         and_then (audit_unsigned_canonical X envelope) (\<lambda>unsigned_bytes.
         and_then (audit_signature_payload unsigned_bytes) (\<lambda>audit_payload.
         let signed = envelope\<lparr>ae_signature := b64_encode X (sr_signature (sign_report X identity audit_payload))\<rparr>
         in and_then (audit_validate X signed) (\<lambda>_. Inr signed)))))"

definition audit_verify ::
  "crates \<Rightarrow> SignedAuditEnvelope \<Rightarrow> string \<Rightarrow> string \<Rightarrow> string \<Rightarrow> FleetAuditError + VerifiedAuditEnvelope" where
  "audit_verify X e expected_tenant_id expected_device_id enrolled_public_key =
     and_then (checks
       [audit_validate X e,
        validate_identifier AInvalidField ''expectedTenantId'' expected_tenant_id,
        audit_validate_device_id ''expectedDeviceId'' expected_device_id,
        refuse AUnexpectedTenant (ae_tenant_id e \<noteq> expected_tenant_id),
        refuse AUnexpectedDevice (ae_device_id e \<noteq> expected_device_id
          \<or> device_id_for_public_key X enrolled_public_key \<noteq> expected_device_id)]) (\<lambda>_.
     and_then (decode_signature AInvalidField X (ae_signature e)) (\<lambda>signature.
     and_then (audit_unsigned_canonical X e) (\<lambda>unsigned_bytes.
     and_then (audit_signature_payload unsigned_bytes) (\<lambda>audit_payload.
     and_then (map_sum (\<lambda>_. AInvalidSignature) id
       (report_verify X \<lparr>sr_payload = audit_payload, sr_public_key = enrolled_public_key,
          sr_signature = signature\<rparr> enrolled_public_key)) (\<lambda>_.
     and_then (export_offline X e) (\<lambda>canonical.
     Inr \<lparr>va_envelope = e, va_digest = sha256 X canonical\<rparr>))))))"

definition import_offline ::
  "crates \<Rightarrow> (string \<Rightarrow> json option) \<Rightarrow> (string \<Rightarrow> SignedAuditEnvelope option) \<Rightarrow> string \<Rightarrow> string \<Rightarrow> string \<Rightarrow>
   string \<Rightarrow> FleetAuditError + VerifiedAuditEnvelope" where
  "import_offline X from_value from_doc bytes expected_tenant_id expected_device_id enrolled_public_key =
     (case import_canonical audit_json_errors (quote_str X) from_value from_doc audit_json
         MAX_EVENT_BYTES bytes of Inl er \<Rightarrow> Inl er | Inr envelope \<Rightarrow>
      audit_verify X envelope expected_tenant_id expected_device_id enrolled_public_key)"

section \<open>The chain checkpoint\<close>

record AuditChainCheckpoint =
  ac_schema :: string
  ac_tenant_id :: string
  ac_device_id :: string
  ac_session_id :: string
  ac_last_sequence :: u64
  ac_last_event_sha256 :: string

datatype ChainAdmission = ChainAdvanced | ChainIdempotentReplay

definition verified_event_sha256 :: "VerifiedAuditEnvelope \<Rightarrow> string" where
  "verified_event_sha256 v = hex_sha256 (va_digest v)"

definition audit_checkpoint_start :: "VerifiedAuditEnvelope \<Rightarrow> FleetAuditError + AuditChainCheckpoint" where
  "audit_checkpoint_start first =
     (if ae_sequence (va_envelope first) \<noteq> 1 \<or> ae_previous_event_sha256 (va_envelope first) \<noteq> None
      then Inl AInvalidChainStart
      else Inr \<lparr>ac_schema = AUDIT_CHECKPOINT_SCHEMA, ac_tenant_id = ae_tenant_id (va_envelope first),
        ac_device_id = ae_device_id (va_envelope first), ac_session_id = ae_session_id (va_envelope first),
        ac_last_sequence = 1, ac_last_event_sha256 = verified_event_sha256 first\<rparr>)"

definition audit_checkpoint_validate :: "AuditChainCheckpoint \<Rightarrow> FleetAuditError + unit" where
  "audit_checkpoint_validate k = checks
     [refuse (AInvalidField ''checkpoint.schema'') (ac_schema k \<noteq> AUDIT_CHECKPOINT_SCHEMA),
      validate_identifier AInvalidField ''checkpoint.tenantId'' (ac_tenant_id k),
      audit_validate_device_id ''checkpoint.deviceId'' (ac_device_id k),
      validate_identifier AInvalidField ''checkpoint.sessionId'' (ac_session_id k),
      validate_safe_nonzero AInvalidField ''checkpoint.lastSequence'' (ac_last_sequence k),
      validate_sha256 AInvalidField ''checkpoint.lastEventSha256'' (ac_last_event_sha256 k)]"

definition audit_checkpoint_admit ::
  "AuditChainCheckpoint \<Rightarrow> VerifiedAuditEnvelope \<Rightarrow> FleetAuditError + (AuditChainCheckpoint \<times> ChainAdmission)" where
  "audit_checkpoint_admit k event =
     and_then (audit_checkpoint_validate k) (\<lambda>_.
     let e = va_envelope event; digest = verified_event_sha256 event in
     if ac_tenant_id k \<noteq> ae_tenant_id e \<or> ac_device_id k \<noteq> ae_device_id e \<or> ac_session_id k \<noteq> ae_session_id e
     then Inl AUnexpectedChain
     else if ae_sequence e = ac_last_sequence k
     then if digest = ac_last_event_sha256 k then Inr (k, ChainIdempotentReplay) else Inl AChainFork
     else case checked_add (ac_last_sequence k) 1 of
       None \<Rightarrow> Inl ASequenceExhausted
     | Some expected_sequence \<Rightarrow>
         if \<not> expected_sequence \<le> MAX_SAFE_JSON_INTEGER then Inl ASequenceExhausted
         else if ae_sequence e \<noteq> expected_sequence then Inl ANonContiguousSequence
         else if ae_previous_event_sha256 e \<noteq> Some (ac_last_event_sha256 k) then Inl AChainFork
         else Inr (k\<lparr>ac_last_sequence := ae_sequence e, ac_last_event_sha256 := digest\<rparr>, ChainAdvanced))"

definition audit_checkpoint_json :: "AuditChainCheckpoint \<Rightarrow> json" where
  "audit_checkpoint_json k = object
     [(''schema'', JString (ac_schema k)), (''tenantId'', JString (ac_tenant_id k)),
      (''deviceId'', JString (ac_device_id k)), (''sessionId'', JString (ac_session_id k)),
      (''lastSequence'', JNumber (PosInt (ac_last_sequence k))),
      (''lastEventSha256'', JString (ac_last_event_sha256 k))]"

definition audit_checkpoint_export :: "crates \<Rightarrow> AuditChainCheckpoint \<Rightarrow> FleetAuditError + string" where
  "audit_checkpoint_export X k =
     and_then (audit_checkpoint_validate k) (\<lambda>_.
     and_then (audit_canonical_json X (audit_checkpoint_json k)) (\<lambda>bytes.
     and_then (validate_size audit_json_errors (length bytes) MAX_AUDIT_CHECKPOINT_BYTES) (\<lambda>_. Inr bytes)))"

definition audit_checkpoint_import ::
  "crates \<Rightarrow> (string \<Rightarrow> json option) \<Rightarrow> (string \<Rightarrow> AuditChainCheckpoint option) \<Rightarrow> string \<Rightarrow>
   FleetAuditError + AuditChainCheckpoint" where
  "audit_checkpoint_import X from_value from_doc bytes =
     and_then (import_canonical audit_json_errors (quote_str X) from_value from_doc audit_checkpoint_json
       MAX_AUDIT_CHECKPOINT_BYTES bytes) (\<lambda>checkpoint.
     and_then (audit_checkpoint_validate checkpoint) (\<lambda>_. Inr checkpoint))"

section \<open>Admission\<close>

lemma audit_admit_cases:
  assumes "audit_checkpoint_admit k v = Inr (k', adm)"
  obtains (replay) "k' = k" and "adm = ChainIdempotentReplay"
      and "ae_sequence (va_envelope v) = ac_last_sequence k" and "verified_event_sha256 v = ac_last_event_sha256 k"
  | (advance) "k' = k\<lparr>ac_last_sequence := ae_sequence (va_envelope v), ac_last_event_sha256 := verified_event_sha256 v\<rparr>"
      and "adm = ChainAdvanced"
      and "unat (ae_sequence (va_envelope v)) = unat (ac_last_sequence k) + 1"
      and "ae_sequence (va_envelope v) \<le> MAX_SAFE_JSON_INTEGER"
      and "ae_previous_event_sha256 (va_envelope v) = Some (ac_last_event_sha256 k)"
      and "ac_tenant_id k = ae_tenant_id (va_envelope v)" and "ac_device_id k = ae_device_id (va_envelope v)"
      and "ac_session_id k = ae_session_id (va_envelope v)"
proof -
  show thesis
  proof (cases "ae_sequence (va_envelope v) = ac_last_sequence k")
    case True
    then show ?thesis
      using assms by (intro replay) (auto simp: audit_checkpoint_admit_def Let_def split: if_splits)
  next
    case False
    then show ?thesis
      using assms by (intro advance) (auto simp: audit_checkpoint_admit_def Let_def
        split: if_splits option.splits dest: checked_add_Some)
  qed
qed

interpretation audit_register: anti_rollback
  "\<lambda>k v. map_sum id fst (audit_checkpoint_admit k v)"
  "\<lambda>k. Some (ac_last_sequence k, ac_last_event_sha256 k)"
  "\<lambda>v. ae_sequence (va_envelope v)" verified_event_sha256
proof
  fix s d s'
  assume "map_sum id fst (audit_checkpoint_admit s d) = Inr s'"
  then obtain adm where "audit_checkpoint_admit s d = Inr (s', adm)" by auto
  then show "register_admit (Some (ac_last_sequence s, ac_last_event_sha256 s)) (ae_sequence (va_envelope d))
    (verified_event_sha256 d) = Some (Some (ac_last_sequence s', ac_last_event_sha256 s'))"
    by (cases rule: audit_admit_cases) (auto simp: word_less_nat_alt)
qed

text \<open>The events a checkpoint advances over, out of all that are presented to it.\<close>

fun audit_run ::
  "AuditChainCheckpoint \<Rightarrow> VerifiedAuditEnvelope list \<Rightarrow> AuditChainCheckpoint \<times> VerifiedAuditEnvelope list" where
  "audit_run k [] = (k, [])"
| "audit_run k (v # vs) =
     (case audit_checkpoint_admit k v of
        Inr (k', ChainAdvanced) \<Rightarrow> (case audit_run k' vs of (t, acc) \<Rightarrow> (t, v # acc))
      | Inr (k', ChainIdempotentReplay) \<Rightarrow> audit_run k' vs
      | Inl _ \<Rightarrow> audit_run k vs)"

text \<open>
  The specification: a chain starts at sequence one without a predecessor, and every further
  event of the same tenant, device and session carries the next number and the digest of the
  event before it.
\<close>

definition follows :: "VerifiedAuditEnvelope \<Rightarrow> VerifiedAuditEnvelope \<Rightarrow> bool" where
  "follows v w \<longleftrightarrow>
     unat (ae_sequence (va_envelope w)) = unat (ae_sequence (va_envelope v)) + 1 \<and>
     ae_previous_event_sha256 (va_envelope w) = Some (verified_event_sha256 v) \<and>
     ae_tenant_id (va_envelope w) = ae_tenant_id (va_envelope v) \<and>
     ae_device_id (va_envelope w) = ae_device_id (va_envelope v) \<and>
     ae_session_id (va_envelope w) = ae_session_id (va_envelope v)"

fun linked :: "VerifiedAuditEnvelope list \<Rightarrow> bool" where
  "linked (v # w # ws) = (follows v w \<and> linked (w # ws))"
| "linked _ = True"

definition checkpoint_of :: "VerifiedAuditEnvelope \<Rightarrow> AuditChainCheckpoint" where
  "checkpoint_of v =
     \<lparr>ac_schema = AUDIT_CHECKPOINT_SCHEMA, ac_tenant_id = ae_tenant_id (va_envelope v),
      ac_device_id = ae_device_id (va_envelope v), ac_session_id = ae_session_id (va_envelope v),
      ac_last_sequence = ae_sequence (va_envelope v), ac_last_event_sha256 = verified_event_sha256 v\<rparr>"

lemma audit_run_chain:
  "audit_run (checkpoint_of v) vs = (k, acc) \<Longrightarrow> linked (v # acc) \<and> k = checkpoint_of (last (v # acc))"
proof (induction vs arbitrary: v acc)
  case Nil
  then show ?case by simp
next
  case (Cons w vs)
  show ?case
  proof (cases "audit_checkpoint_admit (checkpoint_of v) w")
    case (Inl e)
    then show ?thesis using Cons by simp
  next
    case (Inr r)
    obtain k' adm where r: "r = (k', adm)" by (cases r)
    from Inr [unfolded r] show ?thesis
    proof (cases rule: audit_admit_cases)
      case replay
      then show ?thesis using Cons Inr r by simp
    next
      case advance
      then have "k' = checkpoint_of w" and "follows v w"
        by (simp_all add: checkpoint_of_def follows_def)
      moreover obtain rest where "audit_run k' vs = (k, rest)" "acc = w # rest"
        using Cons.prems Inr r advance(2) by (auto split: prod.splits)
      ultimately show ?thesis using Cons.IH [of w rest] by simp
    qed
  qed
qed

lemma audit_run_subset: "audit_run k vs = (t, acc) \<Longrightarrow> set acc \<subseteq> set vs"
  by (induction k vs arbitrary: t acc rule: audit_run.induct)
    (auto split: sum.splits prod.splits ChainAdmission.splits, blast+)

lemma audit_validate_R4:
  "audit_validate X e = Inr () \<Longrightarrow> ae_risk e = Some AR4 \<longrightarrow> ae_kind e = AuthorizationDecision \<and> ae_outcome e = Denied"
  by (auto simp: audit_validate_def audit_validate_unsigned_def validate_action_def Let_def
    split: sum.splits if_splits)

lemma last_nth: "last (x # xs) = (x # xs) ! length xs"
  by (induction xs arbitrary: x) auto

lemma linked_append: "linked (vs @ [v]) \<Longrightarrow> vs \<noteq> [] \<Longrightarrow> linked vs \<and> follows (last vs) v"
  by (induction vs rule: linked.induct) auto

lemma linked_sequence:
  "linked (v # vs) \<Longrightarrow> i < length (v # vs) \<Longrightarrow>
   unat (ae_sequence (va_envelope ((v # vs) ! i))) = unat (ae_sequence (va_envelope v)) + i"
proof (induction vs arbitrary: v i)
  case (Cons w ws)
  then show ?case by (cases i) (auto simp: follows_def)
qed simp

section \<open>What a digest binds\<close>

lemma optional_json_inject [simp]: "optional_json a = optional_json b \<longleftrightarrow> a = b"
  by (simp add: optional_json_def split: option.split)

lemma audit_names_inject:
  "audit_kind_name k = audit_kind_name l \<longleftrightarrow> k = l" "audit_outcome_name p = audit_outcome_name q \<longleftrightarrow> p = q"
  "map_option audit_risk_name r = map_option audit_risk_name t \<longleftrightarrow> r = t"
proof -
  show "audit_kind_name k = audit_kind_name l \<longleftrightarrow> k = l" by (cases k; cases l) simp_all
  show "audit_outcome_name p = audit_outcome_name q \<longleftrightarrow> p = q" by (cases p; cases q) simp_all
  have "inj audit_risk_name"
  proof (rule injI)
    fix a b assume "audit_risk_name a = audit_risk_name b"
    then show "a = b" by (cases a; cases b) simp_all
  qed
  from option.inj_map [OF this] show "map_option audit_risk_name r = map_option audit_risk_name t \<longleftrightarrow> r = t"
    by (rule inj_eq)
qed

lemma audit_json_wf [simp]: "wf_json (object (audit_members e))" "wf_json (audit_json e)"
  by (simp_all add: audit_json_def audit_members_def optional_json_def list_all_iff split: option.split)

lemma map_string_json_inject: "map JString xs = map JString ys \<longleftrightarrow> xs = ys"
  by (simp add: inj_map_eq_map inj_def)

lemma audit_members_inject:
  assumes "audit_members e = audit_members f"
  shows "e = f\<lparr>ae_signature := ae_signature e\<rparr>"
  using assms by (simp add: audit_members_def audit_names_inject map_string_json_inject)

lemma audit_json_inject: "audit_json e = audit_json f \<Longrightarrow> e = f"
  unfolding audit_json_def
proof (drule object_inject [rotated 2])
  assume "audit_members e @ [(''signature'', JString (ae_signature e))] =
    audit_members f @ [(''signature'', JString (ae_signature f))]"
  then show "e = f" using audit_members_inject [of e f] by simp
qed (simp_all add: audit_members_def)

lemma audit_message_binds:
  assumes quoting: "json_quoting (quote_str X)"
    and "audit_unsigned_canonical X e = Inr c" and "audit_unsigned_canonical X f = Inr c"
  shows "e = f\<lparr>ae_signature := ae_signature e\<rparr>"
proof -
  have "object (audit_members e) = object (audit_members f)"
    using assms canonical_json_determines [OF quoting audit_json_wf(1) audit_json_wf(1)]
    by (auto simp: audit_unsigned_canonical_def audit_canonical_json_def)
  then have "audit_members e = audit_members f"
    by (rule object_inject [rotated 2]) (simp_all add: audit_members_def)
  then show ?thesis by (rule audit_members_inject)
qed

lemma export_offline_Inr:
  "export_offline X e = Inr bytes \<longleftrightarrow>
   audit_validate X e = Inr () \<and> audit_canonical_json X (audit_json e) = Inr bytes \<and>
     bytes \<noteq> [] \<and> length bytes \<le> MAX_EVENT_BYTES"
  by (auto simp: export_offline_def validate_size_def split: sum.splits if_splits)

lemma export_offline_determines:
  assumes quoting: "json_quoting (quote_str X)"
    and "export_offline X e = Inr c" and "export_offline X f = Inr c"
  shows "e = f"
proof (rule audit_json_inject)
  show "audit_json e = audit_json f"
    using assms(2,3) canonical_json_determines [OF quoting audit_json_wf(2) audit_json_wf(2)]
    unfolding export_offline_Inr audit_canonical_json_def by blast
qed

lemma audit_verify_Inr:
  assumes "audit_verify X e tenant device key = Inr v"
  shows "va_envelope v = e" and "audit_validate X e = Inr ()" and "ae_tenant_id e = tenant" and "ae_device_id e = device"
    and "\<exists>bytes. export_offline X e = Inr bytes \<and> va_digest v = sha256 X bytes"
  using assms by (auto simp: audit_verify_def)

text \<open>A verified event carries the digest of its own exported bytes.\<close>

definition audit_sealed :: "crates \<Rightarrow> VerifiedAuditEnvelope \<Rightarrow> bool" where
  "audit_sealed X v \<longleftrightarrow> (\<exists>bytes. export_offline X (va_envelope v) = Inr bytes \<and> va_digest v = sha256 X bytes)"

lemma verified_sealed: "audit_verify X e tenant device key = Inr v \<Longrightarrow> audit_sealed X v"
  using audit_verify_Inr(1,5) unfolding audit_sealed_def by metis

lemma sealed_digest:
  assumes "json_quoting (quote_str X)" and "audit_sealed X v" and "audit_sealed X w"
    and digest: "verified_event_sha256 v = verified_event_sha256 w"
  shows "v = w \<or> (export_offline X (va_envelope v) \<noteq> export_offline X (va_envelope w) \<and>
    event_sha256 X (va_envelope v) = event_sha256 X (va_envelope w))"
proof -
  obtain b c where v: "export_offline X (va_envelope v) = Inr b" "va_digest v = sha256 X b"
    and w: "export_offline X (va_envelope w) = Inr c" "va_digest w = sha256 X c"
    using assms(2,3) by (auto simp: audit_sealed_def)
  have same: "va_digest v = va_digest w" using digest hex_sha256_inject by (simp add: verified_event_sha256_def)
  show ?thesis
  proof (cases "b = c")
    case True
    then have "va_envelope v = va_envelope w" using export_offline_determines [OF assms(1)] v w by blast
    with same show ?thesis by simp
  next
    case False
    with v w same show ?thesis by (simp add: event_sha256_def)
  qed
qed

lemma chain_determined:
  assumes "json_quoting (quote_str X)"
  shows "\<lbrakk>length vs = length ws; linked vs; linked ws; \<forall>v \<in> set (vs @ ws). audit_sealed X v;
     vs \<noteq> [] \<longrightarrow> verified_event_sha256 (last vs) = verified_event_sha256 (last ws)\<rbrakk> \<Longrightarrow>
     vs = ws \<or> (\<exists>i < length vs. export_offline X (va_envelope (vs ! i)) \<noteq> export_offline X (va_envelope (ws ! i)) \<and>
       event_sha256 X (va_envelope (vs ! i)) = event_sha256 X (va_envelope (ws ! i)))"
proof (induction vs arbitrary: ws rule: rev_induct)
  case Nil
  then show ?case by simp
next
  case (snoc v vs)
  obtain w ws' where ws: "ws = ws' @ [w]" using snoc.prems(1) by (cases ws rule: rev_cases) auto
  have len: "length vs = length ws'" using snoc.prems(1) ws by simp
  have sealed: "audit_sealed X v" "audit_sealed X w" "\<forall>v \<in> set (vs @ ws'). audit_sealed X v"
    using snoc.prems(4) ws by auto
  have "verified_event_sha256 v = verified_event_sha256 w" using snoc.prems(5) ws by simp
  from sealed_digest [OF assms sealed(1,2) this] show ?case
  proof
    assume "v = w"
    have "vs \<noteq> [] \<longrightarrow> verified_event_sha256 (last vs) = verified_event_sha256 (last ws')"
    proof
      assume "vs \<noteq> []"
      moreover from this have "ws' \<noteq> []" using len by auto
      ultimately have "follows (last vs) v" "follows (last ws') w"
        using linked_append snoc.prems(2,3) ws by blast+
      with \<open>v = w\<close> show "verified_event_sha256 (last vs) = verified_event_sha256 (last ws')"
        by (simp add: follows_def)
    qed
    moreover have "linked vs" "linked ws'"
      using linked_append [OF snoc.prems(2)] linked_append [of ws' w] snoc.prems(3) ws
      by (cases "vs = []"; cases "ws' = []"; simp)+
    ultimately consider "vs = ws'"
      | i where "i < length vs" "export_offline X (va_envelope (vs ! i)) \<noteq> export_offline X (va_envelope (ws' ! i))"
        "event_sha256 X (va_envelope (vs ! i)) = event_sha256 X (va_envelope (ws' ! i))"
      using snoc.IH [OF len _ _ sealed(3)] by blast
    then show ?thesis
    proof cases
      case 1
      then show ?thesis using \<open>v = w\<close> ws by simp
    next
      case 2
      then show ?thesis using ws len by (intro disjI2 exI [of _ i]) (simp add: nth_append)
    qed
  next
    assume "export_offline X (va_envelope v) \<noteq> export_offline X (va_envelope w) \<and>
      event_sha256 X (va_envelope v) = event_sha256 X (va_envelope w)"
    then show ?thesis using ws len by (intro disjI2 exI [of _ "length vs"]) (simp add: nth_append)
  qed
qed

section \<open>A concrete chain\<close>

abbreviation sample_key :: string where
  "sample_key \<equiv> replicate 32 CHR ''k''"

abbreviation sample_device :: string where
  "sample_device \<equiv> device_id_for_public_key release_crates sample_key"

definition sample_audit :: "u64 \<Rightarrow> string option \<Rightarrow> SignedAuditEnvelope" where
  "sample_audit n previous = \<lparr>ae_schema = AUDIT_ENVELOPE_SCHEMA, ae_tenant_id = ''t1'', ae_device_id = sample_device,
     ae_session_id = ''s1'', ae_event_id = ''e1'', ae_sequence = n, ae_previous_event_sha256 = previous,
     ae_occurred_at = ''2026-01-01T00:00:00Z'', ae_kind = AuthorizationDecision, ae_outcome = Denied,
     ae_risk = Some AR4, ae_action_id = Some ''a1'', ae_target_sha256 = None, ae_report_sha256 = None,
     ae_evidence_sha256 = [], ae_signature = url_safe_no_pad_encode (replicate 64 CHR 0x00)\<rparr>"

lemma sample_audit_sel [simp]:
  "ae_schema (sample_audit n p) = AUDIT_ENVELOPE_SCHEMA" "ae_tenant_id (sample_audit n p) = ''t1''"
  "ae_device_id (sample_audit n p) = sample_device" "ae_session_id (sample_audit n p) = ''s1''"
  "ae_event_id (sample_audit n p) = ''e1''" "ae_sequence (sample_audit n p) = n"
  "ae_previous_event_sha256 (sample_audit n p) = p" "ae_occurred_at (sample_audit n p) = ''2026-01-01T00:00:00Z''"
  "ae_kind (sample_audit n p) = AuthorizationDecision" "ae_outcome (sample_audit n p) = Denied"
  "ae_risk (sample_audit n p) = Some AR4" "ae_action_id (sample_audit n p) = Some ''a1''"
  "ae_target_sha256 (sample_audit n p) = None" "ae_report_sha256 (sample_audit n p) = None"
  "ae_evidence_sha256 (sample_audit n p) = []"
  "ae_signature (sample_audit n p) = url_safe_no_pad_encode (replicate 64 CHR 0x00)"
  by (simp_all add: sample_audit_def)

abbreviation sample_event_bytes :: "u64 \<Rightarrow> string option \<Rightarrow> string" where
  "sample_event_bytes n p \<equiv> json_text plain_quote (audit_json (sample_audit n p))"

definition sample_event :: "u64 \<Rightarrow> string option \<Rightarrow> VerifiedAuditEnvelope" where
  "sample_event n p = \<lparr>va_envelope = sample_audit n p, va_digest = sha256 release_crates (sample_event_bytes n p)\<rparr>"

lemma sample_device_short: "length sample_device = 27" "audit_validate_device_id field sample_device = Inr ()"
proof -
  show "length sample_device = 27" by (simp add: device_id_for_public_key_def release_crates_simps)
  show "audit_validate_device_id field sample_device = Inr ()"
    unfolding audit_validate_device_id_def
    by (subst device_id_valid(1)) (simp_all add: release_crates_simps)
qed

lemma sample_texts_short:
  "length (plain_quote sample_device) \<le> 56"
  "length (plain_quote (url_safe_no_pad_encode (replicate 64 CHR 0x00))) \<le> 174"
  "length d = 32 \<Longrightarrow> length (plain_quote (hex_sha256 d)) \<le> 130"
  using length_plain_quote_le [of sample_device] length_plain_quote_le [of "hex_sha256 d"]
    length_plain_quote_le [of "url_safe_no_pad_encode (replicate 64 CHR 0x00)"]
  by (simp_all add: sample_device_short)

definition sample_link :: "u64 \<Rightarrow> string option \<Rightarrow> bool" where
  "sample_link n p \<longleftrightarrow> (n = 1 \<and> p = None) \<or> (n = 2 \<and> (\<exists>d. length d = 32 \<and> p = Some (hex_sha256 d)))"

lemma sample_event_short:
  assumes "sample_link n p"
  shows "length (sample_event_bytes n p) \<le> 65536"
    and "length (json_text plain_quote (object (audit_members (sample_audit n p)))) \<le> 65536"
proof -
  obtain d where n: "n = 1 \<or> n = 2" and p: "p = None \<or> p = Some (hex_sha256 d)" and d: "length d = 32"
    using assms length_replicate [of 32 "CHR ''d''"] unfolding sample_link_def by metis
  have decimal: "length (decimal (unat n)) = 1" using n by (auto simp: decimal.simps)
  have previous: "length (json_text plain_quote (optional_json p)) \<le> 130"
    using p sample_texts_short(3) [OF d] by (auto simp: optional_json_def)
  show "length (sample_event_bytes n p) \<le> 65536"
    "length (json_text plain_quote (object (audit_members (sample_audit n p)))) \<le> 65536"
    using sample_texts_short(1,2) decimal previous
    by (simp_all add: audit_json_def audit_members_def object_def AUDIT_ENVELOPE_SCHEMA_def
      comma_separated_def length_plain_quote_simps escape_byte_def number_text_def optional_json_def [of "Some _"]
      optional_json_def [of None])
qed

lemma sample_audit_valid:
  assumes "sample_link n p"
  shows "audit_validate release_crates (sample_audit n p) = Inr ()"
proof -
  have "validate_sequence_and_chain n p = Inr ()"
    using assms by (auto simp: sample_link_def validate_sequence_and_chain_def validate_safe_nonzero_def
      MAX_SAFE_JSON_INTEGER_def)
  then show ?thesis
    by (simp add: audit_validate_def audit_validate_unsigned_def sample_device_short validate_identifier_def
      MAX_ID_BYTES_def id_byte_def ascii_class_defs validate_timestamp_def release_crates_simps
      MAX_TIMESTAMP_BYTES_def validate_kind_outcome_def validate_action_def validate_optional_sha256_def
      validate_evidence_digests_def MAX_EVIDENCE_DIGESTS_def decode_signature_def SIGNATURE_BYTES_def)
qed

lemma sample_audit_canonical:
  assumes "sample_link n p"
  shows "audit_canonical_json release_crates (audit_json (sample_audit n p)) = Inr (sample_event_bytes n p)"
    and "audit_unsigned_canonical release_crates (sample_audit n p) =
      Inr (json_text plain_quote (object (audit_members (sample_audit n p))))"
  using assms unfolding audit_canonical_json_def audit_unsigned_canonical_def release_crates_def sample_link_def
  by (auto simp: canonical_json_def write_wf audit_json_def audit_members_def optional_json_def
      validate_number_def MAX_SAFE_JSON_INTEGER_def)

lemma sample_event_verified:
  assumes "sample_link n p"
  shows "audit_verify release_crates (va_envelope (sample_event n p)) ''t1'' sample_device sample_key =
    Inr (sample_event n p)"
proof -
  have "sample_event_bytes n p \<noteq> []" by (simp add: audit_json_def object_def)
  then have "export_offline release_crates (sample_audit n p) = Inr (sample_event_bytes n p)"
    using sample_event_short(1) [OF assms]
    by (simp add: export_offline_Inr sample_audit_valid sample_audit_canonical assms MAX_EVENT_BYTES_def)
  moreover have "\<exists>b. audit_signature_payload (json_text plain_quote (object (audit_members (sample_audit n p)))) = Inr b"
    using sample_event_short(2) [OF assms]
    by (simp add: audit_signature_payload_def AUDIT_SIGNATURE_DOMAIN_def domain_tag_def)
  ultimately show ?thesis
    by (auto simp: audit_verify_def sample_event_def sample_audit_valid sample_audit_canonical assms sample_device_short
      validate_identifier_def MAX_ID_BYTES_def id_byte_def ascii_class_defs decode_signature_def
      SIGNATURE_BYTES_def report_verify_def release_crates_simps)
qed

abbreviation sample_first :: VerifiedAuditEnvelope where
  "sample_first \<equiv> sample_event 1 None"

abbreviation sample_second :: VerifiedAuditEnvelope where
  "sample_second \<equiv> sample_event 2 (Some (verified_event_sha256 sample_first))"

lemma sample_event_sel [simp]:
  "va_envelope (sample_event n p) = sample_audit n p" "length (va_digest (sample_event n p)) = 32"
  using release_crates_simps(8) by (simp_all add: sample_event_def sha256_width_def)

lemma sample_links: "sample_link 1 None" "sample_link 2 (Some (verified_event_sha256 (sample_event n p)))"
  unfolding sample_link_def verified_event_sha256_def using sample_event_sel(2) by blast+

lemma sample_start: "audit_checkpoint_start sample_first = Inr (checkpoint_of sample_first)"
  by (simp add: audit_checkpoint_start_def checkpoint_of_def)

lemma sample_checkpoint_valid:
  assumes "n \<in> {1, 2}"
  shows "audit_checkpoint_validate (checkpoint_of (sample_event n p)) = Inr ()"
  using assms validate_hex_sha256 [OF sample_event_sel(2)]
  by (auto simp: audit_checkpoint_validate_def checkpoint_of_def sample_device_short validate_identifier_def
    MAX_ID_BYTES_def id_byte_def ascii_class_defs validate_safe_nonzero_def MAX_SAFE_JSON_INTEGER_def
    verified_event_sha256_def)

lemma sample_admissions:
  "audit_checkpoint_admit (checkpoint_of sample_first) sample_second = Inr (checkpoint_of sample_second, ChainAdvanced)"
  "audit_checkpoint_admit (checkpoint_of sample_second) sample_second =
     Inr (checkpoint_of sample_second, ChainIdempotentReplay)"
  "audit_checkpoint_admit (checkpoint_of sample_second) sample_first = Inl ANonContiguousSequence"
  unfolding audit_checkpoint_admit_def
  by (simp_all add: sample_checkpoint_valid) (simp_all add: checkpoint_of_def checked_add_def MAX_SAFE_JSON_INTEGER_def)

section \<open>Properties\<close>

text \<open>
  C10: from an admissible first event, and whatever verified events are presented in whatever
  order, the events the checkpoint advances over form one chain: they are numbered one, two,
  three and so on without a gap, each names the digest of the one before it, all belong to the
  same tenant, device and session, and the checkpoint holds the number and digest of the last.
  None of them records a repair of risk R4 as anything but denied.
\<close>

theorem audit_chain_contiguous:
  assumes start: "audit_checkpoint_start first = Inr k"
    and run: "audit_run k vs = (t, acc)"
    and verified: "\<forall>v \<in> set (first # vs). audit_verify X (va_envelope v) tenant device key = Inr v"
  shows "linked (first # acc) \<and> t = checkpoint_of (last (first # acc)) \<and>
    (\<forall>i < length (first # acc).
      unat (ae_sequence (va_envelope ((first # acc) ! i))) = i + 1 \<and>
      (let e = va_envelope ((first # acc) ! i) in
        ae_risk e = Some AR4 \<longrightarrow> ae_kind e = AuthorizationDecision \<and> ae_outcome e = Denied))"
proof (intro conjI allI impI)
  have k: "k = checkpoint_of first" and one: "ae_sequence (va_envelope first) = 1"
    using start by (auto simp: audit_checkpoint_start_def checkpoint_of_def split: if_splits)
  from audit_run_chain [OF run [unfolded k]] have chain: "linked (first # acc)" "t = checkpoint_of (last (first # acc))"
    by blast+
  show "linked (first # acc)" "t = checkpoint_of (last (first # acc))" by fact+
  fix i assume i: "i < length (first # acc)"
  show "unat (ae_sequence (va_envelope ((first # acc) ! i))) = i + 1"
    using linked_sequence [OF chain(1) i] one by simp
  have "(first # acc) ! i \<in> set (first # vs)" using nth_mem [OF i] audit_run_subset [OF run] by auto
  then have "audit_validate X (va_envelope ((first # acc) ! i)) = Inr ()" using verified audit_verify_Inr(2) by blast
  then show "let e = va_envelope ((first # acc) ! i) in
    ae_risk e = Some AR4 \<longrightarrow> ae_kind e = AuthorizationDecision \<and> ae_outcome e = Denied"
    unfolding Let_def by (rule audit_validate_R4)
qed

theorem audit_chain_contiguous_witness:
  "linked [sample_first, sample_second] \<and>
   audit_run (checkpoint_of sample_first) [sample_second, sample_first, sample_second] =
     (checkpoint_of sample_second, [sample_second]) \<and>
   unat (ae_sequence (va_envelope sample_second)) = 2"
proof -
  have run: "audit_run (checkpoint_of sample_first) [sample_second, sample_first, sample_second] =
     (checkpoint_of sample_second, [sample_second])"
    by (simp add: sample_admissions)
  have "\<forall>v \<in> set [sample_first, sample_second, sample_first, sample_second].
      audit_verify release_crates (va_envelope v) ''t1'' sample_device sample_key = Inr v"
    using sample_event_verified [OF sample_links(1)] sample_event_verified [OF sample_links(2)] by simp
  from audit_chain_contiguous [OF sample_start run this] run show ?thesis by auto
qed

text \<open>
  C21: the checkpoint is tamper-evident.  Two chains of verified events that leave the same
  checkpoint are the same events, in the same order with the same signatures, unless somewhere
  in them two different exported events have the same SHA-256 digest.
\<close>

theorem audit_chain_tamper_evident:
  assumes quoting: "json_quoting (quote_str X)"
    and start: "audit_checkpoint_start first = Inr k" "audit_checkpoint_start first' = Inr k'"
    and run: "audit_run k vs = (t, acc)" "audit_run k' vs' = (t, acc')"
    and verified: "\<forall>v \<in> set (first # vs @ first' # vs'). audit_verify X (va_envelope v) tenant device key = Inr v"
  shows "first # acc = first' # acc' \<or>
    (\<exists>i < length (first # acc).
      export_offline X (va_envelope ((first # acc) ! i)) \<noteq> export_offline X (va_envelope ((first' # acc') ! i)) \<and>
      event_sha256 X (va_envelope ((first # acc) ! i)) = event_sha256 X (va_envelope ((first' # acc') ! i)))"
proof (rule chain_determined [OF quoting])
  have k: "k = checkpoint_of first" "ae_sequence (va_envelope first) = 1"
    "k' = checkpoint_of first'" "ae_sequence (va_envelope first') = 1"
    using start by (auto simp: audit_checkpoint_start_def checkpoint_of_def split: if_splits)
  note chain = audit_run_chain [OF run(1) [unfolded k(1)]] audit_run_chain [OF run(2) [unfolded k(3)]]
  then have same: "checkpoint_of (last (first # acc)) = checkpoint_of (last (first' # acc'))" by metis
  show linked: "linked (first # acc)" "linked (first' # acc')" using chain by blast+
  show "first # acc \<noteq> [] \<longrightarrow>
    verified_event_sha256 (last (first # acc)) = verified_event_sha256 (last (first' # acc'))"
    using same by (simp add: checkpoint_of_def)
  have "unat (ae_sequence (va_envelope (last (first # acc)))) = length acc + 1"
    "unat (ae_sequence (va_envelope (last (first' # acc')))) = length acc' + 1"
    using linked_sequence [OF linked(1), of "length acc"] linked_sequence [OF linked(2), of "length acc'"] k
    unfolding last_nth by simp_all
  then show "length (first # acc) = length (first' # acc')" using same by (simp add: checkpoint_of_def)
  show "\<forall>v \<in> set ((first # acc) @ first' # acc'). audit_sealed X v"
    using verified verified_sealed audit_run_subset [OF run(1)] audit_run_subset [OF run(2)] by fastforce
qed

theorem audit_chain_tamper_evident_witness:
  "audit_run (checkpoint_of sample_first) [sample_second] = (checkpoint_of sample_second, [sample_second]) \<and>
   audit_run (checkpoint_of sample_first) [sample_second, sample_first, sample_second] =
     (checkpoint_of sample_second, [sample_second]) \<and>
   ([sample_first, sample_second] = [sample_first, sample_second] \<or>
    (\<exists>i < 2. export_offline release_crates (va_envelope ([sample_first, sample_second] ! i)) \<noteq>
        export_offline release_crates (va_envelope ([sample_first, sample_second] ! i))))"
proof -
  have run: "audit_run (checkpoint_of sample_first) [sample_second] = (checkpoint_of sample_second, [sample_second])"
    "audit_run (checkpoint_of sample_first) [sample_second, sample_first, sample_second] =
     (checkpoint_of sample_second, [sample_second])"
    by (simp_all add: sample_admissions)
  have "\<forall>v \<in> set (sample_first # [sample_second] @ sample_first # [sample_second, sample_first, sample_second]).
      audit_verify release_crates (va_envelope v) ''t1'' sample_device sample_key = Inr v"
    using sample_event_verified [OF sample_links(1)] sample_event_verified [OF sample_links(2)] by simp
  from audit_chain_tamper_evident [OF release_crates_simps(9) sample_start sample_start run this] run
  show ?thesis by blast
qed

end
