(* ===== verification/KA_Host.thy ===== *)
theory KA_Host
  imports KA_Prelude
begin

text \<open>
  The operating system as the repair executor sees it.  A command runs on a world \<open>'w\<close>,
  issues system calls one after the other and ends with a value or an error; besides the
  result it returns the worlds after each call.  These worlds, with the first one, are the points
  at which the process or the machine can stop.

  The system calls are a parameter: a record of functions, of which \<open>posix_directory\<close>
  states what their manual pages promise about one directory.  The contents of that directory
  are seen through a function \<open>view\<close>.  Every call may fail at any time.  What the directory
  holds is separate from what has reached the disk: an inode is \<open>synced\<close> once its data has
  been flushed, and a change of a name is durable once the directory has been flushed.
\<close>

unbundle bit_operations_syntax

section \<open>Commands\<close>

type_synonym ('w, 'e, 'a) io = "'w \<Rightarrow> 'w list \<times> 'w \<times> ('e + 'a)"

definition ret :: "'a \<Rightarrow> ('w, 'e, 'a) io" where
  "ret x w = ([], w, Inr x)"

definition fail :: "'e \<Rightarrow> ('w, 'e, 'a) io" where
  "fail e w = ([], w, Inl e)"

text \<open>\<^verbatim>\<open>let x = m?; k x\<close>\<close>

definition seq :: "('w, 'e, 'a) io \<Rightarrow> ('a \<Rightarrow> ('w, 'e, 'b) io) \<Rightarrow> ('w, 'e, 'b) io" where
  "seq m k w =
     (case m w of
        (t, w', Inl e) \<Rightarrow> (t, w', Inl e)
      | (t, w', Inr x) \<Rightarrow> (case k x w' of (t', w'', r) \<Rightarrow> (t @ t', w'', r)))"

text \<open>\<^verbatim>\<open>match m { ... }\<close>: the result of a command as a value.\<close>

definition attempt :: "('w, 'e, 'a) io \<Rightarrow> ('w, 'f, 'e + 'a) io" where
  "attempt m w = (case m w of (t, w', r) \<Rightarrow> (t, w', Inr r))"

text \<open>\<^verbatim>\<open>m.map_err(f)\<close>\<close>

definition map_err :: "('e \<Rightarrow> 'f) \<Rightarrow> ('w, 'e, 'a) io \<Rightarrow> ('w, 'f, 'a) io" where
  "map_err f m w = (case m w of (t, w', r) \<Rightarrow> (t, w', map_sum f id r))"

definition ensure :: "bool \<Rightarrow> 'e \<Rightarrow> ('w, 'e, unit) io" where
  "ensure b e = (if b then ret () else fail e)"

definition pure_result :: "'e + 'a \<Rightarrow> ('w, 'e, 'a) io" where
  "pure_result r = (case r of Inl e \<Rightarrow> fail e | Inr x \<Rightarrow> ret x)"

text \<open>A system call, its error replaced by the one the caller returns.\<close>

definition call :: "('w \<Rightarrow> 'w \<times> ('err + 'a)) \<Rightarrow> 'e \<Rightarrow> ('w, 'e, 'a) io" where
  "call f e w = (case f w of (w', r) \<Rightarrow> ([w'], w', map_sum (\<lambda>_. e) id r))"

text \<open>A call that cannot fail, such as reading the clock.\<close>

definition observe :: "('w \<Rightarrow> 'w \<times> 'a) \<Rightarrow> ('w, 'e, 'a) io" where
  "observe f w = (case f w of (w', x) \<Rightarrow> ([w'], w', Inr x))"

definition outcome_of :: "('w, 'e, 'a) io \<Rightarrow> 'w \<Rightarrow> 'e + 'a" where
  "outcome_of m w = snd (snd (m w))"

definition final_world :: "('w, 'e, 'a) io \<Rightarrow> 'w \<Rightarrow> 'w" where
  "final_world m w = fst (snd (m w))"

definition stopping_points :: "('w, 'e, 'a) io \<Rightarrow> 'w \<Rightarrow> 'w set" where
  "stopping_points m w = insert w (set (fst (m w)))"

section \<open>Weakest preconditions\<close>

text \<open>
  \<open>wp I m Q w\<close>: every world \<open>m\<close> passes through from \<open>w\<close> satisfies \<open>I\<close>, and the result and the
  last world satisfy \<open>Q\<close>.
\<close>

definition wp :: "('w \<Rightarrow> bool) \<Rightarrow> ('w, 'e, 'a) io \<Rightarrow> ('e + 'a \<Rightarrow> 'w \<Rightarrow> bool) \<Rightarrow> 'w \<Rightarrow> bool" where
  "wp I m Q w \<longleftrightarrow> (\<forall>x \<in> set (fst (m w)). I x) \<and> Q (outcome_of m w) (final_world m w)"

named_theorems wp_simps \<open>weakest preconditions of the constructs\<close>

lemma wp_ret [wp_simps]: "wp I (ret x) Q w \<longleftrightarrow> Q (Inr x) w"
  and wp_fail [wp_simps]: "wp I (fail e) Q w \<longleftrightarrow> Q (Inl e) w"
  by (simp_all add: wp_def ret_def fail_def outcome_of_def final_world_def)

lemma wp_seq [wp_simps]:
  "wp I (seq m k) Q w \<longleftrightarrow>
   wp I m (\<lambda>r w'. case r of Inl e \<Rightarrow> Q (Inl e) w' | Inr x \<Rightarrow> wp I (k x) Q w') w"
  by (auto simp: wp_def seq_def outcome_of_def final_world_def split: prod.splits sum.splits)

lemma wp_attempt [wp_simps]: "wp I (attempt m) Q w \<longleftrightarrow> wp I m (\<lambda>r. Q (Inr r)) w"
  by (auto simp: wp_def attempt_def outcome_of_def final_world_def split: prod.splits)

lemma wp_map_err [wp_simps]: "wp I (map_err f m) Q w \<longleftrightarrow> wp I m (\<lambda>r. Q (map_sum f id r)) w"
  by (auto simp: wp_def map_err_def outcome_of_def final_world_def split: prod.splits)

lemma wp_ensure [wp_simps]:
  "wp I (ensure b e) Q w \<longleftrightarrow> (if b then Q (Inr ()) w else Q (Inl e) w)"
  by (simp add: ensure_def wp_simps)

lemma wp_pure_result [wp_simps]: "wp I (pure_result r) Q w \<longleftrightarrow> Q r w"
  by (cases r) (simp_all add: pure_result_def wp_simps)

lemma wp_if [wp_simps]:
  "wp I (if b then m else n) Q w \<longleftrightarrow> (if b then wp I m Q w else wp I n Q w)"
  by simp

lemma wp_mono:
  assumes "wp I m Q w" and "\<And>x. I x \<Longrightarrow> J x" and "\<And>r w'. Q r w' \<Longrightarrow> R r w'"
  shows "wp J m R w"
  using assms by (auto simp: wp_def)

lemma wp_final: "wp I m Q w \<Longrightarrow> Q (outcome_of m w) (final_world m w)"
  by (simp add: wp_def)

lemma wp_points: "wp I m Q w \<Longrightarrow> I w \<Longrightarrow> x \<in> stopping_points m w \<Longrightarrow> I x"
  by (auto simp: wp_def stopping_points_def)

text \<open>What a call promises: one relation on the views when it fails, one when it succeeds.\<close>

definition call_law ::
  "('w \<Rightarrow> 'd) \<Rightarrow> ('w \<Rightarrow> 'w \<times> ('err + 'a)) \<Rightarrow> ('d \<Rightarrow> 'd \<Rightarrow> bool) \<Rightarrow> ('a \<Rightarrow> 'd \<Rightarrow> 'd \<Rightarrow> bool) \<Rightarrow> bool" where
  "call_law view f failed success \<longleftrightarrow>
     (\<forall>w. case f w of
        (w', Inl _) \<Rightarrow> failed (view w) (view w')
      | (w', Inr x) \<Rightarrow> success x (view w) (view w'))"

lemma wp_call:
  assumes "call_law view f failed success"
    and "\<And>w'. failed (view w) (view w') \<Longrightarrow> I w' \<and> Q (Inl e) w'"
    and "\<And>x w'. success x (view w) (view w') \<Longrightarrow> I w' \<and> Q (Inr x) w'"
  shows "wp I (call f e) Q w"
proof -
  obtain w' r where f: "f w = (w', r)" by (cases "f w")
  from assms(1) f have "case r of Inl _ \<Rightarrow> failed (view w) (view w') | Inr x \<Rightarrow> success x (view w) (view w')"
    unfolding call_law_def by (auto split: sum.splits dest: spec [of _ w])
  with assms(2) [of w'] assms(3) [of _ w'] have "I w' \<and> Q (map_sum (\<lambda>_. e) id r) w'"
    by (cases r) auto
  with f show ?thesis by (simp add: wp_def call_def outcome_of_def final_world_def)
qed

lemma wp_observe [wp_simps]: "wp I (observe f) Q w \<longleftrightarrow> I (fst (f w)) \<and> Q (Inr (snd (f w))) (fst (f w))"
  by (cases "f w") (simp add: wp_def observe_def outcome_of_def final_world_def)

section \<open>Directories\<close>

datatype errno = NOENT | EXIST | OTHER_ERRNO

record stat =
  st_dev :: u64
  st_ino :: u64
  st_mode :: u32
  st_nlink :: u64
  st_uid :: u32
  st_gid :: u32
  st_size :: int

text \<open>
  An inode, with the size of its list of extended attributes, and whether its data and
  attributes are on the disk; a directory, with the descriptors that are open on its inodes
  and their offsets, and whether its entries are on the disk.
\<close>

record inode =
  i_mode :: u32
  i_uid :: u32
  i_gid :: u32
  i_nlink :: u64
  i_bytes :: string
  i_xattrs :: u64
  i_synced :: bool

record directory =
  d_dev :: u64
  d_names :: "string \<rightharpoonup> u64"
  d_inodes :: "u64 \<Rightarrow> inode"
  d_fds :: "nat \<rightharpoonup> u64 \<times> nat"
  d_durable :: bool

definition stat_of :: "directory \<Rightarrow> u64 \<Rightarrow> stat" where
  "stat_of v ino =
     (let i = d_inodes v ino
      in \<lparr>st_dev = d_dev v, st_ino = ino, st_mode = i_mode i, st_nlink = i_nlink i, st_uid = i_uid i,
          st_gid = i_gid i, st_size = int (length (i_bytes i))\<rparr>)"

section \<open>System calls\<close>

text \<open>
  The calls of the executor, each on the directory it has opened, the last five on the mount
  the directory is in.  Descriptors are opened and
  closed by their owners; closing one changes nothing the executor looks at.  Reading to the
  end of a file and writing a whole buffer, loops of the standard library, count as one call.
\<close>

record 'w host =
  h_now :: "'w \<Rightarrow> 'w \<times> nat"
  h_open :: "string \<Rightarrow> 'w \<Rightarrow> 'w \<times> (errno + nat)"
  h_fstat :: "nat \<Rightarrow> 'w \<Rightarrow> 'w \<times> (errno + stat)"
  h_getfd :: "nat \<Rightarrow> 'w \<Rightarrow> 'w \<times> (errno + bool)"
  h_listxattr :: "nat \<Rightarrow> 'w \<Rightarrow> 'w \<times> (errno + u64)"
  h_read :: "nat \<Rightarrow> nat \<Rightarrow> 'w \<Rightarrow> 'w \<times> (errno + string)"
  h_statat :: "string \<Rightarrow> 'w \<Rightarrow> 'w \<times> (errno + stat)"
  h_create :: "string \<Rightarrow> 'w \<Rightarrow> 'w \<times> (errno + nat)"
  h_write :: "nat \<Rightarrow> string \<Rightarrow> 'w \<Rightarrow> 'w \<times> (errno + unit)"
  h_fchown :: "nat \<Rightarrow> u32 \<Rightarrow> u32 \<Rightarrow> 'w \<Rightarrow> 'w \<times> (errno + unit)"
  h_fchmod :: "nat \<Rightarrow> u32 \<Rightarrow> 'w \<Rightarrow> 'w \<times> (errno + unit)"
  h_sync_all :: "nat \<Rightarrow> 'w \<Rightarrow> 'w \<times> (errno + unit)"
  h_seek_start :: "nat \<Rightarrow> 'w \<Rightarrow> 'w \<times> (errno + unit)"
  h_exchange :: "string \<Rightarrow> string \<Rightarrow> 'w \<Rightarrow> 'w \<times> (errno + unit)"
  h_unlink :: "string \<Rightarrow> 'w \<Rightarrow> 'w \<times> (errno + unit)"
  h_fsync_dir :: "'w \<Rightarrow> 'w \<times> (errno + unit)"
  h_syncfs :: "'w \<Rightarrow> 'w \<times> (errno + unit)"
  h_open_etc :: "'w \<Rightarrow> 'w \<times> (errno + unit)"
  h_fstat_etc :: "'w \<Rightarrow> 'w \<times> (errno + stat)"
  h_mount_fstat :: "'w \<Rightarrow> 'w \<times> (errno + stat)"
  h_mount_fstatfs :: "'w \<Rightarrow> 'w \<times> (errno + u64)"
  h_mount_fstatvfs :: "'w \<Rightarrow> 'w \<times> (errno + u64)"
  h_mount_getfd :: "'w \<Rightarrow> 'w \<times> (errno + u32)"
  h_mount_getfl :: "'w \<Rightarrow> 'w \<times> (errno + u32)"

definition unchanged :: "directory \<Rightarrow> directory \<Rightarrow> bool" where
  "unchanged v v' \<longleftrightarrow> v' = v"

definition set_inode :: "u64 \<Rightarrow> inode \<Rightarrow> directory \<Rightarrow> directory" where
  "set_inode ino i v = v\<lparr>d_inodes := (d_inodes v)(ino := i)\<rparr>"

text \<open>
  A call that changes an inode through a descriptor: what it does to the inode is between
  the old and the new value, the data is no longer on the disk, nothing else changes.
\<close>

definition through_fd :: "nat \<Rightarrow> (inode \<Rightarrow> inode \<Rightarrow> bool) \<Rightarrow> directory \<Rightarrow> directory \<Rightarrow> bool" where
  "through_fd fd change v v' \<longleftrightarrow>
     (\<exists>ino off off' i. d_fds v fd = Some (ino, off) \<and> change (d_inodes v ino) i \<and>
        v' = set_inode ino (i\<lparr>i_synced := False\<rparr>) (v\<lparr>d_fds := (d_fds v)(fd \<mapsto> (ino, off'))\<rparr>))"

definition posix_reads :: "'w host \<Rightarrow> ('w \<Rightarrow> directory) \<Rightarrow> bool" where
  "posix_reads H view \<longleftrightarrow>
     (\<forall>w. view (fst (h_now H w)) = view w) \<and>
     (\<forall>n. call_law view (h_open H n) unchanged (\<lambda>fd v v'. \<exists>ino. d_names v n = Some ino \<and>
        v' = v\<lparr>d_fds := (d_fds v)(fd \<mapsto> (ino, 0))\<rparr>)) \<and>
     (\<forall>fd. call_law view (h_fstat H fd) unchanged (\<lambda>st v v'. v' = v \<and>
        (\<exists>ino off. d_fds v fd = Some (ino, off) \<and> st = stat_of v ino))) \<and>
     (\<forall>fd. call_law view (h_getfd H fd) unchanged (\<lambda>_. unchanged)) \<and>
     (\<forall>fd. call_law view (h_listxattr H fd) unchanged (\<lambda>k v v'. v' = v \<and>
        (\<exists>ino off. d_fds v fd = Some (ino, off) \<and> k = i_xattrs (d_inodes v ino)))) \<and>
     (\<forall>fd limit. call_law view (h_read H fd limit)
        (\<lambda>v v'. \<exists>fds. v' = v\<lparr>d_fds := fds\<rparr>)
        (\<lambda>b v v'. \<exists>ino off. d_fds v fd = Some (ino, off) \<and>
          b = take limit (drop off (i_bytes (d_inodes v ino))) \<and>
          v' = v\<lparr>d_fds := (d_fds v)(fd \<mapsto> (ino, off + length b))\<rparr>)) \<and>
     (\<forall>n. call_law view (h_statat H n) unchanged (\<lambda>st v v'. v' = v \<and>
        (\<exists>ino. d_names v n = Some ino \<and> st = stat_of v ino))) \<and>
     (\<forall>fd. call_law view (h_seek_start H fd) unchanged (\<lambda>_ v v'.
        \<exists>ino off. d_fds v fd = Some (ino, off) \<and> v' = v\<lparr>d_fds := (d_fds v)(fd \<mapsto> (ino, 0))\<rparr>)) \<and>
     call_law view (h_open_etc H) unchanged (\<lambda>_. unchanged) \<and>
     call_law view (h_fstat_etc H) unchanged (\<lambda>_. unchanged) \<and>
     call_law view (h_mount_fstat H) unchanged (\<lambda>_. unchanged) \<and>
     call_law view (h_mount_fstatfs H) unchanged (\<lambda>_. unchanged) \<and>
     call_law view (h_mount_fstatvfs H) unchanged (\<lambda>_. unchanged) \<and>
     call_law view (h_mount_getfd H) unchanged (\<lambda>_. unchanged) \<and>
     call_law view (h_mount_getfl H) unchanged (\<lambda>_. unchanged)"

text \<open>
  \<^verbatim>\<open>O_CREAT | O_EXCL\<close> makes a new empty regular file with one link under a name that was free.
  Changing owner or permissions keeps the type of a file.  A failed write
  may have written a part.  \<^verbatim>\<open>RENAME_EXCHANGE\<close> swaps two existing names atomically.
\<close>

definition posix_writes :: "'w host \<Rightarrow> ('w \<Rightarrow> directory) \<Rightarrow> bool" where
  "posix_writes H view \<longleftrightarrow>
     (\<forall>n. call_law view (h_create H n) unchanged (\<lambda>fd v v'. d_names v n = None \<and>
        (\<exists>ino i. ino \<notin> ran (d_names v) \<and> i_bytes i = [] \<and> i_nlink i = 1 \<and> i_mode i AND 0xF000 = 0x8000 \<and>
           v' = set_inode ino (i\<lparr>i_synced := False\<rparr>) (v\<lparr>d_names := (d_names v)(n \<mapsto> ino),
             d_fds := (d_fds v)(fd \<mapsto> (ino, 0)), d_durable := False\<rparr>)))) \<and>
     (\<forall>fd b. call_law view (h_write H fd b)
        (\<lambda>v v'. v' = v \<or> through_fd fd (\<lambda>i j. \<exists>c. j = i\<lparr>i_bytes := c\<rparr>) v v')
        (\<lambda>_ v v'. \<exists>ino off. d_fds v fd = Some (ino, off) \<and>
          v' = set_inode ino ((d_inodes v ino)\<lparr>i_bytes := take off (i_bytes (d_inodes v ino)) @ b @
                 drop (off + length b) (i_bytes (d_inodes v ino)), i_synced := False\<rparr>)
               (v\<lparr>d_fds := (d_fds v)(fd \<mapsto> (ino, off + length b))\<rparr>))) \<and>
     (\<forall>fd u g. call_law view (h_fchown H fd u g) unchanged
        (\<lambda>_. through_fd fd (\<lambda>i j. \<exists>m. m AND 0xF000 = i_mode i AND 0xF000 \<and> j = i\<lparr>i_uid := u, i_gid := g, i_mode := m\<rparr>))) \<and>
     (\<forall>fd m. call_law view (h_fchmod H fd m) unchanged
        (\<lambda>_. through_fd fd (\<lambda>i j. \<exists>k. k AND 0xFFF = m AND 0xFFF \<and> k AND 0xF000 = i_mode i AND 0xF000 \<and>
          j = i\<lparr>i_mode := k\<rparr>))) \<and>
     (\<forall>a b. call_law view (h_exchange H a b) unchanged (\<lambda>_ v v'. \<exists>i j. d_names v a = Some i \<and>
        d_names v b = Some j \<and> v' = v\<lparr>d_names := (d_names v)(a \<mapsto> j, b \<mapsto> i), d_durable := False\<rparr>)) \<and>
     (\<forall>n. call_law view (h_unlink H n) unchanged (\<lambda>_ v v'. \<exists>ino. d_names v n = Some ino \<and>
        v' = set_inode ino ((d_inodes v ino)\<lparr>i_nlink := i_nlink (d_inodes v ino) - 1\<rparr>)
          (v\<lparr>d_names := (d_names v)(n := None), d_durable := False\<rparr>)))"

definition posix_syncs :: "'w host \<Rightarrow> ('w \<Rightarrow> directory) \<Rightarrow> bool" where
  "posix_syncs H view \<longleftrightarrow>
     (\<forall>fd. call_law view (h_sync_all H fd) unchanged (\<lambda>_ v v'. \<exists>ino off. d_fds v fd = Some (ino, off) \<and>
        v' = set_inode ino ((d_inodes v ino)\<lparr>i_synced := True\<rparr>) v)) \<and>
     call_law view (h_fsync_dir H) unchanged (\<lambda>_ v v'. v' = v\<lparr>d_durable := True\<rparr>) \<and>
     call_law view (h_syncfs H) unchanged (\<lambda>_ v v'.
       v' = v\<lparr>d_durable := True, d_inodes := \<lambda>ino. (d_inodes v ino)\<lparr>i_synced := True\<rparr>\<rparr>)"

definition posix_directory :: "'w host \<Rightarrow> ('w \<Rightarrow> directory) \<Rightarrow> bool" where
  "posix_directory H view \<longleftrightarrow> posix_reads H view \<and> posix_writes H view \<and> posix_syncs H view"

section \<open>How a directory may change\<close>

text \<open>
  \<open>same_file\<close>: the same content and attributes, at least as well flushed.  \<open>same_dir\<close>: only
  descriptors differ.  \<open>still\<close>: the same names for the same files.  \<open>kept n\<close>: the name \<open>n\<close> still
  has the file it had.  \<open>touches n\<close>: every other name is kept.
\<close>

definition same_file :: "inode \<Rightarrow> inode \<Rightarrow> bool" where
  "same_file i j \<longleftrightarrow>
     i_bytes j = i_bytes i \<and> i_mode j = i_mode i \<and> i_uid j = i_uid i \<and> i_gid j = i_gid i \<and>
     i_xattrs j = i_xattrs i \<and> (i_synced i \<longrightarrow> i_synced j)"

definition same_dir :: "directory \<Rightarrow> directory \<Rightarrow> bool" where
  "same_dir v v' \<longleftrightarrow> (\<exists>fds. v' = v\<lparr>d_fds := fds\<rparr>)"

definition still :: "directory \<Rightarrow> directory \<Rightarrow> bool" where
  "still v v' \<longleftrightarrow>
     d_dev v' = d_dev v \<and> d_names v' = d_names v \<and> (\<forall>ino. same_file (d_inodes v ino) (d_inodes v' ino)) \<and>
     (d_durable v \<longrightarrow> d_durable v')"

definition kept :: "string \<Rightarrow> directory \<Rightarrow> directory \<Rightarrow> bool" where
  "kept n v v' \<longleftrightarrow>
     d_names v' n = d_names v n \<and>
     (\<forall>ino. d_names v n = Some ino \<longrightarrow> same_file (d_inodes v ino) (d_inodes v' ino))"

definition touches_only :: "string set \<Rightarrow> directory \<Rightarrow> directory \<Rightarrow> bool" where
  "touches_only T v v' \<longleftrightarrow> d_dev v' = d_dev v \<and> (\<forall>n. n \<notin> T \<longrightarrow> kept n v v')"

lemma same_file_refl [simp]: "same_file i i"
  by (simp add: same_file_def)

lemma same_file_trans: "same_file i j \<Longrightarrow> same_file j k \<Longrightarrow> same_file i k"
  by (simp add: same_file_def)

lemma same_dir_refl [simp]: "same_dir v v"
  unfolding same_dir_def by (rule exI [of _ "d_fds v"]) simp

lemma same_dir_trans: "same_dir u v \<Longrightarrow> same_dir v w \<Longrightarrow> same_dir u w"
  by (auto simp: same_dir_def)

lemma same_dir_fds [simp]: "same_dir v (v\<lparr>d_fds := fds\<rparr>)"
  by (auto simp: same_dir_def)

lemma same_dir_still: "same_dir v v' \<Longrightarrow> still v v'"
  by (auto simp: same_dir_def still_def)

lemma still_refl [simp]: "still v v"
  by (simp add: still_def)

lemma still_trans: "still u v \<Longrightarrow> still v w \<Longrightarrow> still u w"
  unfolding still_def using same_file_trans by metis

lemma still_kept: "still v v' \<Longrightarrow> kept n v v'"
  by (simp add: still_def kept_def)

lemma kept_refl [simp]: "kept n v v"
  by (simp add: kept_def)

lemma kept_trans: "kept n u v \<Longrightarrow> kept n v w \<Longrightarrow> kept n u w"
  unfolding kept_def using same_file_trans by metis

lemma still_touches: "still v v' \<Longrightarrow> touches_only T v v'"
  by (simp add: touches_only_def still_kept still_def)

lemma touches_refl [simp]: "touches_only T v v"
  by (simp add: touches_only_def)

lemma touches_trans: "touches_only T u v \<Longrightarrow> touches_only T v w \<Longrightarrow> touches_only T u w"
  unfolding touches_only_def using kept_trans by metis

lemma touches_mono: "touches_only T u v \<Longrightarrow> T \<subseteq> U \<Longrightarrow> touches_only U u v"
  by (auto simp: touches_only_def)

lemmas same_dir_touches = still_touches [OF same_dir_still]

lemma unlink_touches:
  "touches_only {n} v (set_inode ino ((d_inodes v ino)\<lparr>i_nlink := k\<rparr>)
     (v\<lparr>d_names := (d_names v)(n := None), d_durable := d\<rparr>))"
  by (auto simp: touches_only_def kept_def set_inode_def same_file_def)

section \<open>The laws, call by call\<close>

lemma host_laws:
  assumes "posix_directory H view"
  shows "view (fst (h_now H w)) = view w"
    and "call_law view (h_open H n) unchanged (\<lambda>fd v v'. \<exists>ino. d_names v n = Some ino \<and>
        v' = v\<lparr>d_fds := (d_fds v)(fd \<mapsto> (ino, 0))\<rparr>)"
    and "call_law view (h_fstat H fd) unchanged (\<lambda>st v v'. v' = v \<and>
        (\<exists>ino off. d_fds v fd = Some (ino, off) \<and> st = stat_of v ino))"
    and "call_law view (h_getfd H fd) unchanged (\<lambda>_. unchanged)"
    and "call_law view (h_listxattr H fd) unchanged (\<lambda>k v v'. v' = v \<and>
        (\<exists>ino off. d_fds v fd = Some (ino, off) \<and> k = i_xattrs (d_inodes v ino)))"
    and "call_law view (h_read H fd limit) (\<lambda>v v'. \<exists>fds. v' = v\<lparr>d_fds := fds\<rparr>)
        (\<lambda>b v v'. \<exists>ino off. d_fds v fd = Some (ino, off) \<and>
          b = take limit (drop off (i_bytes (d_inodes v ino))) \<and>
          v' = v\<lparr>d_fds := (d_fds v)(fd \<mapsto> (ino, off + length b))\<rparr>)"
    and "call_law view (h_statat H n) unchanged (\<lambda>st v v'. v' = v \<and>
        (\<exists>ino. d_names v n = Some ino \<and> st = stat_of v ino))"
    and "call_law view (h_seek_start H fd) unchanged (\<lambda>_ v v'.
        \<exists>ino off. d_fds v fd = Some (ino, off) \<and> v' = v\<lparr>d_fds := (d_fds v)(fd \<mapsto> (ino, 0))\<rparr>)"
    and "call_law view (h_open_etc H) unchanged (\<lambda>_. unchanged)"
    and "call_law view (h_fstat_etc H) unchanged (\<lambda>_. unchanged)"
    and "call_law view (h_mount_fstat H) unchanged (\<lambda>_. unchanged)"
    and "call_law view (h_mount_fstatfs H) unchanged (\<lambda>_. unchanged)"
    and "call_law view (h_mount_fstatvfs H) unchanged (\<lambda>_. unchanged)"
    and "call_law view (h_mount_getfd H) unchanged (\<lambda>_. unchanged)"
    and "call_law view (h_mount_getfl H) unchanged (\<lambda>_. unchanged)"
  using assms unfolding posix_directory_def posix_reads_def by blast+

lemma host_write_laws:
  assumes "posix_directory H view"
  shows "call_law view (h_create H n) unchanged (\<lambda>fd v v'. d_names v n = None \<and>
        (\<exists>ino i. ino \<notin> ran (d_names v) \<and> i_bytes i = [] \<and> i_nlink i = 1 \<and> i_mode i AND 0xF000 = 0x8000 \<and>
           v' = set_inode ino (i\<lparr>i_synced := False\<rparr>) (v\<lparr>d_names := (d_names v)(n \<mapsto> ino),
             d_fds := (d_fds v)(fd \<mapsto> (ino, 0)), d_durable := False\<rparr>)))"
    and "call_law view (h_write H fd b)
        (\<lambda>v v'. v' = v \<or> through_fd fd (\<lambda>i j. \<exists>c. j = i\<lparr>i_bytes := c\<rparr>) v v')
        (\<lambda>_ v v'. \<exists>ino off. d_fds v fd = Some (ino, off) \<and>
          v' = set_inode ino ((d_inodes v ino)\<lparr>i_bytes := take off (i_bytes (d_inodes v ino)) @ b @
                 drop (off + length b) (i_bytes (d_inodes v ino)), i_synced := False\<rparr>)
               (v\<lparr>d_fds := (d_fds v)(fd \<mapsto> (ino, off + length b))\<rparr>))"
    and "call_law view (h_fchown H fd u g) unchanged
        (\<lambda>_. through_fd fd (\<lambda>i j. \<exists>m. m AND 0xF000 = i_mode i AND 0xF000 \<and> j = i\<lparr>i_uid := u, i_gid := g, i_mode := m\<rparr>))"
    and "call_law view (h_fchmod H fd m) unchanged
        (\<lambda>_. through_fd fd (\<lambda>i j. \<exists>k. k AND 0xFFF = m AND 0xFFF \<and> k AND 0xF000 = i_mode i AND 0xF000 \<and>
          j = i\<lparr>i_mode := k\<rparr>))"
    and "call_law view (h_exchange H a c) unchanged (\<lambda>_ v v'. \<exists>i j. d_names v a = Some i \<and>
        d_names v c = Some j \<and> v' = v\<lparr>d_names := (d_names v)(a \<mapsto> j, c \<mapsto> i), d_durable := False\<rparr>)"
    and "call_law view (h_unlink H n) unchanged (\<lambda>_ v v'. \<exists>ino. d_names v n = Some ino \<and>
        v' = set_inode ino ((d_inodes v ino)\<lparr>i_nlink := i_nlink (d_inodes v ino) - 1\<rparr>)
          (v\<lparr>d_names := (d_names v)(n := None), d_durable := False\<rparr>))"
    and "call_law view (h_sync_all H fd) unchanged (\<lambda>_ v v'. \<exists>ino off. d_fds v fd = Some (ino, off) \<and>
        v' = set_inode ino ((d_inodes v ino)\<lparr>i_synced := True\<rparr>) v)"
    and "call_law view (h_fsync_dir H) unchanged (\<lambda>_ v v'. v' = v\<lparr>d_durable := True\<rparr>)"
    and "call_law view (h_syncfs H) unchanged (\<lambda>_ v v'.
       v' = v\<lparr>d_durable := True, d_inodes := \<lambda>ino. (d_inodes v ino)\<lparr>i_synced := True\<rparr>\<rparr>)"
  using assms unfolding posix_directory_def posix_writes_def posix_syncs_def by blast+

lemmas host_calls = host_laws(2-) [THEN wp_call] host_write_laws [THEN wp_call]

lemma wp_seqI:
  "wp I m (\<lambda>r w'. case r of Inl e \<Rightarrow> Q (Inl e) w' | Inr x \<Rightarrow> wp I (k x) Q w') w \<Longrightarrow> wp I (seq m k) Q w"
  by (simp add: wp_seq)

lemma wp_attemptI: "wp I m (\<lambda>r. Q (Inr r)) w \<Longrightarrow> wp I (attempt m) Q w"
  by (simp add: wp_attempt)

lemmas wp_intros = wp_seqI wp_attemptI

end
