(* ===== verification/KA_Repair_Vault.thy ===== *)
theory KA_Repair_Vault
  imports KA_Documents
begin

text \<open>
  The values of the repair vault protocol, \<^verbatim>\<open>crates/protocol/src/rescue_repair_vault.rs\<close>:
  reservations of backup space, execution intents, durable backup records, repair transactions
  and their resolutions, write leases, and rollback children.  The digests that bind them are
  written as preimages handed to SHA-256.

  The newtype \<^verbatim>\<open>Sha256\<close> of \<^verbatim>\<open>rescue_vault.rs\<close> is a type here as well: its
  values are the strings its only constructor, \<^verbatim>\<open>parse\<close>, lets through.  The function
  \<open>sha\<close> of the definitions is SHA-256 with its 32 bytes written in hexadecimal, which is how
  the code always uses it.  Reservation and rollback identifiers are the strings their
  \<^verbatim>\<open>parse\<close> accepts.
\<close>

section \<open>SHA-256 values\<close>

datatype ProtocolViolation =
    EmptyDatagram | DatagramTooLarge | PInvalidJson | UnsupportedVersion | InvalidRequestId | InvalidPayload
  | InvalidAllowlist | InvalidTransport | NotAuthorized | FdRequired | FdForbidden | InvalidDescriptor

typedef Sha256 = "{v :: string. length v = 64 \<and> list_all lower_hex v}"
  morphisms as_str Sha256
proof
  show "replicate 64 CHR ''0'' \<in> {v. length v = 64 \<and> list_all lower_hex v}"
    by (simp add: list_all_iff lower_hex_def ascii_digit_def)
qed

definition Sha256_parse :: "string \<Rightarrow> ProtocolViolation + Sha256" where
  "Sha256_parse v =
     (if length v \<noteq> 64 \<or> \<not> list_all (\<lambda>b. ascii_digit b \<or> lower_af b) v then Inl InvalidPayload
      else Inr (Sha256 v))"

text \<open>\<^verbatim>\<open>chunks_exact(2)\<close> of the 64 digits; the digits of a value of the type always read.\<close>

definition Sha256_bytes :: "Sha256 \<Rightarrow> string" where
  "Sha256_bytes d = (case unhex (as_str d) of Some bytes \<Rightarrow> bytes | None \<Rightarrow> [])"

lemma as_str_props: "length (as_str d) = 64" "list_all lower_hex (as_str d)"
  using as_str [of d] by simp_all

lemma Sha256_parse_as_str [simp]: "Sha256_parse (as_str d) = Inr d"
  using as_str_props [of d] by (simp add: Sha256_parse_def lower_hex_def [abs_def] as_str_inverse)

lemma Sha256_parse_Inr: "Sha256_parse v = Inr d \<longleftrightarrow> as_str d = v"
proof
  assume "Sha256_parse v = Inr d"
  then show "as_str d = v"
    by (auto simp: Sha256_parse_def lower_hex_def [abs_def] Sha256_inverse split: if_splits)
qed auto

lemma hex_nibble_reads: "lower_hex c \<Longrightarrow> \<exists>n. hex_nibble c = Some n"
  by (auto simp: hex_nibble_def lower_hex_def)

lemma unhex_lower_hex: "list_all lower_hex v \<Longrightarrow> \<exists>d. unhex v = Some d \<and> length d = length v div 2"
proof (induction v rule: unhex.induct)
  case (1 a b r)
  obtain h l where nibbles: "hex_nibble a = Some h" "hex_nibble b = Some l"
    using 1(2) hex_nibble_reads [of a] hex_nibble_reads [of b] by auto
  have "list_all lower_hex r" using 1(2) by simp
  from 1(1) [OF _ refl refl this] nibbles obtain d where "unhex r = Some d" "length d = length r div 2"
    by auto
  with nibbles show ?case by simp
qed simp_all

lemma Sha256_bytes_eq: "hex_sha256 (Sha256_bytes d) = as_str d" "length (Sha256_bytes d) = 32"
proof -
  obtain b where "unhex (as_str d) = Some b" "length b = 32"
    using unhex_lower_hex [OF as_str_props(2), of d] as_str_props(1) [of d] by auto
  then show "hex_sha256 (Sha256_bytes d) = as_str d" "length (Sha256_bytes d) = 32"
    using hex_sha256_unhex [of "as_str d" b] as_str_props(1) [of d] by (simp_all add: Sha256_bytes_def)
qed

lemma Sha256_bytes_inject [simp]: "Sha256_bytes c = Sha256_bytes d \<longleftrightarrow> c = d"
  using Sha256_bytes_eq(1) as_str_inject by metis

section \<open>Constants\<close>

definition MAX_REPAIR_BACKUP_BYTES :: u64 where
  "MAX_REPAIR_BACKUP_BYTES = 16 * 1024 * 1024"

definition MAX_REPAIR_RESERVED_BYTES :: u64 where
  "MAX_REPAIR_RESERVED_BYTES = 16 * 1024 * 1024"

definition REPAIR_BACKUP_LOCATOR_PREFIX :: string where
  "REPAIR_BACKUP_LOCATOR_PREFIX = ''vault://repair/''"

definition MAX_OPAQUE_ID_BYTES :: nat where
  "MAX_OPAQUE_ID_BYTES = 128"

definition RESERVATION_BINDING_DOMAIN :: string where
  "RESERVATION_BINDING_DOMAIN = domain_tag ''KERNAID-REPAIR-RESERVATION-V1''"

definition FILE_METADATA_DOMAIN :: string where
  "FILE_METADATA_DOMAIN = domain_tag ''KERNAID-REPAIR-FILE-METADATA-V1''"

definition EXECUTION_INTENT_BINDING_DOMAIN :: string where
  "EXECUTION_INTENT_BINDING_DOMAIN = domain_tag ''KERNAID-REPAIR-EXECUTION-INTENT-V1''"

definition TRANSACTION_BINDING_DOMAIN :: string where
  "TRANSACTION_BINDING_DOMAIN = domain_tag ''KERNAID-REPAIR-TRANSACTION-V1''"

definition WRITE_LEASE_BINDING_DOMAIN :: string where
  "WRITE_LEASE_BINDING_DOMAIN = domain_tag ''KERNAID-REPAIR-WRITE-LEASE-V1''"

definition ROLLBACK_TRANSACTION_BINDING_DOMAIN :: string where
  "ROLLBACK_TRANSACTION_BINDING_DOMAIN = domain_tag ''KERNAID-REPAIR-ROLLBACK-TRANSACTION-V1''"

definition ROLLBACK_WRITE_LEASE_BINDING_DOMAIN :: string where
  "ROLLBACK_WRITE_LEASE_BINDING_DOMAIN = domain_tag ''KERNAID-REPAIR-ROLLBACK-WRITE-LEASE-V1''"

definition MAX_PERMISSION_MODE :: u32 where
  "MAX_PERMISSION_MODE = 0xFFF"

section \<open>Validators\<close>

definition vault_valid_prefixed_id :: "string \<Rightarrow> string \<Rightarrow> bool" where
  "vault_valid_prefixed_id v prefix \<longleftrightarrow>
     length v \<le> MAX_OPAQUE_ID_BYTES \<and>
     (case strip_prefix v prefix of
        None \<Rightarrow> False
      | Some suffix \<Rightarrow> suffix \<noteq> [] \<and> list_all (\<lambda>b. ascii_alphanumeric b \<or> b = CHR ''-'') suffix)"

definition vault_valid_opaque_id :: "string \<Rightarrow> bool" where
  "vault_valid_opaque_id v \<longleftrightarrow>
     v \<noteq> [] \<and> length v \<le> MAX_OPAQUE_ID_BYTES \<and> \<not> contains_str v ''..'' \<and>
     list_all (\<lambda>b. ascii_alphanumeric b \<or> b \<in> set ''-_:.'') v"

definition is_lower_hex :: "char \<Rightarrow> bool" where
  "is_lower_hex b \<longleftrightarrow> ascii_digit b \<or> lower_af b"

definition valid_digest_id :: "string \<Rightarrow> string \<Rightarrow> bool" where
  "valid_digest_id v prefix =
     (case strip_prefix v prefix of
        None \<Rightarrow> False
      | Some suffix \<Rightarrow> length suffix = 64 \<and> list_all is_lower_hex suffix)"

definition valid_vault_id :: "string \<Rightarrow> bool" where
  "valid_vault_id v =
     (case strip_prefix v ''V-'' of
        None \<Rightarrow> False
      | Some suffix \<Rightarrow> length suffix = 32 \<and> list_all is_lower_hex suffix)"

section \<open>Resources\<close>

datatype RepairResourceV1 = RFstab | RCrypttab | RExt4Filesystem | RResolverLink

fun repair_action_id :: "RepairResourceV1 \<Rightarrow> string" where
  "repair_action_id RFstab = ''linux.fstab.disable-missing-uuid.v1''"
| "repair_action_id RCrypttab = ''linux.crypttab.disable-missing-uuid.v1''"
| "repair_action_id RExt4Filesystem = ''linux.ext4.fsck-preen-with-undo.v1''"
| "repair_action_id RResolverLink = ''linux.network.restore-resolver-link.v1''"

fun repair_resource_id :: "RepairResourceV1 \<Rightarrow> string" where
  "repair_resource_id RFstab = ''rescue:selected-linux-root:etc/fstab''"
| "repair_resource_id RCrypttab = ''rescue:selected-linux-root:etc/crypttab''"
| "repair_resource_id RExt4Filesystem = ''rescue:selected-linux-filesystem:ext4''"
| "repair_resource_id RResolverLink = ''rescue:selected-linux-root:etc/resolver-link''"

fun write_lease_capability :: "RepairResourceV1 \<Rightarrow> string" where
  "write_lease_capability RFstab = ''fstab-direct-leaf-rw-v1''"
| "write_lease_capability RCrypttab = ''crypttab-direct-leaf-rw-v1''"
| "write_lease_capability RExt4Filesystem = ''ext4-block-rw-v1''"
| "write_lease_capability RResolverLink = ''resolver-link-direct-leaf-rw-v1''"

fun rollback_action_id :: "RepairResourceV1 \<Rightarrow> string" where
  "rollback_action_id RFstab = ''linux.fstab.restore''"
| "rollback_action_id RCrypttab = ''linux.crypttab.disable-missing-source.v1''"
| "rollback_action_id RExt4Filesystem = ''linux.ext4.fsck-undo.same-boot.v1''"
| "rollback_action_id RResolverLink = ''linux.network.restore-resolver-link-state.v1''"

fun rollback_write_lease_capability :: "RepairResourceV1 \<Rightarrow> string" where
  "rollback_write_lease_capability RFstab = ''fstab-rollback-direct-leaf-rw-v1''"
| "rollback_write_lease_capability RCrypttab = ''crypttab-rollback-direct-leaf-rw-v1''"
| "rollback_write_lease_capability RExt4Filesystem = ''ext4-block-rollback-rw-v1''"
| "rollback_write_lease_capability RResolverLink = ''resolver-link-rollback-direct-leaf-rw-v1''"

definition from_resource_id :: "string \<Rightarrow> ProtocolViolation + RepairResourceV1" where
  "from_resource_id v =
     (if v = repair_resource_id RFstab then Inr RFstab
      else if v = repair_resource_id RCrypttab then Inr RCrypttab
      else if v = repair_resource_id RExt4Filesystem then Inr RExt4Filesystem
      else if v = repair_resource_id RResolverLink then Inr RResolverLink
      else Inl InvalidPayload)"

definition from_execution :: "string \<Rightarrow> string \<Rightarrow> ProtocolViolation + RepairResourceV1" where
  "from_execution action resource_id =
     and_then (from_resource_id resource_id) (\<lambda>resource.
     if action \<noteq> repair_action_id resource then Inl InvalidPayload else Inr resource)"

definition valid_resource_id :: "string \<Rightarrow> bool" where
  "valid_resource_id v = is_ok (from_resource_id v)"

section \<open>File metadata\<close>

text \<open>The two absence markers have one value each and no field here.\<close>

record RepairFileMetadataV1 =
  fm_mode :: u32
  fm_uid :: u32
  fm_gid :: u32

definition RepairFileMetadataV1_new :: "u32 \<Rightarrow> u32 \<Rightarrow> u32 \<Rightarrow> ProtocolViolation + RepairFileMetadataV1" where
  "RepairFileMetadataV1_new mode uid gid =
     (if mode > MAX_PERMISSION_MODE then Inl InvalidPayload
      else Inr \<lparr>fm_mode = mode, fm_uid = uid, fm_gid = gid\<rparr>)"

definition metadata_validate :: "RepairFileMetadataV1 \<Rightarrow> ProtocolViolation + unit" where
  "metadata_validate m = (if fm_mode m > MAX_PERMISSION_MODE then Inl InvalidPayload else Inr ())"

definition file_metadata_preimage :: "RepairFileMetadataV1 \<Rightarrow> string" where
  "file_metadata_preimage m =
     FILE_METADATA_DOMAIN @ frames [u32_be (fm_mode m), u32_be (fm_uid m), u32_be (fm_gid m),
       [CHR 0x00], [CHR 0x00]]"

definition canonical_repair_file_metadata_sha256 :: "(string \<Rightarrow> Sha256) \<Rightarrow> RepairFileMetadataV1 \<Rightarrow> Sha256" where
  "canonical_repair_file_metadata_sha256 sha m = sha (file_metadata_preimage m)"

fun supports_metadata :: "RepairResourceV1 \<Rightarrow> RepairFileMetadataV1 \<Rightarrow> bool" where
  "supports_metadata RFstab m \<longleftrightarrow> fm_mode m = 420"
| "supports_metadata RCrypttab m \<longleftrightarrow> fm_mode m = 384 \<or> fm_mode m = 420"
| "supports_metadata RExt4Filesystem m \<longleftrightarrow> fm_mode m = 384"
| "supports_metadata RResolverLink m \<longleftrightarrow> fm_mode m = 384"

section \<open>Reservations\<close>

type_synonym RepairReservationId = string

definition RepairReservationId_parse :: "string \<Rightarrow> ProtocolViolation + RepairReservationId" where
  "RepairReservationId_parse v =
     (case strip_prefix v ''B-'' of
        None \<Rightarrow> Inl InvalidPayload
      | Some suffix \<Rightarrow>
          if length suffix \<noteq> 32 \<or> \<not> list_all is_lower_hex suffix then Inl InvalidPayload else Inr v)"

definition reservation_locator :: "RepairReservationId \<Rightarrow> string" where
  "reservation_locator r = REPAIR_BACKUP_LOCATOR_PREFIX @ r"

record RepairBackupDraft =
  dr_session_id :: string
  dr_target_id :: string
  dr_target_fingerprint :: Sha256
  dr_target_recovery_fingerprint :: string
  dr_expected_backup_sha256 :: Sha256
  dr_metadata_sha256 :: Sha256
  dr_backup_size :: u64
  dr_required_capacity_bytes :: u64

definition RepairBackupDraft_new :: "RepairBackupDraft \<Rightarrow> ProtocolViolation + RepairBackupDraft" where
  "RepairBackupDraft_new d =
     (if \<not> vault_valid_prefixed_id (dr_session_id d) ''S-''
         \<or> \<not> vault_valid_opaque_id (dr_target_id d)
         \<or> \<not> valid_digest_id (dr_target_recovery_fingerprint d) ''recovery:''
         \<or> \<not> (1 \<le> dr_backup_size d \<and> dr_backup_size d \<le> MAX_REPAIR_BACKUP_BYTES)
         \<or> \<not> (dr_backup_size d \<le> dr_required_capacity_bytes d
              \<and> dr_required_capacity_bytes d \<le> MAX_REPAIR_RESERVED_BYTES)
      then Inl InvalidPayload else Inr d)"

definition draft_binding_preimage :: "RepairBackupDraft \<Rightarrow> string" where
  "draft_binding_preimage d =
     RESERVATION_BINDING_DOMAIN @ frames [dr_session_id d, dr_target_id d, Sha256_bytes (dr_target_fingerprint d),
       dr_target_recovery_fingerprint d, Sha256_bytes (dr_expected_backup_sha256 d),
       Sha256_bytes (dr_metadata_sha256 d), u64_be (dr_backup_size d), u64_be (dr_required_capacity_bytes d)]"

definition canonical_repair_draft_binding_sha256 :: "(string \<Rightarrow> Sha256) \<Rightarrow> RepairBackupDraft \<Rightarrow> Sha256" where
  "canonical_repair_draft_binding_sha256 sha d = sha (draft_binding_preimage d)"

section \<open>Execution intents\<close>

record RepairExecutionIntentV1 =
  ei_action_id :: string
  ei_session_id :: string
  ei_approval_sequence :: u64
  ei_target_id :: string
  ei_scan_fingerprint :: string
  ei_target_fingerprint :: Sha256
  ei_target_physical_parent_fingerprint :: Sha256
  ei_target_recovery_fingerprint :: string
  ei_lock_identity :: string
  ei_before_sha256 :: Sha256
  ei_after_sha256 :: Sha256
  ei_diff_sha256 :: Sha256
  ei_observed_uuid_set_sha256 :: Sha256
  ei_before_metadata :: RepairFileMetadataV1

definition resource_of_action :: "string \<Rightarrow> ProtocolViolation + RepairResourceV1" where
  "resource_of_action action =
     (if action = repair_action_id RFstab then Inr RFstab
      else if action = repair_action_id RCrypttab then Inr RCrypttab
      else if action = repair_action_id RExt4Filesystem then Inr RExt4Filesystem
      else if action = repair_action_id RResolverLink then Inr RResolverLink
      else Inl InvalidPayload)"

definition intent_validate :: "RepairExecutionIntentV1 \<Rightarrow> ProtocolViolation + unit" where
  "intent_validate i =
     and_then (resource_of_action (ei_action_id i)) (\<lambda>resource.
     if \<not> vault_valid_prefixed_id (ei_session_id i) ''S-''
        \<or> \<not> (1 \<le> ei_approval_sequence i \<and> ei_approval_sequence i \<le> MAX_SAFE_JSON_INTEGER)
        \<or> \<not> vault_valid_opaque_id (ei_target_id i)
        \<or> \<not> valid_digest_id (ei_scan_fingerprint i) ''scan:''
        \<or> \<not> valid_digest_id (ei_target_recovery_fingerprint i) ''recovery:''
        \<or> \<not> valid_digest_id (ei_lock_identity i) ''lock:''
        \<or> ei_before_sha256 i = ei_after_sha256 i
        \<or> \<not> is_ok (metadata_validate (ei_before_metadata i))
        \<or> \<not> supports_metadata resource (ei_before_metadata i)
     then Inl InvalidPayload else Inr ())"

text \<open>
  The constructors take the fields one by one; here they come as a record whose action is
  overwritten, as the code does, by the action of the resource.
\<close>

definition intent_new_for_resource ::
  "RepairResourceV1 \<Rightarrow> RepairExecutionIntentV1 \<Rightarrow> ProtocolViolation + RepairExecutionIntentV1" where
  "intent_new_for_resource resource values =
     (let v = values\<lparr>ei_action_id := repair_action_id resource\<rparr>
      in and_then (intent_validate v) (\<lambda>_. Inr v))"

definition intent_new :: "RepairExecutionIntentV1 \<Rightarrow> ProtocolViolation + RepairExecutionIntentV1" where
  "intent_new values = intent_new_for_resource RFstab values"

definition intent_preimage :: "(string \<Rightarrow> Sha256) \<Rightarrow> RepairExecutionIntentV1 \<Rightarrow> string" where
  "intent_preimage sha i =
     EXECUTION_INTENT_BINDING_DOMAIN @ frames [ei_action_id i, ei_session_id i, u64_be (ei_approval_sequence i),
       ei_target_id i, ei_scan_fingerprint i, Sha256_bytes (ei_target_fingerprint i),
       Sha256_bytes (ei_target_physical_parent_fingerprint i), ei_target_recovery_fingerprint i,
       ei_lock_identity i, Sha256_bytes (ei_before_sha256 i), Sha256_bytes (ei_after_sha256 i),
       Sha256_bytes (ei_diff_sha256 i), Sha256_bytes (ei_observed_uuid_set_sha256 i),
       Sha256_bytes (canonical_repair_file_metadata_sha256 sha (ei_before_metadata i))]"

definition canonical_repair_execution_intent_sha256 :: "(string \<Rightarrow> Sha256) \<Rightarrow> RepairExecutionIntentV1 \<Rightarrow> Sha256" where
  "canonical_repair_execution_intent_sha256 sha i = sha (intent_preimage sha i)"

fun lock_id_domain :: "RepairResourceV1 \<Rightarrow> string" where
  "lock_id_domain RFstab = domain_tag ''kernaid:rescue-fstab:target-lock:v2''"
| "lock_id_domain RCrypttab = domain_tag ''kernaid:rescue-crypttab:target-lock:v1''"
| "lock_id_domain RExt4Filesystem = domain_tag ''kernaid:rescue-ext4-fsck:target-lock:v1''"
| "lock_id_domain RResolverLink = domain_tag ''kernaid:rescue-resolver-link:target-lock:v1''"

definition canonical_repair_lock_identity_for_resource ::
  "(string \<Rightarrow> Sha256) \<Rightarrow> string \<Rightarrow> RepairResourceV1 \<Rightarrow> string" where
  "canonical_repair_lock_identity_for_resource sha target_recovery_fingerprint resource =
     ''lock:'' @ as_str (sha (lock_id_domain resource @
       frames [target_recovery_fingerprint, repair_resource_id resource]))"

definition canonical_repair_lock_identity :: "(string \<Rightarrow> Sha256) \<Rightarrow> string \<Rightarrow> string" where
  "canonical_repair_lock_identity sha target_recovery_fingerprint =
     canonical_repair_lock_identity_for_resource sha target_recovery_fingerprint RFstab"

section \<open>Backups\<close>

record RepairBackupBinding =
  bb_plan_id :: string
  bb_plan_sha256 :: Sha256
  bb_approval_id :: string
  bb_approval_sha256 :: Sha256
  bb_resource_id :: string
  bb_resource_sha256 :: Sha256
  bb_execution_intent :: RepairExecutionIntentV1

definition RepairBackupBinding_new :: "RepairBackupBinding \<Rightarrow> ProtocolViolation + RepairBackupBinding" where
  "RepairBackupBinding_new b =
     (if \<not> vault_valid_prefixed_id (bb_plan_id b) ''P-''
         \<or> \<not> vault_valid_prefixed_id (bb_approval_id b) ''A-''
         \<or> \<not> valid_resource_id (bb_resource_id b)
         \<or> \<not> is_ok (intent_validate (bb_execution_intent b))
         \<or> \<not> is_ok (from_execution (ei_action_id (bb_execution_intent b)) (bb_resource_id b))
         \<or> bb_resource_sha256 b \<noteq> ei_before_sha256 (bb_execution_intent b)
      then Inl InvalidPayload else Inr b)"

datatype RepairBackupState = BackupReserved | BackupDurable

record RepairVaultLiveIdentityPayload =
  li_vault_id :: string
  li_vault_identity_fingerprint :: Sha256
  li_physical_parent_fingerprint :: Sha256

definition zero_digest :: string where
  "zero_digest = replicate 32 CHR 0x00"

definition live_identity_validate :: "RepairVaultLiveIdentityPayload \<Rightarrow> ProtocolViolation + unit" where
  "live_identity_validate l =
     (if \<not> valid_vault_id (li_vault_id l)
         \<or> Sha256_bytes (li_vault_identity_fingerprint l) = zero_digest
         \<or> Sha256_bytes (li_physical_parent_fingerprint l) = zero_digest
      then Inl InvalidPayload else Inr ())"

definition RepairVaultLiveIdentityPayload_new ::
  "string \<Rightarrow> Sha256 \<Rightarrow> Sha256 \<Rightarrow> ProtocolViolation + RepairVaultLiveIdentityPayload" where
  "RepairVaultLiveIdentityPayload_new vault_id vault_identity_fingerprint physical_parent_fingerprint =
     (let l = \<lparr>li_vault_id = vault_id, li_vault_identity_fingerprint = vault_identity_fingerprint,
        li_physical_parent_fingerprint = physical_parent_fingerprint\<rparr>
      in and_then (live_identity_validate l) (\<lambda>_. Inr l))"

record RepairBackupStatusPayload =
  bs_state :: RepairBackupState
  bs_reservation_id :: RepairReservationId
  bs_draft_binding_sha256 :: Sha256
  bs_locator :: string
  bs_vault_id :: string
  bs_vault_identity_fingerprint :: Sha256
  bs_physical_parent_fingerprint :: Sha256
  bs_reserved_bytes :: u64
  bs_backup_size :: u64
  bs_expected_backup_sha256 :: Sha256
  bs_metadata_sha256 :: Sha256
  bs_plan_id :: "string option"
  bs_plan_sha256 :: "Sha256 option"
  bs_approval_id :: "string option"
  bs_approval_sha256 :: "Sha256 option"
  bs_resource_id :: "string option"
  bs_resource_sha256 :: "Sha256 option"
  bs_execution_intent :: "RepairExecutionIntentV1 option"

record RepairBackupReleasePayload =
  rl_reservation_id :: RepairReservationId
  rl_draft_binding_sha256 :: Sha256
  rl_released_bytes :: u64

definition RepairBackupReleasePayload_new ::
  "RepairReservationId \<Rightarrow> Sha256 \<Rightarrow> u64 \<Rightarrow> ProtocolViolation + RepairBackupReleasePayload" where
  "RepairBackupReleasePayload_new reservation_id draft_binding_sha256 released_bytes =
     (if \<not> (1 \<le> released_bytes \<and> released_bytes \<le> MAX_REPAIR_RESERVED_BYTES) then Inl InvalidPayload
      else Inr \<lparr>rl_reservation_id = reservation_id, rl_draft_binding_sha256 = draft_binding_sha256,
        rl_released_bytes = released_bytes\<rparr>)"

definition release_validate :: "RepairBackupReleasePayload \<Rightarrow> ProtocolViolation + unit" where
  "release_validate l =
     (if \<not> (1 \<le> rl_released_bytes l \<and> rl_released_bytes l \<le> MAX_REPAIR_RESERVED_BYTES)
      then Inl InvalidPayload else Inr ())"

definition sizes_ok :: "u64 \<Rightarrow> u64 \<Rightarrow> bool" where
  "sizes_ok backup_size reserved_bytes \<longleftrightarrow>
     (1 \<le> backup_size \<and> backup_size \<le> MAX_REPAIR_BACKUP_BYTES) \<and>
     (backup_size \<le> reserved_bytes \<and> reserved_bytes \<le> MAX_REPAIR_RESERVED_BYTES)"

text \<open>
  The private constructor: the fields of a reservation come as a record whose state and
  binding fields it fills in.
\<close>

definition backup_status_new ::
  "RepairBackupState \<Rightarrow> RepairBackupStatusPayload \<Rightarrow> RepairBackupBinding option \<Rightarrow>
   ProtocolViolation + RepairBackupStatusPayload" where
  "backup_status_new state values binding =
     (if bs_locator values \<noteq> reservation_locator (bs_reservation_id values)
         \<or> \<not> valid_vault_id (bs_vault_id values)
         \<or> \<not> sizes_ok (bs_backup_size values) (bs_reserved_bytes values)
         \<or> (state = BackupReserved) \<noteq> (binding = None)
      then Inl InvalidPayload
      else Inr (values\<lparr>bs_state := state,
        bs_plan_id := map_option bb_plan_id binding, bs_plan_sha256 := map_option bb_plan_sha256 binding,
        bs_approval_id := map_option bb_approval_id binding,
        bs_approval_sha256 := map_option bb_approval_sha256 binding,
        bs_resource_id := map_option bb_resource_id binding,
        bs_resource_sha256 := map_option bb_resource_sha256 binding,
        bs_execution_intent := map_option bb_execution_intent binding\<rparr>))"

definition backup_reserved :: "RepairBackupStatusPayload \<Rightarrow> ProtocolViolation + RepairBackupStatusPayload" where
  "backup_reserved values = backup_status_new BackupReserved values None"

definition backup_durable ::
  "RepairBackupStatusPayload \<Rightarrow> RepairBackupBinding \<Rightarrow> ProtocolViolation + RepairBackupStatusPayload" where
  "backup_durable values binding = backup_status_new BackupDurable values (Some binding)"

definition binding_fields_are_none :: "RepairBackupStatusPayload \<Rightarrow> bool" where
  "binding_fields_are_none b \<longleftrightarrow>
     bs_plan_id b = None \<and> bs_plan_sha256 b = None \<and> bs_approval_id b = None \<and> bs_approval_sha256 b = None \<and>
     bs_resource_id b = None \<and> bs_resource_sha256 b = None \<and> bs_execution_intent b = None"

definition is_some_and :: "'a option \<Rightarrow> ('a \<Rightarrow> bool) \<Rightarrow> bool" where
  "is_some_and x f = (case x of None \<Rightarrow> False | Some y \<Rightarrow> f y)"

definition binding_fields_are_valid :: "(string \<Rightarrow> Sha256) \<Rightarrow> RepairBackupStatusPayload \<Rightarrow> bool" where
  "binding_fields_are_valid sha b \<longleftrightarrow>
     is_some_and (bs_plan_id b) (\<lambda>v. vault_valid_prefixed_id v ''P-'') \<and>
     bs_plan_sha256 b \<noteq> None \<and>
     is_some_and (bs_approval_id b) (\<lambda>v. vault_valid_prefixed_id v ''A-'') \<and>
     bs_approval_sha256 b \<noteq> None \<and>
     is_some_and (bs_resource_id b) valid_resource_id \<and>
     is_some_and (bs_resource_sha256 b) (\<lambda>resource_sha256.
       is_some_and (bs_execution_intent b) (\<lambda>intent.
         is_ok (intent_validate intent) \<and>
         resource_sha256 = ei_before_sha256 intent \<and>
         bs_expected_backup_sha256 b = ei_before_sha256 intent \<and>
         bs_metadata_sha256 b = canonical_repair_file_metadata_sha256 sha (ei_before_metadata intent) \<and>
         bs_physical_parent_fingerprint b \<noteq> ei_target_physical_parent_fingerprint intent))"

definition backup_validate :: "(string \<Rightarrow> Sha256) \<Rightarrow> RepairBackupStatusPayload \<Rightarrow> ProtocolViolation + unit" where
  "backup_validate sha b =
     (let valid_binding = (case bs_state b of
          BackupReserved \<Rightarrow> binding_fields_are_none b
        | BackupDurable \<Rightarrow> binding_fields_are_valid sha b)
      in if bs_locator b \<noteq> reservation_locator (bs_reservation_id b)
            \<or> \<not> valid_vault_id (bs_vault_id b)
            \<or> \<not> sizes_ok (bs_backup_size b) (bs_reserved_bytes b)
            \<or> \<not> valid_binding
         then Inl InvalidPayload else Inr ())"

definition immutable_fields_match :: "RepairBackupStatusPayload \<Rightarrow> RepairBackupStatusPayload \<Rightarrow> bool" where
  "immutable_fields_match a b \<longleftrightarrow>
     bs_reservation_id a = bs_reservation_id b \<and> bs_draft_binding_sha256 a = bs_draft_binding_sha256 b \<and>
     bs_locator a = bs_locator b \<and> bs_vault_id a = bs_vault_id b \<and>
     bs_vault_identity_fingerprint a = bs_vault_identity_fingerprint b \<and>
     bs_physical_parent_fingerprint a = bs_physical_parent_fingerprint b \<and>
     bs_reserved_bytes a = bs_reserved_bytes b \<and> bs_backup_size a = bs_backup_size b \<and>
     bs_expected_backup_sha256 a = bs_expected_backup_sha256 b \<and> bs_metadata_sha256 a = bs_metadata_sha256 b"

section \<open>Transactions\<close>

datatype RepairTransactionPhase = TPending | TResolved | TManualReconciliationRequired

datatype RepairTransactionTargetState = TBefore | TAfter | TThird

datatype RepairTransactionResolutionOutcome =
    CommittedAfter | ClosedBeforeUnchanged | ClosedBeforeRestored | ManualReconciliationRequired

record RepairTransactionResolution =
  tr_outcome :: RepairTransactionResolutionOutcome
  tr_target_state :: RepairTransactionTargetState
  tr_observed_resource_sha256 :: Sha256
  tr_observed_metadata_sha256 :: Sha256
  tr_mount_cleanup_verified :: bool

definition classify_target_state :: "Sha256 \<Rightarrow> RepairExecutionIntentV1 \<Rightarrow> RepairTransactionTargetState" where
  "classify_target_state observed intent =
     (if observed = ei_before_sha256 intent then TBefore
      else if observed = ei_after_sha256 intent then TAfter else TThird)"

definition resolution_validate_against ::
  "(string \<Rightarrow> Sha256) \<Rightarrow> RepairTransactionResolution \<Rightarrow> RepairExecutionIntentV1 \<Rightarrow> ProtocolViolation + unit" where
  "resolution_validate_against sha r intent =
     and_then (intent_validate intent) (\<lambda>_.
     if tr_target_state r \<noteq> classify_target_state (tr_observed_resource_sha256 r) intent then Inl InvalidPayload
     else
       let metadata_matches = (tr_observed_metadata_sha256 r =
             canonical_repair_file_metadata_sha256 sha (ei_before_metadata intent));
           exact_closed_state = (case tr_outcome r of
               CommittedAfter \<Rightarrow> tr_target_state r = TAfter \<and> metadata_matches \<and> tr_mount_cleanup_verified r
             | ClosedBeforeUnchanged \<Rightarrow> tr_target_state r = TBefore \<and> metadata_matches \<and> tr_mount_cleanup_verified r
             | ClosedBeforeRestored \<Rightarrow> tr_target_state r = TBefore \<and> metadata_matches \<and> tr_mount_cleanup_verified r
             | ManualReconciliationRequired \<Rightarrow> True)
       in if \<not> exact_closed_state then Inl InvalidPayload else Inr ())"

definition RepairTransactionResolution_new ::
  "(string \<Rightarrow> Sha256) \<Rightarrow> RepairTransactionResolutionOutcome \<Rightarrow> Sha256 \<Rightarrow> Sha256 \<Rightarrow> bool \<Rightarrow>
   RepairExecutionIntentV1 \<Rightarrow> ProtocolViolation + RepairTransactionResolution" where
  "RepairTransactionResolution_new sha outcome observed_resource observed_metadata cleanup intent =
     (let r = \<lparr>tr_outcome = outcome, tr_target_state = classify_target_state observed_resource intent,
        tr_observed_resource_sha256 = observed_resource, tr_observed_metadata_sha256 = observed_metadata,
        tr_mount_cleanup_verified = cleanup\<rparr>
      in and_then (resolution_validate_against sha r intent) (\<lambda>_. Inr r))"

definition resolution_phase :: "RepairTransactionResolution \<Rightarrow> RepairTransactionPhase" where
  "resolution_phase r =
     (case tr_outcome r of
        ManualReconciliationRequired \<Rightarrow> TManualReconciliationRequired
      | _ \<Rightarrow> TResolved)"

record RepairTransactionStatusPayload =
  ts_phase :: RepairTransactionPhase
  ts_transaction_binding_sha256 :: Sha256
  ts_backup :: RepairBackupStatusPayload
  ts_resolution :: "RepairTransactionResolution option"

definition ok_or :: "'e \<Rightarrow> 'a option \<Rightarrow> 'e + 'a" where
  "ok_or e x = (case x of None \<Rightarrow> Inl e | Some y \<Rightarrow> Inr y)"

definition transaction_binding_preimage ::
  "(string \<Rightarrow> Sha256) \<Rightarrow> RepairBackupStatusPayload \<Rightarrow> RepairBackupBinding \<Rightarrow> string" where
  "transaction_binding_preimage sha b binding =
     TRANSACTION_BINDING_DOMAIN @ frames [bs_reservation_id b, Sha256_bytes (bs_draft_binding_sha256 b),
       bs_locator b, bs_vault_id b, Sha256_bytes (bs_vault_identity_fingerprint b),
       Sha256_bytes (bs_physical_parent_fingerprint b), u64_be (bs_reserved_bytes b), u64_be (bs_backup_size b),
       Sha256_bytes (bs_expected_backup_sha256 b), Sha256_bytes (bs_metadata_sha256 b),
       bb_plan_id binding, Sha256_bytes (bb_plan_sha256 binding), bb_approval_id binding,
       Sha256_bytes (bb_approval_sha256 binding), bb_resource_id binding,
       Sha256_bytes (bb_resource_sha256 binding),
       Sha256_bytes (canonical_repair_execution_intent_sha256 sha (bb_execution_intent binding))]"

text \<open>The binding fields of a durable record, refused when one of them is missing.\<close>

definition durable_binding :: "RepairBackupStatusPayload \<Rightarrow> ProtocolViolation + RepairBackupBinding" where
  "durable_binding b =
     and_then (ok_or InvalidPayload (bs_plan_id b)) (\<lambda>plan_id.
     and_then (ok_or InvalidPayload (bs_plan_sha256 b)) (\<lambda>plan_sha256.
     and_then (ok_or InvalidPayload (bs_approval_id b)) (\<lambda>approval_id.
     and_then (ok_or InvalidPayload (bs_approval_sha256 b)) (\<lambda>approval_sha256.
     and_then (ok_or InvalidPayload (bs_resource_id b)) (\<lambda>resource_id.
     and_then (ok_or InvalidPayload (bs_resource_sha256 b)) (\<lambda>resource_sha256.
     and_then (ok_or InvalidPayload (bs_execution_intent b)) (\<lambda>execution_intent.
     Inr \<lparr>bb_plan_id = plan_id, bb_plan_sha256 = plan_sha256, bb_approval_id = approval_id,
       bb_approval_sha256 = approval_sha256, bb_resource_id = resource_id, bb_resource_sha256 = resource_sha256,
       bb_execution_intent = execution_intent\<rparr>)))))))"

definition canonical_repair_transaction_binding_sha256 ::
  "(string \<Rightarrow> Sha256) \<Rightarrow> RepairBackupStatusPayload \<Rightarrow> ProtocolViolation + Sha256" where
  "canonical_repair_transaction_binding_sha256 sha b =
     and_then (backup_validate sha b) (\<lambda>_.
     if bs_state b \<noteq> BackupDurable then Inl InvalidPayload
     else and_then (durable_binding b) (\<lambda>binding. Inr (sha (transaction_binding_preimage sha b binding))))"

definition transaction_validate ::
  "(string \<Rightarrow> Sha256) \<Rightarrow> RepairTransactionStatusPayload \<Rightarrow> ProtocolViolation + unit" where
  "transaction_validate sha t =
     and_then (backup_validate sha (ts_backup t)) (\<lambda>_.
     if bs_state (ts_backup t) \<noteq> BackupDurable then Inl InvalidPayload
     else and_then (canonical_repair_transaction_binding_sha256 sha (ts_backup t)) (\<lambda>digest.
     if ts_transaction_binding_sha256 t \<noteq> digest then Inl InvalidPayload
     else and_then (ok_or InvalidPayload (bs_execution_intent (ts_backup t))) (\<lambda>intent.
     case (ts_phase t, ts_resolution t) of
       (TPending, None) \<Rightarrow> Inr ()
     | (TResolved, Some r) \<Rightarrow>
         if resolution_phase r = TResolved then resolution_validate_against sha r intent else Inl InvalidPayload
     | (TManualReconciliationRequired, Some r) \<Rightarrow>
         if resolution_phase r = TManualReconciliationRequired then resolution_validate_against sha r intent
         else Inl InvalidPayload
     | _ \<Rightarrow> Inl InvalidPayload)))"

definition transaction_new ::
  "(string \<Rightarrow> Sha256) \<Rightarrow> RepairTransactionPhase \<Rightarrow> RepairBackupStatusPayload \<Rightarrow>
   RepairTransactionResolution option \<Rightarrow> ProtocolViolation + RepairTransactionStatusPayload" where
  "transaction_new sha phase backup resolution =
     and_then (canonical_repair_transaction_binding_sha256 sha backup) (\<lambda>digest.
     let t = \<lparr>ts_phase = phase, ts_transaction_binding_sha256 = digest, ts_backup = backup,
       ts_resolution = resolution\<rparr>
     in and_then (transaction_validate sha t) (\<lambda>_. Inr t))"

definition transaction_pending ::
  "(string \<Rightarrow> Sha256) \<Rightarrow> RepairBackupStatusPayload \<Rightarrow> ProtocolViolation + RepairTransactionStatusPayload" where
  "transaction_pending sha backup = transaction_new sha TPending backup None"

definition transaction_resolved ::
  "(string \<Rightarrow> Sha256) \<Rightarrow> RepairBackupStatusPayload \<Rightarrow> RepairTransactionResolution \<Rightarrow>
   ProtocolViolation + RepairTransactionStatusPayload" where
  "transaction_resolved sha backup resolution =
     transaction_new sha (resolution_phase resolution) backup (Some resolution)"

definition transaction_is_unresolved :: "RepairTransactionStatusPayload \<Rightarrow> bool" where
  "transaction_is_unresolved t \<longleftrightarrow> ts_phase t = TPending \<or> ts_phase t = TManualReconciliationRequired"

definition same_transaction :: "RepairTransactionStatusPayload \<Rightarrow> RepairTransactionStatusPayload \<Rightarrow> bool" where
  "same_transaction a b \<longleftrightarrow>
     bs_reservation_id (ts_backup a) = bs_reservation_id (ts_backup b) \<and>
     ts_transaction_binding_sha256 a = ts_transaction_binding_sha256 b \<and> ts_backup a = ts_backup b"

definition resolves_with :: "RepairTransactionStatusPayload \<Rightarrow> RepairTransactionResolution \<Rightarrow> bool" where
  "resolves_with t r \<longleftrightarrow> ts_resolution t = Some r \<and> ts_phase t = resolution_phase r"

datatype RepairTransactionStatusSelector = PendingSingleton | Exact RepairReservationId Sha256

definition selector_for_status :: "RepairTransactionStatusPayload \<Rightarrow> RepairTransactionStatusSelector" where
  "selector_for_status t = Exact (bs_reservation_id (ts_backup t)) (ts_transaction_binding_sha256 t)"

text \<open>A status result is an optional transaction.\<close>

definition status_result_validate ::
  "(string \<Rightarrow> Sha256) \<Rightarrow> RepairTransactionStatusPayload option \<Rightarrow> ProtocolViolation + unit" where
  "status_result_validate sha result =
     (case result of None \<Rightarrow> Inr () | Some t \<Rightarrow> transaction_validate sha t)"

definition matches_result ::
  "(string \<Rightarrow> Sha256) \<Rightarrow> RepairTransactionStatusSelector \<Rightarrow> RepairTransactionStatusPayload option \<Rightarrow> bool" where
  "matches_result sha selector result =
     (if \<not> is_ok (status_result_validate sha result) then False
      else case (selector, result) of
        (PendingSingleton, None) \<Rightarrow> True
      | (PendingSingleton, Some t) \<Rightarrow> transaction_is_unresolved t
      | (Exact reservation digest, Some t) \<Rightarrow>
          bs_reservation_id (ts_backup t) = reservation \<and> ts_transaction_binding_sha256 t = digest
      | (Exact _ _, None) \<Rightarrow> False)"

definition repair_resource_from_transaction ::
  "RepairTransactionStatusPayload \<Rightarrow> ProtocolViolation + RepairResourceV1" where
  "repair_resource_from_transaction t =
     and_then (ok_or InvalidPayload (bs_execution_intent (ts_backup t))) (\<lambda>intent.
     and_then (ok_or InvalidPayload (bs_resource_id (ts_backup t))) (\<lambda>resource_id.
     from_execution (ei_action_id intent) resource_id))"

section \<open>Write leases\<close>

record RepairWriteLeasePayload =
  wl_capability :: string
  wl_boot_epoch_sha256 :: Sha256
  wl_lease_binding_sha256 :: Sha256
  wl_transaction :: RepairTransactionStatusPayload

definition write_lease_preimage ::
  "RepairResourceV1 \<Rightarrow> Sha256 \<Rightarrow> Sha256 \<Rightarrow> RepairExecutionIntentV1 \<Rightarrow> string" where
  "write_lease_preimage resource transaction_binding boot_epoch intent =
     WRITE_LEASE_BINDING_DOMAIN @ frames [write_lease_capability resource, Sha256_bytes transaction_binding,
       Sha256_bytes boot_epoch, ei_target_recovery_fingerprint intent, ei_lock_identity intent]"

definition canonical_repair_write_lease_sha256 ::
  "(string \<Rightarrow> Sha256) \<Rightarrow> RepairTransactionStatusPayload \<Rightarrow> Sha256 \<Rightarrow> ProtocolViolation + Sha256" where
  "canonical_repair_write_lease_sha256 sha t boot_epoch =
     and_then (transaction_validate sha t) (\<lambda>_.
     if ts_phase t \<noteq> TPending \<or> Sha256_bytes boot_epoch = zero_digest then Inl InvalidPayload
     else and_then (ok_or InvalidPayload (bs_execution_intent (ts_backup t))) (\<lambda>intent.
     and_then (repair_resource_from_transaction t) (\<lambda>resource.
     if ei_lock_identity intent \<noteq>
        canonical_repair_lock_identity_for_resource sha (ei_target_recovery_fingerprint intent) resource
     then Inl InvalidPayload
     else Inr (sha (write_lease_preimage resource (ts_transaction_binding_sha256 t) boot_epoch intent)))))"

definition write_lease_validate ::
  "(string \<Rightarrow> Sha256) \<Rightarrow> RepairWriteLeasePayload \<Rightarrow> ProtocolViolation + unit" where
  "write_lease_validate sha w =
     and_then (transaction_validate sha (wl_transaction w)) (\<lambda>_.
     and_then (ok_or InvalidPayload (bs_execution_intent (ts_backup (wl_transaction w)))) (\<lambda>intent.
     and_then (repair_resource_from_transaction (wl_transaction w)) (\<lambda>resource.
     if wl_capability w \<noteq> write_lease_capability resource
        \<or> ts_phase (wl_transaction w) \<noteq> TPending
        \<or> bs_state (ts_backup (wl_transaction w)) \<noteq> BackupDurable
        \<or> Sha256_bytes (wl_boot_epoch_sha256 w) = zero_digest
        \<or> ei_lock_identity intent \<noteq>
           canonical_repair_lock_identity_for_resource sha (ei_target_recovery_fingerprint intent) resource
     then Inl InvalidPayload
     else and_then (canonical_repair_write_lease_sha256 sha (wl_transaction w) (wl_boot_epoch_sha256 w)) (\<lambda>digest.
     if wl_lease_binding_sha256 w \<noteq> digest then Inl InvalidPayload else Inr ()))))"

definition write_lease_consumed ::
  "(string \<Rightarrow> Sha256) \<Rightarrow> RepairTransactionStatusPayload \<Rightarrow> Sha256 \<Rightarrow> ProtocolViolation + RepairWriteLeasePayload" where
  "write_lease_consumed sha t boot_epoch =
     and_then (repair_resource_from_transaction t) (\<lambda>resource.
     and_then (canonical_repair_write_lease_sha256 sha t boot_epoch) (\<lambda>digest.
     let w = \<lparr>wl_capability = write_lease_capability resource, wl_boot_epoch_sha256 = boot_epoch,
       wl_lease_binding_sha256 = digest, wl_transaction = t\<rparr>
     in and_then (write_lease_validate sha w) (\<lambda>_. Inr w)))"

section \<open>Rollback children\<close>

type_synonym RepairRollbackId = string

definition RepairRollbackId_parse :: "string \<Rightarrow> ProtocolViolation + RepairRollbackId" where
  "RepairRollbackId_parse v =
     (case strip_prefix v ''RB-'' of
        None \<Rightarrow> Inl InvalidPayload
      | Some suffix \<Rightarrow>
          if length suffix \<noteq> 32 \<or> \<not> list_all is_lower_hex suffix then Inl InvalidPayload else Inr v)"

record RepairRollbackBindingV1 =
  rb_action_id :: string
  rb_plan_id :: string
  rb_plan_sha256 :: Sha256
  rb_approval_id :: string
  rb_approval_sha256 :: Sha256
  rb_approval_sequence :: u64

definition validate_committed_rollback_source ::
  "(string \<Rightarrow> Sha256) \<Rightarrow> RepairTransactionStatusPayload \<Rightarrow> ProtocolViolation + unit" where
  "validate_committed_rollback_source sha source =
     and_then (transaction_validate sha source) (\<lambda>_.
     if ts_phase source \<noteq> TResolved \<or> map_option tr_outcome (ts_resolution source) \<noteq> Some CommittedAfter
     then Inl InvalidPayload else Inr ())"

definition rollback_binding_validate_against ::
  "(string \<Rightarrow> Sha256) \<Rightarrow> RepairRollbackBindingV1 \<Rightarrow> RepairTransactionStatusPayload \<Rightarrow> ProtocolViolation + unit" where
  "rollback_binding_validate_against sha b source =
     and_then (validate_committed_rollback_source sha source) (\<lambda>_.
     and_then (ok_or InvalidPayload (bs_plan_id (ts_backup source))) (\<lambda>source_plan_id.
     and_then (ok_or InvalidPayload (bs_plan_sha256 (ts_backup source))) (\<lambda>source_plan_sha256.
     and_then (ok_or InvalidPayload (bs_approval_id (ts_backup source))) (\<lambda>source_approval_id.
     and_then (ok_or InvalidPayload (bs_approval_sha256 (ts_backup source))) (\<lambda>source_approval_sha256.
     and_then (ok_or InvalidPayload (bs_execution_intent (ts_backup source))) (\<lambda>source_intent.
     and_then (repair_resource_from_transaction source) (\<lambda>resource.
     if resource = RExt4Filesystem then Inl InvalidPayload
     else and_then (ok_or InvalidPayload (checked_add (ei_approval_sequence source_intent) 1)) (\<lambda>next_sequence.
     if \<not> next_sequence \<le> MAX_SAFE_JSON_INTEGER
        \<or> rb_action_id b \<noteq> rollback_action_id resource
        \<or> \<not> vault_valid_prefixed_id (rb_plan_id b) ''P-''
        \<or> \<not> vault_valid_prefixed_id (rb_approval_id b) ''A-''
        \<or> Sha256_bytes (rb_plan_sha256 b) = zero_digest
        \<or> Sha256_bytes (rb_approval_sha256 b) = zero_digest
        \<or> rb_plan_id b = source_plan_id
        \<or> rb_plan_sha256 b = source_plan_sha256
        \<or> rb_approval_id b = source_approval_id
        \<or> rb_approval_sha256 b = source_approval_sha256
        \<or> rb_approval_sequence b \<noteq> next_sequence
     then Inl InvalidPayload else Inr ()))))))))"

definition rollback_binding_new ::
  "(string \<Rightarrow> Sha256) \<Rightarrow> RepairTransactionStatusPayload \<Rightarrow> string \<Rightarrow> Sha256 \<Rightarrow> string \<Rightarrow> Sha256 \<Rightarrow> u64 \<Rightarrow>
   ProtocolViolation + RepairRollbackBindingV1" where
  "rollback_binding_new sha source plan_id plan_sha256 approval_id approval_sha256 approval_sequence =
     and_then (repair_resource_from_transaction source) (\<lambda>resource.
     let b = \<lparr>rb_action_id = rollback_action_id resource, rb_plan_id = plan_id, rb_plan_sha256 = plan_sha256,
       rb_approval_id = approval_id, rb_approval_sha256 = approval_sha256,
       rb_approval_sequence = approval_sequence\<rparr>
     in and_then (rollback_binding_validate_against sha b source) (\<lambda>_. Inr b))"

datatype RepairRollbackResolutionOutcome = RolledBackBefore | RollbackManualReconciliationRequired

record RepairRollbackResolution =
  rz_outcome :: RepairRollbackResolutionOutcome
  rz_target_state :: RepairTransactionTargetState
  rz_observed_resource_sha256 :: Sha256
  rz_observed_metadata_sha256 :: Sha256
  rz_mount_cleanup_verified :: bool

definition rollback_resolution_validate_against ::
  "(string \<Rightarrow> Sha256) \<Rightarrow> RepairRollbackResolution \<Rightarrow> RepairTransactionStatusPayload \<Rightarrow> ProtocolViolation + unit" where
  "rollback_resolution_validate_against sha r source =
     and_then (validate_committed_rollback_source sha source) (\<lambda>_.
     and_then (ok_or InvalidPayload (bs_execution_intent (ts_backup source))) (\<lambda>intent.
     if rz_target_state r \<noteq> classify_target_state (rz_observed_resource_sha256 r) intent then Inl InvalidPayload
     else
       let metadata_matches = (rz_observed_metadata_sha256 r =
             canonical_repair_file_metadata_sha256 sha (ei_before_metadata intent));
           exact_closed_state = (case rz_outcome r of
               RolledBackBefore \<Rightarrow> rz_target_state r = TBefore \<and> metadata_matches \<and> rz_mount_cleanup_verified r
             | RollbackManualReconciliationRequired \<Rightarrow> True)
       in if \<not> exact_closed_state then Inl InvalidPayload else Inr ()))"

definition RepairRollbackResolution_new ::
  "(string \<Rightarrow> Sha256) \<Rightarrow> RepairRollbackResolutionOutcome \<Rightarrow> Sha256 \<Rightarrow> Sha256 \<Rightarrow> bool \<Rightarrow>
   RepairTransactionStatusPayload \<Rightarrow> ProtocolViolation + RepairRollbackResolution" where
  "RepairRollbackResolution_new sha outcome observed_resource observed_metadata cleanup source =
     and_then (validate_committed_rollback_source sha source) (\<lambda>_.
     and_then (ok_or InvalidPayload (bs_execution_intent (ts_backup source))) (\<lambda>intent.
     let r = \<lparr>rz_outcome = outcome, rz_target_state = classify_target_state observed_resource intent,
       rz_observed_resource_sha256 = observed_resource, rz_observed_metadata_sha256 = observed_metadata,
       rz_mount_cleanup_verified = cleanup\<rparr>
     in and_then (rollback_resolution_validate_against sha r source) (\<lambda>_. Inr r)))"

definition rollback_resolution_phase :: "RepairRollbackResolution \<Rightarrow> RepairTransactionPhase" where
  "rollback_resolution_phase r =
     (case rz_outcome r of
        RolledBackBefore \<Rightarrow> TResolved
      | RollbackManualReconciliationRequired \<Rightarrow> TManualReconciliationRequired)"

record RepairRollbackTransactionStatusPayload =
  rt_phase :: RepairTransactionPhase
  rt_rollback_id :: RepairRollbackId
  rt_rollback_transaction_binding_sha256 :: Sha256
  rt_source :: RepairTransactionStatusPayload
  rt_binding :: RepairRollbackBindingV1
  rt_resolution :: "RepairRollbackResolution option"

definition rollback_transaction_preimage ::
  "RepairRollbackId \<Rightarrow> RepairTransactionStatusPayload \<Rightarrow> RepairRollbackBindingV1 \<Rightarrow> string" where
  "rollback_transaction_preimage rollback_id source b =
     ROLLBACK_TRANSACTION_BINDING_DOMAIN @ frames [rollback_id, bs_reservation_id (ts_backup source),
       Sha256_bytes (ts_transaction_binding_sha256 source), rb_action_id b, rb_plan_id b,
       Sha256_bytes (rb_plan_sha256 b), rb_approval_id b, Sha256_bytes (rb_approval_sha256 b),
       u64_be (rb_approval_sequence b)]"

definition canonical_repair_rollback_transaction_binding_sha256 ::
  "(string \<Rightarrow> Sha256) \<Rightarrow> RepairRollbackId \<Rightarrow> RepairTransactionStatusPayload \<Rightarrow> RepairRollbackBindingV1 \<Rightarrow>
   ProtocolViolation + Sha256" where
  "canonical_repair_rollback_transaction_binding_sha256 sha rollback_id source b =
     and_then (rollback_binding_validate_against sha b source) (\<lambda>_.
     Inr (sha (rollback_transaction_preimage rollback_id source b)))"

definition rollback_transaction_validate ::
  "(string \<Rightarrow> Sha256) \<Rightarrow> RepairRollbackTransactionStatusPayload \<Rightarrow> ProtocolViolation + unit" where
  "rollback_transaction_validate sha t =
     and_then (rollback_binding_validate_against sha (rt_binding t) (rt_source t)) (\<lambda>_.
     and_then (canonical_repair_rollback_transaction_binding_sha256 sha (rt_rollback_id t) (rt_source t)
       (rt_binding t)) (\<lambda>digest.
     if rt_rollback_transaction_binding_sha256 t \<noteq> digest then Inl InvalidPayload
     else case (rt_phase t, rt_resolution t) of
       (TPending, None) \<Rightarrow> Inr ()
     | (TResolved, Some r) \<Rightarrow>
         if rollback_resolution_phase r = TResolved then rollback_resolution_validate_against sha r (rt_source t)
         else Inl InvalidPayload
     | (TManualReconciliationRequired, Some r) \<Rightarrow>
         if rollback_resolution_phase r = TManualReconciliationRequired
         then rollback_resolution_validate_against sha r (rt_source t) else Inl InvalidPayload
     | _ \<Rightarrow> Inl InvalidPayload))"

definition rollback_transaction_new ::
  "(string \<Rightarrow> Sha256) \<Rightarrow> RepairTransactionPhase \<Rightarrow> RepairRollbackId \<Rightarrow> RepairTransactionStatusPayload \<Rightarrow>
   RepairRollbackBindingV1 \<Rightarrow> RepairRollbackResolution option \<Rightarrow>
   ProtocolViolation + RepairRollbackTransactionStatusPayload" where
  "rollback_transaction_new sha phase rollback_id source b resolution =
     and_then (rollback_binding_validate_against sha b source) (\<lambda>_.
     and_then (canonical_repair_rollback_transaction_binding_sha256 sha rollback_id source b) (\<lambda>digest.
     let t = \<lparr>rt_phase = phase, rt_rollback_id = rollback_id, rt_rollback_transaction_binding_sha256 = digest,
       rt_source = source, rt_binding = b, rt_resolution = resolution\<rparr>
     in and_then (rollback_transaction_validate sha t) (\<lambda>_. Inr t)))"

definition rollback_transaction_pending ::
  "(string \<Rightarrow> Sha256) \<Rightarrow> RepairRollbackId \<Rightarrow> RepairTransactionStatusPayload \<Rightarrow> RepairRollbackBindingV1 \<Rightarrow>
   ProtocolViolation + RepairRollbackTransactionStatusPayload" where
  "rollback_transaction_pending sha rollback_id source b =
     rollback_transaction_new sha TPending rollback_id source b None"

definition rollback_transaction_resolved ::
  "(string \<Rightarrow> Sha256) \<Rightarrow> RepairRollbackId \<Rightarrow> RepairTransactionStatusPayload \<Rightarrow> RepairRollbackBindingV1 \<Rightarrow>
   RepairRollbackResolution \<Rightarrow> ProtocolViolation + RepairRollbackTransactionStatusPayload" where
  "rollback_transaction_resolved sha rollback_id source b r =
     rollback_transaction_new sha (rollback_resolution_phase r) rollback_id source b (Some r)"

definition rollback_is_unresolved :: "RepairRollbackTransactionStatusPayload \<Rightarrow> bool" where
  "rollback_is_unresolved t \<longleftrightarrow> rt_phase t = TPending \<or> rt_phase t = TManualReconciliationRequired"

definition rollback_same_transaction ::
  "RepairRollbackTransactionStatusPayload \<Rightarrow> RepairRollbackTransactionStatusPayload \<Rightarrow> bool" where
  "rollback_same_transaction a b \<longleftrightarrow>
     rt_rollback_id a = rt_rollback_id b \<and>
     rt_rollback_transaction_binding_sha256 a = rt_rollback_transaction_binding_sha256 b \<and>
     rt_source a = rt_source b \<and> rt_binding a = rt_binding b"

definition rollback_resolves_with ::
  "RepairRollbackTransactionStatusPayload \<Rightarrow> RepairRollbackResolution \<Rightarrow> bool" where
  "rollback_resolves_with t r \<longleftrightarrow> rt_resolution t = Some r \<and> rt_phase t = rollback_resolution_phase r"

datatype RepairRollbackStatusSelector = RollbackPendingSingleton | RollbackExact RepairRollbackId Sha256

definition rollback_selector_for_status ::
  "RepairRollbackTransactionStatusPayload \<Rightarrow> RepairRollbackStatusSelector" where
  "rollback_selector_for_status t = RollbackExact (rt_rollback_id t) (rt_rollback_transaction_binding_sha256 t)"

definition rollback_status_result_validate ::
  "(string \<Rightarrow> Sha256) \<Rightarrow> RepairRollbackTransactionStatusPayload option \<Rightarrow> ProtocolViolation + unit" where
  "rollback_status_result_validate sha result =
     (case result of None \<Rightarrow> Inr () | Some t \<Rightarrow> rollback_transaction_validate sha t)"

definition rollback_matches_result ::
  "(string \<Rightarrow> Sha256) \<Rightarrow> RepairRollbackStatusSelector \<Rightarrow> RepairRollbackTransactionStatusPayload option \<Rightarrow> bool" where
  "rollback_matches_result sha selector result =
     (if \<not> is_ok (rollback_status_result_validate sha result) then False
      else case (selector, result) of
        (RollbackPendingSingleton, None) \<Rightarrow> True
      | (RollbackPendingSingleton, Some t) \<Rightarrow> rollback_is_unresolved t
      | (RollbackExact rollback_id digest, Some t) \<Rightarrow>
          rt_rollback_id t = rollback_id \<and> rt_rollback_transaction_binding_sha256 t = digest
      | (RollbackExact _ _, None) \<Rightarrow> False)"

record RepairRollbackWriteLeasePayload =
  rw_capability :: string
  rw_boot_epoch_sha256 :: Sha256
  rw_lease_binding_sha256 :: Sha256
  rw_transaction :: RepairRollbackTransactionStatusPayload

definition rollback_write_lease_preimage ::
  "RepairResourceV1 \<Rightarrow> Sha256 \<Rightarrow> Sha256 \<Rightarrow> RepairExecutionIntentV1 \<Rightarrow> string" where
  "rollback_write_lease_preimage resource transaction_binding boot_epoch intent =
     ROLLBACK_WRITE_LEASE_BINDING_DOMAIN @ frames [rollback_write_lease_capability resource,
       Sha256_bytes transaction_binding, Sha256_bytes boot_epoch, ei_target_recovery_fingerprint intent,
       ei_lock_identity intent]"

definition canonical_repair_rollback_write_lease_sha256 ::
  "(string \<Rightarrow> Sha256) \<Rightarrow> RepairRollbackTransactionStatusPayload \<Rightarrow> Sha256 \<Rightarrow> ProtocolViolation + Sha256" where
  "canonical_repair_rollback_write_lease_sha256 sha t boot_epoch =
     and_then (rollback_transaction_validate sha t) (\<lambda>_.
     if rt_phase t \<noteq> TPending \<or> Sha256_bytes boot_epoch = zero_digest then Inl InvalidPayload
     else and_then (ok_or InvalidPayload (bs_execution_intent (ts_backup (rt_source t)))) (\<lambda>intent.
     and_then (repair_resource_from_transaction (rt_source t)) (\<lambda>resource.
     if ei_lock_identity intent \<noteq>
        canonical_repair_lock_identity_for_resource sha (ei_target_recovery_fingerprint intent) resource
     then Inl InvalidPayload
     else Inr (sha (rollback_write_lease_preimage resource (rt_rollback_transaction_binding_sha256 t) boot_epoch
       intent)))))"

definition rollback_write_lease_validate ::
  "(string \<Rightarrow> Sha256) \<Rightarrow> RepairRollbackWriteLeasePayload \<Rightarrow> ProtocolViolation + unit" where
  "rollback_write_lease_validate sha w =
     and_then (rollback_transaction_validate sha (rw_transaction w)) (\<lambda>_.
     and_then (ok_or InvalidPayload (bs_execution_intent (ts_backup (rt_source (rw_transaction w))))) (\<lambda>intent.
     and_then (repair_resource_from_transaction (rt_source (rw_transaction w))) (\<lambda>resource.
     if rw_capability w \<noteq> rollback_write_lease_capability resource
        \<or> rt_phase (rw_transaction w) \<noteq> TPending
        \<or> rb_action_id (rt_binding (rw_transaction w)) \<noteq> rollback_action_id resource
        \<or> Sha256_bytes (rw_boot_epoch_sha256 w) = zero_digest
        \<or> ei_lock_identity intent \<noteq>
           canonical_repair_lock_identity_for_resource sha (ei_target_recovery_fingerprint intent) resource
     then Inl InvalidPayload
     else and_then (canonical_repair_rollback_write_lease_sha256 sha (rw_transaction w) (rw_boot_epoch_sha256 w))
       (\<lambda>digest.
     if rw_lease_binding_sha256 w \<noteq> digest then Inl InvalidPayload else Inr ()))))"

definition rollback_write_lease_consumed ::
  "(string \<Rightarrow> Sha256) \<Rightarrow> RepairRollbackTransactionStatusPayload \<Rightarrow> Sha256 \<Rightarrow>
   ProtocolViolation + RepairRollbackWriteLeasePayload" where
  "rollback_write_lease_consumed sha t boot_epoch =
     and_then (repair_resource_from_transaction (rt_source t)) (\<lambda>resource.
     and_then (canonical_repair_rollback_write_lease_sha256 sha t boot_epoch) (\<lambda>digest.
     let w = \<lparr>rw_capability = rollback_write_lease_capability resource, rw_boot_epoch_sha256 = boot_epoch,
       rw_lease_binding_sha256 = digest, rw_transaction = t\<rparr>
     in and_then (rollback_write_lease_validate sha w) (\<lambda>_. Inr w)))"

section \<open>What the validators let through\<close>

lemma is_some_and_iff [simp]: "is_some_and x f \<longleftrightarrow> (\<exists>y. x = Some y \<and> f y)"
  by (cases x) (simp_all add: is_some_and_def)

lemma ok_or_Inr [simp]: "ok_or e x = Inr y \<longleftrightarrow> x = Some y"
  by (cases x) (simp_all add: ok_or_def)

lemma from_resource_id_Inr: "from_resource_id v = Inr r \<longleftrightarrow> v = repair_resource_id r"
  by (cases r) (auto simp: from_resource_id_def split: if_splits)

lemma resource_of_action_Inr: "resource_of_action v = Inr r \<longleftrightarrow> v = repair_action_id r"
  by (cases r) (auto simp: resource_of_action_def split: if_splits)

lemma from_execution_Inr: "from_execution a v = Inr r \<longleftrightarrow> v = repair_resource_id r \<and> a = repair_action_id r"
  by (auto simp: from_execution_def from_resource_id_Inr)

lemma from_execution_same [simp]: "from_execution (repair_action_id r) (repair_resource_id r) = Inr r"
  by (simp add: from_execution_Inr)

lemma resource_ids_inject:
  "repair_resource_id r = repair_resource_id t \<longleftrightarrow> r = t" "repair_action_id r = repair_action_id t \<longleftrightarrow> r = t"
  by (cases r; cases t; simp)+

lemma valid_resource_id_iff: "valid_resource_id v \<longleftrightarrow> (\<exists>r. v = repair_resource_id r)"
  by (auto simp: valid_resource_id_def is_ok_iff from_resource_id_Inr)

lemma digest_id_length: "valid_digest_id v prefix \<Longrightarrow> length v = length prefix + 64"
  by (auto simp: valid_digest_id_def strip_prefix_Some_iff split: option.splits)

lemma vault_id_length: "valid_vault_id v \<Longrightarrow> length v = 34"
  by (auto simp: valid_vault_id_def strip_prefix_Some_iff split: option.splits)

lemma reservation_length: "RepairReservationId_parse v = Inr r \<Longrightarrow> r = v \<and> length v = 34"
  by (auto simp: RepairReservationId_parse_def strip_prefix_Some_iff split: option.splits if_splits)

lemma resource_text_length: "length (repair_resource_id r) \<le> 50" "length (repair_action_id r) \<le> 50"
  by (cases r; simp)+

lemma intent_validate_Inr:
  "intent_validate i = Inr u \<longleftrightarrow>
   (\<exists>resource. ei_action_id i = repair_action_id resource \<and> supports_metadata resource (ei_before_metadata i)) \<and>
   vault_valid_prefixed_id (ei_session_id i) ''S-'' \<and>
   1 \<le> ei_approval_sequence i \<and> ei_approval_sequence i \<le> MAX_SAFE_JSON_INTEGER \<and>
   vault_valid_opaque_id (ei_target_id i) \<and> valid_digest_id (ei_scan_fingerprint i) ''scan:'' \<and>
   valid_digest_id (ei_target_recovery_fingerprint i) ''recovery:'' \<and> valid_digest_id (ei_lock_identity i) ''lock:'' \<and>
   ei_before_sha256 i \<noteq> ei_after_sha256 i \<and> is_ok (metadata_validate (ei_before_metadata i))"
  by (cases "resource_of_action (ei_action_id i)")
    (auto simp: intent_validate_def resource_of_action_Inr, metis resource_of_action_Inr sum.distinct(1))

section \<open>What the digests bind\<close>

lemma tagged_frames:
  assumes "domain_tag d @ frames xs = domain_tag d @ frames ys" and "length xs = length ys"
    and "list_all (\<lambda>s. length s \<le> 1000) xs" and "list_all (\<lambda>s. length s \<le> 1000) ys"
  shows "xs = ys"
proof -
  have "list_all fits xs" "list_all fits ys"
    using assms(3,4) by (auto simp: list_all_iff fits_short)
  then show ?thesis using frames_rest [of xs "[]" ys "[]"] assms(1,2) by simp
qed

lemma metadata_preimage_inject: "file_metadata_preimage m = file_metadata_preimage n \<Longrightarrow> m = n"
  unfolding file_metadata_preimage_def FILE_METADATA_DOMAIN_def
  by (drule tagged_frames) (simp_all add: u32_be_inject)

definition short_intent :: "RepairExecutionIntentV1 \<Rightarrow> bool" where
  "short_intent i \<longleftrightarrow> list_all (\<lambda>s. length s \<le> 1000) [ei_action_id i, ei_session_id i, ei_target_id i,
     ei_scan_fingerprint i, ei_target_recovery_fingerprint i, ei_lock_identity i]"

lemma valid_intent_short: "intent_validate i = Inr u \<Longrightarrow> short_intent i"
proof -
  assume valid: "intent_validate i = Inr u"
  then obtain resource where "ei_action_id i = repair_action_id resource" by (auto simp: intent_validate_Inr)
  then have "length (ei_action_id i) \<le> 50" using resource_text_length(2) by simp
  moreover have "length (ei_scan_fingerprint i) = 69" "length (ei_target_recovery_fingerprint i) = 73"
    "length (ei_lock_identity i) = 69"
    using valid by (auto simp: intent_validate_Inr dest!: digest_id_length)
  moreover have "length (ei_session_id i) \<le> 128" "length (ei_target_id i) \<le> 128"
    using valid by (simp_all add: intent_validate_Inr vault_valid_prefixed_id_def vault_valid_opaque_id_def
      MAX_OPAQUE_ID_BYTES_def)
  ultimately show ?thesis by (simp add: short_intent_def)
qed

lemma intent_preimage_inject:
  assumes "intent_preimage sha i = intent_preimage sha j" and "short_intent i" and "short_intent j"
    and "canonical_repair_file_metadata_sha256 sha (ei_before_metadata i) =
      canonical_repair_file_metadata_sha256 sha (ei_before_metadata j) \<Longrightarrow>
      ei_before_metadata i = ei_before_metadata j"
  shows "i = j"
proof -
  have "[ei_action_id i, ei_session_id i, u64_be (ei_approval_sequence i),
       ei_target_id i, ei_scan_fingerprint i, Sha256_bytes (ei_target_fingerprint i),
       Sha256_bytes (ei_target_physical_parent_fingerprint i), ei_target_recovery_fingerprint i,
       ei_lock_identity i, Sha256_bytes (ei_before_sha256 i), Sha256_bytes (ei_after_sha256 i),
       Sha256_bytes (ei_diff_sha256 i), Sha256_bytes (ei_observed_uuid_set_sha256 i),
       Sha256_bytes (canonical_repair_file_metadata_sha256 sha (ei_before_metadata i))] =
     [ei_action_id j, ei_session_id j, u64_be (ei_approval_sequence j),
       ei_target_id j, ei_scan_fingerprint j, Sha256_bytes (ei_target_fingerprint j),
       Sha256_bytes (ei_target_physical_parent_fingerprint j), ei_target_recovery_fingerprint j,
       ei_lock_identity j, Sha256_bytes (ei_before_sha256 j), Sha256_bytes (ei_after_sha256 j),
       Sha256_bytes (ei_diff_sha256 j), Sha256_bytes (ei_observed_uuid_set_sha256 j),
       Sha256_bytes (canonical_repair_file_metadata_sha256 sha (ei_before_metadata j))]"
    using assms(1) unfolding intent_preimage_def EXECUTION_INTENT_BINDING_DOMAIN_def
    by (rule tagged_frames) (use assms(2,3) in \<open>simp_all add: short_intent_def Sha256_bytes_eq(2)\<close>)
  then show ?thesis using assms(4) by (auto dest: u64_be_inject)
qed

lemma backup_validate_durable:
  assumes "backup_validate sha b = Inr u" and "bs_state b = BackupDurable"
  obtains intent where "bs_execution_intent b = Some intent" and "intent_validate intent = Inr ()"
    and "bs_resource_sha256 b = Some (ei_before_sha256 intent)"
    and "bs_expected_backup_sha256 b = ei_before_sha256 intent"
    and "bs_metadata_sha256 b = canonical_repair_file_metadata_sha256 sha (ei_before_metadata intent)"
    and "bs_physical_parent_fingerprint b \<noteq> ei_target_physical_parent_fingerprint intent"
    and "bs_locator b = reservation_locator (bs_reservation_id b)" and "valid_vault_id (bs_vault_id b)"
    and "is_some_and (bs_plan_id b) (\<lambda>v. vault_valid_prefixed_id v ''P-'')"
    and "is_some_and (bs_approval_id b) (\<lambda>v. vault_valid_prefixed_id v ''A-'')"
    and "is_some_and (bs_resource_id b) valid_resource_id"
  using assms
  by (auto simp: backup_validate_def binding_fields_are_valid_def is_ok_iff split: if_splits)

lemma durable_binding_Inr:
  "durable_binding b = Inr v \<longleftrightarrow>
   bs_plan_id b = Some (bb_plan_id v) \<and> bs_plan_sha256 b = Some (bb_plan_sha256 v) \<and>
   bs_approval_id b = Some (bb_approval_id v) \<and> bs_approval_sha256 b = Some (bb_approval_sha256 v) \<and>
   bs_resource_id b = Some (bb_resource_id v) \<and> bs_resource_sha256 b = Some (bb_resource_sha256 v) \<and>
   bs_execution_intent b = Some (bb_execution_intent v)"
  by (cases "(bs_plan_id b, bs_plan_sha256 b, bs_approval_id b, bs_approval_sha256 b)"; cases "bs_plan_id b";
      cases "bs_plan_sha256 b"; cases "bs_approval_id b"; cases "bs_approval_sha256 b"; cases "bs_resource_id b";
      cases "bs_resource_sha256 b"; cases "bs_execution_intent b"; cases v)
    (auto simp: durable_binding_def ok_or_def)

lemma transaction_binding_Inr:
  "canonical_repair_transaction_binding_sha256 sha b = Inr d \<longleftrightarrow>
   backup_validate sha b = Inr () \<and> bs_state b = BackupDurable \<and>
   (\<exists>v. durable_binding b = Inr v \<and> d = sha (transaction_binding_preimage sha b v))"
  by (cases "backup_validate sha b"; cases "durable_binding b")
    (auto simp: canonical_repair_transaction_binding_sha256_def)

lemma durable_backup_short:
  assumes "backup_validate sha b = Inr u" and "bs_state b = BackupDurable" and "durable_binding b = Inr v"
    and "RepairReservationId_parse (bs_reservation_id b) = Inr r"
  shows "list_all (\<lambda>s. length s \<le> 1000) [bs_reservation_id b, bs_locator b, bs_vault_id b, bb_plan_id v,
    bb_approval_id v, bb_resource_id v]" and "short_intent (bb_execution_intent v)"
proof -
  note fields = durable_binding_Inr [THEN iffD1, OF assms(3)]
  show "list_all (\<lambda>s. length s \<le> 1000) [bs_reservation_id b, bs_locator b, bs_vault_id b, bb_plan_id v,
    bb_approval_id v, bb_resource_id v]"
    using assms(1,2)
  proof (cases rule: backup_validate_durable)
    case (1 intent)
    have "length (bb_resource_id v) \<le> 50"
      using 1(11) fields resource_text_length(1) by (auto simp: valid_resource_id_iff)
    moreover have "length (bb_plan_id v) \<le> 128" "length (bb_approval_id v) \<le> 128"
      using 1(9,10) fields by (auto simp: vault_valid_prefixed_id_def MAX_OPAQUE_ID_BYTES_def)
    ultimately show ?thesis
      using reservation_length [OF assms(4)] 1(7) vault_id_length [OF 1(8)]
      by (simp add: reservation_locator_def REPAIR_BACKUP_LOCATOR_PREFIX_def)
  qed
  show "short_intent (bb_execution_intent v)"
    using assms(1,2) by (cases rule: backup_validate_durable) (use fields valid_intent_short in auto)
qed

lemma transaction_preimage_inject:
  assumes eq: "transaction_binding_preimage sha a v = transaction_binding_preimage sha b w"
    and "list_all (\<lambda>s. length s \<le> 1000) [bs_reservation_id a, bs_locator a, bs_vault_id a, bb_plan_id v,
      bb_approval_id v, bb_resource_id v]"
    and "list_all (\<lambda>s. length s \<le> 1000) [bs_reservation_id b, bs_locator b, bs_vault_id b, bb_plan_id w,
      bb_approval_id w, bb_resource_id w]"
  shows "immutable_fields_match a b \<and> bb_plan_id v = bb_plan_id w \<and> bb_plan_sha256 v = bb_plan_sha256 w \<and>
    bb_approval_id v = bb_approval_id w \<and> bb_approval_sha256 v = bb_approval_sha256 w \<and>
    bb_resource_id v = bb_resource_id w \<and> bb_resource_sha256 v = bb_resource_sha256 w \<and>
    canonical_repair_execution_intent_sha256 sha (bb_execution_intent v) =
      canonical_repair_execution_intent_sha256 sha (bb_execution_intent w)"
proof -
  let ?fields = "\<lambda>b binding. [bs_reservation_id b, Sha256_bytes (bs_draft_binding_sha256 b),
       bs_locator b, bs_vault_id b, Sha256_bytes (bs_vault_identity_fingerprint b),
       Sha256_bytes (bs_physical_parent_fingerprint b), u64_be (bs_reserved_bytes b), u64_be (bs_backup_size b),
       Sha256_bytes (bs_expected_backup_sha256 b), Sha256_bytes (bs_metadata_sha256 b),
       bb_plan_id binding, Sha256_bytes (bb_plan_sha256 binding), bb_approval_id binding,
       Sha256_bytes (bb_approval_sha256 binding), bb_resource_id binding,
       Sha256_bytes (bb_resource_sha256 binding),
       Sha256_bytes (canonical_repair_execution_intent_sha256 sha (bb_execution_intent binding))]"
  have "?fields a v = ?fields b w"
    using eq unfolding transaction_binding_preimage_def TRANSACTION_BINDING_DOMAIN_def
    by (rule tagged_frames) (use assms(2,3) in \<open>simp_all add: Sha256_bytes_eq(2)\<close>)
  then show ?thesis by (auto simp: immutable_fields_match_def dest: u64_be_inject)
qed

text \<open>
  Two different inputs of one of the digests, taken from the records themselves, with the same
  SHA-256 value: the transaction preimages, the intent preimages or the metadata preimages.
\<close>

definition digest_collision ::
  "(string \<Rightarrow> Sha256) \<Rightarrow> RepairBackupStatusPayload \<Rightarrow> RepairBackupStatusPayload \<Rightarrow> bool" where
  "digest_collision sha a b \<longleftrightarrow>
     (\<exists>v w. durable_binding a = Inr v \<and> durable_binding b = Inr w \<and>
       (let clash = (\<lambda>x y. x \<noteq> y \<and> sha x = sha y); i = bb_execution_intent v; j = bb_execution_intent w in
        clash (transaction_binding_preimage sha a v) (transaction_binding_preimage sha b w) \<or>
        clash (intent_preimage sha i) (intent_preimage sha j) \<or>
        clash (file_metadata_preimage (ei_before_metadata i)) (file_metadata_preimage (ei_before_metadata j))))"

lemma transaction_digest_binds:
  assumes a: "canonical_repair_transaction_binding_sha256 sha a = Inr d"
    and b: "canonical_repair_transaction_binding_sha256 sha b = Inr d"
    and ids: "RepairReservationId_parse (bs_reservation_id a) = Inr r" "RepairReservationId_parse (bs_reservation_id b) = Inr t"
  shows "a = b \<or> digest_collision sha a b"
proof -
  obtain v where va: "backup_validate sha a = Inr ()" "bs_state a = BackupDurable" "durable_binding a = Inr v"
    and da: "d = sha (transaction_binding_preimage sha a v)"
    using a by (auto simp: transaction_binding_Inr)
  obtain w where vb: "backup_validate sha b = Inr ()" "bs_state b = BackupDurable" "durable_binding b = Inr w"
    and db: "d = sha (transaction_binding_preimage sha b w)"
    using b by (auto simp: transaction_binding_Inr)
  note short = durable_backup_short [OF va ids(1)] durable_backup_short [OF vb ids(2)]
  show ?thesis
  proof (cases "digest_collision sha a b")
    case False
    then have none: "\<not> (x \<noteq> y \<and> sha x = sha y)"
      if "(x, y) \<in> {(transaction_binding_preimage sha a v, transaction_binding_preimage sha b w),
        (intent_preimage sha (bb_execution_intent v), intent_preimage sha (bb_execution_intent w)),
        (file_metadata_preimage (ei_before_metadata (bb_execution_intent v)),
         file_metadata_preimage (ei_before_metadata (bb_execution_intent w)))}" for x y
      using that va(3) vb(3) by (auto simp: digest_collision_def Let_def)
    have "transaction_binding_preimage sha a v = transaction_binding_preimage sha b w"
      using none [of "transaction_binding_preimage sha a v" "transaction_binding_preimage sha b w"] da db by simp
    note same = transaction_preimage_inject [OF this short(1) short(3)]
    have "intent_preimage sha (bb_execution_intent v) = intent_preimage sha (bb_execution_intent w)"
      using none [of "intent_preimage sha (bb_execution_intent v)" "intent_preimage sha (bb_execution_intent w)"] same
      by (simp add: canonical_repair_execution_intent_sha256_def)
    moreover have "ei_before_metadata (bb_execution_intent v) = ei_before_metadata (bb_execution_intent w)"
      if "canonical_repair_file_metadata_sha256 sha (ei_before_metadata (bb_execution_intent v)) =
        canonical_repair_file_metadata_sha256 sha (ei_before_metadata (bb_execution_intent w))"
      using none [of "file_metadata_preimage (ei_before_metadata (bb_execution_intent v))"
        "file_metadata_preimage (ei_before_metadata (bb_execution_intent w))"] that
      by (simp add: canonical_repair_file_metadata_sha256_def metadata_preimage_inject)
    ultimately have "bb_execution_intent v = bb_execution_intent w"
      using intent_preimage_inject short(2,4) by blast
    then have "a = b"
      using same va vb by (cases a; cases b) (simp add: durable_binding_Inr immutable_fields_match_def)
    then show ?thesis ..
  qed simp
qed

lemma resolution_phase_not_pending [simp]: "resolution_phase r \<noteq> TPending" "TPending \<noteq> resolution_phase r"
  by (cases "tr_outcome r"; simp add: resolution_phase_def)+

lemma transaction_validate_Inr:
  "transaction_validate sha t = Inr u \<longleftrightarrow>
   canonical_repair_transaction_binding_sha256 sha (ts_backup t) = Inr (ts_transaction_binding_sha256 t) \<and>
   (\<exists>intent. bs_execution_intent (ts_backup t) = Some intent \<and>
     (case ts_resolution t of
        None \<Rightarrow> ts_phase t = TPending
      | Some r \<Rightarrow> ts_phase t = resolution_phase r \<and> resolution_validate_against sha r intent = Inr ()))"
  by (cases "canonical_repair_transaction_binding_sha256 sha (ts_backup t)";
      cases "bs_execution_intent (ts_backup t)"; cases "ts_resolution t"; cases "ts_phase t")
    (auto simp: transaction_validate_def transaction_binding_Inr ok_or_def)

lemma pending_unresolved:
  "transaction_validate sha t = Inr u \<Longrightarrow> ts_phase t = TPending \<Longrightarrow> ts_resolution t = None"
  by (auto simp: transaction_validate_Inr split: option.splits)

lemma resolution_validate_Inr:
  "resolution_validate_against sha r intent = Inr u \<longleftrightarrow>
   intent_validate intent = Inr () \<and>
   tr_target_state r = classify_target_state (tr_observed_resource_sha256 r) intent \<and>
   (tr_outcome r \<noteq> ManualReconciliationRequired \<longrightarrow>
     tr_mount_cleanup_verified r \<and>
     tr_observed_metadata_sha256 r = canonical_repair_file_metadata_sha256 sha (ei_before_metadata intent) \<and>
     tr_observed_resource_sha256 r =
       (if tr_outcome r = CommittedAfter then ei_after_sha256 intent else ei_before_sha256 intent))"
proof (cases "intent_validate intent")
  case (Inr u)
  then have "ei_before_sha256 intent \<noteq> ei_after_sha256 intent" by (simp add: intent_validate_Inr)
  then show ?thesis
    using Inr by (cases "tr_outcome r") (auto simp: resolution_validate_against_def classify_target_state_def Let_def)
qed (simp add: resolution_validate_against_def)

lemma write_lease_Inr:
  assumes "write_lease_consumed sha t epoch = Inr w"
  obtains resource intent where "wl_transaction w = t" and "wl_boot_epoch_sha256 w = epoch"
    and "transaction_validate sha t = Inr ()" and "ts_phase t = TPending" and "Sha256_bytes epoch \<noteq> zero_digest"
    and "bs_execution_intent (ts_backup t) = Some intent" and "repair_resource_from_transaction t = Inr resource"
    and "ei_lock_identity intent =
      canonical_repair_lock_identity_for_resource sha (ei_target_recovery_fingerprint intent) resource"
    and "wl_lease_binding_sha256 w =
      sha (write_lease_preimage resource (ts_transaction_binding_sha256 t) epoch intent)"
proof -
  obtain resource where r: "repair_resource_from_transaction t = Inr resource"
    using assms by (cases "repair_resource_from_transaction t") (simp_all add: write_lease_consumed_def)
  obtain digest where d: "canonical_repair_write_lease_sha256 sha t epoch = Inr digest"
    and w: "wl_transaction w = t" "wl_boot_epoch_sha256 w = epoch" "wl_lease_binding_sha256 w = digest"
    using assms r
    by (cases "canonical_repair_write_lease_sha256 sha t epoch")
      (auto simp: write_lease_consumed_def Let_def and_then_def split: sum.splits)
  show thesis
    using that [OF w(1,2)] d r w(3)
    by (cases "transaction_validate sha t"; cases "bs_execution_intent (ts_backup t)")
      (auto simp: canonical_repair_write_lease_sha256_def ok_or_def split: if_splits)
qed

lemma committed_source_Inr:
  "validate_committed_rollback_source sha source = Inr u \<longleftrightarrow>
   transaction_validate sha source = Inr () \<and> (\<exists>r. ts_resolution source = Some r \<and> tr_outcome r = CommittedAfter)"
proof -
  have "ts_phase source = TResolved"
    if "transaction_validate sha source = Inr ()" "ts_resolution source = Some r" "tr_outcome r = CommittedAfter" for r
    using that by (auto simp: transaction_validate_Inr resolution_phase_def)
  then show ?thesis
    by (cases "transaction_validate sha source") (auto simp: validate_committed_rollback_source_def)
qed

text \<open>What a rollback needs of the repair it undoes, over the fields of the durable record.\<close>

definition rollback_admissible ::
  "(string \<Rightarrow> Sha256) \<Rightarrow> RepairTransactionStatusPayload \<Rightarrow> RepairRollbackBindingV1 \<Rightarrow> bool" where
  "rollback_admissible sha source b \<longleftrightarrow>
     transaction_validate sha source = Inr () \<and>
     map_option tr_outcome (ts_resolution source) = Some CommittedAfter \<and>
     (\<exists>v resource. durable_binding (ts_backup source) = Inr v \<and>
       bb_resource_id v = repair_resource_id resource \<and>
       ei_action_id (bb_execution_intent v) = repair_action_id resource \<and>
       resource \<noteq> RExt4Filesystem \<and> rb_action_id b = rollback_action_id resource \<and>
       vault_valid_prefixed_id (rb_plan_id b) ''P-'' \<and> vault_valid_prefixed_id (rb_approval_id b) ''A-'' \<and>
       Sha256_bytes (rb_plan_sha256 b) \<noteq> zero_digest \<and> Sha256_bytes (rb_approval_sha256 b) \<noteq> zero_digest \<and>
       rb_plan_id b \<noteq> bb_plan_id v \<and> rb_plan_sha256 b \<noteq> bb_plan_sha256 v \<and>
       rb_approval_id b \<noteq> bb_approval_id v \<and> rb_approval_sha256 b \<noteq> bb_approval_sha256 v \<and>
       unat (rb_approval_sequence b) = unat (ei_approval_sequence (bb_execution_intent v)) + 1 \<and>
       rb_approval_sequence b \<le> MAX_SAFE_JSON_INTEGER)"

lemma checked_add_one: "checked_add a 1 = Some b \<longleftrightarrow> unat b = unat a + 1"
proof
  assume eq: "unat b = unat a + 1"
  have "unat b < 2 ^ 64" using unsigned_less [of b] by simp
  with eq show "checked_add a 1 = Some b"
    by (simp add: checked_add_def word_unat_eq_iff unat_word_ariths)
qed (auto dest: checked_add_Some)

lemma rollback_binding_Inr:
  "rollback_binding_validate_against sha b source = Inr u \<longleftrightarrow> rollback_admissible sha source b"
proof (cases "transaction_validate sha source = Inr ()")
  case True
  then obtain v where v: "durable_binding (ts_backup source) = Inr v"
    by (auto simp: transaction_validate_Inr transaction_binding_Inr)
  then have fields: "bs_plan_id (ts_backup source) = Some (bb_plan_id v)"
    "bs_plan_sha256 (ts_backup source) = Some (bb_plan_sha256 v)"
    "bs_approval_id (ts_backup source) = Some (bb_approval_id v)"
    "bs_approval_sha256 (ts_backup source) = Some (bb_approval_sha256 v)"
    "bs_execution_intent (ts_backup source) = Some (bb_execution_intent v)"
    "bs_resource_id (ts_backup source) = Some (bb_resource_id v)"
    by (simp_all add: durable_binding_Inr)
  show ?thesis
  proof (cases "validate_committed_rollback_source sha source")
    case (Inl e)
    then have "map_option tr_outcome (ts_resolution source) \<noteq> Some CommittedAfter"
      using committed_source_Inr [of sha source "()"] True by auto
    then show ?thesis using Inl by (simp add: rollback_binding_validate_against_def rollback_admissible_def)
  next
    case (Inr c)
    then have committed: "map_option tr_outcome (ts_resolution source) = Some CommittedAfter"
      by (auto simp: committed_source_Inr)
    have "rollback_binding_validate_against sha b source = Inr u \<longleftrightarrow>
      (\<exists>resource next_sequence.
        from_execution (ei_action_id (bb_execution_intent v)) (bb_resource_id v) = Inr resource \<and>
        checked_add (ei_approval_sequence (bb_execution_intent v)) 1 = Some next_sequence \<and>
        resource \<noteq> RExt4Filesystem \<and> next_sequence \<le> MAX_SAFE_JSON_INTEGER \<and>
        rb_action_id b = rollback_action_id resource \<and>
        vault_valid_prefixed_id (rb_plan_id b) ''P-'' \<and> vault_valid_prefixed_id (rb_approval_id b) ''A-'' \<and>
        Sha256_bytes (rb_plan_sha256 b) \<noteq> zero_digest \<and> Sha256_bytes (rb_approval_sha256 b) \<noteq> zero_digest \<and>
        rb_plan_id b \<noteq> bb_plan_id v \<and> rb_plan_sha256 b \<noteq> bb_plan_sha256 v \<and>
        rb_approval_id b \<noteq> bb_approval_id v \<and> rb_approval_sha256 b \<noteq> bb_approval_sha256 v \<and>
        rb_approval_sequence b = next_sequence)"
      using Inr fields
      by (cases "from_execution (ei_action_id (bb_execution_intent v)) (bb_resource_id v)";
          cases "checked_add (ei_approval_sequence (bb_execution_intent v)) 1")
        (auto simp: rollback_binding_validate_against_def repair_resource_from_transaction_def ok_or_def)
    also have "\<dots> \<longleftrightarrow> rollback_admissible sha source b"
      unfolding rollback_admissible_def from_execution_Inr checked_add_one using True committed v by auto
    finally show ?thesis .
  qed
next
  case False
  then show ?thesis
    by (cases "transaction_validate sha source")
      (simp_all add: rollback_binding_validate_against_def validate_committed_rollback_source_def
        rollback_admissible_def)
qed

section \<open>Properties\<close>

text \<open>The bytes whose digest binds a lease for a transaction in a boot.\<close>

definition lease_input :: "RepairTransactionStatusPayload \<Rightarrow> Sha256 \<Rightarrow> string" where
  "lease_input t boot_epoch =
     (case (repair_resource_from_transaction t, bs_execution_intent (ts_backup t)) of
        (Inr resource, Some intent) \<Rightarrow> write_lease_preimage resource (ts_transaction_binding_sha256 t) boot_epoch intent
      | _ \<Rightarrow> [])"

text \<open>
  C39: a write lease names one transaction and one boot.  A lease is only ever issued for a
  validated pending transaction and a non-zero boot epoch, records both and carries the digest of its input;
  two leases with the same binding digest are for the same transaction, with the same backup, plan, approval and intent, in the
  same boot, unless SHA-256 collides on two inputs of these very leases: their own inputs, or the inputs of the transaction, intent
  or metadata digests of their two backups.
\<close>

theorem write_lease_binds:
  assumes leases: "write_lease_consumed sha t e = Inr w" "write_lease_consumed sha u f = Inr x"
    and same: "wl_lease_binding_sha256 w = wl_lease_binding_sha256 x"
    and ids: "RepairReservationId_parse (bs_reservation_id (ts_backup t)) = Inr r"
      "RepairReservationId_parse (bs_reservation_id (ts_backup u)) = Inr s"
  shows "transaction_validate sha t = Inr () \<and> ts_phase t = TPending \<and> Sha256_bytes e \<noteq> zero_digest \<and>
    wl_transaction w = t \<and> wl_boot_epoch_sha256 w = e \<and> wl_lease_binding_sha256 w = sha (lease_input t e) \<and>
    (t = u \<and> e = f \<or> digest_collision sha (ts_backup t) (ts_backup u) \<or>
     lease_input t e \<noteq> lease_input u f \<and> sha (lease_input t e) = sha (lease_input u f))"
  using leases(1)
proof (cases rule: write_lease_Inr)
  case t: (1 R i)
  from leases(2) show ?thesis
  proof (cases rule: write_lease_Inr)
    case u: (1 S j)
    have inputs: "lease_input t e = write_lease_preimage R (ts_transaction_binding_sha256 t) e i"
        "lease_input u f = write_lease_preimage S (ts_transaction_binding_sha256 u) f j"
      using t(6,7) u(6,7) by (simp_all add: lease_input_def)
    have issued: "transaction_validate sha t = Inr ()" "ts_phase t = TPending" "Sha256_bytes e \<noteq> zero_digest"
        "wl_transaction w = t" "wl_boot_epoch_sha256 w = e" "wl_lease_binding_sha256 w = sha (lease_input t e)"
        "sha (lease_input t e) = sha (lease_input u f)"
      using t u same inputs by simp_all
    show ?thesis
    proof (cases "lease_input t e = lease_input u f")
      case False
      then show ?thesis using issued by blast
    next
      case True
      have "intent_validate i = Inr ()" "intent_validate j = Inr ()"
        using t(3,6) u(3,6)
        by (auto simp: transaction_validate_Inr transaction_binding_Inr elim!: backup_validate_durable)
      then have "length (ei_target_recovery_fingerprint i) = 73" "length (ei_target_recovery_fingerprint j) = 73"
        "length (ei_lock_identity i) = 69" "length (ei_lock_identity j) = 69"
        by (auto simp: intent_validate_Inr dest!: digest_id_length)
      moreover have "length (write_lease_capability X) \<le> 50" for X by (cases X) simp_all
      then have "length (write_lease_capability X) \<le> 1000" for X by (meson le_trans numeral_le_iff semiring_norm)
      ultimately have "[write_lease_capability R, Sha256_bytes (ts_transaction_binding_sha256 t), Sha256_bytes e,
          ei_target_recovery_fingerprint i, ei_lock_identity i] =
        [write_lease_capability S, Sha256_bytes (ts_transaction_binding_sha256 u), Sha256_bytes f,
          ei_target_recovery_fingerprint j, ei_lock_identity j]"
        using True unfolding inputs write_lease_preimage_def WRITE_LEASE_BINDING_DOMAIN_def
        by (intro tagged_frames) (simp_all add: Sha256_bytes_eq(2))
      then have digest: "ts_transaction_binding_sha256 t = ts_transaction_binding_sha256 u" and "e = f" by simp_all
      from transaction_digest_binds [OF _ _ ids] t(3) u(3) digest
      have "ts_backup t = ts_backup u \<or> digest_collision sha (ts_backup t) (ts_backup u)"
        by (auto simp: transaction_validate_Inr)
      moreover have "ts_resolution t = None" "ts_resolution u = None"
        using pending_unresolved t(3,4) u(3,4) by blast+
      ultimately show ?thesis
        using digest \<open>e = f\<close> issued u(4) by auto
    qed
  qed
qed

text \<open>A pending repair of one file, with a constant in place of SHA-256.\<close>

definition digest_of :: "char \<Rightarrow> Sha256" where
  "digest_of c = Sha256 (replicate 64 c)"

definition sample_intent :: RepairExecutionIntentV1 where
  "sample_intent = \<lparr>ei_action_id = repair_action_id RFstab, ei_session_id = ''S-1'', ei_approval_sequence = 1,
     ei_target_id = ''target'', ei_scan_fingerprint = ''scan:'' @ replicate 64 CHR ''1'',
     ei_target_fingerprint = digest_of CHR ''1'', ei_target_physical_parent_fingerprint = digest_of CHR ''2'',
     ei_target_recovery_fingerprint = ''recovery:'' @ replicate 64 CHR ''1'',
     ei_lock_identity = ''lock:'' @ replicate 64 CHR ''f'', ei_before_sha256 = digest_of CHR ''3'',
     ei_after_sha256 = digest_of CHR ''4'', ei_diff_sha256 = digest_of CHR ''5'',
     ei_observed_uuid_set_sha256 = digest_of CHR ''6'',
     ei_before_metadata = \<lparr>fm_mode = 420, fm_uid = 0, fm_gid = 0\<rparr>\<rparr>"

definition sample_backup :: RepairBackupStatusPayload where
  "sample_backup = \<lparr>bs_state = BackupDurable, bs_reservation_id = ''B-'' @ replicate 32 CHR ''0'',
     bs_draft_binding_sha256 = digest_of CHR ''7'',
     bs_locator = reservation_locator (''B-'' @ replicate 32 CHR ''0''), bs_vault_id = ''V-'' @ replicate 32 CHR ''0'',
     bs_vault_identity_fingerprint = digest_of CHR ''8'', bs_physical_parent_fingerprint = digest_of CHR ''9'',
     bs_reserved_bytes = 100, bs_backup_size = 10, bs_expected_backup_sha256 = digest_of CHR ''3'',
     bs_metadata_sha256 = digest_of CHR ''f'', bs_plan_id = Some ''P-1'', bs_plan_sha256 = Some (digest_of CHR ''a''),
     bs_approval_id = Some ''A-1'', bs_approval_sha256 = Some (digest_of CHR ''b''),
     bs_resource_id = Some (repair_resource_id RFstab), bs_resource_sha256 = Some (digest_of CHR ''3''),
     bs_execution_intent = Some sample_intent\<rparr>"

definition sample_transaction :: RepairTransactionStatusPayload where
  "sample_transaction = \<lparr>ts_phase = TPending, ts_transaction_binding_sha256 = digest_of CHR ''f'',
     ts_backup = sample_backup, ts_resolution = None\<rparr>"

lemmas char_classes = lower_hex_def ascii_class_defs

lemma as_str_digest_of: "lower_hex c \<Longrightarrow> as_str (digest_of c) = replicate 64 c"
  unfolding digest_of_def by (rule Sha256_inverse) (simp add: list_all_iff)

lemma digest_of_inject: "lower_hex c \<Longrightarrow> lower_hex d \<Longrightarrow> digest_of c = digest_of d \<longleftrightarrow> c = d"
  using as_str_digest_of [of c] as_str_digest_of [of d] as_str_inject [of "digest_of c" "digest_of d"] by auto

lemma digest_of_nonzero: "Sha256_bytes (digest_of CHR ''c'') \<noteq> zero_digest"
proof
  assume "Sha256_bytes (digest_of CHR ''c'') = zero_digest"
  then have "hex_sha256 zero_digest = replicate 64 CHR ''c''"
    using Sha256_bytes_eq(1) [of "digest_of CHR ''c''"] by (simp add: as_str_digest_of char_classes)
  moreover have "hex_sha256 zero_digest = replicate 64 CHR ''0''" by code_simp
  ultimately show False by simp
qed

lemma sample_intent_valid: "intent_validate sample_intent = Inr ()"
  unfolding intent_validate_Inr
  by (auto simp: sample_intent_def vault_valid_prefixed_id_def vault_valid_opaque_id_def valid_digest_id_def
    MAX_OPAQUE_ID_BYTES_def MAX_SAFE_JSON_INTEGER_def list_all_iff is_lower_hex_def
    ascii_alphanumeric_def digest_of_inject char_classes starts_with_def metadata_validate_def is_ok_def MAX_PERMISSION_MODE_def
    intro!: exI [of _ RFstab])

lemma sample_fields:
  "ei_before_sha256 sample_intent = digest_of CHR ''3''"
  "ei_target_physical_parent_fingerprint sample_intent = digest_of CHR ''2''"
  by (simp_all add: sample_intent_def)

lemma sample_backup_valid: "backup_validate (\<lambda>_. digest_of CHR ''f'') sample_backup = Inr ()"
  using sample_intent_valid valid_resource_id_iff [of "repair_resource_id RFstab"]
  by (simp add: backup_validate_def sample_backup_def binding_fields_are_valid_def is_some_and_def is_ok_iff
    vault_valid_prefixed_id_def valid_vault_id_def MAX_OPAQUE_ID_BYTES_def
    list_all_iff is_lower_hex_def ascii_alphanumeric_def sizes_ok_def MAX_REPAIR_BACKUP_BYTES_def
    MAX_REPAIR_RESERVED_BYTES_def char_classes sample_fields digest_of_inject canonical_repair_file_metadata_sha256_def
    exI [of _ RFstab])

lemma sample_transaction_valid: "transaction_validate (\<lambda>_. digest_of CHR ''f'') sample_transaction = Inr ()"
proof -
  have "canonical_repair_transaction_binding_sha256 (\<lambda>_. digest_of CHR ''f'') sample_backup =
      Inr (digest_of CHR ''f'')"
    using sample_backup_valid
    by (simp add: canonical_repair_transaction_binding_sha256_def durable_binding_def ok_or_def sample_backup_def)
  then show ?thesis by (simp add: transaction_validate_Inr sample_transaction_def sample_backup_def)
qed

lemma sample_transaction_resource: "repair_resource_from_transaction sample_transaction = Inr RFstab"
  by (simp add: repair_resource_from_transaction_def sample_transaction_def sample_backup_def sample_intent_def
    ok_or_def from_execution_def from_resource_id_def)

lemma sample_lock_identity:
  "ei_lock_identity sample_intent = canonical_repair_lock_identity_for_resource (\<lambda>_. digest_of CHR ''f'') r RFstab"
  by (simp add: sample_intent_def canonical_repair_lock_identity_for_resource_def as_str_digest_of char_classes)

theorem write_lease_binds_witness:
  "\<exists>w. write_lease_consumed (\<lambda>_. digest_of CHR ''f'') sample_transaction (digest_of CHR ''c'') = Inr w \<and>
    transaction_validate (\<lambda>_. digest_of CHR ''f'') sample_transaction = Inr () \<and> ts_phase sample_transaction = TPending \<and>
    wl_transaction w = sample_transaction \<and> wl_boot_epoch_sha256 w = digest_of CHR ''c''"
proof -
  let ?sha = "\<lambda>_ :: string. digest_of CHR ''f''"
  obtain w where w: "write_lease_consumed ?sha sample_transaction (digest_of CHR ''c'') = Inr w"
    using sample_transaction_valid digest_of_nonzero sample_transaction_resource sample_lock_identity
    by (simp add: write_lease_consumed_def canonical_repair_write_lease_sha256_def write_lease_validate_def ok_or_def
      Let_def) (simp add: sample_transaction_def sample_backup_def)
  moreover have id: "RepairReservationId_parse (bs_reservation_id (ts_backup sample_transaction)) =
      Inr (bs_reservation_id (ts_backup sample_transaction))"
    by (simp add: RepairReservationId_parse_def sample_transaction_def sample_backup_def list_all_iff is_lower_hex_def char_classes)
  ultimately show ?thesis using write_lease_binds [OF w w refl id id] by blast
qed

text \<open>
  C40: a rollback child exists exactly for a committed repair.  The pending child is created if
  and only if its source is a validated transaction resolved as committed, its resource is not a
  block device, its plan and approval (identifiers and digests) differ from those of the repair,
  and its approval number is the next one; the child then records the source and the binding
  unchanged and has no resolution.
\<close>

theorem rollback_child_exactly_for_committed:
  "rollback_transaction_pending sha rollback_id source b = Inr t \<longleftrightarrow>
   rollback_admissible sha source b \<and>
   t = \<lparr>rt_phase = TPending, rt_rollback_id = rollback_id,
     rt_rollback_transaction_binding_sha256 = sha (rollback_transaction_preimage rollback_id source b),
     rt_source = source, rt_binding = b, rt_resolution = None\<rparr>"
proof (cases "rollback_admissible sha source b")
  case True
  then have "rollback_binding_validate_against sha b source = Inr ()" by (simp add: rollback_binding_Inr)
  then show ?thesis
    using True
    by (auto simp: rollback_transaction_pending_def rollback_transaction_new_def Let_def
      canonical_repair_rollback_transaction_binding_sha256_def rollback_transaction_validate_def)
next
  case False
  then obtain e where "rollback_binding_validate_against sha b source = Inl e"
    using rollback_binding_Inr [of sha b source "()"] by (cases "rollback_binding_validate_against sha b source") auto
  then show ?thesis using False by (simp add: rollback_transaction_pending_def rollback_transaction_new_def)
qed

end
