(* ===== verification/KA_Executor.thy ===== *)
theory KA_Executor
  imports KA_Host KA_Lines KA_Repair_Vault
begin

text \<open>
  The part of \<^verbatim>\<open>crates/broker/src/rescue_fstab_executor.rs\<close> that touches the target: it
  replaces one file of the detached \<^verbatim>\<open>/etc\<close>, closes a failed replacement, restores the
  authenticated backup after a restart or for a rollback, and reports what it left behind.  The
  functions are those of a build without the resolver-link feature, whose branches handle
  a symbolic link instead of a file.

  The theorems hold for every host that keeps the promises of \<open>posix_directory\<close>, with every
  system call free to fail, and for every point at which the run can stop.
\<close>

section \<open>Constants and errors\<close>

definition FSTAB_RESOURCE :: string where
  "FSTAB_RESOURCE = ''fstab''"

definition CRYPTTAB_RESOURCE :: string where
  "CRYPTTAB_RESOURCE = ''crypttab''"

definition RESOLVER_LINK_RESOURCE :: string where
  "RESOLVER_LINK_RESOURCE = ''resolv.conf''"

definition UNSUPPORTED_BLOCK_RESOURCE :: string where
  "UNSUPPORTED_BLOCK_RESOURCE = ''.kernaid-block-resource-not-a-file''"

definition MAX_REPAIR_RESOURCE_BYTES :: nat where
  "MAX_REPAIR_RESOURCE_BYTES = 1024 * 1024"

definition NONCANONICAL_METADATA_DOMAIN :: string where
  "NONCANONICAL_METADATA_DOMAIN = domain_tag ''kernaid:rescue-fstab:observed-noncanonical-metadata:v1''"

definition EXT_SUPER_MAGIC :: u64 where
  "EXT_SUPER_MAGIC = 0xEF53"

datatype RescueFstabQualificationFault = NoFault | TerminateAfterPending | FailAfterInstalled

datatype RescueFstabExecutionError =
    InvalidAuthority | AuthorizationNotPersisted | TargetChanged | LockUnavailable | TimedOut
  | VaultUnavailable | VaultReconciliationRequired | DetachedMountUnavailable | UnsafeTarget
  | MutationFailed | RecoveryUnavailable | RecoveryRequired

type_synonym ('w, 'a) run = "('w, RescueFstabExecutionError, 'a) io"

section \<open>Data\<close>

record ClosedObservation =
  co_resource_sha256 :: Sha256
  co_metadata_sha256 :: Sha256

record TargetClosure =
  tc_outcome :: RepairTransactionResolutionOutcome
  tc_observation :: ClosedObservation
  tc_cleanup_verified :: bool
  tc_initial_failure :: "RescueFstabExecutionError option"

record RollbackTargetClosure =
  rc_outcome :: RepairRollbackResolutionOutcome
  rc_observation :: ClosedObservation
  rc_cleanup_verified :: bool

datatype ExactTargetState = StateBefore | StateAfter | StateThird

record FileIdentity =
  fi_device :: u64
  fi_inode :: u64

record FileSnapshot =
  fs_identity :: FileIdentity
  fs_bytes :: string
  fs_metadata :: RepairFileMetadataV1
  fs_resource_sha256 :: Sha256
  fs_metadata_sha256 :: Sha256

text \<open>The write mount a helper hands over, without its descriptor.\<close>

record RescueTargetWriteMountCapability =
  wm_reservation_id :: string
  wm_transaction_binding_sha256 :: string
  wm_target_recovery_fingerprint :: string
  wm_lease_binding_sha256 :: string

record RescueTargetRollbackWriteMountCapability =
  rm_rollback_id :: string
  rm_rollback_transaction_binding_sha256 :: string
  rm_source_reservation_id :: string
  rm_source_transaction_binding_sha256 :: string
  rm_target_recovery_fingerprint :: string
  rm_lease_binding_sha256 :: string

section \<open>Names and states\<close>

definition repair_resource_for_intent ::
  "RepairExecutionIntentV1 \<Rightarrow> RescueFstabExecutionError + RepairResourceV1" where
  "repair_resource_for_intent intent =
     (case find (\<lambda>resource. ei_action_id intent = repair_action_id resource)
             [RFstab, RCrypttab, RExt4Filesystem, RResolverLink] of
        Some resource \<Rightarrow> Inr resource
      | None \<Rightarrow> Inl InvalidAuthority)"

fun resource_leaf :: "RepairResourceV1 \<Rightarrow> string" where
  "resource_leaf RFstab = FSTAB_RESOURCE"
| "resource_leaf RCrypttab = CRYPTTAB_RESOURCE"
| "resource_leaf RExt4Filesystem = UNSUPPORTED_BLOCK_RESOURCE"
| "resource_leaf RResolverLink = RESOLVER_LINK_RESOURCE"

definition reservation_suffix :: "string \<Rightarrow> string" where
  "reservation_suffix reservation_id =
     (case strip_prefix reservation_id ''B-'' of Some suffix \<Rightarrow> suffix | None \<Rightarrow> ''invalid'')"

definition execution_stage_name_for :: "RepairResourceV1 \<Rightarrow> string \<Rightarrow> string" where
  "execution_stage_name_for resource reservation_id =
     ''.kernaid-'' @ resource_leaf resource @ ''-stage-v1-'' @ reservation_suffix reservation_id"

definition restore_stage_name_for :: "RepairResourceV1 \<Rightarrow> string \<Rightarrow> string" where
  "restore_stage_name_for resource reservation_id =
     ''.kernaid-'' @ resource_leaf resource @ ''-restore-v1-'' @ reservation_suffix reservation_id"

definition observation :: "FileSnapshot \<Rightarrow> ClosedObservation" where
  "observation s = \<lparr>co_resource_sha256 = fs_resource_sha256 s, co_metadata_sha256 = fs_metadata_sha256 s\<rparr>"

definition same_object_and_value :: "FileSnapshot \<Rightarrow> FileSnapshot \<Rightarrow> bool" where
  "same_object_and_value s t \<longleftrightarrow>
     fs_identity s = fs_identity t \<and> fs_bytes s = fs_bytes t \<and> fs_metadata_sha256 s = fs_metadata_sha256 t"

definition exact_state ::
  "(string \<Rightarrow> Sha256) \<Rightarrow> FileSnapshot \<Rightarrow> RepairExecutionIntentV1 \<Rightarrow> ExactTargetState" where
  "exact_state sha s intent =
     (let metadata_exact = (fs_metadata_sha256 s =
            canonical_repair_file_metadata_sha256 sha (ei_before_metadata intent))
      in if fs_resource_sha256 s = ei_before_sha256 intent \<and> metadata_exact then StateBefore
         else if fs_resource_sha256 s = ei_after_sha256 intent \<and> metadata_exact then StateAfter
         else StateThird)"

definition snapshot_exact ::
  "(string \<Rightarrow> Sha256) \<Rightarrow> FileSnapshot \<Rightarrow> Sha256 \<Rightarrow> RepairFileMetadataV1 \<Rightarrow> bool" where
  "snapshot_exact sha s expected_sha256 expected_metadata \<longleftrightarrow>
     fs_resource_sha256 s = expected_sha256 \<and>
     fs_metadata_sha256 s = canonical_repair_file_metadata_sha256 sha expected_metadata \<and>
     fs_metadata s = expected_metadata"

definition ensure_snapshot_exact ::
  "(string \<Rightarrow> Sha256) \<Rightarrow> FileSnapshot \<Rightarrow> Sha256 \<Rightarrow> RepairFileMetadataV1 \<Rightarrow> ('w, unit) run" where
  "ensure_snapshot_exact sha s expected_sha256 expected_metadata =
     ensure (snapshot_exact sha s expected_sha256 expected_metadata) TargetChanged"

definition ensure_exact_bytes :: "(string \<Rightarrow> Sha256) \<Rightarrow> string \<Rightarrow> Sha256 \<Rightarrow> ('w, unit) run" where
  "ensure_exact_bytes sha bytes expected_sha256 = ensure (sha bytes = expected_sha256) InvalidAuthority"

definition ensure_deadline :: "'w host \<Rightarrow> nat \<Rightarrow> ('w, unit) run" where
  "ensure_deadline H deadline = seq (observe (h_now H)) (\<lambda>now. ensure (\<not> now \<ge> deadline) TimedOut)"

section \<open>Snapshots\<close>

definition S_IFMT :: u32 where
  "S_IFMT = 0xF000"

definition is_file :: "u32 \<Rightarrow> bool" where
  "is_file mode \<longleftrightarrow> mode AND S_IFMT = 0x8000"

definition is_dir :: "u32 \<Rightarrow> bool" where
  "is_dir mode \<longleftrightarrow> mode AND S_IFMT = 0x4000"

definition same_stat :: "stat \<Rightarrow> stat \<Rightarrow> bool" where
  "same_stat first second \<longleftrightarrow>
     st_dev first = st_dev second \<and> st_ino first = st_ino second \<and> st_mode first = st_mode second \<and>
     st_nlink first = st_nlink second \<and> st_uid first = st_uid second \<and> st_gid first = st_gid second \<and>
     st_size first = st_size second"

definition noncanonical_metadata_sha256 :: "(string \<Rightarrow> Sha256) \<Rightarrow> stat \<Rightarrow> u64 \<Rightarrow> Sha256" where
  "noncanonical_metadata_sha256 sha st xattr_size =
     sha (NONCANONICAL_METADATA_DOMAIN @ u32_be (st_mode st AND 0xFFF) @ u32_be (st_uid st) @
       u32_be (st_gid st) @ u64_be xattr_size)"

definition validate_regular_file :: "'w host \<Rightarrow> nat \<Rightarrow> stat \<Rightarrow> ('w, u64) run" where
  "validate_regular_file H fd st =
     seq (call (h_getfd H fd) UnsafeTarget) (\<lambda>cloexec.
     seq (call (h_listxattr H fd) UnsafeTarget) (\<lambda>xattr_size.
     seq (ensure (is_file (st_mode st) \<and> st_nlink st = 1 \<and> cloexec) UnsafeTarget) (\<lambda>_.
     ret xattr_size)))"

definition snapshot_named :: "'w host \<Rightarrow> (string \<Rightarrow> Sha256) \<Rightarrow> string \<Rightarrow> ('w, FileSnapshot) run" where
  "snapshot_named H sha name =
     seq (call (h_open H name) UnsafeTarget) (\<lambda>fd.
     seq (call (h_fstat H fd) UnsafeTarget) (\<lambda>before.
     seq (validate_regular_file H fd before) (\<lambda>before_xattr_size.
     seq (ensure (1 \<le> st_size before \<and> st_size before \<le> int MAX_REPAIR_RESOURCE_BYTES) UnsafeTarget) (\<lambda>_.
     seq (call (h_read H fd (MAX_REPAIR_RESOURCE_BYTES + 1)) UnsafeTarget) (\<lambda>bytes.
     seq (ensure (int (length bytes) = st_size before \<and> CHR 0x00 \<notin> set bytes \<and> utf8_valid bytes)
       UnsafeTarget) (\<lambda>_.
     seq (call (h_fstat H fd) UnsafeTarget) (\<lambda>after.
     seq (validate_regular_file H fd after) (\<lambda>after_xattr_size.
     seq (call (h_statat H name) UnsafeTarget) (\<lambda>named.
     seq (ensure (same_stat before after \<and> same_stat after named \<and> before_xattr_size = after_xattr_size)
       TargetChanged) (\<lambda>_.
     seq (map_err (\<lambda>_. UnsafeTarget)
       (pure_result (RepairFileMetadataV1_new (st_mode after AND 0xFFF) (st_uid after) (st_gid after)))) (\<lambda>metadata.
     ret \<lparr>fs_identity = \<lparr>fi_device = st_dev after, fi_inode = st_ino after\<rparr>, fs_bytes = bytes,
       fs_metadata = metadata, fs_resource_sha256 = sha bytes,
       fs_metadata_sha256 = (if after_xattr_size = 0 then canonical_repair_file_metadata_sha256 sha metadata
         else noncanonical_metadata_sha256 sha after after_xattr_size)\<rparr>)))))))))))"

definition snapshot_repair_resource ::
  "'w host \<Rightarrow> (string \<Rightarrow> Sha256) \<Rightarrow> RepairExecutionIntentV1 \<Rightarrow> ('w, FileSnapshot) run" where
  "snapshot_repair_resource H sha intent =
     seq (pure_result (repair_resource_for_intent intent)) (\<lambda>resource.
     snapshot_named H sha (resource_leaf resource))"

section \<open>Staged files\<close>

text \<open>\<^verbatim>\<open>Drop for NamedFileGuard\<close>, while the guard is armed; and a block that owns such a guard
  and leaves it by \<^verbatim>\<open>?\<close> or disarms it at its end.\<close>

definition drop_guard :: "'w host \<Rightarrow> string \<Rightarrow> FileIdentity \<Rightarrow> ('w, unit) run" where
  "drop_guard H name identity =
     seq (attempt (call (h_statat H name) UnsafeTarget)) (\<lambda>r.
     case r of
       Inl _ \<Rightarrow> ret ()
     | Inr st \<Rightarrow>
         if st_dev st = fi_device identity \<and> st_ino st = fi_inode identity
         then seq (attempt (call (h_unlink H name) MutationFailed)) (\<lambda>_ :: RescueFstabExecutionError + unit.
              seq (attempt (call (h_fsync_dir H) MutationFailed)) (\<lambda>_ :: RescueFstabExecutionError + unit. ret ()))
         else ret ())"

definition guarded :: "'w host \<Rightarrow> string \<Rightarrow> FileIdentity \<Rightarrow> ('w, 'a) run \<Rightarrow> ('w, 'a) run" where
  "guarded H name identity body =
     seq (attempt body) (\<lambda>r.
     case r of
       Inl e \<Rightarrow> seq (drop_guard H name identity) (\<lambda>_. fail e)
     | Inr x \<Rightarrow> ret x)"

text \<open>What \<^verbatim>\<open>create_prepared_file\<close> does once its guard holds the new file.\<close>

definition fill_prepared_file ::
  "'w host \<Rightarrow> (string \<Rightarrow> Sha256) \<Rightarrow> string \<Rightarrow> nat \<Rightarrow> FileIdentity \<Rightarrow> string \<Rightarrow> RepairFileMetadataV1 \<Rightarrow>
   ('w, FileSnapshot) run" where
  "fill_prepared_file H sha name fd identity bytes metadata =
     seq (call (h_write H fd bytes) MutationFailed) (\<lambda>_.
     seq (call (h_fchown H fd (fm_uid metadata) (fm_gid metadata)) MutationFailed) (\<lambda>_.
     seq (call (h_fchmod H fd (fm_mode metadata)) MutationFailed) (\<lambda>_.
     seq (call (h_sync_all H fd) MutationFailed) (\<lambda>_.
     seq (call (h_seek_start H fd) MutationFailed) (\<lambda>_.
     seq (call (h_read H fd (MAX_REPAIR_RESOURCE_BYTES + 1)) MutationFailed) (\<lambda>verified.
     seq (ensure (verified = bytes) MutationFailed) (\<lambda>_.
     seq (call (h_fsync_dir H) MutationFailed) (\<lambda>_.
     seq (snapshot_named H sha name) (\<lambda>snapshot.
     seq (ensure (fs_identity snapshot = identity \<and> fs_bytes snapshot = bytes \<and>
         fs_metadata snapshot = metadata \<and>
         fs_metadata_sha256 snapshot = canonical_repair_file_metadata_sha256 sha metadata) TargetChanged) (\<lambda>_.
     ret snapshot))))))))))"

definition create_prepared_file ::
  "'w host \<Rightarrow> (string \<Rightarrow> Sha256) \<Rightarrow> string \<Rightarrow> string \<Rightarrow> RepairFileMetadataV1 \<Rightarrow> ('w, FileSnapshot) run" where
  "create_prepared_file H sha name bytes metadata =
     seq (ensure (bytes \<noteq> [] \<and> \<not> length bytes > MAX_REPAIR_RESOURCE_BYTES) InvalidAuthority) (\<lambda>_.
     seq (call (h_create H name) UnsafeTarget) (\<lambda>fd.
     seq (call (h_fstat H fd) UnsafeTarget) (\<lambda>initial.
     seq (ensure (is_file (st_mode initial) \<and> st_nlink initial = 1) UnsafeTarget) (\<lambda>_.
     let identity = \<lparr>fi_device = st_dev initial, fi_inode = st_ino initial\<rparr> in
     guarded H name identity (fill_prepared_file H sha name fd identity bytes metadata)))))"

definition remove_name_if_identity :: "'w host \<Rightarrow> string \<Rightarrow> FileIdentity \<Rightarrow> ('w, unit) run" where
  "remove_name_if_identity H name expected =
     seq (call (h_statat H name) TargetChanged) (\<lambda>st.
     seq (ensure (st_dev st = fi_device expected \<and> st_ino st = fi_inode expected) TargetChanged) (\<lambda>_.
     call (h_unlink H name) MutationFailed))"

definition cleanup_known_stage ::
  "'w host \<Rightarrow> (string \<Rightarrow> Sha256) \<Rightarrow> string \<Rightarrow> Sha256 \<Rightarrow> RepairFileMetadataV1 \<Rightarrow> ('w, unit) run" where
  "cleanup_known_stage H sha name expected_sha256 expected_metadata =
     seq (attempt (snapshot_named H sha name)) (\<lambda>r.
     case r of
       Inl _ \<Rightarrow> ret ()
     | Inr snapshot \<Rightarrow>
         if snapshot_exact sha snapshot expected_sha256 expected_metadata
         then seq (attempt (remove_name_if_identity H name (fs_identity snapshot))) (\<lambda>_.
              seq (attempt (call (h_fsync_dir H) MutationFailed)) (\<lambda>_ :: RescueFstabExecutionError + unit. ret ()))
         else ret ())"

section \<open>Replacing and restoring\<close>

definition persist_directory :: "'w host \<Rightarrow> ('w, unit) run" where
  "persist_directory H =
     seq (call (h_fsync_dir H) MutationFailed) (\<lambda>_. call (h_syncfs H) MutationFailed)"

text \<open>
  The steps both functions below take once the new file is prepared under \<open>name\<close>: check that the
  resource is still what it was, swap the two names, flush, check both files and remove the old one.
\<close>

definition exchange_and_verify ::
  "'w host \<Rightarrow> (string \<Rightarrow> Sha256) \<Rightarrow> RepairExecutionIntentV1 \<Rightarrow> RepairResourceV1 \<Rightarrow> string \<Rightarrow> FileSnapshot \<Rightarrow>
   FileSnapshot \<Rightarrow> Sha256 \<Rightarrow> Sha256 \<Rightarrow> nat \<Rightarrow> ('w, unit) run" where
  "exchange_and_verify H sha intent resource name prepared original new_sha256 old_sha256 deadline =
     seq (snapshot_repair_resource H sha intent) (\<lambda>current.
     seq (ensure (same_object_and_value current original) TargetChanged) (\<lambda>_.
     seq (ensure_deadline H deadline) (\<lambda>_.
     seq (call (h_exchange H name (resource_leaf resource)) MutationFailed) (\<lambda>_.
     seq (persist_directory H) (\<lambda>_.
     seq (snapshot_repair_resource H sha intent) (\<lambda>installed.
     seq (snapshot_named H sha name) (\<lambda>displaced.
     seq (ensure_snapshot_exact sha installed new_sha256 (ei_before_metadata intent)) (\<lambda>_.
     seq (ensure_snapshot_exact sha displaced old_sha256 (ei_before_metadata intent)) (\<lambda>_.
     seq (ensure (fs_identity installed = fs_identity prepared \<and> fs_identity displaced = fs_identity original)
       TargetChanged) (\<lambda>_.
     remove_name_if_identity H name (fs_identity displaced)))))))))))"

definition apply_exact_replacement ::
  "'w host \<Rightarrow> (string \<Rightarrow> Sha256) \<Rightarrow> string \<Rightarrow> string \<Rightarrow> RepairExecutionIntentV1 \<Rightarrow> string \<Rightarrow> nat \<Rightarrow>
   RescueFstabQualificationFault \<Rightarrow> ('w, ClosedObservation) run" where
  "apply_exact_replacement H sha backup proposed intent reservation_id deadline fault =
     seq (ensure_deadline H deadline) (\<lambda>_.
     seq (pure_result (repair_resource_for_intent intent)) (\<lambda>resource.
     seq (snapshot_repair_resource H sha intent) (\<lambda>before.
     seq (ensure_snapshot_exact sha before (ei_before_sha256 intent) (ei_before_metadata intent)) (\<lambda>_.
     seq (ensure (fs_bytes before = backup) TargetChanged) (\<lambda>_.
     let stage_name = execution_stage_name_for resource reservation_id in
     seq (create_prepared_file H sha stage_name proposed (ei_before_metadata intent)) (\<lambda>prepared.
     seq (guarded H stage_name (fs_identity prepared)
       (seq (ensure_snapshot_exact sha prepared (ei_after_sha256 intent) (ei_before_metadata intent)) (\<lambda>_.
        exchange_and_verify H sha intent resource stage_name prepared before
          (ei_after_sha256 intent) (ei_before_sha256 intent) deadline))) (\<lambda>_.
     seq (persist_directory H) (\<lambda>_.
     seq (snapshot_repair_resource H sha intent) (\<lambda>final_state.
     seq (ensure_snapshot_exact sha final_state (ei_after_sha256 intent) (ei_before_metadata intent)) (\<lambda>_.
     if fault = FailAfterInstalled then fail MutationFailed
     else ret (observation final_state)))))))))))"

text \<open>The restore file: a new one, or the exact one an earlier attempt has left.\<close>

definition prepare_restore_file ::
  "'w host \<Rightarrow> (string \<Rightarrow> Sha256) \<Rightarrow> string \<Rightarrow> string \<Rightarrow> RepairExecutionIntentV1 \<Rightarrow> ('w, FileSnapshot) run" where
  "prepare_restore_file H sha restore_name backup intent =
     seq (attempt (create_prepared_file H sha restore_name backup (ei_before_metadata intent))) (\<lambda>r.
     case r of
       Inr snapshot \<Rightarrow> ret snapshot
     | Inl e \<Rightarrow>
         if e = UnsafeTarget
         then seq (snapshot_named H sha restore_name) (\<lambda>existing.
              seq (ensure_snapshot_exact sha existing (ei_before_sha256 intent) (ei_before_metadata intent)) (\<lambda>_.
              ret existing))
         else fail e)"

definition restore_exact_backup ::
  "'w host \<Rightarrow> (string \<Rightarrow> Sha256) \<Rightarrow> string \<Rightarrow> RepairExecutionIntentV1 \<Rightarrow> string \<Rightarrow> nat \<Rightarrow>
   ('w, ClosedObservation) run" where
  "restore_exact_backup H sha backup intent reservation_id deadline =
     seq (ensure_deadline H deadline) (\<lambda>_.
     seq (ensure_exact_bytes sha backup (ei_before_sha256 intent)) (\<lambda>_.
     seq (pure_result (repair_resource_for_intent intent)) (\<lambda>resource.
     seq (snapshot_repair_resource H sha intent) (\<lambda>current.
     seq (ensure_snapshot_exact sha current (ei_after_sha256 intent) (ei_before_metadata intent)) (\<lambda>_.
     let restore_name = restore_stage_name_for resource reservation_id in
     seq (prepare_restore_file H sha restore_name backup intent) (\<lambda>restore.
     seq (guarded H restore_name (fs_identity restore)
       (exchange_and_verify H sha intent resource restore_name restore current
          (ei_before_sha256 intent) (ei_after_sha256 intent) deadline)) (\<lambda>_.
     seq (cleanup_known_stage H sha (execution_stage_name_for resource reservation_id)
       (ei_before_sha256 intent) (ei_before_metadata intent)) (\<lambda>_.
     seq (persist_directory H) (\<lambda>_.
     seq (snapshot_repair_resource H sha intent) (\<lambda>final_state.
     seq (ensure_snapshot_exact sha final_state (ei_before_sha256 intent) (ei_before_metadata intent)) (\<lambda>_.
     ret (observation final_state))))))))))))"

section \<open>Closing a run\<close>

definition cleanup_closure ::
  "RepairTransactionResolutionOutcome \<Rightarrow> ClosedObservation \<Rightarrow> bool \<Rightarrow> RescueFstabExecutionError option \<Rightarrow> TargetClosure" where
  "cleanup_closure outcome obs cleanup_verified initial_failure =
     \<lparr>tc_outcome = outcome, tc_observation = obs, tc_cleanup_verified = cleanup_verified,
      tc_initial_failure = initial_failure\<rparr>"

definition close_after_failed_mutation ::
  "'w host \<Rightarrow> (string \<Rightarrow> Sha256) \<Rightarrow> string \<Rightarrow> RepairExecutionIntentV1 \<Rightarrow> string \<Rightarrow> nat \<Rightarrow> ('w, TargetClosure) run" where
  "close_after_failed_mutation H sha backup intent reservation_id deadline =
     seq (snapshot_repair_resource H sha intent) (\<lambda>snapshot.
     case exact_state sha snapshot intent of
       StateBefore \<Rightarrow>
         seq (pure_result (repair_resource_for_intent intent)) (\<lambda>resource.
         seq (cleanup_known_stage H sha (execution_stage_name_for resource reservation_id)
           (ei_after_sha256 intent) (ei_before_metadata intent)) (\<lambda>_.
         ret (cleanup_closure ClosedBeforeUnchanged (observation snapshot) False None)))
     | StateAfter \<Rightarrow>
         seq (restore_exact_backup H sha backup intent reservation_id deadline) (\<lambda>obs.
         ret (cleanup_closure ClosedBeforeRestored obs False None))
     | StateThird \<Rightarrow>
         ret (cleanup_closure ManualReconciliationRequired (observation snapshot) False None))"

definition open_etc_directory :: "'w host \<Rightarrow> ('w, unit) run" where
  "open_etc_directory H =
     seq (call (h_open_etc H) UnsafeTarget) (\<lambda>_.
     seq (call (h_fstat_etc H) UnsafeTarget) (\<lambda>st.
     ensure (is_dir (st_mode st) \<and> st_uid st = 0 \<and> st_gid st = 0 \<and> st_mode st AND 0x12 = 0) UnsafeTarget))"

text \<open>
  \<^verbatim>\<open>RescueTargetWriteMountCapability::revalidate\<close>: the descriptor is a path to a directory of a
  writable ext4 mount without devices, set-user-ID programs or execution.
\<close>

definition validate_write_mount :: "'w host \<Rightarrow> ('w, unit) run" where
  "validate_write_mount H =
     seq (call (h_mount_fstat H) RecoveryRequired) (\<lambda>st.
     seq (call (h_mount_fstatfs H) RecoveryRequired) (\<lambda>f_type.
     seq (call (h_mount_fstatvfs H) RecoveryRequired) (\<lambda>f_flag.
     seq (call (h_mount_getfd H) RecoveryRequired) (\<lambda>descriptor_flags.
     seq (call (h_mount_getfl H) RecoveryRequired) (\<lambda>status.
     ensure (descriptor_flags = 1 \<and> status AND 0x200000 = 0x200000 \<and> is_dir (st_mode st) \<and>
         f_type = EXT_SUPER_MAGIC \<and> f_flag AND 0xE = 0xE \<and> f_flag AND 1 = 0)
       RecoveryRequired)))))"

definition validate_write_capability ::
  "RescueTargetWriteMountCapability \<Rightarrow> RepairExecutionIntentV1 \<Rightarrow> string \<Rightarrow> ('w, unit) run" where
  "validate_write_capability capability intent reservation_id =
     ensure (wm_reservation_id capability = reservation_id \<and>
         wm_target_recovery_fingerprint capability = ei_target_recovery_fingerprint intent \<and>
         wm_transaction_binding_sha256 capability \<noteq> [] \<and> wm_lease_binding_sha256 capability \<noteq> [])
       RecoveryRequired"

definition source_intent ::
  "RepairTransactionStatusPayload \<Rightarrow> RescueFstabExecutionError + RepairExecutionIntentV1" where
  "source_intent source = ok_or InvalidAuthority (bs_execution_intent (ts_backup source))"

definition validate_rollback_write_capability ::
  "RescueTargetRollbackWriteMountCapability \<Rightarrow> RepairRollbackTransactionStatusPayload \<Rightarrow> ('w, unit) run" where
  "validate_rollback_write_capability capability pending =
     seq (pure_result (source_intent (rt_source pending))) (\<lambda>intent.
     ensure (rm_rollback_id capability = rt_rollback_id pending \<and>
         rm_rollback_transaction_binding_sha256 capability = as_str (rt_rollback_transaction_binding_sha256 pending) \<and>
         rm_source_reservation_id capability = bs_reservation_id (ts_backup (rt_source pending)) \<and>
         rm_source_transaction_binding_sha256 capability = as_str (ts_transaction_binding_sha256 (rt_source pending)) \<and>
         rm_target_recovery_fingerprint capability = ei_target_recovery_fingerprint intent \<and>
         rm_lease_binding_sha256 capability \<noteq> [])
       RecoveryRequired)"

definition prefer_initial_failure ::
  "RescueFstabExecutionError option \<Rightarrow> RescueFstabExecutionError \<Rightarrow> RescueFstabExecutionError" where
  "prefer_initial_failure initial_failure finalization = (case initial_failure of Some e \<Rightarrow> e | None \<Rightarrow> finalization)"

section \<open>Execution, recovery and rollback of one target\<close>

definition execute_same_boot_target ::
  "'w host \<Rightarrow> (string \<Rightarrow> Sha256) \<Rightarrow> RescueTargetWriteMountCapability \<Rightarrow> string \<Rightarrow> string \<Rightarrow>
   RepairExecutionIntentV1 \<Rightarrow> string \<Rightarrow> nat \<Rightarrow> RescueFstabQualificationFault \<Rightarrow> ('w, TargetClosure) run" where
  "execute_same_boot_target H sha write_mount backup proposed intent reservation_id deadline fault =
     seq (ensure_exact_bytes sha backup (ei_before_sha256 intent)) (\<lambda>_.
     seq (ensure_exact_bytes sha proposed (ei_after_sha256 intent)) (\<lambda>_.
     seq (validate_write_capability write_mount intent reservation_id) (\<lambda>_.
     seq (validate_write_mount H) (\<lambda>_.
     seq (open_etc_directory H) (\<lambda>_.
     seq (attempt (apply_exact_replacement H sha backup proposed intent reservation_id deadline fault)) (\<lambda>applied.
     seq (case applied of
            Inr obs \<Rightarrow> ret (cleanup_closure CommittedAfter obs False None)
          | Inl error \<Rightarrow>
              seq (attempt (close_after_failed_mutation H sha backup intent reservation_id deadline)) (\<lambda>closed.
              case closed of
                Inr closure \<Rightarrow>
                  ret (if tc_outcome closure = ClosedBeforeUnchanged \<or> tc_outcome closure = ClosedBeforeRestored
                       then closure\<lparr>tc_initial_failure := Some error\<rparr> else closure)
              | Inl _ \<Rightarrow> fail error)) (\<lambda>result.
     seq (map_err (prefer_initial_failure (tc_initial_failure result)) (validate_write_mount H)) (\<lambda>_.
     ret (result\<lparr>tc_cleanup_verified := True\<rparr>)))))))))"

text \<open>The two checks of the retained read-only mount are calls of the target guard.\<close>

definition classify_with_retained_read_mount ::
  "'w host \<Rightarrow> (string \<Rightarrow> Sha256) \<Rightarrow> ('w \<Rightarrow> 'w \<times> (errno + unit)) \<Rightarrow> RepairExecutionIntentV1 \<Rightarrow>
   ('w, ExactTargetState \<times> ClosedObservation) run" where
  "classify_with_retained_read_mount H sha revalidate intent =
     seq (call revalidate TargetChanged) (\<lambda>_.
     seq (open_etc_directory H) (\<lambda>_.
     seq (snapshot_repair_resource H sha intent) (\<lambda>snapshot.
     seq (call revalidate TargetChanged) (\<lambda>_.
     ret (exact_state sha snapshot intent, observation snapshot)))))"

definition restore_recovery_target ::
  "'w host \<Rightarrow> (string \<Rightarrow> Sha256) \<Rightarrow> RescueTargetWriteMountCapability \<Rightarrow> string \<Rightarrow>
   RepairExecutionIntentV1 \<Rightarrow> string \<Rightarrow> nat \<Rightarrow> ('w, TargetClosure) run" where
  "restore_recovery_target H sha write_mount backup intent reservation_id deadline =
     seq (validate_write_capability write_mount intent reservation_id) (\<lambda>_.
     seq (validate_write_mount H) (\<lambda>_.
     seq (open_etc_directory H) (\<lambda>_.
     seq (attempt (restore_exact_backup H sha backup intent reservation_id deadline)) (\<lambda>restored.
     seq (case restored of
            Inr obs \<Rightarrow> ret (cleanup_closure ClosedBeforeRestored obs False None)
          | Inl error \<Rightarrow>
              seq (snapshot_repair_resource H sha intent) (\<lambda>snapshot.
              ret (cleanup_closure
                (if exact_state sha snapshot intent = StateBefore then ClosedBeforeRestored
                 else ManualReconciliationRequired) (observation snapshot) False (Some error)))) (\<lambda>result.
     seq (validate_write_mount H) (\<lambda>_.
     ret (result\<lparr>tc_cleanup_verified := True\<rparr>)))))))"

definition recover_same_boot_target ::
  "'w host \<Rightarrow> (string \<Rightarrow> Sha256) \<Rightarrow> ('w \<Rightarrow> 'w \<times> (errno + unit)) \<Rightarrow>
   ('w \<Rightarrow> 'w \<times> (errno + RescueTargetWriteMountCapability)) \<Rightarrow> RepairTransactionStatusPayload \<Rightarrow> string \<Rightarrow>
   RepairExecutionIntentV1 \<Rightarrow> string \<Rightarrow> RepairTransactionResolutionOutcome \<Rightarrow> nat \<Rightarrow> ('w, TargetClosure) run" where
  "recover_same_boot_target H sha revalidate acquire pending backup intent reservation_id before_outcome deadline =
     seq (ensure_exact_bytes sha backup (ei_before_sha256 intent)) (\<lambda>_.
     seq (classify_with_retained_read_mount H sha revalidate intent) (\<lambda>(state, obs).
     case state of
       StateBefore \<Rightarrow> ret (cleanup_closure before_outcome obs True None)
     | StateThird \<Rightarrow> ret (cleanup_closure ManualReconciliationRequired obs True None)
     | StateAfter \<Rightarrow>
         if ts_phase pending \<noteq> TPending then ret (cleanup_closure ManualReconciliationRequired obs True None)
         else seq (call acquire RecoveryRequired) (\<lambda>write_mount.
              restore_recovery_target H sha write_mount backup intent reservation_id deadline)))"

definition restore_rollback_target ::
  "'w host \<Rightarrow> (string \<Rightarrow> Sha256) \<Rightarrow> RescueTargetRollbackWriteMountCapability \<Rightarrow> string \<Rightarrow>
   RepairExecutionIntentV1 \<Rightarrow> RepairRollbackTransactionStatusPayload \<Rightarrow> nat \<Rightarrow> ('w, RollbackTargetClosure) run" where
  "restore_rollback_target H sha write_mount backup intent pending deadline =
     seq (validate_rollback_write_capability write_mount pending) (\<lambda>_.
     seq (validate_write_mount H) (\<lambda>_.
     seq (open_etc_directory H) (\<lambda>_.
     seq (attempt (restore_exact_backup H sha backup intent
       (bs_reservation_id (ts_backup (rt_source pending))) deadline)) (\<lambda>restored.
     seq (case restored of
            Inr obs \<Rightarrow>
              ret \<lparr>rc_outcome = RolledBackBefore, rc_observation = obs, rc_cleanup_verified = False\<rparr>
          | Inl error \<Rightarrow>
              seq (snapshot_repair_resource H sha intent) (\<lambda>snapshot.
              case exact_state sha snapshot intent of
                StateBefore \<Rightarrow>
                  ret \<lparr>rc_outcome = RolledBackBefore, rc_observation = observation snapshot,
                    rc_cleanup_verified = False\<rparr>
              | StateThird \<Rightarrow>
                  ret \<lparr>rc_outcome = RollbackManualReconciliationRequired,
                    rc_observation = observation snapshot, rc_cleanup_verified = False\<rparr>
              | StateAfter \<Rightarrow> fail error)) (\<lambda>closure.
     seq (validate_write_mount H) (\<lambda>_.
     ret (closure\<lparr>rc_cleanup_verified := True\<rparr>)))))))"

end
