(* ===== verification/KA_Executor_Safety.thy ===== *)
theory KA_Executor_Safety
  imports KA_Executor
begin

text \<open>
  What the executor leaves on the target, whatever calls fail and wherever the run stops.
\<close>

section \<open>What a snapshot says\<close>

definition inode_metadata :: "inode \<Rightarrow> RepairFileMetadataV1" where
  "inode_metadata i = \<lparr>fm_mode = i_mode i AND 0xFFF, fm_uid = i_uid i, fm_gid = i_gid i\<rparr>"

definition inode_metadata_sha256 :: "(string \<Rightarrow> Sha256) \<Rightarrow> inode \<Rightarrow> Sha256" where
  "inode_metadata_sha256 sha i =
     (if i_xattrs i = 0 then canonical_repair_file_metadata_sha256 sha (inode_metadata i)
      else sha (NONCANONICAL_METADATA_DOMAIN @ u32_be (i_mode i AND 0xFFF) @ u32_be (i_uid i) @
        u32_be (i_gid i) @ u64_be (i_xattrs i)))"

definition snapshot_of :: "(string \<Rightarrow> Sha256) \<Rightarrow> directory \<Rightarrow> string \<Rightarrow> FileSnapshot \<Rightarrow> bool" where
  "snapshot_of sha v n s \<longleftrightarrow>
     (\<exists>ino. d_names v n = Some ino \<and> fs_identity s = \<lparr>fi_device = d_dev v, fi_inode = ino\<rparr> \<and>
        fs_bytes s = i_bytes (d_inodes v ino) \<and> fs_bytes s \<noteq> [] \<and>
        fs_metadata s = inode_metadata (d_inodes v ino) \<and> fs_resource_sha256 s = sha (fs_bytes s) \<and>
        fs_metadata_sha256 s = inode_metadata_sha256 sha (d_inodes v ino))"

lemma snapshot_of_same_dir: "same_dir v v' \<Longrightarrow> snapshot_of sha v' n s \<longleftrightarrow> snapshot_of sha v n s"
  by (auto simp: same_dir_def snapshot_of_def)

lemma metadata_new: "RepairFileMetadataV1_new (m AND 0xFFF) u g = Inr \<lparr>fm_mode = m AND 0xFFF, fm_uid = u, fm_gid = g\<rparr>"
proof -
  have "m AND 0xFFF \<le> 0xFFF" by (rule word_and_le1)
  then show ?thesis by (simp add: RepairFileMetadataV1_new_def MAX_PERMISSION_MODE_def not_less [symmetric])
qed

lemma validate_regular_file_wp:
  assumes posix: "posix_directory H view"
    and "\<And>x. view x = view w \<Longrightarrow> I x" and "\<And>w'. view w' = view w \<Longrightarrow> Q (Inl UnsafeTarget) w'"
    and "\<And>k ino off w'. view w' = view w \<Longrightarrow> d_fds (view w) fd = Some (ino, off) \<Longrightarrow>
      k = i_xattrs (d_inodes (view w) ino) \<Longrightarrow> Q (Inr k) w'"
  shows "wp I (validate_regular_file H fd st) Q w"
  unfolding validate_regular_file_def
  by (auto simp: wp_simps unchanged_def intro!: wp_intros host_calls [OF posix] assms(2-))

lemma snapshot_named_wp:
  assumes posix: "posix_directory H view"
    and I: "\<And>x. same_dir (view w) (view x) \<Longrightarrow> I x"
    and E: "\<And>e w'. same_dir (view w) (view w') \<Longrightarrow> Q (Inl e) w'"
    and S: "\<And>s w'. same_dir (view w) (view w') \<Longrightarrow> snapshot_of sha (view w) n s \<Longrightarrow> Q (Inr s) w'"
  shows "wp I (snapshot_named H sha n) Q w"
  unfolding snapshot_named_def
  by (auto simp: wp_simps unchanged_def metadata_new snapshot_of_def stat_of_def Let_def inode_metadata_def
      inode_metadata_sha256_def noncanonical_metadata_sha256_def
    intro!: I E S wp_intros validate_regular_file_wp [OF posix] host_calls [OF posix])

section \<open>Staged files\<close>

text \<open>
  \<open>dropped n\<close>: at most the name \<open>n\<close> has gone.  \<open>staged n ino\<close>: the name \<open>n\<close> has appeared, for the new
  inode \<open>ino\<close>.  \<open>settled n\<close>: a file named \<open>n\<close> that is not empty is on the disk.
\<close>

definition dropped :: "string \<Rightarrow> directory \<Rightarrow> directory \<Rightarrow> bool" where
  "dropped n v v' \<longleftrightarrow>
     d_dev v' = d_dev v \<and> (d_names v' = d_names v \<or> d_names v' = (d_names v)(n := None)) \<and>
     (\<forall>ino. same_file (d_inodes v ino) (d_inodes v' ino))"

definition staged :: "string \<Rightarrow> u64 \<Rightarrow> directory \<Rightarrow> directory \<Rightarrow> bool" where
  "staged n ino v v' \<longleftrightarrow>
     d_names v n = None \<and> ino \<notin> ran (d_names v) \<and> d_dev v' = d_dev v \<and> d_names v' = (d_names v)(n \<mapsto> ino) \<and>
     (\<forall>j. j \<noteq> ino \<longrightarrow> same_file (d_inodes v j) (d_inodes v' j))"

definition settled :: "string \<Rightarrow> directory \<Rightarrow> bool" where
  "settled n v \<longleftrightarrow>
     (\<forall>ino. d_names v n = Some ino \<longrightarrow> i_synced (d_inodes v ino) \<or> i_bytes (d_inodes v ino) = [])"

lemma dropped_refl [simp]: "dropped n v v"
  by (simp add: dropped_def)

lemma still_dropped: "still v v' \<Longrightarrow> dropped n v v'"
  by (simp add: still_def dropped_def)

lemma dropped_trans: "dropped n u v \<Longrightarrow> dropped n v w \<Longrightarrow> dropped n u w"
  unfolding dropped_def using same_file_trans by (auto simp: fun_upd_def) metis+

lemma dropped_simps [simp]:
  "dropped n v (v'\<lparr>d_durable := d\<rparr>) = dropped n v v'" "dropped n v (v'\<lparr>d_fds := fds\<rparr>) = dropped n v v'"
  "dropped n (v\<lparr>d_durable := d\<rparr>) v' = dropped n v v'" "dropped n (v\<lparr>d_fds := fds\<rparr>) v' = dropped n v v'"
  by (simp_all add: dropped_def)

lemma dropped_touches: "dropped n v v' \<Longrightarrow> touches_only {n} v v'"
  by (auto simp: dropped_def touches_only_def kept_def)

lemma staged_touches: "staged n ino v v' \<Longrightarrow> touches_only {n} v v'"
  by (auto simp: staged_def touches_only_def kept_def ran_def)

lemma kept_settled: "kept n v v' \<Longrightarrow> settled n v \<Longrightarrow> settled n v'"
  by (auto simp: kept_def settled_def same_file_def)

lemma drop_guard_wp:
  assumes posix: "posix_directory H view"
    and I: "\<And>x. dropped n (view w) (view x) \<Longrightarrow> I x"
    and S: "\<And>w'. dropped n (view w) (view w') \<Longrightarrow> Q (Inr ()) w'"
  shows "wp I (drop_guard H n identity) Q w"
  unfolding drop_guard_def
  by (auto simp: wp_simps unchanged_def dropped_def set_inode_def same_file_def
    intro!: I S wp_intros host_calls [OF posix])

lemma remove_name_if_identity_wp:
  assumes posix: "posix_directory H view"
    and I: "\<And>x. dropped n (view w) (view x) \<Longrightarrow> I x"
    and E: "\<And>e w'. view w' = view w \<Longrightarrow> Q (Inl e) w'"
    and S: "\<And>w'. dropped n (view w) (view w') \<Longrightarrow> d_names (view w') n = None \<Longrightarrow> Q (Inr ()) w'"
  shows "wp I (remove_name_if_identity H n identity) Q w"
  unfolding remove_name_if_identity_def
  by (auto simp: wp_simps unchanged_def dropped_def set_inode_def same_file_def
    intro!: I E S wp_intros host_calls [OF posix])

lemma cleanup_known_stage_wp:
  assumes posix: "posix_directory H view"
    and I: "\<And>x. dropped n (view w) (view x) \<Longrightarrow> I x"
    and S: "\<And>w'. dropped n (view w) (view w') \<Longrightarrow> Q (Inr ()) w'"
  shows "wp I (cleanup_known_stage H sha n s m) Q w"
  unfolding cleanup_known_stage_def
  by (auto simp: wp_simps unchanged_def same_dir_def
    intro!: I S wp_intros snapshot_named_wp [OF posix] remove_name_if_identity_wp [OF posix] host_calls [OF posix])

lemma fill_prepared_file_wp:
  assumes posix: "posix_directory H view"
    and start: "staged n ino v (view w)" "d_fds (view w) fd = Some (ino, 0)"
    and I: "\<And>x. staged n ino v (view x) \<Longrightarrow> I x"
    and E: "\<And>e w'. staged n ino v (view w') \<Longrightarrow>
      (e = UnsafeTarget \<Longrightarrow> i_synced (d_inodes (view w') ino)) \<Longrightarrow> Q (Inl e) w'"
    and S: "\<And>s w'. staged n ino v (view w') \<Longrightarrow> i_synced (d_inodes (view w') ino) \<Longrightarrow>
      snapshot_of sha (view w') n s \<Longrightarrow> fs_bytes s = bytes \<Longrightarrow> fs_metadata s = m \<Longrightarrow>
      fs_metadata_sha256 s = canonical_repair_file_metadata_sha256 sha m \<Longrightarrow> Q (Inr s) w'"
  shows "wp I (fill_prepared_file H sha n fd identity bytes m) Q w"
  using start unfolding fill_prepared_file_def
  by (auto simp: wp_simps unchanged_def through_fd_def set_inode_def staged_def same_dir_def snapshot_of_def
    intro!: I E S wp_intros snapshot_named_wp [OF posix] host_calls [OF posix])

lemma guarded_wp:
  assumes posix: "posix_directory H view"
    and "wp I body (\<lambda>r w'. case r of
        Inl e \<Rightarrow> (\<forall>x. dropped n (view w') (view x) \<longrightarrow> I x \<and> Q (Inl e) x)
      | Inr x \<Rightarrow> Q (Inr x) w') w"
  shows "wp I (guarded H n identity body) Q w"
  unfolding guarded_def wp_seq wp_attempt
  by (rule wp_mono [OF assms(2)]) (auto simp: wp_simps split: sum.splits intro!: drop_guard_wp [OF posix])

lemma create_prepared_file_wp:
  assumes posix: "posix_directory H view"
    and I: "\<And>x. touches_only {n} (view w) (view x) \<Longrightarrow> I x"
    and E: "\<And>e w'. touches_only {n} (view w) (view w') \<Longrightarrow>
      (e = UnsafeTarget \<Longrightarrow> settled n (view w) \<Longrightarrow> settled n (view w')) \<Longrightarrow> Q (Inl e) w'"
    and S: "\<And>s ino w'. staged n ino (view w) (view w') \<Longrightarrow> i_synced (d_inodes (view w') ino) \<Longrightarrow>
      snapshot_of sha (view w') n s \<Longrightarrow> fs_bytes s = bytes \<Longrightarrow> fs_metadata s = m \<Longrightarrow>
      fs_metadata_sha256 s = canonical_repair_file_metadata_sha256 sha m \<Longrightarrow> Q (Inr s) w'"
  shows "wp I (create_prepared_file H sha n bytes m) Q w"
proof -
  have after: "I x \<and> Q (Inl e) x"
    if "staged n ino (view w) u" "e = UnsafeTarget \<Longrightarrow> i_synced (d_inodes u ino) \<or> i_bytes (d_inodes u ino) = []"
      "dropped n u (view x)" for ino u e x
  proof -
    have "touches_only {n} (view w) (view x)"
      using that(1,3) by (blast intro: touches_trans staged_touches dropped_touches)
    moreover have "settled n (view x)" if "e = UnsafeTarget"
      using \<open>dropped n u (view x)\<close> \<open>staged n ino (view w) u\<close> \<open>e = UnsafeTarget \<Longrightarrow> _\<close> [OF that]
      by (auto simp: settled_def dropped_def staged_def same_file_def)
    ultimately show ?thesis using I E by blast
  qed
  have fill: "wp I (guarded H n identity (fill_prepared_file H sha n fd identity bytes m)) Q x"
    if some: "\<exists>ino. d_fds (view x) fd = Some (ino, 0) \<and> staged n ino (view w) (view x)" for x fd identity
  proof -
    from some obtain ino where that: "staged n ino (view w) (view x)" "d_fds (view x) fd = Some (ino, 0)" by blast
    show ?thesis
    proof (rule guarded_wp [OF posix], rule fill_prepared_file_wp [OF posix that], goal_cases)
      case (2 e w')
      then have "I x \<and> Q (Inl e) x" if "dropped n (view w') (view x)" for x
        using after [of ino "view w'" e x] that by blast
      then show ?case by simp
    qed (auto intro: I staged_touches S)
  qed
  show ?thesis
    unfolding create_prepared_file_def Let_def
    by (auto simp: wp_simps unchanged_def settled_def set_inode_def staged_def touches_only_def kept_def ran_def
      intro!: wp_intros host_calls [OF posix] fill E I)
qed

lemma persist_directory_wp:
  assumes posix: "posix_directory H view"
    and I: "\<And>x. still (view w) (view x) \<Longrightarrow> I x"
    and E: "\<And>e w'. still (view w) (view w') \<Longrightarrow> Q (Inl e) w'"
    and S: "\<And>w'. still (view w) (view w') \<Longrightarrow> d_durable (view w') \<Longrightarrow> Q (Inr ()) w'"
  shows "wp I (persist_directory H) Q w"
  unfolding persist_directory_def
  by (auto simp: wp_simps unchanged_def still_def same_file_def intro!: I E S wp_intros host_calls [OF posix])

section \<open>The exchange\<close>

text \<open>\<open>exchanged n leaf\<close>: the two names have swapped files, after which \<open>n\<close> may have gone.\<close>

definition exchanged :: "string \<Rightarrow> string \<Rightarrow> directory \<Rightarrow> directory \<Rightarrow> bool" where
  "exchanged n leaf v v' \<longleftrightarrow>
     (\<exists>i j. d_names v n = Some i \<and> d_names v leaf = Some j \<and>
        (d_names v' = (d_names v)(n \<mapsto> j, leaf \<mapsto> i) \<or> d_names v' = (d_names v)(n := None, leaf \<mapsto> i))) \<and>
     d_dev v' = d_dev v \<and> (\<forall>ino. same_file (d_inodes v ino) (d_inodes v' ino))"

lemma exchanged_dropped:
  assumes "exchanged n leaf u v" and "dropped n v w" and "n \<noteq> leaf"
  shows "exchanged n leaf u w"
proof -
  obtain i j where ij: "d_names u n = Some i" "d_names u leaf = Some j"
    "d_names v = (d_names u)(n \<mapsto> j, leaf \<mapsto> i) \<or> d_names v = (d_names u)(n := None, leaf \<mapsto> i)"
    using assms(1) by (auto simp: exchanged_def)
  have "((d_names u)(n \<mapsto> j, leaf \<mapsto> i))(n := None) = (d_names u)(n := None, leaf \<mapsto> i)"
    "((d_names u)(n := None, leaf \<mapsto> i))(n := None) = (d_names u)(n := None, leaf \<mapsto> i)"
    using assms(3) by auto
  then have "d_names w = (d_names u)(n \<mapsto> j, leaf \<mapsto> i) \<or> d_names w = (d_names u)(n := None, leaf \<mapsto> i)"
    using ij(3) assms(2) unfolding dropped_def by (elim conjE disjE) simp_all
  moreover have "same_file (d_inodes u ino) (d_inodes v ino)" "same_file (d_inodes v ino) (d_inodes w ino)" for ino
    using assms(1,2) by (simp_all add: exchanged_def dropped_def)
  then have "same_file (d_inodes u ino) (d_inodes w ino)" for ino by (rule same_file_trans)
  moreover have "d_dev w = d_dev u" using assms(1,2) by (simp add: exchanged_def dropped_def)
  ultimately show ?thesis using ij(1,2) by (auto simp: exchanged_def)
qed

lemmas exchanged_still = exchanged_dropped [OF _ still_dropped]

lemma exchanged_touches: "exchanged n leaf v v' \<Longrightarrow> touches_only {leaf, n} v v'"
  by (auto simp: exchanged_def touches_only_def kept_def)

lemma swap_exchanges:
  assumes "still v u" and "d_names u n = Some i" "d_names u leaf = Some j"
  shows "exchanged n leaf v (u\<lparr>d_names := (d_names u)(n \<mapsto> j, leaf \<mapsto> i), d_durable := False\<rparr>)"
  using assms by (auto simp: exchanged_def still_def)

lemma seq_pure_result [simp]: "seq (pure_result (Inr x)) k = k x"
  by (rule ext) (simp add: seq_def pure_result_def ret_def split: prod.splits)

lemma seq_ret: "seq (ret x) k = k x" and seq_fail: "seq (fail e) k = fail e"
  by (rule ext, simp add: seq_def ret_def fail_def split: prod.splits)+

lemma snapshot_repair_resource_eq:
  "repair_resource_for_intent intent = Inr resource \<Longrightarrow>
   snapshot_repair_resource H sha intent = snapshot_named H sha (resource_leaf resource)"
  by (simp add: snapshot_repair_resource_def)

lemma ensure_deadline_wp:
  assumes posix: "posix_directory H view"
    and "\<And>x. view x = view w \<Longrightarrow> I x"
    and "\<And>w'. view w' = view w \<Longrightarrow> Q (Inl TimedOut) w'"
    and "\<And>w'. view w' = view w \<Longrightarrow> Q (Inr ()) w'"
  shows "wp I (ensure_deadline H deadline) Q w"
  unfolding ensure_deadline_def by (simp add: wp_simps host_laws(1) [OF posix] assms(2-))

lemma exchange_and_verify_wp:
  assumes posix: "posix_directory H view"
    and resource: "repair_resource_for_intent intent = Inr resource" "leaf = resource_leaf resource"
    and distinct: "n \<noteq> leaf"
    and I: "\<And>x. still (view w) (view x) \<or> exchanged n leaf (view w) (view x) \<Longrightarrow> I x"
    and E: "\<And>e w'. still (view w) (view w') \<or> exchanged n leaf (view w) (view w') \<Longrightarrow> Q (Inl e) w'"
    and S: "\<And>w'. exchanged n leaf (view w) (view w') \<Longrightarrow> d_names (view w') n = None \<Longrightarrow> Q (Inr ()) w'"
  shows "wp I (exchange_and_verify H sha intent resource n prepared original new old deadline) Q w"
proof -
  have verify: "wp I (seq (persist_directory H) (\<lambda>_.
     seq (snapshot_named H sha leaf) (\<lambda>installed.
     seq (snapshot_named H sha n) (\<lambda>displaced.
     seq (ensure_snapshot_exact sha installed new (ei_before_metadata intent)) (\<lambda>_.
     seq (ensure_snapshot_exact sha displaced old (ei_before_metadata intent)) (\<lambda>_.
     seq (ensure (fs_identity installed = fs_identity prepared \<and> fs_identity displaced = fs_identity original)
       TargetChanged) (\<lambda>_.
     remove_name_if_identity H n (fs_identity displaced)))))))) Q u"
    if u: "exchanged n leaf (view w) (view u)" for u
  proof -
    have after: "exchanged n leaf (view w) (view x)" if "dropped n (view u) (view x)" for x
      using exchanged_dropped [OF u that distinct] .
    show ?thesis
      unfolding ensure_snapshot_exact_def
      by (auto simp: wp_simps intro!: I E S after wp_intros persist_directory_wp [OF posix]
          snapshot_named_wp [OF posix] remove_name_if_identity_wp [OF posix])
        (meson dropped_trans still_dropped same_dir_still)+
  qed
  show ?thesis
    unfolding exchange_and_verify_def snapshot_repair_resource_eq [OF resource(1)] resource(2) [symmetric]
    by (auto simp: wp_simps unchanged_def intro!: I E wp_intros snapshot_named_wp [OF posix]
        ensure_deadline_wp [OF posix] host_calls [OF posix] verify [THEN wp_seq [THEN iffD1]]
      simp: swap_exchanges dest!: same_dir_still)
qed

section \<open>Safe changes of the target\<close>

text \<open>
  \<open>installed n s m\<close>: the name \<open>n\<close> has a file, all on the disk, whose content has the digest \<open>s\<close> and
  whose attributes are \<open>m\<close>.  A change of the target is safe if it touches only the names \<open>T\<close> and the
  resource is the file it was or, on the disk, exactly the repaired or exactly the original one.
\<close>

definition installed :: "(string \<Rightarrow> Sha256) \<Rightarrow> directory \<Rightarrow> string \<Rightarrow> Sha256 \<Rightarrow> RepairFileMetadataV1 \<Rightarrow> bool" where
  "installed sha v n s m \<longleftrightarrow>
     (\<exists>ino. d_names v n = Some ino \<and> sha (i_bytes (d_inodes v ino)) = s \<and> inode_metadata (d_inodes v ino) = m \<and>
        inode_metadata_sha256 sha (d_inodes v ino) = canonical_repair_file_metadata_sha256 sha m \<and>
        i_synced (d_inodes v ino))"

definition target_safe ::
  "(string \<Rightarrow> Sha256) \<Rightarrow> RepairExecutionIntentV1 \<Rightarrow> string \<Rightarrow> string set \<Rightarrow> directory \<Rightarrow> directory \<Rightarrow> bool" where
  "target_safe sha intent leaf T v v' \<longleftrightarrow>
     touches_only T v v' \<and>
     (kept leaf v v' \<or> installed sha v' leaf (ei_after_sha256 intent) (ei_before_metadata intent) \<or>
      installed sha v' leaf (ei_before_sha256 intent) (ei_before_metadata intent))"

lemma same_file_metadata: "same_file i j \<Longrightarrow>
   inode_metadata j = inode_metadata i \<and> inode_metadata_sha256 sha j = inode_metadata_sha256 sha i"
  by (simp add: same_file_def inode_metadata_def inode_metadata_sha256_def)

lemma installed_kept:
  assumes "installed sha v n s m" and "kept n v v'"
  shows "installed sha v' n s m"
proof -
  obtain ino where "d_names v n = Some ino" using assms(1) by (auto simp: installed_def)
  moreover from this have "d_names v' n = Some ino" "same_file (d_inodes v ino) (d_inodes v' ino)"
    using assms(2) by (auto simp: kept_def)
  ultimately show ?thesis
    using assms(1) same_file_metadata [of "d_inodes v ino" "d_inodes v' ino" sha]
    by (auto simp: installed_def same_file_def)
qed

lemma exchanged_installed:
  assumes "exchanged n leaf v v'" and "installed sha v n s m" and "n \<noteq> leaf"
  shows "installed sha v' leaf s m"
proof -
  obtain i where i: "d_names v n = Some i" "d_names v' leaf = Some i" "same_file (d_inodes v i) (d_inodes v' i)"
    using assms(1,3) by (auto simp: exchanged_def)
  with assms(2) same_file_metadata [OF i(3)] show ?thesis by (auto simp: installed_def same_file_def)
qed

lemma snapshot_installed:
  "snapshot_of sha v n s \<Longrightarrow> snapshot_exact sha s d m \<Longrightarrow> settled n v \<Longrightarrow> installed sha v n d m"
  by (auto simp: snapshot_of_def snapshot_exact_def settled_def installed_def)

lemma staged_settled: "staged n ino v v' \<Longrightarrow> i_synced (d_inodes v' ino) \<Longrightarrow> settled n v'"
  by (simp add: staged_def settled_def)

lemma target_safe_refl [simp]: "target_safe sha intent leaf T v v"
  by (simp add: target_safe_def)

lemma target_safe_trans:
  assumes "target_safe sha intent leaf T u v" and "target_safe sha intent leaf U v w" and "T \<subseteq> W" "U \<subseteq> W"
  shows "target_safe sha intent leaf W u w"
proof -
  have "touches_only W u w"
    using touches_trans [OF touches_mono [OF _ assms(3)] touches_mono [OF _ assms(4)]] assms(1,2)
    unfolding target_safe_def by blast
  moreover have "kept leaf u w \<or> installed sha w leaf (ei_after_sha256 intent) (ei_before_metadata intent) \<or>
      installed sha w leaf (ei_before_sha256 intent) (ei_before_metadata intent)"
  proof (cases "kept leaf v w")
    case True
    then show ?thesis
      using assms(1) installed_kept [OF _ True] kept_trans [OF _ True] unfolding target_safe_def by blast
  next
    case False
    then show ?thesis using assms(2) by (simp add: target_safe_def)
  qed
  ultimately show ?thesis by (simp add: target_safe_def)
qed

lemma touches_safe: "touches_only {n} v v' \<Longrightarrow> n \<noteq> leaf \<Longrightarrow> n \<in> T \<Longrightarrow> target_safe sha intent leaf T v v'"
  by (auto simp: target_safe_def touches_only_def)

lemma exchanged_safe:
  assumes "exchanged n leaf v v'" and "installed sha v n s (ei_before_metadata intent)" and "n \<noteq> leaf"
    and "s = ei_after_sha256 intent \<or> s = ei_before_sha256 intent"
  shows "target_safe sha intent leaf {leaf, n} v v'"
  using exchanged_touches [OF assms(1)] exchanged_installed [OF assms(1-3)] assms(4)
  by (auto simp: target_safe_def)

lemma stage_names_distinct:
  "execution_stage_name_for resource r \<noteq> resource_leaf resource"
  "restore_stage_name_for resource r \<noteq> resource_leaf resource"
  "restore_stage_name_for resource r \<noteq> execution_stage_name_for resource r'"
  by (cases resource; simp add: execution_stage_name_for_def restore_stage_name_for_def FSTAB_RESOURCE_def
    CRYPTTAB_RESOURCE_def RESOLVER_LINK_RESOURCE_def UNSUPPORTED_BLOCK_RESOURCE_def)+

text \<open>The guarded exchange, from a file that is prepared and on the disk.\<close>

lemma guarded_exchange_wp:
  assumes posix: "posix_directory H view"
    and resource: "repair_resource_for_intent intent = Inr resource" "leaf = resource_leaf resource"
    and distinct: "n \<noteq> leaf"
    and ready: "installed sha (view w) n new (ei_before_metadata intent)"
    and new: "new = ei_after_sha256 intent \<or> new = ei_before_sha256 intent"
    and I: "\<And>x. target_safe sha intent leaf {leaf, n} (view w) (view x) \<Longrightarrow> I x"
    and E: "\<And>e w'. target_safe sha intent leaf {leaf, n} (view w) (view w') \<Longrightarrow> Q (Inl e) w'"
    and S: "\<And>w'. target_safe sha intent leaf {leaf, n} (view w) (view w') \<Longrightarrow>
      installed sha (view w') leaf new (ei_before_metadata intent) \<Longrightarrow> d_names (view w') n = None \<Longrightarrow> Q (Inr ()) w'"
  shows "wp I (guarded H n identity
    (exchange_and_verify H sha intent resource n prepared original new old deadline)) Q w"
proof (rule guarded_wp [OF posix], rule exchange_and_verify_wp [OF posix resource distinct], goal_cases)
  have safe: "target_safe sha intent leaf {leaf, n} (view w) u"
    if "still (view w) u \<or> exchanged n leaf (view w) u" for u
    using that exchanged_safe [OF _ ready distinct new] touches_safe [OF still_touches _] distinct by blast
  have dropped: "target_safe sha intent leaf {leaf, n} (view w) u'"
    if "still (view w) u \<or> exchanged n leaf (view w) u" "dropped n u u'" for u u'
    using target_safe_trans [OF safe [OF that(1)] touches_safe [OF dropped_touches [OF that(2)] distinct, of "{leaf, n}"]]
    by simp
  {
    case (1 x)
    then show ?case using safe I by blast
  next
    case (2 e w')
    then have "I x \<and> Q (Inl e) x" if "dropped n (view w') (view x)" for x
      using dropped [OF _ that] I E by blast
    then show ?case by simp
  next
    case (3 w')
    then show ?case using safe S exchanged_installed [OF _ ready distinct] by simp
  }
qed

section \<open>Replacing and restoring\<close>

lemma guarded_ensure:
  "guarded H n identity (seq (ensure b e) (\<lambda>_. m)) = (if b then guarded H n identity m else guarded H n identity (fail e))"
  by (rule ext) (simp add: guarded_def seq_def attempt_def ensure_def ret_def fail_def split: prod.splits)

lemma guarded_fail_wp:
  assumes posix: "posix_directory H view"
    and "\<And>x. dropped n (view w) (view x) \<Longrightarrow> I x" and "\<And>x. dropped n (view w) (view x) \<Longrightarrow> Q (Inl e) x"
  shows "wp I (guarded H n identity (fail e)) Q w"
  by (rule guarded_wp [OF posix]) (simp add: wp_simps assms(2,3))

definition closed_as :: "(string \<Rightarrow> Sha256) \<Rightarrow> RepairExecutionIntentV1 \<Rightarrow> Sha256 \<Rightarrow> ClosedObservation" where
  "closed_as sha intent s =
     \<lparr>co_resource_sha256 = s, co_metadata_sha256 = canonical_repair_file_metadata_sha256 sha (ei_before_metadata intent)\<rparr>"

lemma exact_observation: "snapshot_exact sha s d (ei_before_metadata intent) \<Longrightarrow> observation s = closed_as sha intent d"
  by (simp add: snapshot_exact_def observation_def closed_as_def)

lemma still_names: "still v v' \<Longrightarrow> d_names v' = d_names v"
  by (simp add: still_def)

text \<open>The last step of both functions: flush, and look at the resource once more.\<close>

lemma confirm_wp:
  assumes posix: "posix_directory H view"
    and I: "\<And>x. still (view w) (view x) \<Longrightarrow> I x" and E: "\<And>e w'. still (view w) (view w') \<Longrightarrow> Q (Inl e) w'"
    and S: "\<And>s w'. still (view w) (view w') \<Longrightarrow> d_durable (view w') \<Longrightarrow> snapshot_exact sha s d m \<Longrightarrow> wp I (k s) Q w'"
  shows "wp I (seq (persist_directory H) (\<lambda>_.
     seq (snapshot_named H sha leaf) (\<lambda>s.
     seq (ensure (snapshot_exact sha s d m) TargetChanged) (\<lambda>_. k s)))) Q w"
  by (auto simp: wp_simps same_dir_def still_def intro!: I E S wp_intros persist_directory_wp [OF posix]
    snapshot_named_wp [OF posix])

lemma apply_exact_replacement_wp:
  assumes posix: "posix_directory H view"
    and resource: "repair_resource_for_intent intent = Inr resource"
    and names: "leaf = resource_leaf resource" "stage = execution_stage_name_for resource reservation_id"
    and I: "\<And>x. target_safe sha intent leaf {leaf, stage} (view w) (view x) \<Longrightarrow> I x"
    and E: "\<And>e w'. target_safe sha intent leaf {leaf, stage} (view w) (view w') \<Longrightarrow> Q (Inl e) w'"
    and S: "\<And>w'. target_safe sha intent leaf {leaf, stage} (view w) (view w') \<Longrightarrow>
      installed sha (view w') leaf (ei_after_sha256 intent) (ei_before_metadata intent) \<Longrightarrow>
      d_names (view w') stage = None \<Longrightarrow> d_durable (view w') \<Longrightarrow> fault \<noteq> FailAfterInstalled \<Longrightarrow>
      Q (Inr (closed_as sha intent (ei_after_sha256 intent))) w'"
  shows "wp I (apply_exact_replacement H sha backup proposed intent reservation_id deadline fault) Q w"
proof -
  let ?safe = "\<lambda>v. target_safe sha intent leaf {leaf, stage} (view w) v"
  have distinct: "stage \<noteq> leaf" by (simp add: names stage_names_distinct)
  have touch: "?safe v'" if "?safe v" "touches_only {stage} v v'" for v v'
    using target_safe_trans [OF that(1) touches_safe [OF that(2) distinct, of "{leaf, stage}"]] by simp
  have still: "?safe v'" if "?safe v" "still v v'" for v v'
    using touch [OF that(1) still_touches [OF that(2)]] .
  have finish: "wp I (seq (persist_directory H) (\<lambda>_.
     seq (snapshot_named H sha leaf) (\<lambda>final_state.
     seq (ensure (snapshot_exact sha final_state (ei_after_sha256 intent) (ei_before_metadata intent)) TargetChanged) (\<lambda>_.
     if fault = FailAfterInstalled then fail MutationFailed
     else ret (observation final_state))))) Q u"
    if u: "?safe (view u)" "installed sha (view u) leaf (ei_after_sha256 intent) (ei_before_metadata intent)"
      "d_names (view u) stage = None" for u
    by (rule confirm_wp [OF posix])
      (auto simp: wp_simps exact_observation still_names u(3) intro!: I E S still [OF u(1)] installed_kept [OF u(2)]
        still_kept)
  have swap: "wp I (seq (guarded H stage identity (seq (ensure (snapshot_exact sha prepared (ei_after_sha256 intent)
       (ei_before_metadata intent)) TargetChanged) (\<lambda>_. exchange_and_verify H sha intent resource stage prepared before
         (ei_after_sha256 intent) (ei_before_sha256 intent) deadline))) (\<lambda>_.
     seq (persist_directory H) (\<lambda>_.
     seq (snapshot_named H sha leaf) (\<lambda>final_state.
     seq (ensure (snapshot_exact sha final_state (ei_after_sha256 intent) (ei_before_metadata intent)) TargetChanged) (\<lambda>_.
     if fault = FailAfterInstalled then fail MutationFailed
     else ret (observation final_state)))))) Q u"
    if u: "?safe (view u)" "snapshot_of sha (view u) stage prepared" "settled stage (view u)"
    for u prepared before identity
  proof -
    have safe: "?safe v" if "target_safe sha intent leaf {leaf, stage} (view u) v" for v
      using target_safe_trans [OF u(1) that] by simp
    show ?thesis
    proof (cases "snapshot_exact sha prepared (ei_after_sha256 intent) (ei_before_metadata intent)")
      case True
      from guarded_exchange_wp [OF posix resource names(1) distinct snapshot_installed [OF u(2) True u(3)]] True
      show ?thesis unfolding guarded_ensure
        by (intro wp_seqI) (simp add: I E safe finish)
    next
      case False
      then show ?thesis unfolding guarded_ensure
        by (auto intro!: wp_seqI guarded_fail_wp [OF posix] I E touch [OF u(1)] dropped_touches)
    qed
  qed
  have create: "wp I (seq (create_prepared_file H sha stage proposed (ei_before_metadata intent)) k) Q u"
    if u: "same_dir (view w) (view u)"
      and k: "\<And>x prepared. ?safe (view x) \<Longrightarrow> snapshot_of sha (view x) stage prepared \<Longrightarrow> settled stage (view x) \<Longrightarrow>
        wp I (k prepared) Q x" for u k
  proof -
    have "?safe (view u)" using still [OF target_safe_refl same_dir_still [OF u]] .
    then show ?thesis
      by (auto intro!: wp_seqI create_prepared_file_wp [OF posix] k I E touch [of "view u"] staged_touches staged_settled)
  qed
  show ?thesis
    unfolding apply_exact_replacement_def snapshot_repair_resource_eq [OF resource] resource Let_def
      names [symmetric] ensure_snapshot_exact_def
    by (auto simp: wp_simps names [symmetric] intro!: wp_intros ensure_deadline_wp [OF posix]
      snapshot_named_wp [OF posix] I E create [THEN wp_seq [THEN iffD1]] swap [THEN wp_seq [THEN iffD1]]
      still [OF target_safe_refl] same_dir_still)
qed

lemma prepare_restore_file_wp:
  assumes posix: "posix_directory H view" and settled: "settled n (view w)"
    and bytes: "sha backup = ei_before_sha256 intent"
    and I: "\<And>x. touches_only {n} (view w) (view x) \<Longrightarrow> I x"
    and E: "\<And>e w'. touches_only {n} (view w) (view w') \<Longrightarrow> Q (Inl e) w'"
    and S: "\<And>s w'. touches_only {n} (view w) (view w') \<Longrightarrow>
      installed sha (view w') n (ei_before_sha256 intent) (ei_before_metadata intent) \<Longrightarrow> Q (Inr s) w'"
  shows "wp I (prepare_restore_file H sha n backup intent) Q w"
proof -
  have fresh: "Q (Inr s) x"
    if "staged n ino (view w) (view x)" "i_synced (d_inodes (view x) ino)" "snapshot_of sha (view x) n s"
      "fs_bytes s = backup" "fs_metadata s = ei_before_metadata intent"
      "fs_metadata_sha256 s = canonical_repair_file_metadata_sha256 sha (ei_before_metadata intent)" for s x ino
  proof -
    have "snapshot_exact sha s (ei_before_sha256 intent) (ei_before_metadata intent)"
      using that(3-6) bytes by (auto simp: snapshot_exact_def snapshot_of_def)
    then show ?thesis
      using snapshot_installed [OF that(3) _ staged_settled [OF that(1,2)]] staged_touches [OF that(1)] S by blast
  qed
  have existing: "wp I (seq (snapshot_named H sha n) (\<lambda>existing.
      seq (ensure (snapshot_exact sha existing (ei_before_sha256 intent) (ei_before_metadata intent)) TargetChanged) (\<lambda>_.
      ret existing))) Q u"
    if u: "touches_only {n} (view w) (view u)" "settled n (view u)" for u
  proof -
    have after: "touches_only {n} (view w) (view x)" if "same_dir (view u) (view x)" for x
      using touches_trans [OF u(1) same_dir_touches [OF that]] .
    have found: "installed sha (view x) n d m"
      if "same_dir (view u) (view x)" "snapshot_of sha (view u) n s" "snapshot_exact sha s d m" for x s d m
      using installed_kept [OF snapshot_installed [OF that(2,3) u(2)] still_kept [OF same_dir_still [OF that(1)]]] .
    show ?thesis by (auto simp: wp_simps intro!: wp_intros snapshot_named_wp [OF posix] I E S after found)
  qed
  show ?thesis
    unfolding prepare_restore_file_def ensure_snapshot_exact_def
    by (auto simp: wp_simps settled intro!: wp_intros create_prepared_file_wp [OF posix] fresh I E
      existing [THEN wp_seq [THEN iffD1]])
qed

lemma restore_exact_backup_wp:
  assumes posix: "posix_directory H view"
    and resource: "repair_resource_for_intent intent = Inr resource"
    and names: "leaf = resource_leaf resource" "stage = execution_stage_name_for resource reservation_id"
      "restore = restore_stage_name_for resource reservation_id"
    and settled: "settled restore (view w)"
    and I: "\<And>x. target_safe sha intent leaf {leaf, stage, restore} (view w) (view x) \<Longrightarrow> I x"
    and E: "\<And>e w'. target_safe sha intent leaf {leaf, stage, restore} (view w) (view w') \<Longrightarrow> Q (Inl e) w'"
    and S: "\<And>w'. target_safe sha intent leaf {leaf, stage, restore} (view w) (view w') \<Longrightarrow>
      installed sha (view w') leaf (ei_before_sha256 intent) (ei_before_metadata intent) \<Longrightarrow>
      d_names (view w') restore = None \<Longrightarrow> d_durable (view w') \<Longrightarrow>
      Q (Inr (closed_as sha intent (ei_before_sha256 intent))) w'"
  shows "wp I (restore_exact_backup H sha backup intent reservation_id deadline) Q w"
proof -
  let ?safe = "\<lambda>v. target_safe sha intent leaf {leaf, stage, restore} (view w) v"
  let ?before = "\<lambda>v. installed sha v leaf (ei_before_sha256 intent) (ei_before_metadata intent)"
  have distinct: "stage \<noteq> leaf" "restore \<noteq> leaf" "restore \<noteq> stage" by (simp_all add: names stage_names_distinct)
  have touch: "?safe v'" if "?safe v" "touches_only {n} v v'" "n = stage \<or> n = restore" for v v' n
  proof -
    have "n \<noteq> leaf" "n \<in> {leaf, stage, restore}" using that(3) distinct by auto
    from target_safe_trans [OF that(1) touches_safe [OF that(2) this]] show ?thesis by simp
  qed
  have still: "?safe v'" if "?safe v" "still v v'" for v v'
    using touch [OF that(1) still_touches [OF that(2)], of stage] by simp
  have finish: "wp I (seq (cleanup_known_stage H sha stage (ei_before_sha256 intent) (ei_before_metadata intent)) (\<lambda>_.
     seq (persist_directory H) (\<lambda>_.
     seq (snapshot_named H sha leaf) (\<lambda>final_state.
     seq (ensure (snapshot_exact sha final_state (ei_before_sha256 intent) (ei_before_metadata intent)) TargetChanged) (\<lambda>_.
     ret (observation final_state)))))) Q u"
    if u: "?safe (view u)" "?before (view u)" "d_names (view u) restore = None" for u
  proof -
    have drop: "?safe v \<and> ?before v \<and> d_names v restore = None" if "dropped stage (view u) v" for v
    proof -
      from that have t: "touches_only {stage} (view u) v" by (rule dropped_touches)
      then have "kept leaf (view u) v" using distinct by (simp add: touches_only_def)
      with touch [OF u(1) t] installed_kept [OF u(2)] that u(3) show ?thesis by (auto simp: dropped_def)
    qed
    have "wp I (seq (persist_directory H) (\<lambda>_.
       seq (snapshot_named H sha leaf) (\<lambda>s.
       seq (ensure (snapshot_exact sha s (ei_before_sha256 intent) (ei_before_metadata intent)) TargetChanged) (\<lambda>_.
       ret (observation s))))) Q x" if x: "?safe (view x)" "?before (view x)" "d_names (view x) restore = None" for x
      by (rule confirm_wp [OF posix])
        (auto simp: wp_simps exact_observation still_names x(3) intro!: I E S still [OF x(1)] installed_kept [OF x(2)]
          still_kept)
    then show ?thesis
      by (intro wp_seqI cleanup_known_stage_wp [OF posix]) (simp_all add: I drop)
  qed
  have swap: "wp I (guarded H restore identity (exchange_and_verify H sha intent resource restore prepared original
       (ei_before_sha256 intent) (ei_after_sha256 intent) deadline)) (\<lambda>r w'. case r of Inl e \<Rightarrow> Q (Inl e) w'
     | Inr _ \<Rightarrow> wp I (seq (cleanup_known_stage H sha stage (ei_before_sha256 intent) (ei_before_metadata intent)) (\<lambda>_.
     seq (persist_directory H) (\<lambda>_.
     seq (snapshot_named H sha leaf) (\<lambda>final_state.
     seq (ensure (snapshot_exact sha final_state (ei_before_sha256 intent) (ei_before_metadata intent)) TargetChanged) (\<lambda>_.
     ret (observation final_state)))))) Q w') u"
    if u: "?safe (view u)" "installed sha (view u) restore (ei_before_sha256 intent) (ei_before_metadata intent)"
    for u prepared original identity
  proof -
    have "?safe v" if "target_safe sha intent leaf {leaf, restore} (view u) v" for v
      using target_safe_trans [OF u(1) that] by simp
    then show ?thesis
      by (intro guarded_exchange_wp [OF posix resource names(1) distinct(2) u(2)]) (simp_all add: I E finish)
  qed
  have prepare: "wp I (prepare_restore_file H sha restore backup intent) R u"
    if u: "same_dir (view w) (view u)" "sha backup = ei_before_sha256 intent"
      and R: "\<And>e x. ?safe (view x) \<Longrightarrow> R (Inl e) x"
        "\<And>s x. ?safe (view x) \<Longrightarrow> installed sha (view x) restore (ei_before_sha256 intent) (ei_before_metadata intent) \<Longrightarrow>
          R (Inr s) x" for u R
  proof -
    have "?safe (view u)" using still [OF target_safe_refl same_dir_still [OF u(1)]] .
    then show ?thesis
      using touch [of "view u" restore] kept_settled [OF still_kept [OF same_dir_still [OF u(1)]] settled] u(2)
      by (intro prepare_restore_file_wp [OF posix]) (auto intro: I R)
  qed
  show ?thesis
    unfolding restore_exact_backup_def snapshot_repair_resource_eq [OF resource] resource Let_def
      names [symmetric] ensure_snapshot_exact_def ensure_exact_bytes_def
    by (auto simp: wp_simps names [symmetric] intro!: wp_intros ensure_deadline_wp [OF posix]
      snapshot_named_wp [OF posix] I E prepare swap still [OF target_safe_refl] same_dir_still)
qed

section \<open>Closing, executing, recovering\<close>

text \<open>
  A report tells the truth about the resource: its digests are those of the file under the
  resource's name, and a committed or closed outcome comes with the digests of the intent.
\<close>

definition observed :: "(string \<Rightarrow> Sha256) \<Rightarrow> directory \<Rightarrow> string \<Rightarrow> ClosedObservation \<Rightarrow> bool" where
  "observed sha v n obs \<longleftrightarrow>
     (\<exists>ino. d_names v n = Some ino \<and> co_resource_sha256 obs = sha (i_bytes (d_inodes v ino)) \<and>
        co_metadata_sha256 obs = inode_metadata_sha256 sha (d_inodes v ino))"

definition report_true ::
  "(string \<Rightarrow> Sha256) \<Rightarrow> RepairExecutionIntentV1 \<Rightarrow> string \<Rightarrow> directory \<Rightarrow> RepairTransactionResolutionOutcome \<Rightarrow>
   ClosedObservation \<Rightarrow> bool" where
  "report_true sha intent leaf v outcome obs \<longleftrightarrow>
     observed sha v leaf obs \<and>
     (case outcome of
        CommittedAfter \<Rightarrow> obs = closed_as sha intent (ei_after_sha256 intent)
      | ClosedBeforeUnchanged \<Rightarrow> obs = closed_as sha intent (ei_before_sha256 intent)
      | ClosedBeforeRestored \<Rightarrow> obs = closed_as sha intent (ei_before_sha256 intent)
      | ManualReconciliationRequired \<Rightarrow> True)"

lemma snapshot_observed: "snapshot_of sha v n s \<Longrightarrow> observed sha v n (observation s)"
  by (auto simp: snapshot_of_def observed_def observation_def)

lemma installed_observed:
  "installed sha v n d (ei_before_metadata intent) \<Longrightarrow> observed sha v n (closed_as sha intent d)"
  by (auto simp: installed_def observed_def closed_as_def)

lemma observed_kept:
  assumes "observed sha v n obs" and "kept n v v'"
  shows "observed sha v' n obs"
proof -
  obtain ino where "d_names v n = Some ino" using assms(1) by (auto simp: observed_def)
  moreover from this have "d_names v' n = Some ino" "same_file (d_inodes v ino) (d_inodes v' ino)"
    using assms(2) by (auto simp: kept_def)
  ultimately show ?thesis
    using assms(1) same_file_metadata [of "d_inodes v ino" "d_inodes v' ino" sha]
    by (auto simp: observed_def same_file_def)
qed

lemma exact_state_observation:
  "exact_state sha s intent = StateBefore \<Longrightarrow> observation s = closed_as sha intent (ei_before_sha256 intent)"
  "exact_state sha s intent = StateAfter \<Longrightarrow> observation s = closed_as sha intent (ei_after_sha256 intent)"
  by (auto simp: exact_state_def Let_def observation_def closed_as_def split: if_splits)

lemma closure_simps [simp]:
  "tc_outcome (cleanup_closure oc obs b f) = oc" "tc_observation (cleanup_closure oc obs b f) = obs"
  "tc_initial_failure (cleanup_closure oc obs b f) = f" "tc_cleanup_verified (cleanup_closure oc obs b f) = b"
  "(cleanup_closure oc obs b f)\<lparr>tc_cleanup_verified := b'\<rparr> = cleanup_closure oc obs b' f"
  by (simp_all add: cleanup_closure_def)

lemma same_dir_safe: "same_dir v v' \<Longrightarrow> target_safe sha intent leaf T v v'"
  by (simp add: target_safe_def still_touches same_dir_still still_kept)

lemma close_after_failed_mutation_wp:
  assumes posix: "posix_directory H view"
    and resource: "repair_resource_for_intent intent = Inr resource"
    and names: "leaf = resource_leaf resource" "stage = execution_stage_name_for resource reservation_id"
      "restore = restore_stage_name_for resource reservation_id"
    and settled: "settled restore (view w)"
    and I: "\<And>x. target_safe sha intent leaf {leaf, stage, restore} (view w) (view x) \<Longrightarrow> I x"
    and E: "\<And>e w'. target_safe sha intent leaf {leaf, stage, restore} (view w) (view w') \<Longrightarrow> Q (Inl e) w'"
    and S: "\<And>c w'. target_safe sha intent leaf {leaf, stage, restore} (view w) (view w') \<Longrightarrow>
      report_true sha intent leaf (view w') (tc_outcome c) (tc_observation c) \<Longrightarrow> tc_outcome c \<noteq> CommittedAfter \<Longrightarrow>
      tc_initial_failure c = None \<Longrightarrow> Q (Inr c) w'"
  shows "wp I (close_after_failed_mutation H sha backup intent reservation_id deadline) Q w"
proof -
  let ?safe = "\<lambda>v. target_safe sha intent leaf {leaf, stage, restore} (view w) v"
  have distinct: "stage \<noteq> leaf" by (simp add: names stage_names_distinct)
  have restore: "wp I (seq (restore_exact_backup H sha backup intent reservation_id deadline)
      (\<lambda>obs. ret (cleanup_closure ClosedBeforeRestored obs False None))) Q u"
    if u: "same_dir (view w) (view u)" for u
  proof -
    have safe: "?safe v" if "target_safe sha intent leaf {leaf, stage, restore} (view u) v" for v
      using target_safe_trans [OF same_dir_safe [OF u, of sha intent leaf "{leaf}"] that] by simp
    show ?thesis
      using kept_settled [OF still_kept [OF same_dir_still [OF u]] settled]
      by (intro wp_seqI restore_exact_backup_wp [OF posix resource names])
        (simp_all add: wp_ret I E S safe cleanup_closure_def report_true_def installed_observed)
  qed
  have clean: "wp I (seq (cleanup_known_stage H sha stage d m)
      (\<lambda>_. ret (cleanup_closure ClosedBeforeUnchanged (observation s) False None))) Q u"
    if u: "same_dir (view w) (view u)" "snapshot_of sha (view w) leaf s" "exact_state sha s intent = StateBefore" for u s d m
  proof -
    have drop: "?safe v \<and> observed sha v leaf (observation s)" if "dropped stage (view u) v" for v
    proof -
      from that have t: "touches_only {stage} (view u) v" by (rule dropped_touches)
      then have "kept leaf (view w) v"
        using kept_trans [OF still_kept [OF same_dir_still [OF u(1)]]] distinct by (simp add: touches_only_def)
      moreover have "?safe v"
        using target_safe_trans [OF same_dir_safe [OF u(1), of sha intent leaf "{leaf}"]
          touches_safe [OF t distinct, of "{leaf, stage}"]] by simp
      ultimately show ?thesis using observed_kept [OF snapshot_observed [OF u(2)]] by blast
    qed
    show ?thesis
      by (intro wp_seqI cleanup_known_stage_wp [OF posix])
        (simp_all add: wp_ret I S drop cleanup_closure_def report_true_def exact_state_observation(1) [OF u(3), symmetric])
  qed
  have "wp I (case exact_state sha s intent of
       StateBefore \<Rightarrow>
         seq (pure_result (Inr resource)) (\<lambda>resource.
         seq (cleanup_known_stage H sha (execution_stage_name_for resource reservation_id)
           (ei_after_sha256 intent) (ei_before_metadata intent)) (\<lambda>_.
         ret (cleanup_closure ClosedBeforeUnchanged (observation s) False None)))
     | StateAfter \<Rightarrow>
         seq (restore_exact_backup H sha backup intent reservation_id deadline) (\<lambda>obs.
         ret (cleanup_closure ClosedBeforeRestored obs False None))
     | StateThird \<Rightarrow>
         ret (cleanup_closure ManualReconciliationRequired (observation s) False None)) Q u"
    if u: "same_dir (view w) (view u)" "snapshot_of sha (view w) leaf s" for u s
    using restore [OF u(1)] clean [OF u] observed_kept [OF snapshot_observed [OF u(2)] still_kept [OF same_dir_still [OF u(1)]]]
    by (cases "exact_state sha s intent")
      (auto simp: wp_ret names [symmetric] intro!: S same_dir_safe [OF u(1)], simp_all add: cleanup_closure_def report_true_def)
  then show ?thesis
    unfolding close_after_failed_mutation_def snapshot_repair_resource_eq [OF resource] resource names(1) [symmetric]
    by (auto intro!: wp_seqI snapshot_named_wp [OF posix] I E same_dir_safe)
qed

lemma open_etc_directory_wp:
  assumes posix: "posix_directory H view"
    and "\<And>x. view x = view w \<Longrightarrow> I x" and "\<And>e w'. view w' = view w \<Longrightarrow> Q (Inl e) w'"
    and "\<And>w'. view w' = view w \<Longrightarrow> Q (Inr ()) w'"
  shows "wp I (open_etc_directory H) Q w"
  unfolding open_etc_directory_def
  by (auto simp: wp_simps unchanged_def assms(2-4) intro!: wp_intros host_calls [OF posix])

lemma validate_write_mount_wp:
  assumes posix: "posix_directory H view"
    and "\<And>x. view x = view w \<Longrightarrow> I x" and "\<And>e w'. view w' = view w \<Longrightarrow> Q (Inl e) w'"
    and "\<And>w'. view w' = view w \<Longrightarrow> Q (Inr ()) w'"
  shows "wp I (validate_write_mount H) Q w"
  unfolding validate_write_mount_def
  by (auto simp: wp_simps unchanged_def assms(2-4) intro!: wp_intros host_calls [OF posix])

lemma validate_write_capability_wp:
  "\<lbrakk>\<And>e. Q (Inl e) w; Q (Inr ()) w\<rbrakk> \<Longrightarrow> wp I (validate_write_capability capability intent reservation_id) Q w"
  by (simp add: validate_write_capability_def wp_ensure)

lemma validate_rollback_write_capability_wp:
  "\<lbrakk>\<And>e. Q (Inl e) w; Q (Inr ()) w\<rbrakk> \<Longrightarrow> wp I (validate_rollback_write_capability capability pending) Q w"
  by (cases "source_intent (rt_source pending)") (auto simp: validate_rollback_write_capability_def wp_simps)

text \<open>What a completed run promises about the resource.\<close>

definition closure_true ::
  "(string \<Rightarrow> Sha256) \<Rightarrow> RepairExecutionIntentV1 \<Rightarrow> string \<Rightarrow> string \<Rightarrow> directory \<Rightarrow> TargetClosure \<Rightarrow> bool" where
  "closure_true sha intent leaf stage v c \<longleftrightarrow>
     tc_cleanup_verified c \<and> report_true sha intent leaf v (tc_outcome c) (tc_observation c) \<and>
     (tc_outcome c = CommittedAfter \<longrightarrow>
        tc_initial_failure c = None \<and> d_names v stage = None \<and> d_durable v \<and>
        installed sha v leaf (ei_after_sha256 intent) (ei_before_metadata intent)) \<and>
     (tc_outcome c = ClosedBeforeUnchanged \<or> tc_outcome c = ClosedBeforeRestored \<longrightarrow> tc_initial_failure c \<noteq> None)"

lemma execute_same_boot_target_wp:
  assumes posix: "posix_directory H view"
    and resource: "repair_resource_for_intent intent = Inr resource"
    and names: "leaf = resource_leaf resource" "stage = execution_stage_name_for resource reservation_id"
      "restore = restore_stage_name_for resource reservation_id"
    and settled: "settled restore (view w)"
    and I: "\<And>x. target_safe sha intent leaf {leaf, stage, restore} (view w) (view x) \<Longrightarrow> I x"
    and E: "\<And>e w'. target_safe sha intent leaf {leaf, stage, restore} (view w) (view w') \<Longrightarrow> Q (Inl e) w'"
    and S: "\<And>c w'. target_safe sha intent leaf {leaf, stage, restore} (view w) (view w') \<Longrightarrow>
      closure_true sha intent leaf stage (view w') c \<Longrightarrow> Q (Inr c) w'"
  shows "wp I (execute_same_boot_target H sha write_mount backup proposed intent reservation_id deadline fault) Q w"
proof -
  let ?safe = "\<lambda>v. target_safe sha intent leaf {leaf, stage, restore} (view w) v"
  have distinct: "restore \<noteq> leaf" "restore \<noteq> stage" by (simp_all add: names stage_names_distinct)
  have finish: "wp I (seq (map_err f (validate_write_mount H)) (\<lambda>_. ret (c\<lparr>tc_cleanup_verified := True\<rparr>))) Q u"
    if u: "?safe (view u)" "closure_true sha intent leaf stage (view u) (c\<lparr>tc_cleanup_verified := True\<rparr>)" for u c f
    unfolding wp_seq wp_map_err
    by (rule validate_write_mount_wp [OF posix]) (simp_all add: wp_ret I E S u)
  have failed: "wp I (close_after_failed_mutation H sha backup intent reservation_id deadline)
     (\<lambda>r w'. case r of Inl _ \<Rightarrow> Q (Inl error) w' | Inr c \<Rightarrow>
        ?safe (view w') \<and> report_true sha intent leaf (view w') (tc_outcome c) (tc_observation c) \<and>
        tc_outcome c \<noteq> CommittedAfter) u"
    if u: "target_safe sha intent leaf {leaf, stage} (view w) (view u)" for u error
  proof -
    have "kept restore (view w) (view u)" using u distinct by (simp add: target_safe_def touches_only_def)
    then have "settled restore (view u)" using settled by (rule kept_settled)
    moreover have "?safe v" if "target_safe sha intent leaf {leaf, stage, restore} (view u) v" for v
      by (rule target_safe_trans [OF u that]) auto
    ultimately show ?thesis
      by (intro close_after_failed_mutation_wp [OF posix resource names]) (simp_all add: I E)
  qed
  have weaken: "?safe v" if "target_safe sha intent leaf {leaf, stage} (view w) v" for v
    by (rule target_safe_trans [OF that target_safe_refl]) auto
  let ?closing = "\<lambda>applied. case applied of
            Inr obs \<Rightarrow> ret (cleanup_closure CommittedAfter obs False None)
          | Inl error \<Rightarrow>
              seq (attempt (close_after_failed_mutation H sha backup intent reservation_id deadline)) (\<lambda>closed.
              case closed of
                Inr closure \<Rightarrow>
                  ret (if tc_outcome closure = ClosedBeforeUnchanged \<or> tc_outcome closure = ClosedBeforeRestored
                       then closure\<lparr>tc_initial_failure := Some error\<rparr> else closure)
              | Inl _ \<Rightarrow> fail error)"
  have closing: "wp I (?closing (Inl error)) (\<lambda>r w'. case r of Inl e \<Rightarrow> Q (Inl e) w' | Inr c \<Rightarrow>
        ?safe (view w') \<and> closure_true sha intent leaf stage (view w') (c\<lparr>tc_cleanup_verified := True\<rparr>)) u"
    if u: "target_safe sha intent leaf {leaf, stage} (view w) (view u)" for u error
    unfolding sum.case wp_seq wp_attempt
    by (rule wp_mono [OF failed [OF u, of error]])
      (auto simp: wp_simps closure_true_def report_true_def split: sum.splits)
  have applied: "wp I (attempt (apply_exact_replacement H sha backup proposed intent reservation_id deadline fault))
     (\<lambda>r w'. case r of Inl e \<Rightarrow> False | Inr a \<Rightarrow> wp I (?closing a) (\<lambda>r w'. case r of Inl e \<Rightarrow> Q (Inl e) w' | Inr c \<Rightarrow>
        ?safe (view w') \<and> closure_true sha intent leaf stage (view w') (c\<lparr>tc_cleanup_verified := True\<rparr>)) w') u"
    if u: "view u = view w" for u
    unfolding wp_attempt
    by (rule apply_exact_replacement_wp [OF posix resource names(1,2)])
      (use closing in \<open>auto simp: u wp_simps I weaken cleanup_closure_def closure_true_def report_true_def installed_observed\<close>)
  have closed: "wp I (seq m (\<lambda>result.
       seq (map_err (prefer_initial_failure (tc_initial_failure result)) (validate_write_mount H)) (\<lambda>_.
       ret (result\<lparr>tc_cleanup_verified := True\<rparr>)))) Q x"
    if "wp I m (\<lambda>r w'. case r of Inl e \<Rightarrow> Q (Inl e) w' | Inr c \<Rightarrow>
        ?safe (view w') \<and> closure_true sha intent leaf stage (view w') (c\<lparr>tc_cleanup_verified := True\<rparr>)) x" for m x
    by (rule wp_seqI, rule wp_mono [OF that]) (auto split: sum.splits intro: finish)
  have body: "wp I (seq (attempt (apply_exact_replacement H sha backup proposed intent reservation_id deadline fault))
       (\<lambda>a. seq (?closing a) (\<lambda>result.
       seq (map_err (prefer_initial_failure (tc_initial_failure result)) (validate_write_mount H)) (\<lambda>_.
       ret (result\<lparr>tc_cleanup_verified := True\<rparr>))))) Q u" if "view u = view w" for u
    by (rule wp_seqI, rule wp_mono [OF applied [OF that]]) (auto split: sum.splits intro: closed)
  show ?thesis
    unfolding execute_same_boot_target_def ensure_exact_bytes_def
    by (auto simp: wp_ensure I E intro!: wp_seqI validate_write_capability_wp validate_write_mount_wp [OF posix] open_etc_directory_wp [OF posix]
      body [THEN wp_seq [THEN iffD1]])
qed

section \<open>Recovery and rollback\<close>

lemma classify_wp:
  assumes posix: "posix_directory H view"
    and quiet: "call_law view revalidate unchanged (\<lambda>_. unchanged)"
    and resource: "repair_resource_for_intent intent = Inr resource"
    and I: "\<And>x. same_dir (view w) (view x) \<Longrightarrow> I x"
    and E: "\<And>e w'. same_dir (view w) (view w') \<Longrightarrow> Q (Inl e) w'"
    and S: "\<And>s w'. same_dir (view w) (view w') \<Longrightarrow> snapshot_of sha (view w) (resource_leaf resource) s \<Longrightarrow>
      Q (Inr (exact_state sha s intent, observation s)) w'"
  shows "wp I (classify_with_retained_read_mount H sha revalidate intent) Q w"
  unfolding classify_with_retained_read_mount_def snapshot_repair_resource_eq [OF resource]
  by (auto simp: wp_simps unchanged_def I E S intro!: wp_seqI wp_call [OF quiet] open_etc_directory_wp [OF posix]
    snapshot_named_wp [OF posix])

lemma restore_recovery_target_wp:
  assumes posix: "posix_directory H view"
    and resource: "repair_resource_for_intent intent = Inr resource"
    and names: "leaf = resource_leaf resource" "stage = execution_stage_name_for resource reservation_id"
      "restore = restore_stage_name_for resource reservation_id"
    and settled: "settled restore (view w)"
    and I: "\<And>x. target_safe sha intent leaf {leaf, stage, restore} (view w) (view x) \<Longrightarrow> I x"
    and E: "\<And>e w'. target_safe sha intent leaf {leaf, stage, restore} (view w) (view w') \<Longrightarrow> Q (Inl e) w'"
    and S: "\<And>c w'. target_safe sha intent leaf {leaf, stage, restore} (view w) (view w') \<Longrightarrow>
      report_true sha intent leaf (view w') (tc_outcome c) (tc_observation c) \<Longrightarrow>
      (tc_outcome c = ManualReconciliationRequired \<and> tc_initial_failure c \<noteq> None) \<or> tc_outcome c = ClosedBeforeRestored \<Longrightarrow>
      tc_cleanup_verified c \<Longrightarrow> Q (Inr c) w'"
  shows "wp I (restore_recovery_target H sha write_mount backup intent reservation_id deadline) Q w"
proof -
  let ?safe = "\<lambda>v. target_safe sha intent leaf {leaf, stage, restore} (view w) v"
  have safe: "?safe v'" if "?safe v" "same_dir v v'" for v v'
    by (rule target_safe_trans [OF that(1) same_dir_safe [OF that(2)]]) auto
  have finish: "wp I (seq (validate_write_mount H) (\<lambda>_. ret (cleanup_closure oc obs True f))) Q u"
    if u: "?safe (view u)" "report_true sha intent leaf (view u) oc obs"
      "(oc = ManualReconciliationRequired \<and> f \<noteq> None) \<or> oc = ClosedBeforeRestored" for u oc obs f
    using u by (intro wp_seqI validate_write_mount_wp [OF posix]) (simp_all add: wp_ret I E S)
  have looked: "report_true sha intent leaf (view x)
      (if exact_state sha s intent = StateBefore then ClosedBeforeRestored else ManualReconciliationRequired) (observation s)"
    if "same_dir (view u) (view x)" "snapshot_of sha (view u) leaf s" for u x s
    using observed_kept [OF snapshot_observed [OF that(2)] still_kept [OF same_dir_still [OF that(1)]]]
      exact_state_observation(1) [of sha s intent]
    by (auto simp: report_true_def)
  have failed: "wp I (seq (seq (snapshot_named H sha leaf) (\<lambda>s. ret (cleanup_closure
         (if exact_state sha s intent = StateBefore then ClosedBeforeRestored else ManualReconciliationRequired)
         (observation s) False (Some error)))) (\<lambda>result.
       seq (validate_write_mount H) (\<lambda>_. ret (result\<lparr>tc_cleanup_verified := True\<rparr>)))) Q u"
    if "?safe (view u)" for u error
    by (intro wp_seqI snapshot_named_wp [OF posix])
      (simp_all add: wp_ret I E safe [OF that] finish looked del: if_split)
  have restored: "wp I (seq (ret (cleanup_closure ClosedBeforeRestored obs False None)) (\<lambda>result.
       seq (validate_write_mount H) (\<lambda>_. ret (result\<lparr>tc_cleanup_verified := True\<rparr>)))) Q u"
    if "?safe (view u)" "report_true sha intent leaf (view u) ClosedBeforeRestored obs" for u obs
    by (intro wp_seqI) (simp add: wp_ret finish that)
  have attempted: "wp I (attempt (restore_exact_backup H sha backup intent reservation_id deadline)) R u"
    if u: "view u = view w"
      and R: "\<And>e x. ?safe (view x) \<Longrightarrow> R (Inr (Inl e)) x"
        "\<And>obs x. ?safe (view x) \<Longrightarrow> report_true sha intent leaf (view x) ClosedBeforeRestored obs \<Longrightarrow> R (Inr (Inr obs)) x" for u R
    unfolding wp_attempt
    by (rule restore_exact_backup_wp [OF posix resource names])
      (simp_all add: u settled I R report_true_def installed_observed)
  show ?thesis
    unfolding restore_recovery_target_def snapshot_repair_resource_eq [OF resource] names(1) [symmetric]
    by (auto simp: I E intro!: wp_seqI [of _ "validate_write_capability x y z" for x y z] wp_seqI [of _ "validate_write_mount H"]
        wp_seqI [of _ "open_etc_directory H"] wp_seqI [of _ "attempt m" for m] validate_write_capability_wp
        validate_write_mount_wp [OF posix] open_etc_directory_wp [OF posix] attempted failed restored)
qed

lemma recover_same_boot_target_wp:
  assumes posix: "posix_directory H view"
    and quiet: "call_law view revalidate unchanged (\<lambda>_. unchanged)" "call_law view acquire unchanged (\<lambda>_. unchanged)"
    and resource: "repair_resource_for_intent intent = Inr resource"
    and names: "leaf = resource_leaf resource" "stage = execution_stage_name_for resource reservation_id"
      "restore = restore_stage_name_for resource reservation_id"
    and settled: "settled restore (view w)"
    and before_outcome: "before_outcome = ClosedBeforeUnchanged \<or> before_outcome = ClosedBeforeRestored"
    and I: "\<And>x. target_safe sha intent leaf {leaf, stage, restore} (view w) (view x) \<Longrightarrow> I x"
    and E: "\<And>e w'. target_safe sha intent leaf {leaf, stage, restore} (view w) (view w') \<Longrightarrow> Q (Inl e) w'"
    and S: "\<And>c w'. target_safe sha intent leaf {leaf, stage, restore} (view w) (view w') \<Longrightarrow>
      report_true sha intent leaf (view w') (tc_outcome c) (tc_observation c) \<Longrightarrow> tc_cleanup_verified c \<Longrightarrow>
      tc_outcome c = before_outcome \<or> tc_outcome c = ClosedBeforeRestored \<or>
      tc_outcome c = ManualReconciliationRequired \<and> (tc_initial_failure c \<noteq> None \<or> ts_phase pending \<noteq> TPending \<or>
        (\<exists>s. snapshot_of sha (view w) leaf s \<and> exact_state sha s intent = StateThird)) \<Longrightarrow> Q (Inr c) w'"
  shows "wp I (recover_same_boot_target H sha revalidate acquire pending backup intent reservation_id before_outcome
    deadline) Q w"
proof -
  let ?safe = "\<lambda>v. target_safe sha intent leaf {leaf, stage, restore} (view w) v"
  have restoring: "wp I (restore_recovery_target H sha write_mount backup intent reservation_id deadline) Q u"
    if u: "same_dir (view w) (view u)" for u write_mount
  proof -
    have "?safe v" if "target_safe sha intent leaf {leaf, stage, restore} (view u) v" for v
      by (rule target_safe_trans [OF same_dir_safe [OF u, of sha intent leaf "{leaf}"] that]) auto
    then show ?thesis
      using kept_settled [OF still_kept [OF same_dir_still [OF u]] settled]
      by (intro restore_recovery_target_wp [OF posix resource names]) (auto simp: I E intro!: S)
  qed
  have acquiring: "wp I (seq (call acquire RecoveryRequired) (\<lambda>write_mount.
      restore_recovery_target H sha write_mount backup intent reservation_id deadline)) Q u"
    if "same_dir (view w) (view u)" for u
    using that by (intro wp_seqI wp_call [OF quiet(2)]) (simp_all add: unchanged_def I E same_dir_safe restoring)
  have unwritten: "report_true sha intent leaf (view u) oc (observation s)"
    if "same_dir (view w) (view u)" "snapshot_of sha (view w) leaf s"
      "oc = ManualReconciliationRequired \<or> exact_state sha s intent = StateBefore \<and> oc = before_outcome" for u s oc
    using observed_kept [OF snapshot_observed [OF that(2)] still_kept [OF same_dir_still [OF that(1)]]]
      exact_state_observation(1) [of sha s intent] that(3) before_outcome
    by (auto simp: report_true_def)
  have decide: "wp I (case exact_state sha s intent of
       StateBefore \<Rightarrow> ret (cleanup_closure before_outcome (observation s) True None)
     | StateThird \<Rightarrow> ret (cleanup_closure ManualReconciliationRequired (observation s) True None)
     | StateAfter \<Rightarrow>
         if ts_phase pending \<noteq> TPending then ret (cleanup_closure ManualReconciliationRequired (observation s) True None)
         else seq (call acquire RecoveryRequired) (\<lambda>write_mount.
              restore_recovery_target H sha write_mount backup intent reservation_id deadline)) Q u"
    if u: "same_dir (view w) (view u)" "snapshot_of sha (view w) leaf s" for u s
    using acquiring [OF u(1)] unwritten [OF u] u
    by (cases "exact_state sha s intent") (auto simp: wp_ret same_dir_safe intro!: S)
  show ?thesis
    unfolding recover_same_boot_target_def ensure_exact_bytes_def
    by (auto simp: wp_ensure I E decide names(1) [symmetric] intro!: wp_seqI I E same_dir_safe
      classify_wp [OF posix quiet(1) resource])
qed

lemma restore_rollback_target_wp:
  assumes posix: "posix_directory H view"
    and resource: "repair_resource_for_intent intent = Inr resource"
    and names: "leaf = resource_leaf resource"
      "stage = execution_stage_name_for resource (bs_reservation_id (ts_backup (rt_source pending)))"
      "restore = restore_stage_name_for resource (bs_reservation_id (ts_backup (rt_source pending)))"
    and settled: "settled restore (view w)"
    and I: "\<And>x. target_safe sha intent leaf {leaf, stage, restore} (view w) (view x) \<Longrightarrow> I x"
    and E: "\<And>e w'. target_safe sha intent leaf {leaf, stage, restore} (view w) (view w') \<Longrightarrow> Q (Inl e) w'"
    and S: "\<And>c w'. target_safe sha intent leaf {leaf, stage, restore} (view w) (view w') \<Longrightarrow>
      observed sha (view w') leaf (rc_observation c) \<Longrightarrow> rc_cleanup_verified c \<Longrightarrow>
      (rc_outcome c = RolledBackBefore \<longleftrightarrow> rc_observation c = closed_as sha intent (ei_before_sha256 intent)) \<Longrightarrow>
      rc_observation c \<noteq> closed_as sha intent (ei_after_sha256 intent) \<or> ei_before_sha256 intent = ei_after_sha256 intent \<Longrightarrow>
      Q (Inr c) w'"
  shows "wp I (restore_rollback_target H sha write_mount backup intent pending deadline) Q w"
proof -
  let ?safe = "\<lambda>v. target_safe sha intent leaf {leaf, stage, restore} (view w) v"
  let ?close = "\<lambda>closure. seq (validate_write_mount H) (\<lambda>_. ret (closure\<lparr>rc_cleanup_verified := True\<rparr>))"
  let ?look = "\<lambda>error s. case exact_state sha s intent of
                StateBefore \<Rightarrow>
                  ret \<lparr>rc_outcome = RolledBackBefore, rc_observation = observation s, rc_cleanup_verified = False\<rparr>
              | StateThird \<Rightarrow>
                  ret \<lparr>rc_outcome = RollbackManualReconciliationRequired, rc_observation = observation s,
                    rc_cleanup_verified = False\<rparr>
              | StateAfter \<Rightarrow> fail error"
  have safe: "?safe v'" if "?safe v" "same_dir v v'" for v v'
    by (rule target_safe_trans [OF that(1) same_dir_safe [OF that(2)]]) auto
  have finish: "wp I (seq (validate_write_mount H) (\<lambda>_. ret \<lparr>rc_outcome = oc, rc_observation = obs,
      rc_cleanup_verified = True\<rparr>)) Q u"
    if u: "?safe (view u)" "observed sha (view u) leaf obs"
      "(oc = RolledBackBefore \<longleftrightarrow> obs = closed_as sha intent (ei_before_sha256 intent))"
      "obs \<noteq> closed_as sha intent (ei_after_sha256 intent) \<or> ei_before_sha256 intent = ei_after_sha256 intent" for u oc obs
    using u by (intro wp_seqI validate_write_mount_wp [OF posix]) (simp_all add: wp_ret I E S)
  have third: "observation s \<noteq> closed_as sha intent (ei_before_sha256 intent)"
    "observation s \<noteq> closed_as sha intent (ei_after_sha256 intent)"
    if "exact_state sha s intent = StateThird" for s
    using that by (auto simp: exact_state_def Let_def observation_def closed_as_def split: if_splits)
  have distinct: "closed_as sha intent a = closed_as sha intent b \<longleftrightarrow> a = b" for a b
    by (simp add: closed_as_def)
  have looked: "wp I (seq (?look error s) ?close) Q x"
    if "?safe (view x)" "observed sha (view x) leaf (observation s)" for x s error
    using that third [of s] exact_state_observation(1) [of sha s intent]
    by (cases "exact_state sha s intent") (auto simp: seq_ret seq_fail wp_fail distinct intro!: finish E)
  have failed: "wp I (seq (seq (snapshot_named H sha leaf) (?look error)) ?close) Q u" if u: "?safe (view u)" for u error
    by (intro wp_seqI snapshot_named_wp [OF posix])
      (simp_all add: I E safe [OF u] looked [THEN wp_seq [THEN iffD1]]
        observed_kept [OF snapshot_observed still_kept [OF same_dir_still]])
  have attempted: "wp I (attempt (restore_exact_backup H sha backup intent
      (bs_reservation_id (ts_backup (rt_source pending))) deadline)) R u"
    if u: "view u = view w"
      and R: "\<And>e x. ?safe (view x) \<Longrightarrow> R (Inr (Inl e)) x"
        "\<And>x. ?safe (view x) \<Longrightarrow> installed sha (view x) leaf (ei_before_sha256 intent) (ei_before_metadata intent) \<Longrightarrow>
          R (Inr (Inr (closed_as sha intent (ei_before_sha256 intent)))) x" for u R
    unfolding wp_attempt
    by (rule restore_exact_backup_wp [OF posix resource names]) (simp_all add: u settled I R)
  have restored: "wp I (seq (ret \<lparr>rc_outcome = RolledBackBefore, rc_observation = closed_as sha intent (ei_before_sha256 intent),
      rc_cleanup_verified = False\<rparr>) ?close) Q u"
    if "?safe (view u)" "installed sha (view u) leaf (ei_before_sha256 intent) (ei_before_metadata intent)" for u
    using that by (auto simp: seq_ret distinct intro!: finish installed_observed)
  show ?thesis
    unfolding restore_rollback_target_def snapshot_repair_resource_eq [OF resource] names(1) [symmetric]
    by (auto simp: I E intro!: wp_seqI [of _ "validate_rollback_write_capability x y" for x y]
        wp_seqI [of _ "validate_write_mount H"] wp_seqI [of _ "open_etc_directory H"] wp_seqI [of _ "attempt m" for m]
        validate_rollback_write_capability_wp validate_write_mount_wp [OF posix] open_etc_directory_wp [OF posix] attempted failed restored)
qed

end
