(* ===== verification/KA_Memory_Host.thy ===== *)
theory KA_Memory_Host
  imports KA_Host
begin

text \<open>
  A host whose directory is a value in memory.  It keeps the promises of \<open>posix_directory\<close>, so
  these can be kept; the examples of the executor run on it.
\<close>

record mem =
  mem_dir :: directory
  mem_next_fd :: nat

definition put_dir :: "directory \<Rightarrow> mem \<Rightarrow> mem" where
  "put_dir v w = w\<lparr>mem_dir := v\<rparr>"

definition with_fd :: "nat \<Rightarrow> (u64 \<Rightarrow> nat \<Rightarrow> mem \<times> (errno + 'a)) \<Rightarrow> mem \<Rightarrow> mem \<times> (errno + 'a)" where
  "with_fd fd k w =
     (case d_fds (mem_dir w) fd of None \<Rightarrow> (w, Inl OTHER_ERRNO) | Some (ino, off) \<Rightarrow> k ino off)"

definition with_name :: "string \<Rightarrow> (u64 \<Rightarrow> mem \<times> (errno + 'a)) \<Rightarrow> mem \<Rightarrow> mem \<times> (errno + 'a)" where
  "with_name n k w = (case d_names (mem_dir w) n of None \<Rightarrow> (w, Inl NOENT) | Some ino \<Rightarrow> k ino)"

definition mem_open :: "string \<Rightarrow> mem \<Rightarrow> mem \<times> (errno + nat)" where
  "mem_open n w = with_name n (\<lambda>ino.
     let fd = mem_next_fd w
     in (w\<lparr>mem_dir := (mem_dir w)\<lparr>d_fds := (d_fds (mem_dir w))(fd \<mapsto> (ino, 0))\<rparr>, mem_next_fd := Suc fd\<rparr>, Inr fd)) w"

definition mem_read :: "nat \<Rightarrow> nat \<Rightarrow> mem \<Rightarrow> mem \<times> (errno + string)" where
  "mem_read fd limit w = with_fd fd (\<lambda>ino off.
     let b = take limit (drop off (i_bytes (d_inodes (mem_dir w) ino)))
     in (put_dir ((mem_dir w)\<lparr>d_fds := (d_fds (mem_dir w))(fd \<mapsto> (ino, off + length b))\<rparr>) w, Inr b)) w"

definition unused_inode :: "directory \<Rightarrow> u64" where
  "unused_inode v = (SOME ino. ino \<notin> ran (d_names v))"

definition mem_create :: "string \<Rightarrow> mem \<Rightarrow> mem \<times> (errno + nat)" where
  "mem_create n w =
     (let v = mem_dir w; ino = unused_inode v; fd = mem_next_fd w;
          i = \<lparr>i_mode = 0x8180, i_uid = 0, i_gid = 0, i_nlink = 1, i_bytes = [], i_xattrs = 0, i_synced = False\<rparr>
      in if d_names v n \<noteq> None \<or> ran (d_names v) = UNIV then (w, Inl EXIST)
         else (w\<lparr>mem_dir := set_inode ino i (v\<lparr>d_names := (d_names v)(n \<mapsto> ino), d_fds := (d_fds v)(fd \<mapsto> (ino, 0)),
             d_durable := False\<rparr>), mem_next_fd := Suc fd\<rparr>, Inr fd))"

definition change_inode :: "(inode \<Rightarrow> inode) \<Rightarrow> nat \<Rightarrow> mem \<Rightarrow> mem \<times> (errno + unit)" where
  "change_inode f fd w = with_fd fd (\<lambda>ino off.
     (put_dir (set_inode ino (f (d_inodes (mem_dir w) ino)) (mem_dir w)) w, Inr ())) w"

definition mem_write :: "nat \<Rightarrow> string \<Rightarrow> mem \<Rightarrow> mem \<times> (errno + unit)" where
  "mem_write fd b w = with_fd fd (\<lambda>ino off.
     let i = d_inodes (mem_dir w) ino
     in (put_dir (set_inode ino (i\<lparr>i_bytes := take off (i_bytes i) @ b @ drop (off + length b) (i_bytes i), i_synced := False\<rparr>)
          ((mem_dir w)\<lparr>d_fds := (d_fds (mem_dir w))(fd \<mapsto> (ino, off + length b))\<rparr>)) w, Inr ())) w"

definition mem_seek_start :: "nat \<Rightarrow> mem \<Rightarrow> mem \<times> (errno + unit)" where
  "mem_seek_start fd w = with_fd fd (\<lambda>ino off.
     (put_dir ((mem_dir w)\<lparr>d_fds := (d_fds (mem_dir w))(fd \<mapsto> (ino, 0))\<rparr>) w, Inr ())) w"

definition mem_exchange :: "string \<Rightarrow> string \<Rightarrow> mem \<Rightarrow> mem \<times> (errno + unit)" where
  "mem_exchange a b w = with_name a (\<lambda>i. with_name b (\<lambda>j.
     (put_dir ((mem_dir w)\<lparr>d_names := (d_names (mem_dir w))(a \<mapsto> j, b \<mapsto> i), d_durable := False\<rparr>) w, Inr ())) w) w"

definition mem_unlink :: "string \<Rightarrow> mem \<Rightarrow> mem \<times> (errno + unit)" where
  "mem_unlink n w = with_name n (\<lambda>ino.
     (put_dir (set_inode ino ((d_inodes (mem_dir w) ino)\<lparr>i_nlink := i_nlink (d_inodes (mem_dir w) ino) - 1\<rparr>)
        ((mem_dir w)\<lparr>d_names := (d_names (mem_dir w))(n := None), d_durable := False\<rparr>)) w, Inr ())) w"

definition root_directory :: stat where
  "root_directory = \<lparr>st_dev = 1, st_ino = 2, st_mode = 0x41ED, st_nlink = 2, st_uid = 0, st_gid = 0, st_size = 4096\<rparr>"

definition memory_host :: "mem host" where
  "memory_host = \<lparr>
     h_now = \<lambda>w. (w, 0),
     h_open = mem_open,
     h_fstat = \<lambda>fd w. with_fd fd (\<lambda>ino _. (w, Inr (stat_of (mem_dir w) ino))) w,
     h_getfd = \<lambda>fd w. (w, Inr True),
     h_listxattr = \<lambda>fd w. with_fd fd (\<lambda>ino _. (w, Inr (i_xattrs (d_inodes (mem_dir w) ino)))) w,
     h_read = mem_read,
     h_statat = \<lambda>n w. with_name n (\<lambda>ino. (w, Inr (stat_of (mem_dir w) ino))) w,
     h_create = mem_create,
     h_write = mem_write,
     h_fchown = \<lambda>fd u g. change_inode (\<lambda>i. i\<lparr>i_uid := u, i_gid := g, i_synced := False\<rparr>) fd,
     h_fchmod = \<lambda>fd m. change_inode (\<lambda>i. i\<lparr>i_mode := (i_mode i AND 0xF000) OR (m AND 0xFFF), i_synced := False\<rparr>) fd,
     h_sync_all = change_inode (\<lambda>i. i\<lparr>i_synced := True\<rparr>),
     h_seek_start = mem_seek_start,
     h_exchange = mem_exchange,
     h_unlink = mem_unlink,
     h_fsync_dir = \<lambda>w. (put_dir ((mem_dir w)\<lparr>d_durable := True\<rparr>) w, Inr ()),
     h_syncfs = \<lambda>w. (put_dir ((mem_dir w)\<lparr>d_durable := True,
        d_inodes := \<lambda>ino. (d_inodes (mem_dir w) ino)\<lparr>i_synced := True\<rparr>\<rparr>) w, Inr ()),
     h_open_etc = \<lambda>w. (w, Inr ()),
     h_fstat_etc = \<lambda>w. (w, Inr root_directory),
     h_mount_fstat = \<lambda>w. (w, Inr root_directory),
     h_mount_fstatfs = \<lambda>w. (w, Inr 0xEF53),
     h_mount_fstatvfs = \<lambda>w. (w, Inr 0xE),
     h_mount_getfd = \<lambda>w. (w, Inr 1),
     h_mount_getfl = \<lambda>w. (w, Inr 0x200000)\<rparr>"

lemma mode_bits:
  "((a AND 0xF000) OR (m AND 0xFFF)) AND 0xFFF = m AND (0xFFF :: u32)"
  "((a AND 0xF000) OR (m AND 0xFFF)) AND 0xF000 = a AND (0xF000 :: u32)"
  by (simp_all add: bit.conj_disj_distrib2 and.assoc)

lemmas mem_defs = memory_host_def mem_open_def mem_read_def mem_create_def mem_write_def change_inode_def
  mem_seek_start_def mem_exchange_def mem_unlink_def with_fd_def with_name_def put_dir_def

lemma memory_reads: "posix_reads memory_host mem_dir"
  unfolding posix_reads_def
  by (auto simp: mem_defs call_law_def unchanged_def Let_def split: option.splits
      intro: same_dir_refl [unfolded same_dir_def])

lemma change_inode_through:
  assumes "\<And>i. change i (f i)"
  shows "call_law mem_dir (change_inode (\<lambda>i. (f i)\<lparr>i_synced := False\<rparr>) fd) unchanged (\<lambda>_. through_fd fd change)"
proof -
  have "through_fd fd change v (set_inode ino ((f (d_inodes v ino))\<lparr>i_synced := False\<rparr>) v)"
    if "d_fds v fd = Some (ino, off)" for v ino off
    unfolding through_fd_def using that assms
    by (intro exI [of _ ino] exI [of _ off] exI [of _ "f (d_inodes v ino)"]) (auto simp: map_upd_triv)
  then show ?thesis
    by (auto simp: change_inode_def with_fd_def put_dir_def call_law_def unchanged_def split: option.splits)
qed

lemma unused_inode_fresh: "ran (d_names v) \<noteq> UNIV \<Longrightarrow> unused_inode v \<notin> ran (d_names v)"
  unfolding unused_inode_def by (rule someI_ex) blast

lemma memory_create:
  "call_law mem_dir (mem_create n) unchanged (\<lambda>fd v v'. d_names v n = None \<and>
     (\<exists>ino i. ino \<notin> ran (d_names v) \<and> i_bytes i = [] \<and> i_nlink i = 1 \<and> i_mode i AND 0xF000 = 0x8000 \<and>
        v' = set_inode ino (i\<lparr>i_synced := False\<rparr>) (v\<lparr>d_names := (d_names v)(n \<mapsto> ino),
          d_fds := (d_fds v)(fd \<mapsto> (ino, 0)), d_durable := False\<rparr>)))"
proof -
  have "\<exists>ino i. ino \<notin> ran (d_names v) \<and> i_bytes i = [] \<and> i_nlink i = 1 \<and> i_mode i AND 0xF000 = 0x8000 \<and>
      set_inode (unused_inode v) \<lparr>i_mode = 0x8180, i_uid = 0, i_gid = 0, i_nlink = 1, i_bytes = [], i_xattrs = 0,
          i_synced = False\<rparr> (v\<lparr>d_names := (d_names v)(n \<mapsto> unused_inode v), d_fds := (d_fds v)(fd \<mapsto> (unused_inode v, 0)),
        d_durable := False\<rparr>) =
      set_inode ino (i\<lparr>i_synced := False\<rparr>) (v\<lparr>d_names := (d_names v)(n \<mapsto> ino), d_fds := (d_fds v)(fd \<mapsto> (ino, 0)),
        d_durable := False\<rparr>)" if "ran (d_names v) \<noteq> UNIV" for v fd
    by (rule exI [of _ "unused_inode v"], rule exI [of _ "\<lparr>i_mode = 0x8180, i_uid = 0, i_gid = 0, i_nlink = 1, i_bytes = [],
      i_xattrs = 0, i_synced = False\<rparr>"]) (simp add: unused_inode_fresh that)
  then show ?thesis
    unfolding call_law_def mem_create_def Let_def by (simp add: unchanged_def)
qed

lemma memory_writes: "posix_writes memory_host mem_dir"
proof -
  have "call_law mem_dir (change_inode (\<lambda>i. i\<lparr>i_uid := u, i_gid := g, i_synced := False\<rparr>) fd) unchanged
      (\<lambda>_. through_fd fd (\<lambda>i j. \<exists>m. m AND 0xF000 = i_mode i AND 0xF000 \<and> j = i\<lparr>i_uid := u, i_gid := g, i_mode := m\<rparr>))" for fd u g
    by (rule change_inode_through [where f = "\<lambda>i. i\<lparr>i_uid := u, i_gid := g\<rparr>"]) (auto intro!: exI [where x = "i_mode _"])
  moreover have "call_law mem_dir (change_inode (\<lambda>i. i\<lparr>i_mode := (i_mode i AND 0xF000) OR (m AND 0xFFF), i_synced := False\<rparr>) fd) unchanged
      (\<lambda>_. through_fd fd (\<lambda>i j. \<exists>k. k AND 0xFFF = m AND 0xFFF \<and> k AND 0xF000 = i_mode i AND 0xF000 \<and> j = i\<lparr>i_mode := k\<rparr>))" for fd m
    by (rule change_inode_through [where f = "\<lambda>i. i\<lparr>i_mode := (i_mode i AND 0xF000) OR (m AND 0xFFF)\<rparr>"])
      (use mode_bits in blast)
  moreover have "call_law mem_dir (mem_write fd b) F
      (\<lambda>_ v v'. \<exists>ino off. d_fds v fd = Some (ino, off) \<and>
          v' = set_inode ino ((d_inodes v ino)\<lparr>i_bytes := take off (i_bytes (d_inodes v ino)) @ b @
                 drop (off + length b) (i_bytes (d_inodes v ino)), i_synced := False\<rparr>)
               (v\<lparr>d_fds := (d_fds v)(fd \<mapsto> (ino, off + length b))\<rparr>))" if "\<And>v. F v v" for F fd b
    using that by (auto simp: mem_write_def with_fd_def put_dir_def call_law_def Let_def split: option.splits)
  moreover have "call_law mem_dir (mem_exchange a b) unchanged (\<lambda>_ v v'. \<exists>i j. d_names v a = Some i \<and>
      d_names v b = Some j \<and> v' = v\<lparr>d_names := (d_names v)(a \<mapsto> j, b \<mapsto> i), d_durable := False\<rparr>)" for a b
    by (auto simp: mem_exchange_def with_name_def put_dir_def call_law_def unchanged_def split: option.splits)
  moreover have "call_law mem_dir (mem_unlink n) unchanged (\<lambda>_ v v'. \<exists>ino. d_names v n = Some ino \<and>
      v' = set_inode ino ((d_inodes v ino)\<lparr>i_nlink := i_nlink (d_inodes v ino) - 1\<rparr>)
        (v\<lparr>d_names := (d_names v)(n := None), d_durable := False\<rparr>))" for n
    by (auto simp: mem_unlink_def with_name_def put_dir_def call_law_def unchanged_def split: option.splits)
  ultimately show ?thesis
    unfolding posix_writes_def memory_host_def host.simps using memory_create by simp
qed

lemma memory_syncs: "posix_syncs memory_host mem_dir"
  unfolding posix_syncs_def
  by (auto simp: mem_defs call_law_def unchanged_def split: option.splits)

theorem memory_host_posix: "posix_directory memory_host mem_dir"
  by (simp add: posix_directory_def memory_reads memory_writes memory_syncs)

end
