(* ===== verification/KA_Crash_Recovery.thy ===== *)
theory KA_Crash_Recovery
  imports KA_Executor_Safety KA_Memory_Host
begin

text \<open>
  Runs of the executor that stop half way.  The machine may lose power at any stopping point of a
  repair; the disk then holds the names of that point (or of an earlier one, which is a stopping
  point as well), the files that had been flushed by then, and anything in the files that had
  not.  After the restart the
  recovery runs, and may be interrupted in the same way, any number of times.
\<close>

section \<open>What a loss of power leaves\<close>

definition crash_image :: "directory \<Rightarrow> directory \<Rightarrow> bool" where
  "crash_image v v' \<longleftrightarrow>
     d_names v' = d_names v \<and>
     (\<forall>n ino. d_names v n = Some ino \<longrightarrow>
        i_synced (d_inodes v' ino) \<and> (i_synced (d_inodes v ino) \<longrightarrow> same_file (d_inodes v ino) (d_inodes v' ino)))"

lemma crash_settled: "crash_image v v' \<Longrightarrow> settled n v'"
  by (auto simp: crash_image_def settled_def)

lemma crash_installed:
  assumes "crash_image v v'" and "installed sha v n d m"
  shows "installed sha v' n d m"
proof -
  obtain ino where i: "d_names v n = Some ino" "i_synced (d_inodes v ino)" using assms(2) by (auto simp: installed_def)
  with assms(1) have "kept n v v'" by (auto simp: crash_image_def kept_def)
  with assms(2) show ?thesis by (rule installed_kept)
qed

text \<open>The resource is, whole and on the disk, what it was or what it was to become.\<close>

definition intact :: "(string \<Rightarrow> Sha256) \<Rightarrow> RepairExecutionIntentV1 \<Rightarrow> string \<Rightarrow> directory \<Rightarrow> bool" where
  "intact sha intent leaf v \<longleftrightarrow>
     installed sha v leaf (ei_before_sha256 intent) (ei_before_metadata intent) \<or>
     installed sha v leaf (ei_after_sha256 intent) (ei_before_metadata intent)"

lemma target_safe_intact: "target_safe sha intent leaf T v v' \<Longrightarrow> intact sha intent leaf v \<Longrightarrow> intact sha intent leaf v'"
  using installed_kept by (auto simp: target_safe_def intact_def)

lemma crash_intact: "crash_image v v' \<Longrightarrow> intact sha intent leaf v \<Longrightarrow> intact sha intent leaf v'"
  using crash_installed by (auto simp: intact_def)

lemma intact_not_third:
  "intact sha intent leaf v \<Longrightarrow> snapshot_of sha v leaf s \<Longrightarrow> exact_state sha s intent \<noteq> StateThird"
  by (auto simp: intact_def installed_def snapshot_of_def exact_state_def Let_def)

lemma intact_observed_before:
  assumes "intact sha intent leaf v" and "observed sha v leaf (closed_as sha intent (ei_before_sha256 intent))"
  shows "installed sha v leaf (ei_before_sha256 intent) (ei_before_metadata intent)"
  using assms by (auto simp: intact_def installed_def observed_def closed_as_def)

section \<open>Restarts\<close>

text \<open>
  The worlds the machine can come up in: after a repair that started on the exact old file and
  stopped anywhere, or after a recovery from such a world that stopped anywhere.
\<close>

inductive restarted ::
  "'w host \<Rightarrow> ('w \<Rightarrow> directory) \<Rightarrow> (string \<Rightarrow> Sha256) \<Rightarrow> ('w \<Rightarrow> 'w \<times> (errno + unit)) \<Rightarrow>
   ('w \<Rightarrow> 'w \<times> (errno + RescueTargetWriteMountCapability)) \<Rightarrow> RepairExecutionIntentV1 \<Rightarrow> string \<Rightarrow> string \<Rightarrow> 'w \<Rightarrow> bool"
  for H view sha revalidate acquire intent leaf reservation_id where
  after_repair:
    "installed sha (view w) leaf (ei_before_sha256 intent) (ei_before_metadata intent) \<Longrightarrow>
     \<forall>n. settled n (view w) \<Longrightarrow>
     x \<in> stopping_points (execute_same_boot_target H sha write_mount backup proposed intent reservation_id deadline fault) w \<Longrightarrow>
     crash_image (view x) (view w') \<Longrightarrow>
     restarted H view sha revalidate acquire intent leaf reservation_id w'"
| after_recovery:
    "restarted H view sha revalidate acquire intent leaf reservation_id w \<Longrightarrow>
     x \<in> stopping_points (recover_same_boot_target H sha revalidate acquire pending backup intent reservation_id
       before_outcome deadline) w \<Longrightarrow>
     before_outcome = ClosedBeforeUnchanged \<or> before_outcome = ClosedBeforeRestored \<Longrightarrow>
     crash_image (view x) (view w') \<Longrightarrow>
     restarted H view sha revalidate acquire intent leaf reservation_id w'"

lemma execute_points:
  assumes "posix_directory H view" and "repair_resource_for_intent intent = Inr resource"
    and "settled (restore_stage_name_for resource reservation_id) (view w)"
    and "x \<in> stopping_points (execute_same_boot_target H sha write_mount backup proposed intent reservation_id deadline fault) w"
  shows "target_safe sha intent (resource_leaf resource) {resource_leaf resource, execution_stage_name_for resource reservation_id,
    restore_stage_name_for resource reservation_id} (view w) (view x)"
  by (rule wp_points [OF _ _ assms(4)], rule execute_same_boot_target_wp [OF assms(1,2) refl refl refl assms(3),
    where Q = "\<lambda>_ _. True"]) simp_all

lemma recover_points:
  assumes "posix_directory H view" "call_law view revalidate unchanged (\<lambda>_. unchanged)"
      "call_law view acquire unchanged (\<lambda>_. unchanged)"
    and "repair_resource_for_intent intent = Inr resource"
    and "settled (restore_stage_name_for resource reservation_id) (view w)"
    and "x \<in> stopping_points (recover_same_boot_target H sha revalidate acquire pending backup intent reservation_id
       before_outcome deadline) w"
    and "before_outcome = ClosedBeforeUnchanged \<or> before_outcome = ClosedBeforeRestored"
  shows "target_safe sha intent (resource_leaf resource) {resource_leaf resource, execution_stage_name_for resource reservation_id,
    restore_stage_name_for resource reservation_id} (view w) (view x)"
  by (rule wp_points [OF _ _ assms(6)], rule recover_same_boot_target_wp [OF assms(1-4) refl refl refl assms(5,7),
    where Q = "\<lambda>_ _. True"]) simp_all

lemma restarted_intact:
  assumes "restarted H view sha revalidate acquire intent leaf reservation_id w"
    and "posix_directory H view" "call_law view revalidate unchanged (\<lambda>_. unchanged)"
      "call_law view acquire unchanged (\<lambda>_. unchanged)"
    and "repair_resource_for_intent intent = Inr resource" and "leaf = resource_leaf resource"
  shows "intact sha intent leaf (view w) \<and> (\<forall>n. settled n (view w))"
  using assms(1)
proof induction
  case (after_repair w x write_mount backup proposed deadline fault w')
  then have "intact sha intent leaf (view x)"
    using execute_points [OF assms(2,5) _ after_repair(3)] target_safe_intact
    by (auto simp: assms(6) intact_def [of _ _ _ "view w"])
  with after_repair(4) show ?case by (auto intro: crash_intact crash_settled)
next
  case (after_recovery w x pending backup before_outcome deadline w')
  then have "intact sha intent leaf (view x)"
    using recover_points [OF assms(2-5) _ after_recovery(2,3)] target_safe_intact by (auto simp: assms(6))
  with after_recovery(4) show ?case by (auto intro: crash_intact crash_settled)
qed

section \<open>Properties of the runs\<close>

text \<open>The names a run may touch.\<close>

definition run_names :: "RepairResourceV1 \<Rightarrow> string \<Rightarrow> string set" where
  "run_names resource reservation_id =
     {resource_leaf resource, execution_stage_name_for resource reservation_id, restore_stage_name_for resource reservation_id}"

text \<open>What a recovery may report about the resource, before any write happened or after a restore.\<close>

definition recovery_true ::
  "(string \<Rightarrow> Sha256) \<Rightarrow> RepairExecutionIntentV1 \<Rightarrow> string \<Rightarrow> RepairTransactionResolutionOutcome \<Rightarrow>
   RepairTransactionStatusPayload \<Rightarrow> directory \<Rightarrow> TargetClosure \<Rightarrow> bool" where
  "recovery_true sha intent leaf before_outcome pending v c \<longleftrightarrow>
     tc_cleanup_verified c \<and> observed sha v leaf (tc_observation c) \<and>
     (if tc_outcome c = ManualReconciliationRequired
      then tc_initial_failure c \<noteq> None \<or> ts_phase pending \<noteq> TPending
      else (tc_outcome c = before_outcome \<or> tc_outcome c = ClosedBeforeRestored) \<and>
           installed sha v leaf (ei_before_sha256 intent) (ei_before_metadata intent))"

text \<open>The names a run may touch keep the resource whole.\<close>

lemma whole:
  assumes "intact sha intent (resource_leaf resource) v"
    and "target_safe sha intent (resource_leaf resource) (run_names resource reservation_id) v v'"
  shows "touches_only (run_names resource reservation_id) v v' \<and> intact sha intent (resource_leaf resource) v'"
  using assms target_safe_intact by (auto simp: target_safe_def)

text \<open>
  C1: A repair never leaves a half-written resource.  Wherever it stops, every name of the directory
  other than the resource and the two stage names has the file it had, and the resource is, complete and
  flushed, either exactly the approved old file or exactly the approved new one.  When the run ends
  with a report, the report is true: the digests are those of the file in place, a commitment means that the
  new file is installed, the change of names is on the disk and the stage is gone, and a closure without change
  carries the failure that led to it.
\<close>

theorem repair_run_crash_safe:
  assumes "posix_directory H view" and "repair_resource_for_intent intent = Inr resource"
    and "installed sha (view w) (resource_leaf resource) (ei_before_sha256 intent) (ei_before_metadata intent)"
    and "settled (restore_stage_name_for resource reservation_id) (view w)"
  shows "(\<forall>x \<in> stopping_points (execute_same_boot_target H sha write_mount backup proposed intent reservation_id deadline fault) w.
       touches_only (run_names resource reservation_id) (view w) (view x) \<and>
       intact sha intent (resource_leaf resource) (view x)) \<and>
     (case outcome_of (execute_same_boot_target H sha write_mount backup proposed intent reservation_id deadline fault) w of
        Inl _ \<Rightarrow> True
      | Inr c \<Rightarrow> closure_true sha intent (resource_leaf resource) (execution_stage_name_for resource reservation_id)
          (view (final_world (execute_same_boot_target H sha write_mount backup proposed intent reservation_id deadline fault) w)) c)"
proof -
  have start: "intact sha intent (resource_leaf resource) (view w)" using assms(3) by (simp add: intact_def)
  have "wp (\<lambda>x. touches_only (run_names resource reservation_id) (view w) (view x) \<and> intact sha intent (resource_leaf resource) (view x))
     (execute_same_boot_target H sha write_mount backup proposed intent reservation_id deadline fault)
     (\<lambda>r w'. case r of Inl _ \<Rightarrow> True | Inr c \<Rightarrow> closure_true sha intent (resource_leaf resource)
        (execution_stage_name_for resource reservation_id) (view w') c) w"
    by (rule execute_same_boot_target_wp [OF assms(1,2) refl refl refl assms(4)])
      (auto simp: run_names_def [symmetric] dest!: whole [OF start])
  with start show ?thesis by (auto simp: wp_def stopping_points_def)
qed

text \<open>
  C2: However often a repair and its recoveries have been cut off, the next recovery finds the resource
  whole, keeps it whole at each of its own stopping points and touches no other file.  When it ends
  with a report, either the exact old file is back in place, or the report asks for manual
  reconciliation; the latter happens only after a failed restore, or when the
  transaction is no longer pending.
\<close>

theorem recovery_after_crashes:
  assumes "posix_directory H view" and "call_law view revalidate unchanged (\<lambda>_. unchanged)"
    and "call_law view acquire unchanged (\<lambda>_. unchanged)"
    and "repair_resource_for_intent intent = Inr resource"
    and "restarted H view sha revalidate acquire intent (resource_leaf resource) reservation_id w"
    and "before_outcome = ClosedBeforeUnchanged \<or> before_outcome = ClosedBeforeRestored"
  shows "(\<forall>x \<in> stopping_points (recover_same_boot_target H sha revalidate acquire pending backup intent reservation_id
         before_outcome deadline) w.
       touches_only (run_names resource reservation_id) (view w) (view x) \<and>
       intact sha intent (resource_leaf resource) (view x)) \<and>
     (case outcome_of (recover_same_boot_target H sha revalidate acquire pending backup intent reservation_id
         before_outcome deadline) w of
        Inl _ \<Rightarrow> True
      | Inr c \<Rightarrow>
          recovery_true sha intent (resource_leaf resource) before_outcome pending
            (view (final_world (recover_same_boot_target H sha revalidate acquire pending backup intent reservation_id
              before_outcome deadline) w)) c)"
proof -
  have start: "intact sha intent (resource_leaf resource) (view w)" "settled n (view w)" for n
    using restarted_intact [OF assms(5,1-4) refl] by auto
  have "wp (\<lambda>x. touches_only (run_names resource reservation_id) (view w) (view x) \<and> intact sha intent (resource_leaf resource) (view x))
     (recover_same_boot_target H sha revalidate acquire pending backup intent reservation_id before_outcome deadline)
     (\<lambda>r w'. case r of Inl _ \<Rightarrow> True | Inr c \<Rightarrow>
        recovery_true sha intent (resource_leaf resource) before_outcome pending (view w') c) w"
    by (rule recover_same_boot_target_wp [OF assms(1-4) refl refl refl start(2) assms(6)])
      (use intact_not_third [OF start(1)] assms(6) in
        \<open>auto simp: report_true_def recovery_true_def run_names_def [symmetric] dest!: whole [OF start(1)]
          intro: intact_observed_before\<close>)
  with start(1) show ?thesis by (auto simp: wp_def stopping_points_def)
qed

text \<open>
  C4: The rollback of a committed repair keeps the resource whole wherever it stops.  It reports only one
  thing, that the exact old file is back, and then it is: while the old file is not back, it ends with
  an error and the rollback stays open.
\<close>

theorem rollback_run_safe:
  assumes "posix_directory H view" and "repair_resource_for_intent intent = Inr resource"
    and "reservation_id = bs_reservation_id (ts_backup (rt_source pending))"
    and "intact sha intent (resource_leaf resource) (view w)"
    and "settled (restore_stage_name_for resource reservation_id) (view w)"
  shows "(\<forall>x \<in> stopping_points (restore_rollback_target H sha write_mount backup intent pending deadline) w.
       touches_only (run_names resource reservation_id) (view w) (view x) \<and>
       intact sha intent (resource_leaf resource) (view x)) \<and>
     (case outcome_of (restore_rollback_target H sha write_mount backup intent pending deadline) w of
        Inl _ \<Rightarrow> True
      | Inr c \<Rightarrow> rc_outcome c = RolledBackBefore \<and> rc_cleanup_verified c \<and>
          rc_observation c = closed_as sha intent (ei_before_sha256 intent) \<and>
          installed sha (view (final_world (restore_rollback_target H sha write_mount backup intent pending deadline) w))
            (resource_leaf resource) (ei_before_sha256 intent) (ei_before_metadata intent))"
proof -
  note safe = whole [OF assms(4), unfolded assms(3)]
  have "obs = closed_as sha intent (ei_before_sha256 intent)"
    if "intact sha intent (resource_leaf resource) v" "observed sha v (resource_leaf resource) obs"
      "obs \<noteq> closed_as sha intent (ei_after_sha256 intent) \<or> ei_before_sha256 intent = ei_after_sha256 intent" for v obs
    using that by (cases obs) (auto simp: intact_def installed_def observed_def closed_as_def)
  note seen = this
  have "wp (\<lambda>x. touches_only (run_names resource reservation_id) (view w) (view x) \<and> intact sha intent (resource_leaf resource) (view x))
     (restore_rollback_target H sha write_mount backup intent pending deadline)
     (\<lambda>r w'. case r of
        Inl _ \<Rightarrow> True
      | Inr c \<Rightarrow> rc_outcome c = RolledBackBefore \<and> rc_cleanup_verified c \<and>
          rc_observation c = closed_as sha intent (ei_before_sha256 intent) \<and>
          installed sha (view w') (resource_leaf resource) (ei_before_sha256 intent) (ei_before_metadata intent)) w"
    by (rule restore_rollback_target_wp [OF assms(1,2) refl refl refl assms(5) [unfolded assms(3)]])
      (auto simp: assms(3) run_names_def [symmetric] dest!: safe dest: seen intro: intact_observed_before)
  then show ?thesis
    using assms(4) by (auto simp: wp_def stopping_points_def)
qed

section \<open>A resource that is neither the old nor the new file\<close>

definition foreign :: "(string \<Rightarrow> Sha256) \<Rightarrow> RepairExecutionIntentV1 \<Rightarrow> string \<Rightarrow> directory \<Rightarrow> bool" where
  "foreign sha intent leaf v \<longleftrightarrow>
     \<not> observed sha v leaf (closed_as sha intent (ei_before_sha256 intent)) \<and>
     \<not> observed sha v leaf (closed_as sha intent (ei_after_sha256 intent))"

lemma foreign_same_dir: "same_dir v v' \<Longrightarrow> foreign sha intent leaf v' \<longleftrightarrow> foreign sha intent leaf v"
  by (auto simp: same_dir_def foreign_def observed_def)

lemma foreign_third: "foreign sha intent leaf v \<Longrightarrow> snapshot_of sha v leaf s \<Longrightarrow> exact_state sha s intent = StateThird"
  using snapshot_observed exact_state_observation
  by (cases "exact_state sha s intent") (fastforce simp: foreign_def)+

lemma foreign_inexact:
  "foreign sha intent leaf v \<Longrightarrow> snapshot_of sha v leaf s \<Longrightarrow>
   \<not> snapshot_exact sha s (ei_before_sha256 intent) (ei_before_metadata intent) \<and>
   \<not> snapshot_exact sha s (ei_after_sha256 intent) (ei_before_metadata intent)"
  using foreign_third [of sha intent leaf v s] by (auto simp: snapshot_exact_def exact_state_def Let_def split: if_splits)

lemma foreign_wp:
  assumes posix: "posix_directory H view"
    and resource: "repair_resource_for_intent intent = Inr resource"
    and foreign: "foreign sha intent (resource_leaf resource) (view w)"
    and I: "\<And>x. same_dir (view w) (view x) \<Longrightarrow> I x"
    and E: "\<And>e w'. same_dir (view w) (view w') \<Longrightarrow> Q (Inl e) w'"
  shows "wp I (apply_exact_replacement H sha backup proposed intent reservation_id deadline fault) Q w"
    and "wp I (restore_exact_backup H sha backup intent reservation_id deadline) Q w"
  unfolding apply_exact_replacement_def restore_exact_backup_def snapshot_repair_resource_eq [OF resource] resource
    seq_pure_result ensure_exact_bytes_def ensure_snapshot_exact_def Let_def
  using foreign_inexact [OF foreign]
  by (auto simp: wp_ensure I E intro!: wp_seqI ensure_deadline_wp [OF posix] snapshot_named_wp [OF posix])

lemma foreign_close_wp:
  assumes posix: "posix_directory H view"
    and resource: "repair_resource_for_intent intent = Inr resource"
    and foreign: "foreign sha intent (resource_leaf resource) (view w)"
    and I: "\<And>x. same_dir (view w) (view x) \<Longrightarrow> I x"
    and E: "\<And>e w'. same_dir (view w) (view w') \<Longrightarrow> Q (Inl e) w'"
    and S: "\<And>obs w'. same_dir (view w) (view w') \<Longrightarrow> observed sha (view w') (resource_leaf resource) obs \<Longrightarrow>
      Q (Inr (cleanup_closure ManualReconciliationRequired obs False None)) w'"
  shows "wp I (close_after_failed_mutation H sha backup intent reservation_id deadline) Q w"
  unfolding close_after_failed_mutation_def snapshot_repair_resource_eq [OF resource] resource
  by (auto simp: wp_simps I E foreign_third [OF foreign] intro!: wp_seqI snapshot_named_wp [OF posix] S
      observed_kept [OF snapshot_observed still_kept [OF same_dir_still]])

text \<open>A run that opened files and changed nothing, and its report, if any.\<close>

definition hands_off ::
  "('w \<Rightarrow> directory) \<Rightarrow> ('c \<Rightarrow> directory \<Rightarrow> bool) \<Rightarrow> ('w, 'c) run \<Rightarrow> 'w \<Rightarrow> bool" where
  "hands_off view report m w \<longleftrightarrow>
     (\<forall>x \<in> stopping_points m w. same_dir (view w) (view x)) \<and>
     (case outcome_of m w of Inl _ \<Rightarrow> True | Inr c \<Rightarrow> report c (view (final_world m w)))"

lemma hands_off_wp:
  "hands_off view report m w \<longleftrightarrow>
   wp (\<lambda>x. same_dir (view w) (view x)) m (\<lambda>r w'. case r of Inl _ \<Rightarrow> True | Inr c \<Rightarrow> report c (view w')) w"
  by (auto simp: hands_off_def wp_def stopping_points_def)

definition manual_report :: "(string \<Rightarrow> Sha256) \<Rightarrow> string \<Rightarrow> TargetClosure \<Rightarrow> directory \<Rightarrow> bool" where
  "manual_report sha leaf c v \<longleftrightarrow>
     tc_outcome c = ManualReconciliationRequired \<and> tc_cleanup_verified c \<and> observed sha v leaf (tc_observation c)"

lemma foreign_execute:
  assumes posix: "posix_directory H view"
    and resource: "repair_resource_for_intent intent = Inr resource"
    and foreign: "foreign sha intent (resource_leaf resource) (view w)"
  shows "hands_off view (manual_report sha (resource_leaf resource))
    (execute_same_boot_target H sha write_mount backup proposed intent reservation_id deadline fault) w"
proof -
  let ?I = "\<lambda>x. same_dir (view w) (view x)"
  let ?Q = "\<lambda>r w'. case r of Inl _ \<Rightarrow> True | Inr c \<Rightarrow> manual_report sha (resource_leaf resource) c (view w')"
  have closing: "wp ?I (seq (seq (attempt (close_after_failed_mutation H sha backup intent reservation_id deadline)) (\<lambda>closed.
              case closed of
                Inr closure \<Rightarrow>
                  ret (if tc_outcome closure = ClosedBeforeUnchanged \<or> tc_outcome closure = ClosedBeforeRestored
                       then closure\<lparr>tc_initial_failure := Some error\<rparr> else closure)
              | Inl _ \<Rightarrow> fail error)) (\<lambda>result.
     seq (map_err (prefer_initial_failure (tc_initial_failure result)) (validate_write_mount H)) (\<lambda>_.
     ret (result\<lparr>tc_cleanup_verified := True\<rparr>)))) ?Q u"
    if u: "same_dir (view w) (view u)" for u error
    unfolding wp_seq [of _ "seq m k" for m k]
    by (intro wp_seqI wp_attemptI foreign_close_wp [OF posix resource])
      (auto simp: foreign foreign_same_dir [OF u] same_dir_trans [OF u] wp_simps manual_report_def
        intro!: wp_seqI validate_write_mount_wp [OF posix])
  show ?thesis
    unfolding hands_off_wp execute_same_boot_target_def ensure_exact_bytes_def
    by (auto simp: wp_ensure foreign closing intro!: wp_seqI [of _ "ensure b e" for b e]
      wp_seqI [of _ "validate_write_capability x y z" for x y z] wp_seqI [of _ "validate_write_mount H"]
      wp_seqI [of _ "open_etc_directory H"] wp_seqI [of _ "attempt m" for m] validate_write_capability_wp
      validate_write_mount_wp [OF posix] open_etc_directory_wp [OF posix] wp_attemptI foreign_wp(1) [OF posix resource])
qed

lemma foreign_recover:
  assumes posix: "posix_directory H view"
    and quiet: "call_law view revalidate unchanged (\<lambda>_. unchanged)"
    and resource: "repair_resource_for_intent intent = Inr resource"
    and foreign: "foreign sha intent (resource_leaf resource) (view w)"
  shows "hands_off view (manual_report sha (resource_leaf resource))
    (recover_same_boot_target H sha revalidate acquire pending backup intent reservation_id before_outcome deadline) w"
  unfolding hands_off_wp recover_same_boot_target_def ensure_exact_bytes_def
  by (auto simp: wp_ensure foreign_third [OF foreign] wp_ret manual_report_def
    intro!: wp_seqI classify_wp [OF posix quiet resource] observed_kept [OF snapshot_observed still_kept [OF same_dir_still]])

lemma foreign_rollback:
  assumes posix: "posix_directory H view"
    and resource: "repair_resource_for_intent intent = Inr resource"
    and foreign: "foreign sha intent (resource_leaf resource) (view w)"
  shows "hands_off view (\<lambda>c v. rc_outcome c = RollbackManualReconciliationRequired \<and> rc_cleanup_verified c \<and>
       observed sha v (resource_leaf resource) (rc_observation c))
    (restore_rollback_target H sha write_mount backup intent pending deadline) w"
proof -
  let ?I = "\<lambda>x. same_dir (view w) (view x)"
  let ?Q = "\<lambda>r w'. case r of Inl _ \<Rightarrow> True | Inr c \<Rightarrow> rc_outcome c = RollbackManualReconciliationRequired \<and>
     rc_cleanup_verified c \<and> observed sha (view w') (resource_leaf resource) (rc_observation c)"
  have looking: "wp ?I (seq (seq (snapshot_named H sha (resource_leaf resource)) (\<lambda>snapshot.
              case exact_state sha snapshot intent of
                StateBefore \<Rightarrow>
                  ret \<lparr>rc_outcome = RolledBackBefore, rc_observation = observation snapshot, rc_cleanup_verified = False\<rparr>
              | StateThird \<Rightarrow>
                  ret \<lparr>rc_outcome = RollbackManualReconciliationRequired, rc_observation = observation snapshot,
                    rc_cleanup_verified = False\<rparr>
              | StateAfter \<Rightarrow> fail error)) (\<lambda>closure.
     seq (validate_write_mount H) (\<lambda>_. ret (closure\<lparr>rc_cleanup_verified := True\<rparr>)))) ?Q u"
    if u: "same_dir (view w) (view u)" for u error
    using foreign_third [OF iffD2 [OF foreign_same_dir [OF u] foreign]]
    by (auto simp: wp_seq [of _ "seq m k" for m k] same_dir_trans [OF u] wp_ret intro!: wp_seqI snapshot_named_wp [OF posix]
        validate_write_mount_wp [OF posix] observed_kept [OF snapshot_observed still_kept [OF same_dir_still]])
  show ?thesis
    unfolding hands_off_wp restore_rollback_target_def snapshot_repair_resource_eq [OF resource]
    by (auto simp: foreign looking intro!: wp_seqI [of _ "validate_rollback_write_capability x y" for x y]
      wp_seqI [of _ "validate_write_mount H"] wp_seqI [of _ "open_etc_directory H"] wp_seqI [of _ "attempt m" for m]
      validate_rollback_write_capability_wp validate_write_mount_wp [OF posix] open_etc_directory_wp [OF posix] wp_attemptI
      foreign_wp(2) [OF posix resource])
qed

text \<open>
  C14: A resource somebody else has changed is not touched: the repair, the recovery and the rollback
  open and read it, leave every name and every file as they are, and end with an error or with a request for manual
  reconciliation that carries the digests of the file as it is.
\<close>

theorem foreign_resource_untouched:
  assumes "posix_directory H view" and "call_law view revalidate unchanged (\<lambda>_. unchanged)"
    and "repair_resource_for_intent intent = Inr resource"
    and "foreign sha intent (resource_leaf resource) (view w)"
  shows "hands_off view (manual_report sha (resource_leaf resource))
      (execute_same_boot_target H sha write_mount backup proposed intent reservation_id deadline fault) w \<and>
    hands_off view (manual_report sha (resource_leaf resource))
      (recover_same_boot_target H sha revalidate acquire transaction backup intent reservation_id before_outcome deadline) w \<and>
    hands_off view (\<lambda>c v. rc_outcome c = RollbackManualReconciliationRequired \<and> rc_cleanup_verified c \<and>
        observed sha v (resource_leaf resource) (rc_observation c))
      (restore_rollback_target H sha rollback_mount backup intent rollback deadline) w"
  using foreign_execute [OF assms(1,3,4)] foreign_recover [OF assms] foreign_rollback [OF assms(1,3,4)] by blast

end
