(* ===== verification/KA_Executor_Liveness.thy ===== *)
theory KA_Executor_Liveness
  imports KA_Crash_Recovery
begin

text \<open>
  What the executor achieves when nothing goes wrong: on a host whose calls succeed and whose clock stays
  below the deadline, an approved repair commits and a recovery brings the old file back.
\<close>

section \<open>A host on which every call succeeds\<close>

definition answers ::
  "('w \<Rightarrow> directory) \<Rightarrow> ('w \<Rightarrow> 'w \<times> (errno + 'a)) \<Rightarrow> (directory \<Rightarrow> bool) \<Rightarrow> ('a \<Rightarrow> directory \<Rightarrow> bool) \<Rightarrow> bool" where
  "answers view f pre P \<longleftrightarrow> (\<forall>w. pre (view w) \<longrightarrow> (\<exists>x w'. f w = (w', Inr x) \<and> P x (view w')))"

definition open_fd :: "nat \<Rightarrow> directory \<Rightarrow> bool" where
  "open_fd fd v \<longleftrightarrow> d_fds v fd \<noteq> None"

definition named :: "string \<Rightarrow> directory \<Rightarrow> bool" where
  "named n v \<longleftrightarrow> d_names v n \<noteq> None"

definition any :: "'a \<Rightarrow> directory \<Rightarrow> bool" where
  "any x v \<longleftrightarrow> True"

definition dependable :: "'w host \<Rightarrow> ('w \<Rightarrow> directory) \<Rightarrow> nat \<Rightarrow> bool" where
  "dependable H view deadline \<longleftrightarrow>
     (\<forall>w. snd (h_now H w) < deadline) \<and>
     (\<forall>n. answers view (h_open H n) (named n) any) \<and>
     (\<forall>fd. answers view (h_fstat H fd) (open_fd fd) any) \<and>
     (\<forall>fd. answers view (h_getfd H fd) (open_fd fd) (\<lambda>cloexec _. cloexec)) \<and>
     (\<forall>fd. answers view (h_listxattr H fd) (open_fd fd) any) \<and>
     (\<forall>fd limit. answers view (h_read H fd limit) (open_fd fd) any) \<and>
     (\<forall>n. answers view (h_statat H n) (named n) any) \<and>
     (\<forall>n. answers view (h_create H n) (\<lambda>v. \<not> named n v \<and> ran (d_names v) \<noteq> UNIV)
        (\<lambda>fd v. \<forall>ino. d_names v n = Some ino \<longrightarrow> i_xattrs (d_inodes v ino) = 0)) \<and>
     (\<forall>fd b. answers view (h_write H fd b) (open_fd fd) any) \<and>
     (\<forall>fd u g. answers view (h_fchown H fd u g) (open_fd fd) any) \<and>
     (\<forall>fd m. answers view (h_fchmod H fd m) (open_fd fd) any) \<and>
     (\<forall>fd. answers view (h_sync_all H fd) (open_fd fd) any) \<and>
     (\<forall>fd. answers view (h_seek_start H fd) (open_fd fd) any) \<and>
     (\<forall>a b. answers view (h_exchange H a b) (\<lambda>v. named a v \<and> named b v) any) \<and>
     (\<forall>n. answers view (h_unlink H n) (named n) any) \<and>
     answers view (h_fsync_dir H) (\<lambda>_. True) any \<and> answers view (h_syncfs H) (\<lambda>_. True) any \<and>
     answers view (h_open_etc H) (\<lambda>_. True) any \<and>
     answers view (h_fstat_etc H) (\<lambda>_. True) (\<lambda>st _. is_dir (st_mode st) \<and> st_uid st = 0 \<and> st_gid st = 0 \<and> st_mode st AND 0x12 = 0) \<and>
     answers view (h_mount_fstat H) (\<lambda>_. True) (\<lambda>st _. is_dir (st_mode st)) \<and>
     answers view (h_mount_fstatfs H) (\<lambda>_. True) (\<lambda>f_type _. f_type = EXT_SUPER_MAGIC) \<and>
     answers view (h_mount_fstatvfs H) (\<lambda>_. True) (\<lambda>f_flag _. f_flag AND 0xE = 0xE \<and> f_flag AND 1 = 0) \<and>
     answers view (h_mount_getfd H) (\<lambda>_. True) (\<lambda>flags _. flags = 1) \<and>
     answers view (h_mount_getfl H) (\<lambda>_. True) (\<lambda>status _. status AND 0x200000 = 0x200000)"

abbreviation achieves :: "('w, 'e, 'a) io \<Rightarrow> ('e + 'a \<Rightarrow> 'w \<Rightarrow> bool) \<Rightarrow> 'w \<Rightarrow> bool" where
  "achieves \<equiv> wp (\<lambda>_. True)"

lemma achieves_call:
  assumes "call_law view f failed success" and "answers view f pre P"
    and "pre (view w)" and "\<And>x w'. success x (view w) (view w') \<Longrightarrow> P x (view w') \<Longrightarrow> Q (Inr x) w'"
  shows "achieves (call f e) Q w"
proof -
  obtain x w' where f: "f w = (w', Inr x)" and P: "P x (view w')"
    using assms(2,3) unfolding answers_def by blast
  from assms(1) have "case f w of (w', Inl _) \<Rightarrow> failed (view w) (view w') | (w', Inr x) \<Rightarrow> success x (view w) (view w')"
    unfolding call_law_def ..
  with f have "success x (view w) (view w')" by simp
  with P f assms(4) show ?thesis by (simp add: wp_def call_def outcome_of_def final_world_def)
qed

lemma dependable_answers:
  assumes "dependable H view deadline"
  shows "answers view (h_open H n) (named n) any"
    and "answers view (h_fstat H fd) (open_fd fd) any"
    and "answers view (h_getfd H fd) (open_fd fd) (\<lambda>cloexec _. cloexec)"
    and "answers view (h_listxattr H fd) (open_fd fd) any"
    and "answers view (h_read H fd limit) (open_fd fd) any"
    and "answers view (h_statat H n) (named n) any"
    and "answers view (h_seek_start H fd) (open_fd fd) any"
    and "answers view (h_open_etc H) (\<lambda>_. True) any"
    and "answers view (h_fstat_etc H) (\<lambda>_. True) (\<lambda>st _. is_dir (st_mode st) \<and> st_uid st = 0 \<and> st_gid st = 0 \<and> st_mode st AND 0x12 = 0)"
    and "answers view (h_mount_fstat H) (\<lambda>_. True) (\<lambda>st _. is_dir (st_mode st))"
    and "answers view (h_mount_fstatfs H) (\<lambda>_. True) (\<lambda>f_type _. f_type = EXT_SUPER_MAGIC)"
    and "answers view (h_mount_fstatvfs H) (\<lambda>_. True) (\<lambda>f_flag _. f_flag AND 0xE = 0xE \<and> f_flag AND 1 = 0)"
    and "answers view (h_mount_getfd H) (\<lambda>_. True) (\<lambda>flags _. flags = 1)"
    and "answers view (h_mount_getfl H) (\<lambda>_. True) (\<lambda>status _. status AND 0x200000 = 0x200000)"
  using assms unfolding dependable_def by blast+

lemma dependable_write_answers:
  assumes "dependable H view deadline"
  shows "answers view (h_create H n) (\<lambda>v. \<not> named n v \<and> ran (d_names v) \<noteq> UNIV)
        (\<lambda>fd v. \<forall>ino. d_names v n = Some ino \<longrightarrow> i_xattrs (d_inodes v ino) = 0)"
    and "answers view (h_write H fd b) (open_fd fd) any"
    and "answers view (h_fchown H fd u g) (open_fd fd) any"
    and "answers view (h_fchmod H fd m) (open_fd fd) any"
    and "answers view (h_exchange H a c) (\<lambda>v. named a v \<and> named c v) any"
    and "answers view (h_unlink H n) (named n) any"
    and "answers view (h_sync_all H fd) (open_fd fd) any"
    and "answers view (h_fsync_dir H) (\<lambda>_. True) any"
    and "answers view (h_syncfs H) (\<lambda>_. True) any"
  using assms unfolding dependable_def by blast+

lemma dependable_now: "dependable H view deadline \<Longrightarrow> snd (h_now H w) < deadline"
  by (simp add: dependable_def)

lemmas achieve_reads =
  achieves_call [OF host_laws(2) dependable_answers(1)] achieves_call [OF host_laws(3) dependable_answers(2)]
  achieves_call [OF host_laws(4) dependable_answers(3)] achieves_call [OF host_laws(5) dependable_answers(4)]
  achieves_call [OF host_laws(6) dependable_answers(5)] achieves_call [OF host_laws(7) dependable_answers(6)]
  achieves_call [OF host_laws(8) dependable_answers(7)]

lemmas achieve_mounts =
  achieves_call [OF host_laws(9) dependable_answers(8)] achieves_call [OF host_laws(10) dependable_answers(9)]
  achieves_call [OF host_laws(11) dependable_answers(10)] achieves_call [OF host_laws(12) dependable_answers(11)]
  achieves_call [OF host_laws(13) dependable_answers(12)] achieves_call [OF host_laws(14) dependable_answers(13)]
  achieves_call [OF host_laws(15) dependable_answers(14)]

lemmas achieve_writes =
  achieves_call [OF host_write_laws(1) dependable_write_answers(1)] achieves_call [OF host_write_laws(2) dependable_write_answers(2)]
  achieves_call [OF host_write_laws(3) dependable_write_answers(3)] achieves_call [OF host_write_laws(4) dependable_write_answers(4)]
  achieves_call [OF host_write_laws(5) dependable_write_answers(5)] achieves_call [OF host_write_laws(6) dependable_write_answers(6)]
  achieves_call [OF host_write_laws(7) dependable_write_answers(7)] achieves_call [OF host_write_laws(8) dependable_write_answers(8)]
  achieves_call [OF host_write_laws(9) dependable_write_answers(9)]

section \<open>Files in order\<close>

definition good_file :: "inode \<Rightarrow> string \<Rightarrow> RepairFileMetadataV1 \<Rightarrow> bool" where
  "good_file i b m \<longleftrightarrow>
     is_file (i_mode i) \<and> i_nlink i = 1 \<and> i_xattrs i = 0 \<and> i_bytes i = b \<and> inode_metadata i = m"

definition legible :: "string \<Rightarrow> bool" where
  "legible b \<longleftrightarrow> b \<noteq> [] \<and> length b \<le> MAX_REPAIR_RESOURCE_BYTES \<and> CHR 0x00 \<notin> set b \<and> utf8_valid b"

definition holds_file :: "directory \<Rightarrow> string \<Rightarrow> u64 \<Rightarrow> string \<Rightarrow> RepairFileMetadataV1 \<Rightarrow> bool" where
  "holds_file v n ino b m \<longleftrightarrow> d_names v n = Some ino \<and> good_file (d_inodes v ino) b m"

definition snap :: "(string \<Rightarrow> Sha256) \<Rightarrow> u64 \<Rightarrow> u64 \<Rightarrow> string \<Rightarrow> RepairFileMetadataV1 \<Rightarrow> FileSnapshot" where
  "snap sha dev ino b m =
     \<lparr>fs_identity = \<lparr>fi_device = dev, fi_inode = ino\<rparr>, fs_bytes = b, fs_metadata = m, fs_resource_sha256 = sha b,
      fs_metadata_sha256 = canonical_repair_file_metadata_sha256 sha m\<rparr>"

lemma snap_simps [simp]:
  "fs_identity (snap sha dev ino b m) = \<lparr>fi_device = dev, fi_inode = ino\<rparr>" "fs_bytes (snap sha dev ino b m) = b"
  "fs_metadata (snap sha dev ino b m) = m" "fs_resource_sha256 (snap sha dev ino b m) = sha b"
  "fs_metadata_sha256 (snap sha dev ino b m) = canonical_repair_file_metadata_sha256 sha m"
  "snapshot_exact sha (snap sha dev ino b m) d m' \<longleftrightarrow> sha b = d \<and> m = m'"
  by (auto simp: snap_def snapshot_exact_def)

lemma holds_named: "holds_file v n ino b m \<Longrightarrow> d_names v n = Some ino"
  by (simp add: holds_file_def)

lemma holds_durable [simp]: "holds_file (v\<lparr>d_durable := d\<rparr>) n ino b m \<longleftrightarrow> holds_file v n ino b m"
  by (simp add: holds_file_def)

lemma holds_same_dir: "same_dir v v' \<Longrightarrow> holds_file v' n ino b m \<longleftrightarrow> holds_file v n ino b m"
  by (auto simp: same_dir_def holds_file_def)

lemma snapshot_named_achieves:
  assumes posix: "posix_directory H view" and dep: "dependable H view deadline"
    and holds: "holds_file (view w) n ino b m" and legible: "legible b"
    and S: "\<And>w'. same_dir (view w) (view w') \<Longrightarrow> Q (Inr (snap sha (d_dev (view w)) ino b m)) w'"
  shows "achieves (snapshot_named H sha n) Q w"
proof -
  have eq: "b = i_bytes (d_inodes (view w) ino)"
    "m = \<lparr>fm_mode = i_mode (d_inodes (view w) ino) AND 0xFFF, fm_uid = i_uid (d_inodes (view w) ino), fm_gid = i_gid (d_inodes (view w) ino)\<rparr>"
    using holds by (simp_all add: holds_file_def good_file_def inode_metadata_def)
  show ?thesis
    unfolding snapshot_named_def validate_regular_file_def
    using holds legible
    by (auto simp: wp_simps unchanged_def any_def open_fd_def named_def holds_file_def good_file_def legible_def stat_of_def
        Let_def metadata_new inode_metadata_def same_stat_def snap_def [symmetric] Suc_le_eq
      intro!: wp_intros achieve_reads [OF posix dep] S [unfolded eq])
qed

lemma achieves_look:
  assumes posix: "posix_directory H view" and dep: "dependable H view deadline"
    and "holds_file (view w) n ino b m" "legible b"
    and "\<And>w'. same_dir (view w) (view w') \<Longrightarrow> achieves (k (snap sha (d_dev (view w)) ino b m)) Q w'"
  shows "achieves (seq (snapshot_named H sha n) k) Q w"
  by (rule wp_seqI, rule snapshot_named_achieves [OF assms(1-4)]) (simp add: assms(5))

lemma achieves_ensure: "c \<Longrightarrow> achieves (k ()) Q w \<Longrightarrow> achieves (seq (ensure c e) k) Q w"
  by (simp add: wp_simps)

text \<open>The file a run writes.\<close>

lemma fill_prepared_file_achieves:
  assumes posix: "posix_directory H view" and dep: "dependable H view deadline"
    and start: "d_names (view w) n = Some ino" "d_fds (view w) fd = Some (ino, 0)" "i_bytes (d_inodes (view w) ino) = []"
      "is_file (i_mode (d_inodes (view w) ino))" "i_nlink (d_inodes (view w) ino) = 1" "i_xattrs (d_inodes (view w) ino) = 0"
    and legible: "legible b" and mode: "fm_mode m AND 0xFFF = fm_mode m"
    and S: "\<And>w'. d_names (view w') = d_names (view w) \<Longrightarrow> good_file (d_inodes (view w') ino) b m \<Longrightarrow>
      d_dev (view w') = d_dev (view w) \<Longrightarrow> (\<And>k. k \<noteq> ino \<Longrightarrow> d_inodes (view w') k = d_inodes (view w) k) \<Longrightarrow>
      Q (Inr (snap sha (d_dev (view w)) ino b m)) w'"
    and identity: "identity = \<lparr>fi_device = d_dev (view w), fi_inode = ino\<rparr>"
  shows "achieves (fill_prepared_file H sha n fd identity b m) Q w"
proof -
  let ?v = "view w"
  have looked: "achieves (seq (snapshot_named H sha n) (\<lambda>snapshot.
       seq (ensure (fs_identity snapshot = \<lparr>fi_device = d_dev ?v, fi_inode = ino\<rparr> \<and> fs_bytes snapshot = b \<and>
         fs_metadata snapshot = m \<and>
         fs_metadata_sha256 snapshot = canonical_repair_file_metadata_sha256 sha m) TargetChanged) (\<lambda>_.
       ret snapshot))) Q x"
    if "d_names (view x) = d_names ?v" "good_file (d_inodes (view x) ino) b m" "d_dev (view x) = d_dev ?v"
      "\<And>k. k \<noteq> ino \<Longrightarrow> d_inodes (view x) k = d_inodes ?v k" for x
    by (rule wp_seqI, rule snapshot_named_achieves [OF posix dep _ legible, of _ n ino m])
      (use that start in \<open>auto simp: holds_file_def wp_simps same_dir_def intro!: S\<close>)
  have metadata: "\<lparr>fm_mode = fm_mode m AND 0xFFF, fm_uid = fm_uid m, fm_gid = fm_gid m\<rparr> = m"
    using mode by simp
  show ?thesis
    unfolding fill_prepared_file_def identity
    using start legible
    by (auto simp: wp_ensure unchanged_def any_def open_fd_def named_def legible_def Let_def set_inode_def through_fd_def
       good_file_def inode_metadata_def metadata is_file_def S_IFMT_def
      intro!: wp_seqI [of _ "call f e" for f e] wp_seqI [of _ "ensure c e" for c e] achieve_reads [OF posix dep]
        achieve_writes [OF posix dep] looked)
qed

lemma create_prepared_file_achieves:
  assumes posix: "posix_directory H view" and dep: "dependable H view deadline"
    and free: "d_names (view w) n = None" "ran (d_names (view w)) \<noteq> UNIV"
    and legible: "legible b" and mode: "fm_mode m AND 0xFFF = fm_mode m"
    and S: "\<And>ino w'. ino \<notin> ran (d_names (view w)) \<Longrightarrow> d_names (view w') = (d_names (view w))(n \<mapsto> ino) \<Longrightarrow>
      good_file (d_inodes (view w') ino) b m \<Longrightarrow> d_dev (view w') = d_dev (view w) \<Longrightarrow>
      (\<And>k. k \<noteq> ino \<Longrightarrow> d_inodes (view w') k = d_inodes (view w) k) \<Longrightarrow>
      Q (Inr (snap sha (d_dev (view w)) ino b m)) w'"
  shows "achieves (create_prepared_file H sha n b m) Q w"
proof -
  have fill: "achieves (guarded H n identity (fill_prepared_file H sha n fd identity b m)) Q x"
    if x: "fi_inode identity \<notin> ran (d_names (view w))" "fi_device identity = d_dev (view w)" "d_dev (view x) = d_dev (view w)"
      "d_names (view x) = (d_names (view w))(n \<mapsto> fi_inode identity)" "d_fds (view x) fd = Some (fi_inode identity, 0)"
      "\<forall>k. k \<noteq> fi_inode identity \<longrightarrow> d_inodes (view x) k = d_inodes (view w) k"
      "i_bytes (d_inodes (view x) (fi_inode identity)) = []" "is_file (i_mode (d_inodes (view x) (fi_inode identity)))"
      "i_nlink (d_inodes (view x) (fi_inode identity)) = 1" "i_xattrs (d_inodes (view x) (fi_inode identity)) = 0" for x fd identity
  proof -
    have "identity = \<lparr>fi_device = d_dev (view x), fi_inode = fi_inode identity\<rparr>" using x by (cases identity) simp
    then show ?thesis
      unfolding guarded_def wp_seq wp_attempt
      by (intro fill_prepared_file_achieves [OF posix dep _ _ _ _ _ _ legible mode, where ino = "fi_inode identity"])
        (use x S in \<open>auto simp: wp_ret\<close>)
  qed
  show ?thesis
    unfolding create_prepared_file_def Let_def
    using free legible
    by (auto simp: wp_ensure any_def open_fd_def named_def legible_def stat_of_def Let_def set_inode_def is_file_def S_IFMT_def
      intro!: wp_seqI [of _ "call f e" for f e] wp_seqI [of _ "ensure c e" for c e] achieve_reads [OF posix dep]
        achieve_writes [OF posix dep] fill)
qed

section \<open>Replacing and restoring\<close>

lemma ensure_deadline_achieves:
  assumes "posix_directory H view" and "dependable H view deadline" and "\<And>w'. view w' = view w \<Longrightarrow> Q (Inr ()) w'"
  shows "achieves (ensure_deadline H deadline) Q w"
  unfolding ensure_deadline_def
  using dependable_now [OF assms(2), of w] by (simp add: wp_simps host_laws(1) [OF assms(1)] assms(3) not_le)

lemma good_file_synced [simp]: "good_file (i\<lparr>i_synced := s\<rparr>) b m \<longleftrightarrow> good_file i b m"
  by (simp add: good_file_def inode_metadata_def)

lemma persist_directory_achieves:
  assumes posix: "posix_directory H view" and dep: "dependable H view deadline"
    and "\<And>w'. d_names (view w') = d_names (view w) \<Longrightarrow> d_dev (view w') = d_dev (view w) \<Longrightarrow>
      (\<And>n ino b m. holds_file (view w') n ino b m \<longleftrightarrow> holds_file (view w) n ino b m) \<Longrightarrow> Q (Inr ()) w'"
  shows "achieves (persist_directory H) Q w"
  unfolding persist_directory_def
  by (auto simp: holds_file_def intro!: wp_seqI achieve_writes [OF posix dep] assms(3))

text \<open>A file removed under its own identity; the files of other names stay.\<close>

lemma remove_name_achieves:
  assumes posix: "posix_directory H view" and dep: "dependable H view deadline"
    and holds: "d_names (view w) n = Some ino" and identity: "identity = \<lparr>fi_device = d_dev (view w), fi_inode = ino\<rparr>"
    and S: "\<And>w'. d_names (view w') = (d_names (view w))(n := None) \<Longrightarrow> d_dev (view w') = d_dev (view w) \<Longrightarrow>
      (\<And>p k b m. p \<noteq> n \<Longrightarrow> k \<noteq> ino \<Longrightarrow> holds_file (view w) p k b m \<Longrightarrow> holds_file (view w') p k b m) \<Longrightarrow> Q (Inr ()) w'"
  shows "achieves (remove_name_if_identity H n identity) Q w"
  unfolding remove_name_if_identity_def identity
  using holds
  by (auto simp: wp_ensure named_def stat_of_def Let_def set_inode_def holds_file_def
    intro!: wp_seqI achieve_reads [OF posix dep] achieve_writes [OF posix dep] S)

lemma exchange_and_verify_achieves:
  assumes posix: "posix_directory H view" and dep: "dependable H view deadline"
    and resource: "repair_resource_for_intent intent = Inr resource" "leaf = resource_leaf resource" "n \<noteq> leaf"
    and files: "holds_file (view w) n i new m" "holds_file (view w) leaf j old m" "i \<noteq> j" "legible new" "legible old"
    and m: "m = ei_before_metadata intent"
    and S: "\<And>w'. d_names (view w') n = None \<Longrightarrow> holds_file (view w') leaf i new m \<Longrightarrow> d_dev (view w') = d_dev (view w) \<Longrightarrow>
      (\<And>p. p \<noteq> n \<Longrightarrow> p \<noteq> leaf \<Longrightarrow> d_names (view w') p = d_names (view w) p) \<Longrightarrow>
      (\<And>p k b. p \<noteq> n \<Longrightarrow> p \<noteq> leaf \<Longrightarrow> k \<noteq> j \<Longrightarrow> holds_file (view w) p k b m \<Longrightarrow> holds_file (view w') p k b m) \<Longrightarrow>
      Q (Inr ()) w'"
    and digests: "new_sha = sha new" "old_sha = sha old" "dev = d_dev (view w)"
  shows "achieves (exchange_and_verify H sha intent resource n (snap sha dev i new m) (snap sha dev j old m) new_sha old_sha
    deadline) Q w"
proof -
  define swapped where "swapped v \<longleftrightarrow> d_dev v = d_dev (view w) \<and> holds_file v leaf i new m \<and> holds_file v n j old m \<and>
      (\<forall>p. p \<noteq> n \<longrightarrow> p \<noteq> leaf \<longrightarrow> d_names v p = d_names (view w) p) \<and>
      (\<forall>p k b. p \<noteq> n \<longrightarrow> p \<noteq> leaf \<longrightarrow> holds_file (view w) p k b m \<longrightarrow> holds_file v p k b m)" for v
  have same: "swapped v' \<longleftrightarrow> swapped v" if "same_dir v v'" for v v'
    using that by (auto simp: same_dir_def swapped_def holds_file_def)
  have removed: "achieves (remove_name_if_identity H n \<lparr>fi_device = d_dev (view w), fi_inode = j\<rparr>) Q x"
    if "swapped (view x)" for x
    by (rule remove_name_achieves [OF posix dep, of _ _ j])
      (use that files(3) resource(3) in \<open>auto simp: swapped_def intro: holds_named intro!: S\<close>)
  have verified: "achieves (seq (snapshot_named H sha leaf) (\<lambda>installed.
     seq (snapshot_named H sha n) (\<lambda>displaced.
     seq (ensure (snapshot_exact sha installed (sha new) (ei_before_metadata intent)) TargetChanged) (\<lambda>_.
     seq (ensure (snapshot_exact sha displaced (sha old) (ei_before_metadata intent)) TargetChanged) (\<lambda>_.
     seq (ensure (fs_identity installed = fs_identity (snap sha (d_dev (view w)) i new m) \<and>
         fs_identity displaced = fs_identity (snap sha (d_dev (view w)) j old m))
       TargetChanged) (\<lambda>_.
     remove_name_if_identity H n (fs_identity displaced))))))) Q x"
    if x: "swapped (view x)" for x
  proof (rule achieves_look [OF posix dep _ files(4), where ino = i and m = m])
    fix y assume y: "same_dir (view x) (view y)"
    have "swapped (view y)" using x same [OF y] by simp
    note sy = this
    show "achieves (seq (snapshot_named H sha n) (\<lambda>displaced.
     seq (ensure (snapshot_exact sha (snap sha (d_dev (view x)) i new m) (sha new) (ei_before_metadata intent)) TargetChanged) (\<lambda>_.
     seq (ensure (snapshot_exact sha displaced (sha old) (ei_before_metadata intent)) TargetChanged) (\<lambda>_.
     seq (ensure (fs_identity (snap sha (d_dev (view x)) i new m) = fs_identity (snap sha (d_dev (view w)) i new m) \<and>
         fs_identity displaced = fs_identity (snap sha (d_dev (view w)) j old m))
       TargetChanged) (\<lambda>_.
     remove_name_if_identity H n (fs_identity displaced)))))) Q y"
      by (rule achieves_look [OF posix dep _ files(5), where ino = j and m = m])
        (use x sy same in \<open>auto simp: m wp_ensure swapped_def [of "view y"] swapped_def [of "view x"]
          intro!: achieves_ensure removed\<close>)
  qed (use x in \<open>simp add: swapped_def\<close>)
  have persisted: "achieves (seq (persist_directory H) (\<lambda>_. k)) Q x"
    if "swapped (view x)" "\<And>y. swapped (view y) \<Longrightarrow> achieves k Q y" for x k
    by (rule wp_seqI, rule persist_directory_achieves [OF posix dep]) (use that in \<open>simp add: swapped_def\<close>)
  have exchanged: "achieves (seq (call (h_exchange H n leaf) MutationFailed) k) Q x"
    if x: "same_dir (view w) (view x)" and k: "\<And>y. swapped (view y) \<Longrightarrow> achieves (k ()) Q y" for x k
  proof (rule wp_seqI, rule achieve_writes(5) [OF posix dep])
    show "named n (view x) \<and> named leaf (view x)" using x files by (auto simp: same_dir_def holds_file_def named_def)
    fix r y
    assume "\<exists>i j. d_names (view x) n = Some i \<and> d_names (view x) leaf = Some j \<and>
      view y = (view x)\<lparr>d_names := (d_names (view x))(n \<mapsto> j, leaf \<mapsto> i), d_durable := False\<rparr>"
    with x files(1,2) resource(3) have "swapped (view y)" by (auto simp: same_dir_def swapped_def holds_file_def)
    with k show "case Inr r of Inl e \<Rightarrow> Q (Inl e) y | Inr u \<Rightarrow> achieves (k u) Q y" by simp
  qed
  show ?thesis
    unfolding exchange_and_verify_def snapshot_repair_resource_eq [OF resource(1)] resource(2) [symmetric]
      ensure_snapshot_exact_def digests
    by (rule achieves_look [OF posix dep files(2,5)], rule achieves_ensure, simp add: same_object_and_value_def,
      rule wp_seqI, rule ensure_deadline_achieves [OF posix dep]) (auto intro!: exchanged persisted verified [simplified])
qed

lemma guarded_achieves:
  assumes "achieves body (\<lambda>r w'. case r of Inl _ \<Rightarrow> False | Inr x \<Rightarrow> Q (Inr x) w') w"
  shows "achieves (guarded H n identity body) Q w"
  unfolding guarded_def wp_seq wp_attempt by (rule wp_mono [OF assms]) (auto simp: wp_ret split: sum.splits)

lemma apply_exact_replacement_achieves:
  assumes posix: "posix_directory H view" and dep: "dependable H view deadline"
    and resource: "repair_resource_for_intent intent = Inr resource"
    and old: "holds_file (view w) (resource_leaf resource) j backup (ei_before_metadata intent)" "legible backup"
      "sha backup = ei_before_sha256 intent"
    and new: "legible proposed" "sha proposed = ei_after_sha256 intent"
    and free: "d_names (view w) (execution_stage_name_for resource reservation_id) = None" "ran (d_names (view w)) \<noteq> UNIV"
    and mode: "fm_mode (ei_before_metadata intent) AND 0xFFF = fm_mode (ei_before_metadata intent)"
    and S: "\<And>w'. Q (Inr (closed_as sha intent (ei_after_sha256 intent))) w'"
  shows "achieves (apply_exact_replacement H sha backup proposed intent reservation_id deadline NoFault) Q w"
proof -
  let ?m = "ei_before_metadata intent" and ?leaf = "resource_leaf resource"
  let ?stage = "execution_stage_name_for resource reservation_id"
  have distinct: "?stage \<noteq> ?leaf" by (simp add: stage_names_distinct)
  have finished: "achieves (seq (persist_directory H) (\<lambda>_. seq (snapshot_named H sha ?leaf) (\<lambda>final_state.
     seq (ensure (snapshot_exact sha final_state (ei_after_sha256 intent) ?m) TargetChanged) (\<lambda>_.
     ret (observation final_state))))) Q x"
    if "holds_file (view x) ?leaf i proposed ?m" for x i
    by (rule wp_seqI, rule persist_directory_achieves [OF posix dep], unfold sum.case,
        rule achieves_look [OF posix dep _ new(1), where ino = i and m = ?m])
      (use that new in \<open>auto simp: wp_simps observation_def closed_as_def intro!: S [unfolded closed_as_def]\<close>)
  have swapping: "achieves (guarded H ?stage (fs_identity (snap sha (d_dev (view w)) i proposed ?m))
       (seq (ensure (snapshot_exact sha (snap sha (d_dev (view w)) i proposed ?m) (ei_after_sha256 intent) ?m) TargetChanged) (\<lambda>_.
        exchange_and_verify H sha intent resource ?stage (snap sha (d_dev (view w)) i proposed ?m)
          (snap sha (d_dev (view w)) j backup ?m) (ei_after_sha256 intent) (ei_before_sha256 intent) deadline))) R x"
    if x: "holds_file (view x) ?stage i proposed ?m" "holds_file (view x) ?leaf j backup ?m" "i \<noteq> j" "d_dev (view x) = d_dev (view w)"
      and R: "\<And>y. holds_file (view y) ?leaf i proposed ?m \<Longrightarrow> R (Inr ()) y" for x i R
    by (rule guarded_achieves, rule achieves_ensure, simp add: new,
        rule exchange_and_verify_achieves [OF posix dep resource refl distinct x(1-3) new(1) old(2) refl])
      (simp_all add: R new old x)
  have taken: "j \<in> ran (d_names (view w))" using old(1) by (auto simp: holds_file_def intro: ranI)
  then have other: "j \<noteq> ino" if "ino \<notin> ran (d_names (view w))" for ino using that by auto
  have created: "achieves (seq (create_prepared_file H sha ?stage proposed ?m) k) Q x"
    if x: "same_dir (view w) (view x)"
      and k: "\<And>i y. holds_file (view y) ?stage i proposed ?m \<Longrightarrow> holds_file (view y) ?leaf j backup ?m \<Longrightarrow> i \<noteq> j \<Longrightarrow>
        d_dev (view y) = d_dev (view w) \<Longrightarrow> achieves (k (snap sha (d_dev (view w)) i proposed ?m)) Q y" for x k
    by (rule wp_seqI, rule create_prepared_file_achieves [OF posix dep _ _ new(1) mode])
      (use x free(1) old(1) distinct in \<open>auto simp: same_dir_def holds_file_def free(2) taken other intro!: k\<close>)
  show ?thesis
    unfolding apply_exact_replacement_def snapshot_repair_resource_eq [OF resource] resource seq_pure_result
      ensure_snapshot_exact_def Let_def
    by (rule wp_seqI, rule ensure_deadline_achieves [OF posix dep], unfold sum.case,
        rule achieves_look [OF posix dep _ old(2), where ino = j and m = ?m])
      (use old in \<open>auto simp del: snap_simps(1) intro!: achieves_ensure created wp_seqI [of _ "guarded H n i b" for n i b] swapping
        intro: finished\<close>)
qed

lemma cleanup_known_stage_achieves:
  assumes posix: "posix_directory H view" and dep: "dependable H view deadline"
    and stage: "d_names (view w) n = None \<or> holds_file (view w) n k b m \<and> legible b \<and> k \<noteq> i"
    and leaf: "holds_file (view w) leaf i c m'" "n \<noteq> leaf"
    and S: "\<And>w'. holds_file (view w') leaf i c m' \<Longrightarrow> d_dev (view w') = d_dev (view w) \<Longrightarrow> Q (Inr ()) w'"
  shows "achieves (cleanup_known_stage H sha n d m'') Q w"
proof -
  have missing: ?thesis if "d_names (view w) n = None"
    unfolding cleanup_known_stage_def snapshot_named_def
    using that leaf by (auto simp: wp_simps unchanged_def intro!: wp_intros host_calls [OF posix] S)
  have removing: "achieves (seq (attempt (remove_name_if_identity H n \<lparr>fi_device = d_dev (view w), fi_inode = k\<rparr>)) (\<lambda>_.
       seq (attempt (call (h_fsync_dir H) MutationFailed)) (\<lambda>_ :: RescueFstabExecutionError + unit. ret ()))) Q x"
    if x: "same_dir (view w) (view x)" "holds_file (view w) n k b m" "k \<noteq> i" for x
  proof -
    have "holds_file (view x) leaf i c m'" "d_dev (view x) = d_dev (view w)" "d_names (view x) n = Some k"
      using x leaf(1) by (auto simp: same_dir_def holds_file_def)
    with leaf(2) x(3) show ?thesis
      by (intro wp_seqI wp_attemptI remove_name_achieves [OF posix dep, of _ _ k])
        (auto simp: wp_ret intro!: wp_seqI wp_attemptI achieve_writes [OF posix dep] S)
  qed
  show ?thesis
    using stage
  proof
    assume present: "holds_file (view w) n k b m \<and> legible b \<and> k \<noteq> i"
    show ?thesis
      unfolding cleanup_known_stage_def
      by (rule wp_seqI, rule wp_attemptI, rule snapshot_named_achieves [OF posix dep, where ino = k and b = b and m = m])
        (use present removing leaf(1) in \<open>auto simp: wp_ret same_dir_def holds_file_def intro!: S\<close>)
  qed (rule missing)
qed

lemma restore_exact_backup_achieves:
  assumes posix: "posix_directory H view" and dep: "dependable H view deadline"
    and resource: "repair_resource_for_intent intent = Inr resource"
    and new: "holds_file (view w) (resource_leaf resource) j proposed (ei_before_metadata intent)" "legible proposed"
      "sha proposed = ei_after_sha256 intent"
    and old: "legible backup" "sha backup = ei_before_sha256 intent"
    and free: "d_names (view w) (restore_stage_name_for resource reservation_id) = None" "ran (d_names (view w)) \<noteq> UNIV"
    and stage: "d_names (view w) (execution_stage_name_for resource reservation_id) = None \<or>
      holds_file (view w) (execution_stage_name_for resource reservation_id) k backup (ei_before_metadata intent) \<and> k \<noteq> j"
    and mode: "fm_mode (ei_before_metadata intent) AND 0xFFF = fm_mode (ei_before_metadata intent)"
    and S: "\<And>w'. Q (Inr (closed_as sha intent (ei_before_sha256 intent))) w'"
  shows "achieves (restore_exact_backup H sha backup intent reservation_id deadline) Q w"
proof -
  let ?m = "ei_before_metadata intent" and ?leaf = "resource_leaf resource"
  let ?stage = "execution_stage_name_for resource reservation_id" and ?restore = "restore_stage_name_for resource reservation_id"
  have distinct: "?stage \<noteq> ?leaf" "?restore \<noteq> ?leaf" "?stage \<noteq> ?restore"
    using stage_names_distinct [of resource reservation_id] by metis+
  have finished: "achieves (seq (cleanup_known_stage H sha ?stage d ?m) (\<lambda>_. seq (persist_directory H) (\<lambda>_.
     seq (snapshot_named H sha ?leaf) (\<lambda>final_state.
     seq (ensure (snapshot_exact sha final_state (ei_before_sha256 intent) ?m) TargetChanged) (\<lambda>_.
     ret (observation final_state)))))) Q x"
    if x: "holds_file (view x) ?leaf i backup ?m"
      "d_names (view x) ?stage = None \<or> holds_file (view x) ?stage k backup ?m \<and> k \<noteq> i" for x i d
    by (rule wp_seqI, rule cleanup_known_stage_achieves [OF posix dep _ x(1) distinct(1), where b = backup and m = ?m and k = k],
        use x old in force, unfold sum.case, rule wp_seqI, rule persist_directory_achieves [OF posix dep], unfold sum.case,
        rule achieves_look [OF posix dep _ old(1), where ino = i and m = ?m])
      (use old in \<open>auto simp: wp_simps observation_def closed_as_def intro!: S [unfolded closed_as_def]\<close>)
  have swapping: "achieves (guarded H ?restore (fs_identity (snap sha (d_dev (view w)) i backup ?m))
       (exchange_and_verify H sha intent resource ?restore (snap sha (d_dev (view w)) i backup ?m)
          (snap sha (d_dev (view w)) j proposed ?m) (ei_before_sha256 intent) (ei_after_sha256 intent) deadline)) R x"
    if x: "holds_file (view x) ?restore i backup ?m" "holds_file (view x) ?leaf j proposed ?m" "i \<noteq> j" "d_dev (view x) = d_dev (view w)"
      and stage: "d_names (view x) ?stage = None \<or> holds_file (view x) ?stage k backup ?m \<and> k \<noteq> i \<and> k \<noteq> j"
      and R: "\<And>y. holds_file (view y) ?leaf i backup ?m \<Longrightarrow>
        d_names (view y) ?stage = None \<or> holds_file (view y) ?stage k backup ?m \<and> k \<noteq> i \<Longrightarrow> R (Inr ()) y" for x i R
    by (rule guarded_achieves, rule exchange_and_verify_achieves [OF posix dep resource refl distinct(2) x(1-3) old(1) new(2) refl])
      (use stage distinct in \<open>auto simp: new old x intro!: R\<close>)
  have taken: "j \<in> ran (d_names (view w))" using new(1) by (auto simp: holds_file_def intro: ranI)
  then have other: "j \<noteq> ino" if "ino \<notin> ran (d_names (view w))" for ino using that by auto
  have other_stage: "d_names (view w) ?stage = None \<or> holds_file (view w) ?stage k backup ?m \<and> k \<noteq> ino \<and> k \<noteq> j"
    if "ino \<notin> ran (d_names (view w))" for ino
    using stage that by (auto simp: holds_file_def intro: ranI)
  have prepared: "achieves (seq (prepare_restore_file H sha ?restore backup intent) c) Q x"
    if x: "same_dir (view w) (view x)"
      and c: "\<And>i y. holds_file (view y) ?restore i backup ?m \<Longrightarrow> holds_file (view y) ?leaf j proposed ?m \<Longrightarrow> i \<noteq> j \<Longrightarrow>
        d_dev (view y) = d_dev (view w) \<Longrightarrow>
        d_names (view y) ?stage = None \<or> holds_file (view y) ?stage k backup ?m \<and> k \<noteq> i \<and> k \<noteq> j \<Longrightarrow>
        achieves (c (snap sha (d_dev (view w)) i backup ?m)) Q y" for x c
  proof -
    have kept: "holds_file (view y) p l b ?m" if "ino \<notin> ran (d_names (view w))" "d_names (view y) = (d_names (view x))(?restore \<mapsto> ino)"
        "\<And>l. l \<noteq> ino \<Longrightarrow> d_inodes (view y) l = d_inodes (view x) l" "holds_file (view w) p l b ?m" "p \<noteq> ?restore" for y ino p l b
    proof -
      have "l \<noteq> ino" using that(1,4) by (auto simp: holds_file_def intro: ranI)
      with that x show ?thesis by (auto simp: same_dir_def holds_file_def)
    qed
    have made: "achieves (c (snap sha (d_dev (view x)) ino backup ?m)) Q y"
      if y: "ino \<notin> ran (d_names (view x))" "d_names (view y) = (d_names (view x))(?restore \<mapsto> ino)"
        "good_file (d_inodes (view y) ino) backup ?m" "d_dev (view y) = d_dev (view x)"
        "\<And>l. l \<noteq> ino \<Longrightarrow> d_inodes (view y) l = d_inodes (view x) l" for y ino
    proof -
      have fresh: "ino \<notin> ran (d_names (view w))" and same: "d_names (view x) = d_names (view w)" "d_dev (view x) = d_dev (view w)"
        using x y(1) by (auto simp: same_dir_def)
      have "d_names (view y) ?stage = None \<or> holds_file (view y) ?stage k backup ?m \<and> k \<noteq> ino \<and> k \<noteq> j"
        using other_stage [OF fresh] kept [OF fresh y(2,5)] y(2) distinct same by auto
      then show ?thesis
        unfolding same
        by (intro c) (use y kept [OF fresh y(2,5) new(1)] other [OF fresh] distinct same in \<open>auto simp: holds_file_def\<close>)
    qed
    show ?thesis
      unfolding prepare_restore_file_def
      by (rule wp_seqI, rule wp_seqI, rule wp_attemptI, rule create_prepared_file_achieves [OF posix dep _ _ old(1) mode])
        (use x free made in \<open>auto simp: same_dir_def wp_ret\<close>)
  qed
  show ?thesis
    unfolding restore_exact_backup_def snapshot_repair_resource_eq [OF resource] resource seq_pure_result
      ensure_snapshot_exact_def ensure_exact_bytes_def Let_def
    by (rule wp_seqI, rule ensure_deadline_achieves [OF posix dep], unfold sum.case, rule achieves_ensure, rule old(2),
        rule achieves_look [OF posix dep _ new(2), where ino = j and m = ?m])
      (use new in \<open>auto simp del: snap_simps(1) intro!: achieves_ensure prepared wp_seqI [of _ "guarded H n i b" for n i b] swapping
        intro: finished\<close>)
qed

section \<open>Runs that complete\<close>

lemma mounts_achieve:
  assumes posix: "posix_directory H view" and dep: "dependable H view deadline"
    and "\<And>w'. view w' = view w \<Longrightarrow> Q (Inr ()) w'"
  shows "achieves (validate_write_mount H) Q w" and "achieves (open_etc_directory H) Q w"
  unfolding validate_write_mount_def open_etc_directory_def
  by (auto simp: wp_ensure unchanged_def intro!: wp_seqI achieve_mounts [OF posix dep] assms(3))

lemma outcome_achieved: "achieves m (\<lambda>r _. r = Inr c) w \<Longrightarrow> outcome_of m w = Inr c"
  by (simp add: wp_def)

lemma valid_mode: "intent_validate intent = Inr () \<Longrightarrow> fm_mode (ei_before_metadata intent) AND 0xFFF = fm_mode (ei_before_metadata intent)"
proof -
  assume "intent_validate intent = Inr ()"
  then have "fm_mode (ei_before_metadata intent) \<le> 0xFFF"
    unfolding intent_validate_Inr by (auto simp: metadata_validate_def is_ok_def MAX_PERMISSION_MODE_def split: if_splits)
  then have "fm_mode (ei_before_metadata intent) < 2 ^ 12"
    by (rule order_le_less_trans) simp
  from less_mask_eq [OF this] show ?thesis by (simp add: mask_eq_exp_minus_1)
qed

definition capability_for :: "RescueTargetWriteMountCapability \<Rightarrow> RepairExecutionIntentV1 \<Rightarrow> string \<Rightarrow> bool" where
  "capability_for c intent reservation_id \<longleftrightarrow>
     wm_reservation_id c = reservation_id \<and> wm_target_recovery_fingerprint c = ei_target_recovery_fingerprint intent \<and>
     wm_transaction_binding_sha256 c \<noteq> [] \<and> wm_lease_binding_sha256 c \<noteq> []"

lemma capability_achieves:
  "capability_for c intent reservation_id \<Longrightarrow> Q (Inr ()) w \<Longrightarrow> achieves (validate_write_capability c intent reservation_id) Q w"
  by (simp add: validate_write_capability_def wp_ensure capability_for_def)

lemma repair_run_completes:
  assumes "posix_directory H view" and "dependable H view deadline"
    and "intent_validate intent = Inr ()" and "repair_resource_for_intent intent = Inr resource"
    and "holds_file (view w) (resource_leaf resource) j backup (ei_before_metadata intent)"
    and "legible backup" and "sha backup = ei_before_sha256 intent"
    and "legible proposed" and "sha proposed = ei_after_sha256 intent"
    and "d_names (view w) (execution_stage_name_for resource reservation_id) = None" and "ran (d_names (view w)) \<noteq> UNIV"
    and "capability_for write_mount intent reservation_id"
  shows "outcome_of (execute_same_boot_target H sha write_mount backup proposed intent reservation_id deadline NoFault) w =
    Inr \<lparr>tc_outcome = CommittedAfter, tc_observation = closed_as sha intent (ei_after_sha256 intent),
      tc_cleanup_verified = True, tc_initial_failure = None\<rparr>"
proof (rule outcome_achieved)
  have applied: "achieves (seq (attempt (apply_exact_replacement H sha backup proposed intent reservation_id deadline NoFault)) k) Q x"
    if "view x = view w" "\<And>y. achieves (k (Inr (closed_as sha intent (ei_after_sha256 intent)))) Q y" for x k Q
    by (rule wp_seqI, rule wp_attemptI, rule apply_exact_replacement_achieves [OF assms(1,2,4)])
      (use that assms(5-11) valid_mode [OF assms(3)] in simp_all)
  have finished: "achieves (seq (ret (cleanup_closure CommittedAfter obs False None)) (\<lambda>result.
     seq (map_err (prefer_initial_failure (tc_initial_failure result)) (validate_write_mount H)) (\<lambda>_.
     ret (result\<lparr>tc_cleanup_verified := True\<rparr>)))) (\<lambda>r _. r = Inr \<lparr>tc_outcome = CommittedAfter, tc_observation = obs,
      tc_cleanup_verified = True, tc_initial_failure = None\<rparr>) x" for obs x
    unfolding seq_ret by (rule wp_seqI) (simp add: wp_map_err wp_ret mounts_achieve(1) [OF assms(1,2)] cleanup_closure_def)
  show "achieves (execute_same_boot_target H sha write_mount backup proposed intent reservation_id deadline NoFault)
     (\<lambda>r _. r = Inr \<lparr>tc_outcome = CommittedAfter, tc_observation = closed_as sha intent (ei_after_sha256 intent),
      tc_cleanup_verified = True, tc_initial_failure = None\<rparr>) w"
    unfolding execute_same_boot_target_def ensure_exact_bytes_def
    by (auto simp: assms finished [simplified] intro!: achieves_ensure applied
      wp_seqI [of _ "validate_write_capability x y z" for x y z] wp_seqI [of _ "validate_write_mount H"]
      wp_seqI [of _ "open_etc_directory H"] capability_achieves mounts_achieve [OF assms(1,2)])
qed

definition rollback_capability_for ::
  "RescueTargetRollbackWriteMountCapability \<Rightarrow> RepairRollbackTransactionStatusPayload \<Rightarrow> RepairExecutionIntentV1 \<Rightarrow> bool" where
  "rollback_capability_for c pending intent \<longleftrightarrow>
     source_intent (rt_source pending) = Inr intent \<and> rm_rollback_id c = rt_rollback_id pending \<and>
     rm_rollback_transaction_binding_sha256 c = as_str (rt_rollback_transaction_binding_sha256 pending) \<and>
     rm_source_reservation_id c = bs_reservation_id (ts_backup (rt_source pending)) \<and>
     rm_source_transaction_binding_sha256 c = as_str (ts_transaction_binding_sha256 (rt_source pending)) \<and>
     rm_target_recovery_fingerprint c = ei_target_recovery_fingerprint intent \<and> rm_lease_binding_sha256 c \<noteq> []"

lemma rollback_capability_achieves:
  "rollback_capability_for c pending intent \<Longrightarrow> Q (Inr ()) w \<Longrightarrow> achieves (validate_rollback_write_capability c pending) Q w"
  by (auto simp: validate_rollback_write_capability_def wp_simps rollback_capability_for_def)

lemma rollback_run_completes:
  assumes "posix_directory H view" and "dependable H view deadline"
    and "intent_validate intent = Inr ()" and "repair_resource_for_intent intent = Inr resource"
    and "legible backup" and "sha backup = ei_before_sha256 intent"
    and "legible proposed" and "sha proposed = ei_after_sha256 intent"
    and "rollback_capability_for write_mount pending intent"
    and "holds_file (view w) (resource_leaf resource) j proposed (ei_before_metadata intent)"
    and "d_names (view w) (restore_stage_name_for resource (bs_reservation_id (ts_backup (rt_source pending)))) = None"
    and "ran (d_names (view w)) \<noteq> UNIV"
    and "d_names (view w) (execution_stage_name_for resource (bs_reservation_id (ts_backup (rt_source pending)))) = None \<or>
      holds_file (view w) (execution_stage_name_for resource (bs_reservation_id (ts_backup (rt_source pending)))) k backup
        (ei_before_metadata intent) \<and> k \<noteq> j"
  shows "outcome_of (restore_rollback_target H sha write_mount backup intent pending deadline) w =
    Inr \<lparr>rc_outcome = RolledBackBefore, rc_observation = closed_as sha intent (ei_before_sha256 intent), rc_cleanup_verified = True\<rparr>"
proof (rule outcome_achieved)
  have attempted: "achieves (seq (attempt (restore_exact_backup H sha backup intent
      (bs_reservation_id (ts_backup (rt_source pending))) deadline)) c) R y"
    if "view y = view w" "\<And>z. achieves (c (Inr (closed_as sha intent (ei_before_sha256 intent)))) R z" for y c R
    by (rule wp_seqI, rule wp_attemptI, rule restore_exact_backup_achieves [OF assms(1,2,4), where j = j and k = k and proposed = proposed])
      (use that assms(5-8,10-) valid_mode [OF assms(3)] in simp_all)
  show "achieves (restore_rollback_target H sha write_mount backup intent pending deadline) (\<lambda>r _. r =
    Inr \<lparr>rc_outcome = RolledBackBefore, rc_observation = closed_as sha intent (ei_before_sha256 intent), rc_cleanup_verified = True\<rparr>) w"
    unfolding restore_rollback_target_def
    by (auto simp: seq_ret wp_ret assms(9) intro!: attempted wp_seqI [of _ "validate_write_mount H"]
      wp_seqI [of _ "validate_rollback_write_capability x y" for x y] wp_seqI [of _ "open_etc_directory H"]
      rollback_capability_achieves [OF assms(9)] mounts_achieve [OF assms(1,2)])
qed

text \<open>
  C15: When no call fails, an approved repair commits: the resource is the approved old file, the proposed
  bytes have the approved digest, the capability is the one for this reservation, the stage name is free,
  and the run ends with the report of a commitment whose digests are those of the approved new file.
\<close>

theorem repair_completes:
  assumes "posix_directory H view" and "dependable H view deadline"
    and "intent_validate intent = Inr ()" and "repair_resource_for_intent intent = Inr resource"
    and "holds_file (view w) (resource_leaf resource) j backup (ei_before_metadata intent)"
    and "legible backup" and "sha backup = ei_before_sha256 intent"
    and "legible proposed" and "sha proposed = ei_after_sha256 intent"
    and "d_names (view w) (execution_stage_name_for resource reservation_id) = None" and "ran (d_names (view w)) \<noteq> UNIV"
    and "capability_for write_mount intent reservation_id"
  shows "outcome_of (execute_same_boot_target H sha write_mount backup proposed intent reservation_id deadline NoFault) w =
    Inr \<lparr>tc_outcome = CommittedAfter, tc_observation = closed_as sha intent (ei_after_sha256 intent),
      tc_cleanup_verified = True, tc_initial_failure = None\<rparr>"
  by (rule repair_run_completes) (fact assms)+

lemma recovery_run_completes:
  assumes "posix_directory H view" and "dependable H view deadline"
    and "call_law view revalidate unchanged (\<lambda>_. unchanged)" and "answers view revalidate (\<lambda>_. True) any"
    and "call_law view acquire unchanged (\<lambda>_. unchanged)"
    and "answers view acquire (\<lambda>_. True) (\<lambda>c _. capability_for c intent reservation_id)"
    and "intent_validate intent = Inr ()" and "repair_resource_for_intent intent = Inr resource"
    and "legible backup" and "sha backup = ei_before_sha256 intent"
    and "legible proposed" and "sha proposed = ei_after_sha256 intent" and "ts_phase pending = TPending"
    and "holds_file (view w) (resource_leaf resource) j bytes (ei_before_metadata intent)"
    and "bytes = backup \<or> bytes = proposed"
    and "d_names (view w) (restore_stage_name_for resource reservation_id) = None" and "ran (d_names (view w)) \<noteq> UNIV"
    and "d_names (view w) (execution_stage_name_for resource reservation_id) = None \<or>
      holds_file (view w) (execution_stage_name_for resource reservation_id) k backup (ei_before_metadata intent) \<and> k \<noteq> j"
  shows "outcome_of (recover_same_boot_target H sha revalidate acquire pending backup intent reservation_id
      before_outcome deadline) w =
    Inr \<lparr>tc_outcome = (if bytes = backup then before_outcome else ClosedBeforeRestored),
      tc_observation = closed_as sha intent (ei_before_sha256 intent), tc_cleanup_verified = True, tc_initial_failure = None\<rparr>"
proof (rule outcome_achieved)
  let ?Q = "\<lambda>r _. r = Inr \<lparr>tc_outcome = (if bytes = backup then before_outcome else ClosedBeforeRestored),
      tc_observation = closed_as sha intent (ei_before_sha256 intent), tc_cleanup_verified = True, tc_initial_failure = None\<rparr>"
  let ?s = "snap sha (d_dev (view w)) j bytes (ei_before_metadata intent)"
  have legible: "legible bytes" using assms(9,11,15) by blast
  note calls = achieves_call [OF assms(3,4)] achieves_call [OF assms(5,6)] mounts_achieve [OF assms(1,2)]
  have different: "ei_before_sha256 intent \<noteq> ei_after_sha256 intent" using assms(7) by (auto simp: intent_validate_Inr)
  have state: "exact_state sha ?s intent = (if bytes = backup then StateBefore else StateAfter)"
    "observation (snap sha (d_dev (view w)) j backup (ei_before_metadata intent)) = closed_as sha intent (ei_before_sha256 intent)"
    using assms(10,12,15) different by (auto simp: exact_state_def Let_def observation_def closed_as_def)
  have classified: "achieves (classify_with_retained_read_mount H sha revalidate intent) R x"
    if "view x = view w" "\<And>y. same_dir (view w) (view y) \<Longrightarrow> R (Inr (exact_state sha ?s intent, observation ?s)) y" for x R
    unfolding classify_with_retained_read_mount_def snapshot_repair_resource_eq [OF assms(8)]
    by (auto simp: unchanged_def wp_ret that legible assms(14) intro!: wp_seqI [of _ "call f e" for f e]
      wp_seqI [of _ "open_etc_directory H"] calls achieves_look [OF assms(1,2),
        where ino = j and b = bytes and m = "ei_before_metadata intent"])
  have restored: "achieves (restore_recovery_target H sha write_mount backup intent reservation_id deadline)
      (\<lambda>r _. r = Inr \<lparr>tc_outcome = ClosedBeforeRestored, tc_observation = closed_as sha intent (ei_before_sha256 intent),
         tc_cleanup_verified = True, tc_initial_failure = None\<rparr>) x"
    if x: "same_dir (view w) (view x)" "capability_for write_mount intent reservation_id" "bytes \<noteq> backup" for x write_mount
  proof -
    have "achieves (seq (attempt (restore_exact_backup H sha backup intent reservation_id deadline)) c) R y"
      if "view y = view x" "\<And>z. achieves (c (Inr (closed_as sha intent (ei_before_sha256 intent)))) R z" for y c R
      by (rule wp_seqI, rule wp_attemptI, rule restore_exact_backup_achieves [OF assms(1,2,8), where j = j and k = k and proposed = proposed])
        (use that x assms(9-12,14-) valid_mode [OF assms(7)] in \<open>auto simp: same_dir_def holds_file_def\<close>)
    note attempted = this
    show ?thesis
      unfolding restore_recovery_target_def
      by (auto simp: x seq_ret wp_ret cleanup_closure_def intro!: attempted wp_seqI [of _ "validate_write_mount H"]
        wp_seqI [of _ "validate_write_capability x y z" for x y z] wp_seqI [of _ "open_etc_directory H"] capability_achieves calls)
  qed
  show "achieves (recover_same_boot_target H sha revalidate acquire pending backup intent reservation_id before_outcome
      deadline) ?Q w"
    unfolding recover_same_boot_target_def ensure_exact_bytes_def
    by (rule achieves_ensure, rule assms(10), rule wp_seqI, rule classified)
      (auto simp: state assms(13) wp_ret cleanup_closure_def unchanged_def intro!: wp_seqI [of _ "call f e" for f e] calls restored)
qed

text \<open>
  C16: When no call fails, the recovery of a pending repair brings the old file back: it finds it still
  in place, or finds the new file, takes the write capability and restores the backup, whether or not
  the interrupted repair has left the old file under its stage name.
\<close>

theorem recovery_completes:
  assumes "posix_directory H view" and "dependable H view deadline"
    and "call_law view revalidate unchanged (\<lambda>_. unchanged)" and "answers view revalidate (\<lambda>_. True) any"
    and "call_law view acquire unchanged (\<lambda>_. unchanged)"
    and "answers view acquire (\<lambda>_. True) (\<lambda>c _. capability_for c intent reservation_id)"
    and "intent_validate intent = Inr ()" and "repair_resource_for_intent intent = Inr resource"
    and "legible backup" and "sha backup = ei_before_sha256 intent"
    and "legible proposed" and "sha proposed = ei_after_sha256 intent" and "ts_phase pending = TPending"
    and "holds_file (view w) (resource_leaf resource) j bytes (ei_before_metadata intent)"
    and "bytes = backup \<or> bytes = proposed"
    and "d_names (view w) (restore_stage_name_for resource reservation_id) = None" and "ran (d_names (view w)) \<noteq> UNIV"
    and "d_names (view w) (execution_stage_name_for resource reservation_id) = None \<or>
      holds_file (view w) (execution_stage_name_for resource reservation_id) k backup (ei_before_metadata intent) \<and> k \<noteq> j"
  shows "outcome_of (recover_same_boot_target H sha revalidate acquire pending backup intent reservation_id
      before_outcome deadline) w =
    Inr \<lparr>tc_outcome = (if bytes = backup then before_outcome else ClosedBeforeRestored),
      tc_observation = closed_as sha intent (ei_before_sha256 intent), tc_cleanup_verified = True, tc_initial_failure = None\<rparr>"
  by (rule recovery_run_completes) (fact assms)+

section \<open>Examples on the host in memory\<close>

lemma memory_dependable: "0 < deadline \<Longrightarrow> dependable memory_host mem_dir deadline"
  unfolding dependable_def answers_def
  by (auto simp: mem_defs open_fd_def named_def any_def set_inode_def root_directory_def is_dir_def S_IFMT_def EXT_SUPER_MAGIC_def Let_def)

definition sample_sha :: "string \<Rightarrow> Sha256" where
  "sample_sha b = (if b = ''old'' then digest_of CHR ''3'' else if b = ''new'' then digest_of CHR ''4'' else digest_of CHR ''f'')"

definition sample_world :: "string \<Rightarrow> mem" where
  "sample_world b =
     \<lparr>mem_dir = \<lparr>d_dev = 1, d_names = [FSTAB_RESOURCE \<mapsto> 10],
        d_inodes = \<lambda>_. \<lparr>i_mode = 0x81A4, i_uid = 0, i_gid = 0, i_nlink = 1, i_bytes = b, i_xattrs = 0, i_synced = True\<rparr>,
        d_fds = Map.empty, d_durable = True\<rparr>,
      mem_next_fd = 3\<rparr>"

definition sample_reservation :: string where
  "sample_reservation = ''B-'' @ replicate 32 CHR ''0''"

definition sample_write_mount :: RescueTargetWriteMountCapability where
  "sample_write_mount = \<lparr>wm_reservation_id = sample_reservation, wm_transaction_binding_sha256 = replicate 64 CHR ''f'',
     wm_target_recovery_fingerprint = ei_target_recovery_fingerprint sample_intent, wm_lease_binding_sha256 = replicate 64 CHR ''e''\<rparr>"

lemma sample_utf8: "utf8_valid ''old''" "utf8_valid ''new''"
  by code_simp+

lemma sample_facts:
  "repair_resource_for_intent sample_intent = Inr RFstab" "intent_validate sample_intent = Inr ()"
  "capability_for sample_write_mount sample_intent sample_reservation"
  "legible ''old''" "legible ''new''" "sample_sha ''old'' = ei_before_sha256 sample_intent"
  "sample_sha ''new'' = ei_after_sha256 sample_intent"
  by (simp_all add: sample_intent_valid repair_resource_for_intent_def capability_for_def sample_write_mount_def)
   (simp_all add: sample_intent_def sample_sha_def sample_utf8 legible_def MAX_REPAIR_RESOURCE_BYTES_def)

lemma sample_directory:
  "holds_file (mem_dir (sample_world b)) (resource_leaf RFstab) 10 b (ei_before_metadata sample_intent)"
  "ran (d_names (mem_dir (sample_world b))) \<noteq> UNIV"
  "d_names (mem_dir (sample_world b)) (execution_stage_name_for RFstab sample_reservation) = None"
  "d_names (mem_dir (sample_world b)) (restore_stage_name_for RFstab sample_reservation) = None"
  "settled n (mem_dir (sample_world b))"
  "inode_metadata_sha256 sample_sha (d_inodes (mem_dir (sample_world b)) ino) =
     canonical_repair_file_metadata_sha256 sample_sha (ei_before_metadata sample_intent)"
proof -
  show "ran (d_names (mem_dir (sample_world b))) \<noteq> UNIV"
  proof -
    have "(0 :: u64) \<notin> {10}" by simp
    then have "{10 :: u64} \<noteq> UNIV" by blast
    then show ?thesis by (simp add: sample_world_def)
  qed
qed (use stage_names_distinct [of RFstab sample_reservation] in
  \<open>auto simp: sample_world_def holds_file_def good_file_def is_file_def S_IFMT_def inode_metadata_def sample_intent_def
    execution_stage_name_for_def FSTAB_RESOURCE_def settled_def inode_metadata_sha256_def\<close>)

lemma sample_installed:
  "sample_sha b = d \<Longrightarrow> installed sample_sha (mem_dir (sample_world b)) (resource_leaf RFstab) d (ei_before_metadata sample_intent)"
  using sample_directory(1,6) [of b] by (auto simp: installed_def holds_file_def good_file_def sample_world_def)

lemmas sample_repair = repair_run_completes [OF memory_host_posix memory_dependable sample_facts(2,1) sample_directory(1)
  sample_facts(4,6,5,7) sample_directory(3,2) sample_facts(3)]

lemma repair_completes_witness:
  "outcome_of (execute_same_boot_target memory_host sample_sha sample_write_mount ''old'' ''new'' sample_intent sample_reservation
      1 NoFault) (sample_world ''old'') =
    Inr \<lparr>tc_outcome = CommittedAfter, tc_observation = closed_as sample_sha sample_intent (ei_after_sha256 sample_intent),
      tc_cleanup_verified = True, tc_initial_failure = None\<rparr>"
  by (rule repair_completes [OF memory_host_posix memory_dependable sample_facts(2,1) sample_directory(1)
    sample_facts(4,6,5,7) sample_directory(3,2) sample_facts(3)]) simp

lemma repair_run_crash_safe_witness:
  "closure_true sample_sha sample_intent (resource_leaf RFstab) (execution_stage_name_for RFstab sample_reservation)
     (mem_dir (final_world (execute_same_boot_target memory_host sample_sha sample_write_mount ''old'' ''new'' sample_intent
       sample_reservation 1 NoFault) (sample_world ''old'')))
     \<lparr>tc_outcome = CommittedAfter, tc_observation = closed_as sample_sha sample_intent (ei_after_sha256 sample_intent),
      tc_cleanup_verified = True, tc_initial_failure = None\<rparr>"
  using repair_run_crash_safe [OF memory_host_posix sample_facts(1) sample_installed [OF sample_facts(6)] sample_directory(5),
      where write_mount = sample_write_mount and backup = "''old''" and proposed = "''new''" and deadline = 1 and fault = NoFault and
      reservation_id = sample_reservation]
    sample_repair [of 1]
  by simp

definition grant :: "mem \<Rightarrow> mem \<times> (errno + RescueTargetWriteMountCapability)" where
  "grant w = (w, Inr sample_write_mount)"

definition accept :: "mem \<Rightarrow> mem \<times> (errno + unit)" where
  "accept w = (w, Inr ())"

lemma guard_facts:
  "call_law mem_dir accept unchanged (\<lambda>_. unchanged)" "answers mem_dir accept (\<lambda>_. True) any"
  "call_law mem_dir grant unchanged (\<lambda>_. unchanged)"
  "answers mem_dir grant (\<lambda>_. True) (\<lambda>c _. capability_for c sample_intent sample_reservation)"
  by (simp_all add: call_law_def answers_def accept_def grant_def unchanged_def any_def sample_facts)

lemmas sample_recovery = recovery_run_completes [OF memory_host_posix memory_dependable guard_facts sample_facts(2,1,4,6,5,7) _
  sample_directory(1) _ sample_directory(4,2) disjI1 [OF sample_directory(3)]]

lemma recovery_completes_witness:
  "outcome_of (recover_same_boot_target memory_host sample_sha accept grant sample_transaction ''old'' sample_intent
      sample_reservation ClosedBeforeUnchanged 1) (sample_world ''new'') =
    Inr \<lparr>tc_outcome = ClosedBeforeRestored, tc_observation = closed_as sample_sha sample_intent (ei_before_sha256 sample_intent),
      tc_cleanup_verified = True, tc_initial_failure = None\<rparr>"
  using recovery_completes [OF memory_host_posix memory_dependable guard_facts sample_facts(2,1,4,6,5,7) _
    sample_directory(1) [of "''new''"] _ sample_directory(4,2) disjI1 [OF sample_directory(3)],
    where deadline = 1 and pending = sample_transaction and before_outcome = ClosedBeforeUnchanged]
  by (simp add: sample_transaction_def)

lemma sample_restarted:
  "restarted memory_host mem_dir sample_sha accept grant sample_intent (resource_leaf RFstab) sample_reservation (sample_world ''old'')"
  by (rule after_repair [where w = "sample_world ''old''" and x = "sample_world ''old''"])
    (use sample_installed [OF sample_facts(6)] sample_directory(5) in
      \<open>auto simp: stopping_points_def crash_image_def sample_world_def\<close>)

lemma recovery_after_crashes_witness:
  "recovery_true sample_sha sample_intent (resource_leaf RFstab) ClosedBeforeUnchanged sample_transaction
     (mem_dir (final_world (recover_same_boot_target memory_host sample_sha accept grant sample_transaction ''old'' sample_intent
       sample_reservation ClosedBeforeUnchanged 1) (sample_world ''old'')))
     \<lparr>tc_outcome = ClosedBeforeUnchanged, tc_observation = closed_as sample_sha sample_intent (ei_before_sha256 sample_intent),
      tc_cleanup_verified = True, tc_initial_failure = None\<rparr>"
  using recovery_after_crashes [OF memory_host_posix guard_facts(1,3) sample_facts(1) sample_restarted,
      where before_outcome = ClosedBeforeUnchanged and pending = sample_transaction and backup = "''old''" and deadline = 1]
    sample_recovery [where deadline = 1 and pending = sample_transaction and bytes = "''old''" and
      before_outcome = ClosedBeforeUnchanged]
  by (simp add: sample_transaction_def)

definition sample_rollback :: RepairRollbackTransactionStatusPayload where
  "sample_rollback = \<lparr>rt_phase = TPending, rt_rollback_id = ''R-'' @ replicate 32 CHR ''0'',
     rt_rollback_transaction_binding_sha256 = digest_of CHR ''f'', rt_source = sample_transaction,
     rt_binding = \<lparr>rb_action_id = repair_action_id RFstab, rb_plan_id = ''P-2'', rb_plan_sha256 = digest_of CHR ''a'',
       rb_approval_id = ''A-2'', rb_approval_sha256 = digest_of CHR ''b'', rb_approval_sequence = 2\<rparr>,
     rt_resolution = None\<rparr>"

definition sample_rollback_mount :: RescueTargetRollbackWriteMountCapability where
  "sample_rollback_mount = \<lparr>rm_rollback_id = rt_rollback_id sample_rollback,
     rm_rollback_transaction_binding_sha256 = as_str (rt_rollback_transaction_binding_sha256 sample_rollback),
     rm_source_reservation_id = sample_reservation,
     rm_source_transaction_binding_sha256 = as_str (ts_transaction_binding_sha256 sample_transaction),
     rm_target_recovery_fingerprint = ei_target_recovery_fingerprint sample_intent,
     rm_lease_binding_sha256 = replicate 64 CHR ''e''\<rparr>"

lemma rollback_run_safe_witness:
  "rollback_capability_for sample_rollback_mount sample_rollback sample_intent \<and>
   rc_outcome (projr (outcome_of (restore_rollback_target memory_host sample_sha sample_rollback_mount ''old'' sample_intent
     sample_rollback 1) (sample_world ''new''))) = RolledBackBefore"
proof -
  have capability: "rollback_capability_for sample_rollback_mount sample_rollback sample_intent"
    by (simp add: rollback_capability_for_def sample_rollback_mount_def sample_rollback_def source_intent_def ok_or_def
      sample_transaction_def sample_backup_def sample_reservation_def)
  have reservation: "sample_reservation = bs_reservation_id (ts_backup (rt_source sample_rollback))"
    by (simp add: sample_rollback_def sample_transaction_def sample_backup_def sample_reservation_def)
  have whole: "intact sample_sha sample_intent (resource_leaf RFstab) (mem_dir (sample_world ''new''))"
    unfolding intact_def by (rule disjI2) (rule sample_installed [OF sample_facts(7)])
  obtain c where c: "outcome_of (restore_rollback_target memory_host sample_sha sample_rollback_mount ''old'' sample_intent
     sample_rollback 1) (sample_world ''new'') = Inr c"
    using rollback_run_completes [OF memory_host_posix memory_dependable sample_facts(2,1,4,6,5,7) capability
      sample_directory(1) sample_directory(4,2) [unfolded reservation] disjI1 [OF sample_directory(3) [unfolded reservation]],
      where deadline = 1] by auto
  then show ?thesis
    using rollback_run_safe [OF memory_host_posix sample_facts(1) reservation whole sample_directory(5), where
      write_mount = sample_rollback_mount and backup = "''old''" and deadline = 1] capability by simp
qed

lemma foreign_resource_untouched_witness:
  "hands_off mem_dir (manual_report sample_sha (resource_leaf RFstab))
     (execute_same_boot_target memory_host sample_sha sample_write_mount ''old'' ''new'' sample_intent sample_reservation 1 NoFault)
     (sample_world ''other'')"
proof -
  have "foreign sample_sha sample_intent (resource_leaf RFstab) (mem_dir (sample_world ''other''))"
    by (simp add: foreign_def observed_def closed_as_def sample_world_def sample_sha_def sample_intent_def digest_of_inject char_classes)
  note foreign_resource_untouched [where H = memory_host and view = mem_dir and revalidate = accept and intent = sample_intent and
    resource = RFstab and sha = sample_sha and w = "sample_world ''other''" and write_mount = sample_write_mount and
    backup = "''old''" and proposed = "''new''" and reservation_id = sample_reservation and deadline = 1 and fault = NoFault]
  from this [OF memory_host_posix guard_facts(1) sample_facts(1) \<open>foreign _ _ _ _\<close>] show ?thesis by (rule conjunct1)
qed

end
