(* ===== verification/KA_Vault_Transport.thy ===== *)
theory KA_Vault_Transport
  imports KA_Repair_Vault
begin

text \<open>
  The repair-store part of \<^verbatim>\<open>crates/protocol/src/rescue_vault_transport.rs\<close>: the typed requests a client
  may send to the Vault, when they are valid, and how a response is decoded and held
  against the request it answers.  The variants of the vault, provider, report and fleet
  operations are left out.

  JSON is read by serde; its results are a parameter, a record of decoding functions.  A received
  descriptor is a value of a type \<open>'d\<close>, with a test for the readable pipe the code checks for.
\<close>

section \<open>Operations and tokens\<close>

datatype ErrorToken =
    Absent | Unprovisioned | Locked | BadPassphrase | MediaChanged | ProfileMismatch | StaleState
  | TokenFdRequired | TokenFdForbidden | TokenNotAuthorized | RateLimited | Busy | ProviderUnconfigured
  | ReportTooLarge | IoFailed | RebootRequired

datatype Operation =
    OpVaultStatus | OpVaultUnlock | OpVaultLock | OpProviderOpenAiConfigure | OpProviderStatus
  | OpProviderLogout | OpProviderOpenAiBorrow | OpProviderCodexHomeLease | OpAuditAppend
  | OpReportPersist | OpReportList | OpReportGet | OpFleetEnrollmentSign | OpFleetWorkOrderClaimSign
  | OpFleetWorkOrderResultSign | OpRepairBackupReserve | OpRepairBackupPersist | OpRepairBackupStatus
  | OpRepairBackupGet | OpRepairBackupCancel | OpRepairBackupRetire | OpRepairTransactionStatus
  | OpRepairTransactionResolve | OpRepairVaultLiveParent | OpRepairTransactionWriteLeaseConsume
  | OpRepairRollbackBegin | OpRepairRollbackStatus | OpRepairRollbackResolve
  | OpRepairRollbackWriteLeaseConsume

definition API_VERSION :: string where
  "API_VERSION = ''kernaid.dev/rescue-vault/v1alpha1''"

definition ROLLBACK_API_VERSION :: string where
  "ROLLBACK_API_VERSION = ''kernaid.dev/rescue-vault/v1alpha2''"

definition MAX_DATAGRAM_BYTES :: nat where
  "MAX_DATAGRAM_BYTES = 64 * 1024"

definition api_version :: "Operation \<Rightarrow> string" where
  "api_version operation =
     (if operation \<in> {OpRepairRollbackBegin, OpRepairRollbackStatus, OpRepairRollbackResolve,
           OpRepairRollbackWriteLeaseConsume}
      then ROLLBACK_API_VERSION else API_VERSION)"

datatype DescriptorType =
    PassphrasePipe | OpenAiApiKeyPipe | CodexHomeOPath | CodexMountNamespace | CodexMountRoot
  | SessionReportJsonPipe | SignedReportEnvelopePipe | FleetEnrollmentInputPipe
  | FleetWorkOrderClaimInputPipe | FleetWorkOrderResultInputPipe | RepairBackupInputPipe
  | RepairBackupOutputPipe

record DescriptorDeclaration =
  dd_kind :: DescriptorType
  dd_size :: u64

section \<open>Request identifiers\<close>

definition canonical_uuid :: "string \<Rightarrow> bool" where
  "canonical_uuid v \<longleftrightarrow>
     length v = 36 \<and>
     list_all (\<lambda>(index, byte). if index \<in> {8, 13, 18, 23} then byte = CHR ''-'' else lower_hex byte)
       (zip [0..<36] v)"

definition parse_request_id :: "string \<Rightarrow> ProtocolViolation + string" where
  "parse_request_id v =
     (if length v \<noteq> 38 \<or> \<not> starts_with v ''R-'' \<or> \<not> canonical_uuid (drop 2 v) then Inl InvalidRequestId
      else Inr v)"

section \<open>Requests\<close>

datatype ClientRequestPayload =
    ReqBackupReserve RepairBackupDraft
  | ReqBackupPersist RepairBackupStatusPayload RepairBackupBinding RepairFileMetadataV1 u64
  | ReqBackupStatus RepairBackupStatusPayload
  | ReqBackupGet RepairBackupStatusPayload
  | ReqBackupCancel RepairReservationId Sha256
  | ReqBackupRetire RepairBackupStatusPayload
  | ReqTransactionStatus RepairTransactionStatusSelector
  | ReqTransactionResolve RepairTransactionStatusPayload RepairTransactionResolution
  | ReqTransactionWriteLeaseConsume RepairTransactionStatusSelector
  | ReqRollbackBegin RepairTransactionStatusPayload RepairRollbackId RepairRollbackBindingV1
  | ReqRollbackStatus RepairRollbackStatusSelector
  | ReqRollbackResolve RepairRollbackTransactionStatusPayload RepairRollbackResolution
  | ReqRollbackWriteLeaseConsume RepairRollbackStatusSelector
  | ReqVaultLiveParent

fun operation_of :: "ClientRequestPayload \<Rightarrow> Operation" where
  "operation_of (ReqBackupReserve _) = OpRepairBackupReserve"
| "operation_of (ReqBackupPersist _ _ _ _) = OpRepairBackupPersist"
| "operation_of (ReqBackupStatus _) = OpRepairBackupStatus"
| "operation_of (ReqBackupGet _) = OpRepairBackupGet"
| "operation_of (ReqBackupCancel _ _) = OpRepairBackupCancel"
| "operation_of (ReqBackupRetire _) = OpRepairBackupRetire"
| "operation_of (ReqTransactionStatus _) = OpRepairTransactionStatus"
| "operation_of (ReqTransactionResolve _ _) = OpRepairTransactionResolve"
| "operation_of (ReqTransactionWriteLeaseConsume _) = OpRepairTransactionWriteLeaseConsume"
| "operation_of (ReqRollbackBegin _ _ _) = OpRepairRollbackBegin"
| "operation_of (ReqRollbackStatus _) = OpRepairRollbackStatus"
| "operation_of (ReqRollbackResolve _ _) = OpRepairRollbackResolve"
| "operation_of (ReqRollbackWriteLeaseConsume _) = OpRepairRollbackWriteLeaseConsume"
| "operation_of ReqVaultLiveParent = OpRepairVaultLiveParent"

fun valid_client_payload :: "(string \<Rightarrow> Sha256) \<Rightarrow> ClientRequestPayload \<Rightarrow> bool" where
  "valid_client_payload sha (ReqBackupPersist expected binding metadata input_size) \<longleftrightarrow>
     is_ok (backup_validate sha expected) \<and> bs_state expected = BackupReserved \<and>
     bs_backup_size expected = input_size \<and> is_ok (metadata_validate metadata) \<and>
     canonical_repair_file_metadata_sha256 sha metadata = bs_metadata_sha256 expected \<and>
     ei_before_sha256 (bb_execution_intent binding) = bs_expected_backup_sha256 expected \<and>
     ei_before_metadata (bb_execution_intent binding) = metadata \<and>
     ei_target_physical_parent_fingerprint (bb_execution_intent binding) \<noteq> bs_physical_parent_fingerprint expected \<and>
     1 \<le> input_size \<and> input_size \<le> MAX_REPAIR_BACKUP_BYTES"
| "valid_client_payload sha (ReqBackupReserve _) \<longleftrightarrow> True"
| "valid_client_payload sha (ReqBackupStatus expected) \<longleftrightarrow> is_ok (backup_validate sha expected)"
| "valid_client_payload sha (ReqBackupGet expected) \<longleftrightarrow>
     is_ok (backup_validate sha expected) \<and> bs_state expected = BackupDurable"
| "valid_client_payload sha (ReqBackupCancel _ _) \<longleftrightarrow> True"
| "valid_client_payload sha (ReqBackupRetire expected) \<longleftrightarrow>
     is_ok (backup_validate sha expected) \<and> bs_state expected = BackupDurable"
| "valid_client_payload sha (ReqTransactionStatus _) \<longleftrightarrow> True"
| "valid_client_payload sha (ReqTransactionResolve expected resolution) \<longleftrightarrow>
     is_ok (transaction_validate sha expected) \<and> transaction_is_unresolved expected \<and>
     is_some_and (bs_execution_intent (ts_backup expected))
       (\<lambda>intent. is_ok (resolution_validate_against sha resolution intent))"
| "valid_client_payload sha ReqVaultLiveParent \<longleftrightarrow> True"
| "valid_client_payload sha (ReqTransactionWriteLeaseConsume selector) \<longleftrightarrow>
     (case selector of Exact _ _ \<Rightarrow> True | PendingSingleton \<Rightarrow> False)"
| "valid_client_payload sha (ReqRollbackBegin source _ binding) \<longleftrightarrow>
     is_ok (transaction_validate sha source) \<and> is_ok (rollback_binding_validate_against sha binding source)"
| "valid_client_payload sha (ReqRollbackStatus _) \<longleftrightarrow> True"
| "valid_client_payload sha (ReqRollbackResolve expected resolution) \<longleftrightarrow>
     is_ok (rollback_transaction_validate sha expected) \<and> rollback_is_unresolved expected \<and>
     is_ok (rollback_resolution_validate_against sha resolution (rt_source expected))"
| "valid_client_payload sha (ReqRollbackWriteLeaseConsume selector) \<longleftrightarrow>
     (case selector of RollbackExact _ _ \<Rightarrow> True | RollbackPendingSingleton \<Rightarrow> False)"

record ClientRequest =
  rq_request_id :: string
  rq_expected_state_version :: u64
  rq_payload :: ClientRequestPayload

definition ClientRequest_new ::
  "(string \<Rightarrow> Sha256) \<Rightarrow> string \<Rightarrow> u64 \<Rightarrow> ClientRequestPayload \<Rightarrow> ProtocolViolation + ClientRequest" where
  "ClientRequest_new sha request_id expected_state_version payload =
     (if expected_state_version > MAX_SAFE_JSON_INTEGER \<or> \<not> valid_client_payload sha payload
      then Inl InvalidPayload
      else Inr \<lparr>rq_request_id = request_id, rq_expected_state_version = expected_state_version,
        rq_payload = payload\<rparr>)"

section \<open>Responses\<close>

datatype SuccessPayload =
    OkBackupStatus RepairBackupStatusPayload
  | OkBackup RepairBackupStatusPayload DescriptorDeclaration
  | OkBackupReleased RepairBackupReleasePayload
  | OkTransactionStatus "RepairTransactionStatusPayload option"
  | OkTransactionResolved RepairTransactionStatusPayload
  | OkVaultLiveIdentity RepairVaultLiveIdentityPayload
  | OkWriteLeaseConsumed RepairWriteLeasePayload
  | OkRollbackBegun RepairRollbackTransactionStatusPayload
  | OkRollbackStatus "RepairRollbackTransactionStatusPayload option"
  | OkRollbackResolved RepairRollbackTransactionStatusPayload
  | OkRollbackWriteLeaseConsumed RepairRollbackWriteLeasePayload

datatype ClientResponseOutcome = Success SuccessPayload | Failure ErrorToken

record 'd ClientResponse =
  rp_state_version :: u64
  rp_operation :: Operation
  rp_outcome :: ClientResponseOutcome
  rp_descriptors :: "'d list"

datatype ClientResponseDecodeError =
    RespEmptyDatagram | RespDatagramTooLarge | RespInvalidJson | RespUnsupportedVersion
  | RespInvalidCorrelation | RespInvalidStateVersion | RespInvalidPayload | RespFdRequired
  | RespFdForbidden | RespInvalidDescriptor

text \<open>The two envelopes, and serde's readings of a datagram and of its payload.\<close>

datatype 'raw ResponseWire =
    SuccessResponseWire string string u64 Operation 'raw
  | ErrorResponseWire string string u64 Operation ErrorToken

record 'raw serde =
  de_response :: "string \<Rightarrow> 'raw ResponseWire option"
  de_backup_status :: "'raw \<Rightarrow> RepairBackupStatusPayload option"
  de_backup_response :: "'raw \<Rightarrow> (RepairBackupStatusPayload \<times> DescriptorDeclaration) option"
  de_release :: "'raw \<Rightarrow> RepairBackupReleasePayload option"
  de_transaction_result :: "'raw \<Rightarrow> RepairTransactionStatusPayload option option"
  de_transaction :: "'raw \<Rightarrow> RepairTransactionStatusPayload option"
  de_live_identity :: "'raw \<Rightarrow> RepairVaultLiveIdentityPayload option"
  de_write_lease :: "'raw \<Rightarrow> RepairWriteLeasePayload option"
  de_rollback :: "'raw \<Rightarrow> RepairRollbackTransactionStatusPayload option"
  de_rollback_result :: "'raw \<Rightarrow> RepairRollbackTransactionStatusPayload option option"
  de_rollback_lease :: "'raw \<Rightarrow> RepairRollbackWriteLeasePayload option"

definition response_payload :: "('raw \<Rightarrow> 'a option) \<Rightarrow> 'raw \<Rightarrow> ClientResponseDecodeError + 'a" where
  "response_payload de raw = ok_or RespInvalidPayload (de raw)"

definition require_no_descriptors :: "'d list \<Rightarrow> ClientResponseDecodeError + unit" where
  "require_no_descriptors descriptors = (if descriptors = [] then Inr () else Inl RespFdForbidden)"

definition validate_one_descriptor :: "('d \<Rightarrow> bool) \<Rightarrow> 'd list \<Rightarrow> ClientResponseDecodeError + unit" where
  "validate_one_descriptor valid_pipe descriptors =
     (case descriptors of
        [] \<Rightarrow> Inl RespFdRequired
      | [descriptor] \<Rightarrow> if valid_pipe descriptor then Inr () else Inl RespInvalidDescriptor
      | _ \<Rightarrow> Inl RespFdForbidden)"

definition validate_response_correlation ::
  "string \<Rightarrow> string \<Rightarrow> u64 \<Rightarrow> Operation \<Rightarrow> ClientRequest \<Rightarrow> ClientResponseDecodeError + unit" where
  "validate_response_correlation version request_id state_version operation request =
     (if version \<noteq> api_version (operation_of (rq_payload request)) then Inl RespUnsupportedVersion
      else if \<not> is_ok (parse_request_id request_id) \<or> request_id \<noteq> rq_request_id request
          \<or> operation \<noteq> operation_of (rq_payload request) then Inl RespInvalidCorrelation
      else if state_version > MAX_SAFE_JSON_INTEGER then Inl RespInvalidStateVersion
      else Inr ())"

text \<open>The repair requests whose success must be two versions further.\<close>

fun repair_mutation :: "ClientRequestPayload \<Rightarrow> bool" where
  "repair_mutation (ReqBackupReserve _) \<longleftrightarrow> True"
| "repair_mutation (ReqBackupPersist _ _ _ _) \<longleftrightarrow> True"
| "repair_mutation (ReqBackupCancel _ _) \<longleftrightarrow> True"
| "repair_mutation (ReqBackupRetire _) \<longleftrightarrow> True"
| "repair_mutation (ReqTransactionResolve _ _) \<longleftrightarrow> True"
| "repair_mutation (ReqTransactionWriteLeaseConsume _) \<longleftrightarrow> True"
| "repair_mutation _ \<longleftrightarrow> False"

definition validate_success_state_version :: "u64 \<Rightarrow> ClientRequest \<Rightarrow> ClientResponseDecodeError + unit" where
  "validate_success_state_version state_version request =
     (if repair_mutation (rq_payload request) \<and>
         (case checked_add (rq_expected_state_version request) 2 of
            Some version \<Rightarrow> \<not> (version \<le> MAX_SAFE_JSON_INTEGER \<and> version = state_version)
          | None \<Rightarrow> True)
      then Inl RespInvalidStateVersion else Inr ())"

definition accept_if :: "bool \<Rightarrow> 'a \<Rightarrow> ClientResponseDecodeError + 'a" where
  "accept_if b x = (if b then Inr x else Inl RespInvalidPayload)"

text \<open>\<^verbatim>\<open>decode_success_payload\<close>, one equation for each request.\<close>

fun decode_success_payload ::
  "'raw serde \<Rightarrow> (string \<Rightarrow> Sha256) \<Rightarrow> ('d \<Rightarrow> bool) \<Rightarrow> 'raw \<Rightarrow> 'd list \<Rightarrow> ClientRequestPayload \<Rightarrow>
   ClientResponseDecodeError + SuccessPayload" where
  "decode_success_payload de sha valid_pipe raw descriptors (ReqBackupReserve draft) =
     and_then (require_no_descriptors descriptors) (\<lambda>_.
     and_then (response_payload (de_backup_status de) raw) (\<lambda>status.
     accept_if (is_ok (backup_validate sha status) \<and> bs_state status = BackupReserved \<and>
         bs_draft_binding_sha256 status = canonical_repair_draft_binding_sha256 sha draft \<and>
         bs_backup_size status = dr_backup_size draft \<and>
         bs_expected_backup_sha256 status = dr_expected_backup_sha256 draft \<and>
         bs_metadata_sha256 status = dr_metadata_sha256 draft \<and>
         \<not> bs_reserved_bytes status < dr_required_capacity_bytes draft)
       (OkBackupStatus status)))"
| "decode_success_payload de sha valid_pipe raw descriptors (ReqBackupPersist expected binding _ input_size) =
     and_then (require_no_descriptors descriptors) (\<lambda>_.
     and_then (response_payload (de_backup_status de) raw) (\<lambda>status.
     accept_if (is_ok (backup_validate sha status) \<and> bs_state status = BackupDurable \<and>
         immutable_fields_match status expected \<and> bs_backup_size status = input_size \<and>
         bs_plan_id status = Some (bb_plan_id binding) \<and> bs_plan_sha256 status = Some (bb_plan_sha256 binding) \<and>
         bs_approval_id status = Some (bb_approval_id binding) \<and>
         bs_approval_sha256 status = Some (bb_approval_sha256 binding) \<and>
         bs_resource_id status = Some (bb_resource_id binding) \<and>
         bs_resource_sha256 status = Some (bb_resource_sha256 binding) \<and>
         bs_execution_intent status = Some (bb_execution_intent binding))
       (OkBackupStatus status)))"
| "decode_success_payload de sha valid_pipe raw descriptors (ReqBackupStatus expected) =
     and_then (require_no_descriptors descriptors) (\<lambda>_.
     and_then (response_payload (de_backup_status de) raw) (\<lambda>status.
     accept_if (is_ok (backup_validate sha status) \<and> immutable_fields_match status expected)
       (OkBackupStatus status)))"
| "decode_success_payload de sha valid_pipe raw descriptors (ReqBackupGet expected) =
     and_then (response_payload (de_backup_response de) raw) (\<lambda>(backup, output).
     and_then (accept_if (is_ok (backup_validate sha backup) \<and> bs_state backup = BackupDurable \<and>
         immutable_fields_match backup expected \<and> dd_kind output = RepairBackupOutputPipe \<and>
         dd_size output = bs_backup_size backup) ()) (\<lambda>_.
     and_then (validate_one_descriptor valid_pipe descriptors) (\<lambda>_.
     Inr (OkBackup backup output))))"
| "decode_success_payload de sha valid_pipe raw descriptors (ReqBackupCancel reservation_id draft_binding_sha256) =
     and_then (require_no_descriptors descriptors) (\<lambda>_.
     and_then (response_payload (de_release de) raw) (\<lambda>released.
     accept_if (is_ok (release_validate released) \<and> rl_reservation_id released = reservation_id \<and>
         rl_draft_binding_sha256 released = draft_binding_sha256)
       (OkBackupReleased released)))"
| "decode_success_payload de sha valid_pipe raw descriptors (ReqBackupRetire expected) =
     and_then (require_no_descriptors descriptors) (\<lambda>_.
     and_then (response_payload (de_release de) raw) (\<lambda>released.
     accept_if (is_ok (release_validate released) \<and> rl_reservation_id released = bs_reservation_id expected \<and>
         rl_draft_binding_sha256 released = bs_draft_binding_sha256 expected \<and>
         rl_released_bytes released = bs_reserved_bytes expected)
       (OkBackupReleased released)))"
| "decode_success_payload de sha valid_pipe raw descriptors (ReqTransactionStatus selector) =
     and_then (require_no_descriptors descriptors) (\<lambda>_.
     and_then (response_payload (de_transaction_result de) raw) (\<lambda>result.
     accept_if (matches_result sha selector result) (OkTransactionStatus result)))"
| "decode_success_payload de sha valid_pipe raw descriptors (ReqTransactionResolve expected resolution) =
     and_then (require_no_descriptors descriptors) (\<lambda>_.
     and_then (response_payload (de_transaction de) raw) (\<lambda>status.
     accept_if (is_ok (transaction_validate sha status) \<and> same_transaction status expected \<and>
         resolves_with status resolution)
       (OkTransactionResolved status)))"
| "decode_success_payload de sha valid_pipe raw descriptors ReqVaultLiveParent =
     and_then (require_no_descriptors descriptors) (\<lambda>_.
     and_then (response_payload (de_live_identity de) raw) (\<lambda>identity.
     accept_if (is_ok (live_identity_validate identity)) (OkVaultLiveIdentity identity)))"
| "decode_success_payload de sha valid_pipe raw descriptors (ReqTransactionWriteLeaseConsume selector) =
     and_then (require_no_descriptors descriptors) (\<lambda>_.
     and_then (response_payload (de_write_lease de) raw) (\<lambda>lease.
     accept_if (is_ok (write_lease_validate sha lease) \<and> selector = selector_for_status (wl_transaction lease))
       (OkWriteLeaseConsumed lease)))"
| "decode_success_payload de sha valid_pipe raw descriptors (ReqRollbackBegin source rollback_id binding) =
     and_then (require_no_descriptors descriptors) (\<lambda>_.
     and_then (response_payload (de_rollback de) raw) (\<lambda>status.
     accept_if (is_ok (rollback_transaction_validate sha status) \<and> rt_rollback_id status = rollback_id \<and>
         rt_source status = source \<and> rt_binding status = binding)
       (OkRollbackBegun status)))"
| "decode_success_payload de sha valid_pipe raw descriptors (ReqRollbackStatus selector) =
     and_then (require_no_descriptors descriptors) (\<lambda>_.
     and_then (response_payload (de_rollback_result de) raw) (\<lambda>result.
     accept_if (rollback_matches_result sha selector result) (OkRollbackStatus result)))"
| "decode_success_payload de sha valid_pipe raw descriptors (ReqRollbackResolve expected resolution) =
     and_then (require_no_descriptors descriptors) (\<lambda>_.
     and_then (response_payload (de_rollback de) raw) (\<lambda>status.
     accept_if (is_ok (rollback_transaction_validate sha status) \<and> rollback_same_transaction status expected \<and>
         rollback_resolves_with status resolution)
       (OkRollbackResolved status)))"
| "decode_success_payload de sha valid_pipe raw descriptors (ReqRollbackWriteLeaseConsume selector) =
     and_then (require_no_descriptors descriptors) (\<lambda>_.
     and_then (response_payload (de_rollback_lease de) raw) (\<lambda>lease.
     accept_if (is_ok (rollback_write_lease_validate sha lease) \<and>
         selector = rollback_selector_for_status (rw_transaction lease))
       (OkRollbackWriteLeaseConsumed lease)))"

definition decode_client_response ::
  "'raw serde \<Rightarrow> (string \<Rightarrow> Sha256) \<Rightarrow> ('d \<Rightarrow> bool) \<Rightarrow> string \<Rightarrow> 'd list \<Rightarrow> ClientRequest \<Rightarrow>
   ClientResponseDecodeError + 'd ClientResponse" where
  "decode_client_response de sha valid_pipe datagram descriptors request =
     (if datagram = [] then Inl RespEmptyDatagram
      else if length datagram > MAX_DATAGRAM_BYTES then Inl RespDatagramTooLarge
      else case de_response de datagram of
        None \<Rightarrow> Inl RespInvalidJson
      | Some (SuccessResponseWire version request_id state_version operation raw) \<Rightarrow>
          and_then (validate_response_correlation version request_id state_version operation request) (\<lambda>_.
          and_then (validate_success_state_version state_version request) (\<lambda>_.
          and_then (decode_success_payload de sha valid_pipe raw descriptors (rq_payload request)) (\<lambda>payload.
          Inr \<lparr>rp_state_version = state_version, rp_operation = operation, rp_outcome = Success payload,
            rp_descriptors = descriptors\<rparr>)))
      | Some (ErrorResponseWire version request_id state_version operation error) \<Rightarrow>
          and_then (validate_response_correlation version request_id state_version operation request) (\<lambda>_.
          if descriptors \<noteq> [] then Inl RespFdForbidden
          else Inr \<lparr>rp_state_version = state_version, rp_operation = operation, rp_outcome = Failure error,
            rp_descriptors = descriptors\<rparr>))"

section \<open>What a decoded response is\<close>

text \<open>The values of a payload have passed their validators; the payload is of the kind the request asks for and about its object.\<close>

fun success_valid :: "(string \<Rightarrow> Sha256) \<Rightarrow> SuccessPayload \<Rightarrow> bool" where
  "success_valid sha (OkBackupStatus b) \<longleftrightarrow> backup_validate sha b = Inr ()"
| "success_valid sha (OkBackup b d) \<longleftrightarrow> backup_validate sha b = Inr () \<and> bs_state b = BackupDurable \<and> dd_size d = bs_backup_size b"
| "success_valid sha (OkBackupReleased r) \<longleftrightarrow> release_validate r = Inr ()"
| "success_valid sha (OkTransactionStatus t) \<longleftrightarrow> status_result_validate sha t = Inr ()"
| "success_valid sha (OkTransactionResolved t) \<longleftrightarrow> transaction_validate sha t = Inr ()"
| "success_valid sha (OkVaultLiveIdentity l) \<longleftrightarrow> live_identity_validate l = Inr ()"
| "success_valid sha (OkWriteLeaseConsumed l) \<longleftrightarrow> write_lease_validate sha l = Inr ()"
| "success_valid sha (OkRollbackBegun t) \<longleftrightarrow> rollback_transaction_validate sha t = Inr ()"
| "success_valid sha (OkRollbackStatus t) \<longleftrightarrow> rollback_status_result_validate sha t = Inr ()"
| "success_valid sha (OkRollbackResolved t) \<longleftrightarrow> rollback_transaction_validate sha t = Inr ()"
| "success_valid sha (OkRollbackWriteLeaseConsumed l) \<longleftrightarrow> rollback_write_lease_validate sha l = Inr ()"

fun about :: "(string \<Rightarrow> Sha256) \<Rightarrow> ClientRequestPayload \<Rightarrow> SuccessPayload \<Rightarrow> bool" where
  "about sha (ReqBackupReserve d) p \<longleftrightarrow>
     (case p of OkBackupStatus b \<Rightarrow> bs_state b = BackupReserved \<and> bs_draft_binding_sha256 b = canonical_repair_draft_binding_sha256 sha d | _ \<Rightarrow> False)"
| "about sha (ReqBackupPersist e bd _ _) p \<longleftrightarrow>
     (case p of OkBackupStatus b \<Rightarrow> bs_state b = BackupDurable \<and> immutable_fields_match b e \<and>
       bs_execution_intent b = Some (bb_execution_intent bd) | _ \<Rightarrow> False)"
| "about sha (ReqBackupStatus e) p \<longleftrightarrow>
     (case p of OkBackupStatus b \<Rightarrow> immutable_fields_match b e | _ \<Rightarrow> False)"
| "about sha (ReqBackupGet e) p \<longleftrightarrow>
     (case p of OkBackup b _ \<Rightarrow> bs_state b = BackupDurable \<and> immutable_fields_match b e | _ \<Rightarrow> False)"
| "about sha (ReqBackupCancel r d) p \<longleftrightarrow>
     (case p of OkBackupReleased l \<Rightarrow> rl_reservation_id l = r \<and> rl_draft_binding_sha256 l = d | _ \<Rightarrow> False)"
| "about sha (ReqBackupRetire e) p \<longleftrightarrow>
     (case p of OkBackupReleased l \<Rightarrow> rl_reservation_id l = bs_reservation_id e \<and> rl_released_bytes l = bs_reserved_bytes e | _ \<Rightarrow> False)"
| "about sha (ReqTransactionStatus s) p \<longleftrightarrow>
     (case p of OkTransactionStatus t \<Rightarrow> 
       (case t of None \<Rightarrow> s = PendingSingleton
        | Some u \<Rightarrow> s = PendingSingleton \<and> transaction_is_unresolved u \<or> s = selector_for_status u) | _ \<Rightarrow> False)"
| "about sha (ReqTransactionResolve e r) p \<longleftrightarrow>
     (case p of OkTransactionResolved t \<Rightarrow> same_transaction t e \<and> ts_resolution t = Some r | _ \<Rightarrow> False)"
| "about sha (ReqTransactionWriteLeaseConsume s) p \<longleftrightarrow>
     (case p of OkWriteLeaseConsumed l \<Rightarrow> s = selector_for_status (wl_transaction l) | _ \<Rightarrow> False)"
| "about sha (ReqRollbackBegin e i b) p \<longleftrightarrow>
     (case p of OkRollbackBegun t \<Rightarrow> rt_rollback_id t = i \<and> rt_source t = e \<and> rt_binding t = b | _ \<Rightarrow> False)"
| "about sha (ReqRollbackStatus s) p \<longleftrightarrow>
     (case p of OkRollbackStatus t \<Rightarrow> 
       (case t of None \<Rightarrow> s = RollbackPendingSingleton
        | Some u \<Rightarrow> s = RollbackPendingSingleton \<and> rollback_is_unresolved u \<or> s = rollback_selector_for_status u) | _ \<Rightarrow> False)"
| "about sha (ReqRollbackResolve e r) p \<longleftrightarrow>
     (case p of OkRollbackResolved t \<Rightarrow> rollback_same_transaction t e \<and> rt_resolution t = Some r | _ \<Rightarrow> False)"
| "about sha (ReqRollbackWriteLeaseConsume s) p \<longleftrightarrow>
     (case p of OkRollbackWriteLeaseConsumed l \<Rightarrow> s = rollback_selector_for_status (rw_transaction l) | _ \<Rightarrow> False)"
| "about sha ReqVaultLiveParent p \<longleftrightarrow>
     (case p of OkVaultLiveIdentity _ \<Rightarrow> True | _ \<Rightarrow> False)"

lemma response_payload_Inr [simp]: "response_payload f raw = Inr x \<longleftrightarrow> f raw = Some x"
  by (simp add: response_payload_def ok_or_def split: option.splits)

lemma accept_if_Inr [simp]: "accept_if b x = Inr y \<longleftrightarrow> b \<and> y = x"
  by (auto simp: accept_if_def)

lemma is_ok_unit: "is_ok r \<longleftrightarrow> r = Inr ()" for r :: "'e + unit"
  by (cases r) (simp_all add: is_ok_def)

lemma decode_success_payload_typed:
  "decode_success_payload de sha valid_pipe raw ds request = Inr p \<Longrightarrow> success_valid sha p \<and> about sha request p"
  by (cases request)
    (auto simp: and_then_Inr is_ok_unit immutable_fields_match_def matches_result_def rollback_matches_result_def
      resolves_with_def rollback_resolves_with_def selector_for_status_def rollback_selector_for_status_def
      split: option.splits if_splits RepairTransactionStatusSelector.splits RepairRollbackStatusSelector.splits)

lemma validate_response_correlation_Inr:
  "validate_response_correlation version request_id state_version operation request = Inr u \<longleftrightarrow>
   version = api_version (operation_of (rq_payload request)) \<and> is_ok (parse_request_id request_id) \<and>
   request_id = rq_request_id request \<and> operation = operation_of (rq_payload request) \<and>
   state_version \<le> MAX_SAFE_JSON_INTEGER"
  by (auto simp: validate_response_correlation_def)

lemma validate_success_state_version_Inr:
  "validate_success_state_version state_version request = Inr u \<longleftrightarrow>
   (repair_mutation (rq_payload request) \<longrightarrow>
      checked_add (rq_expected_state_version request) 2 = Some state_version \<and> state_version \<le> MAX_SAFE_JSON_INTEGER)"
  by (auto simp: validate_success_state_version_def split: option.splits)

text \<open>The descriptors that may come with a payload.\<close>

fun descriptors_fit :: "('d \<Rightarrow> bool) \<Rightarrow> 'd list \<Rightarrow> SuccessPayload \<Rightarrow> bool" where
  "descriptors_fit valid_pipe ds (OkBackup _ _) \<longleftrightarrow> length ds = 1 \<and> valid_pipe (hd ds)"
| "descriptors_fit valid_pipe ds _ \<longleftrightarrow> ds = []"

lemma decode_success_payload_descriptors:
  "decode_success_payload de sha valid_pipe raw ds request = Inr p \<Longrightarrow> descriptors_fit valid_pipe ds p"
  by (cases request)
    (auto simp: require_no_descriptors_def validate_one_descriptor_def split: if_splits list.splits)

text \<open>
  C18: A response the client accepts is well typed.  It names the operation of the request and a version
  that JSON can carry.  A success carries a payload of the kind the request asks for, about the object the request names,
  every value of which has passed its own validation, and with the descriptors of that kind: one
  readable pipe for a backup, none otherwise; an error carries none.  After the success of a reservation, of persisting,
  cancelling or retiring a backup, of resolving a repair transaction or of consuming its write lease, the
  version is the one of the request plus two, without overflow.  The three changes of a rollback are not held to that.
\<close>

theorem response_well_typed:
  assumes "decode_client_response de sha valid_pipe datagram ds request = Inr response"
  shows "rp_operation response = operation_of (rq_payload request) \<and>
    rp_state_version response \<le> MAX_SAFE_JSON_INTEGER \<and> rp_descriptors response = ds \<and>
    (case rp_outcome response of
       Failure _ \<Rightarrow> ds = []
     | Success p \<Rightarrow> success_valid sha p \<and> about sha (rq_payload request) p \<and> descriptors_fit valid_pipe ds p \<and>
         (operation_of (rq_payload request) \<in> {OpRepairBackupReserve, OpRepairBackupPersist, OpRepairBackupCancel,
             OpRepairBackupRetire, OpRepairTransactionResolve, OpRepairTransactionWriteLeaseConsume} \<longrightarrow>
            checked_add (rq_expected_state_version request) 2 = Some (rp_state_version response)))"
proof -
  have "repair_mutation p \<longleftrightarrow> operation_of p \<in> {OpRepairBackupReserve, OpRepairBackupPersist, OpRepairBackupCancel,
      OpRepairBackupRetire, OpRepairTransactionResolve, OpRepairTransactionWriteLeaseConsume}" for p
    by (cases p) simp_all
  note mutation = this [symmetric]
  show ?thesis
    unfolding mutation using assms
    by (auto simp: decode_client_response_def validate_response_correlation_Inr validate_success_state_version_Inr
      dest: decode_success_payload_typed decode_success_payload_descriptors
      split: if_splits option.splits ResponseWire.splits)
qed

definition sample_released :: RepairBackupReleasePayload where
  "sample_released = \<lparr>rl_reservation_id = ''B-0123456789abcdef0123456789abcdef'', rl_draft_binding_sha256 = digest_of CHR ''7'', rl_released_bytes = 100\<rparr>"

definition sample_serde :: "unit serde" where
  "sample_serde = \<lparr>de_response = \<lambda>_. Some (SuccessResponseWire API_VERSION
       (''R-00000000-0000-0000-0000-000000000000'') 9 OpRepairBackupCancel ()),
     de_backup_status = \<lambda>_. None, de_backup_response = \<lambda>_. None, de_release = \<lambda>_. Some sample_released,
     de_transaction_result = \<lambda>_. None, de_transaction = \<lambda>_. None, de_live_identity = \<lambda>_. None,
     de_write_lease = \<lambda>_. None, de_rollback = \<lambda>_. None, de_rollback_result = \<lambda>_. None, de_rollback_lease = \<lambda>_. None\<rparr>"

definition sample_client_request :: ClientRequest where
  "sample_client_request = \<lparr>rq_request_id = ''R-00000000-0000-0000-0000-000000000000'', rq_expected_state_version = 7,
     rq_payload = ReqBackupCancel (''B-0123456789abcdef0123456789abcdef'') (digest_of CHR ''7'')\<rparr>"

definition sample_client_response :: "unit ClientResponse" where
  "sample_client_response = \<lparr>rp_state_version = 9, rp_operation = OpRepairBackupCancel,
     rp_outcome = Success (OkBackupReleased sample_released), rp_descriptors = []\<rparr>"

lemma sample_response:
  "decode_client_response sample_serde sha valid_pipe ''{}'' [] sample_client_request = Inr sample_client_response"
proof -
  have "is_ok (parse_request_id ''R-00000000-0000-0000-0000-000000000000'')" by code_simp
  moreover have "checked_add 7 2 = Some 9" by (simp add: checked_add_def)
  ultimately show ?thesis
    by (simp add: decode_client_response_def sample_serde_def sample_client_request_def validate_response_correlation_def
      api_version_def validate_success_state_version_def require_no_descriptors_def response_payload_def ok_or_def accept_if_def
      release_validate_def sample_released_def sample_client_response_def MAX_REPAIR_RESERVED_BYTES_def is_ok_def
      MAX_DATAGRAM_BYTES_def MAX_SAFE_JSON_INTEGER_def)
qed

theorem response_well_typed_witness:
  "decode_client_response sample_serde (\<lambda>_. digest_of CHR ''f'') (\<lambda>_. True) ''{}'' [] sample_client_request =
     Inr sample_client_response \<and>
   about (\<lambda>_. digest_of CHR ''f'') (rq_payload sample_client_request) (OkBackupReleased sample_released) \<and>
   success_valid (\<lambda>_. digest_of CHR ''f'') (OkBackupReleased sample_released) \<and>
   checked_add (rq_expected_state_version sample_client_request) 2 = Some (rp_state_version sample_client_response)"
proof -
  note response = sample_response [of "\<lambda>_. digest_of CHR ''f''" "\<lambda>_. True"]
  have "rp_outcome sample_client_response = Success (OkBackupReleased sample_released)"
    and "operation_of (rq_payload sample_client_request) = OpRepairBackupCancel"
    by (simp_all add: sample_client_response_def sample_client_request_def)
  then show ?thesis using response_well_typed [OF response] response by simp
qed

text \<open>
  The version rule does not reach the requests about a rollback: whatever version the Vault reports with
  their success is accepted.
\<close>

lemma rollback_success_version_unchecked:
  "validate_success_state_version v \<lparr>rq_request_id = i, rq_expected_state_version = e, rq_payload = ReqRollbackBegin s r b\<rparr> = Inr ()"
  "validate_success_state_version v \<lparr>rq_request_id = i, rq_expected_state_version = e, rq_payload = ReqRollbackResolve t q\<rparr> = Inr ()"
  by (simp_all add: validate_success_state_version_def)

end
