(* ===== verification/KA_Vault_Client.thy ===== *)
theory KA_Vault_Client
  imports KA_Vault_Transport KA_Host
begin

text \<open>
  The client of the repair store, \<^verbatim>\<open>crates/broker/src/repair_vault_client.rs\<close>: the guard on the
  state version, the draft of a reservation whose answer was lost, and the operations that
  read and change the store.  An operation is a command on the pair of the client and a world
  \<open>'w\<close>, in which the exchanges with the Vault and the pipes take place.

  \<^verbatim>\<open>exchange_once\<close> is modelled down to the socket: the clock, the random bytes, the connection, the
  check of the peer and the two datagrams are functions of a record \<open>link\<close>.  The operations take an
  arbitrary exchange, as the code's \<^verbatim>\<open>..._with_exchange\<close> functions do, in a record \<open>port\<close> with the pipe functions.
\<close>

section \<open>Errors and the version guard\<close>

datatype RepairVaultClientError =
    CeInvalidInput | CeStateUnavailable | CeUnavailable | CeTimedOut | CeServerNotRoot
  | CeInvalidTransport | CeProtocol | CePipeIoFailed | CeRemote ErrorToken | CeReconciliationRequired

datatype VersionGuard = GdUninitialized | GdReady u64 | GdReconciliationRequired u64

datatype RepairVaultClientState =
    NeedsReserveBootstrap | StReady u64 | StReconciliationRequired u64

fun guard_public :: "VersionGuard \<Rightarrow> RepairVaultClientState" where
  "guard_public GdUninitialized = NeedsReserveBootstrap"
| "guard_public (GdReady v) = StReady v"
| "guard_public (GdReconciliationRequired v) = StReconciliationRequired v"




section \<open>The client\<close>

record RepairVaultClient =
  vc_guard :: VersionGuard
  vc_ambiguous_reserve :: "RepairBackupDraft option"


definition client_state_version :: "RepairVaultClient \<Rightarrow> u64 option" where
  "client_state_version c = (case vc_guard c of GdReady v \<Rightarrow> Some v | _ \<Rightarrow> None)"


record ExchangeFailure =
  ef_error :: RepairVaultClientError
  ef_request_may_have_been_sent :: bool

record ('w, 'd) port =
  pt_exchange :: "u64 \<Rightarrow> ClientRequestPayload \<Rightarrow> 'd list \<Rightarrow> 'w \<Rightarrow> 'w \<times> (ExchangeFailure + 'd ClientResponse)"
  pt_pipe :: "'w \<Rightarrow> 'w \<times> (RepairVaultClientError + 'd)"
  pt_written :: "string \<Rightarrow> 'w \<Rightarrow> 'w \<times> (RepairVaultClientError + unit)"
  pt_read :: "'d \<Rightarrow> u64 \<Rightarrow> 'w \<Rightarrow> 'w \<times> (RepairVaultClientError + string)"

type_synonym ('w, 'a) client_io = "(RepairVaultClient \<times> 'w, RepairVaultClientError, 'a) io"

definition self :: "('w, RepairVaultClient) client_io" where
  "self = observe (\<lambda>s. (s, fst s))"

definition update_self :: "(RepairVaultClient \<Rightarrow> RepairVaultClient) \<Rightarrow> ('w, unit) client_io" where
  "update_self f = observe (\<lambda>(c, w). ((f c, w), ()))"

definition port_call :: "('w \<Rightarrow> 'w \<times> 'r) \<Rightarrow> ('w, 'r) client_io" where
  "port_call f = observe (\<lambda>(c, w). case f w of (w', r) \<Rightarrow> ((c, w'), r))"



section \<open>Readings of a response\<close>










section \<open>Reservations\<close>



section \<open>Other changes of the store\<close>









section \<open>Reads\<close>











section \<open>One exchange\<close>

datatype SeqpacketTransportError =
    SpInvalidTransport | SpServerNotRoot | SpEmptyDatagram | SpAmbiguousZeroByte | SpDatagramTooLarge
  | SpAncillaryTruncated | SpUnexpectedAncillary | SpTooManyDescriptors | SpTimedOut | SpIoFailed | SpIncompleteSend

datatype ClientExchangeError =
    XcRequest ProtocolViolation | XcTransport SeqpacketTransportError | XcResponse ClientResponseDecodeError

record ('w, 'd) link =
  ln_before_deadline :: "'w \<Rightarrow> 'w \<times> bool"
  ln_random :: "'w \<Rightarrow> 'w \<times> string option"
  ln_connect :: "'w \<Rightarrow> 'w \<times> (RepairVaultClientError + unit)"
  ln_authenticate :: "'w \<Rightarrow> 'w \<times> (SeqpacketTransportError + unit)"
  ln_send :: "ClientRequest \<Rightarrow> 'd list \<Rightarrow> 'w \<Rightarrow> 'w \<times> (ClientExchangeError + unit)"
  ln_receive :: "'w \<Rightarrow> 'w \<times> (SeqpacketTransportError + string \<times> 'd list)"

definition definite_failure :: "RepairVaultClientError \<Rightarrow> ExchangeFailure" where
  "definite_failure error = \<lparr>ef_error = error, ef_request_may_have_been_sent = False\<rparr>"

fun map_exchange_error :: "ClientExchangeError \<Rightarrow> RepairVaultClientError" where
  "map_exchange_error (XcRequest _) = CeProtocol"
| "map_exchange_error (XcResponse _) = CeProtocol"
| "map_exchange_error (XcTransport e) =
     (if e = SpTimedOut then CeTimedOut else if e = SpServerNotRoot then CeServerNotRoot else CeInvalidTransport)"

definition format_request_id :: "string \<Rightarrow> string" where
  "format_request_id random =
     ''R-'' @ concat (map (\<lambda>(index, byte). (if index \<in> {4, 6, 8, 10} then ''-'' else []) @ hex_byte byte)
       (zip [0..<length random] random))"

definition fresh_request_id :: "('w, 'd) link \<Rightarrow> ('w, RepairVaultClientError, string) io" where
  "fresh_request_id link =
     seq (observe (ln_random link)) (\<lambda>random. case random of
       None \<Rightarrow> fail CeUnavailable
     | Some bytes \<Rightarrow> map_err (\<lambda>_. CeProtocol) (pure_result (parse_request_id (format_request_id bytes))))"

definition receive_response ::
  "('w, 'd) link \<Rightarrow> 'raw serde \<Rightarrow> (string \<Rightarrow> Sha256) \<Rightarrow> ('d \<Rightarrow> bool) \<Rightarrow> ClientRequest \<Rightarrow>
   ('w, ClientExchangeError, 'd ClientResponse) io" where
  "receive_response link de sha valid_pipe request =
     seq (map_err XcTransport (seq (observe (ln_receive link)) pure_result)) (\<lambda>(datagram, descriptors).
     map_err XcResponse (pure_result (decode_client_response de sha valid_pipe datagram descriptors request)))"

definition exchange_once ::
  "('w, 'd) link \<Rightarrow> 'raw serde \<Rightarrow> (string \<Rightarrow> Sha256) \<Rightarrow> ('d \<Rightarrow> bool) \<Rightarrow> u64 \<Rightarrow> ClientRequestPayload \<Rightarrow> 'd list \<Rightarrow>
   ('w, ExchangeFailure, 'd ClientResponse) io" where
  "exchange_once link de sha valid_pipe expected payload descriptors =
     seq (observe (ln_before_deadline link)) (\<lambda>before.
     seq (ensure before (definite_failure CeTimedOut)) (\<lambda>_.
     seq (map_err definite_failure (fresh_request_id link)) (\<lambda>request_id.
     seq (map_err (\<lambda>_. definite_failure CeInvalidInput)
         (pure_result (ClientRequest_new sha request_id expected payload))) (\<lambda>request.
     seq (map_err definite_failure (seq (observe (ln_connect link)) pure_result)) (\<lambda>_.
     seq (map_err (\<lambda>e. definite_failure (if e = SpServerNotRoot then CeServerNotRoot else CeInvalidTransport))
         (seq (observe (ln_authenticate link)) pure_result)) (\<lambda>_.
     seq (observe (ln_send link request descriptors)) (\<lambda>sent. case sent of
       Inl (XcRequest _) \<Rightarrow> fail (definite_failure CeProtocol)
     | Inl e \<Rightarrow> fail \<lparr>ef_error = map_exchange_error e, ef_request_may_have_been_sent = True\<rparr>
     | Inr _ \<Rightarrow>
         map_err (\<lambda>e. \<lparr>ef_error = map_exchange_error e, ef_request_may_have_been_sent = True\<rparr>)
           (receive_response link de sha valid_pipe request))))))))"

section \<open>Histories\<close>



text \<open>A port that also keeps the list of its exchanges: version, request and result.\<close>

type_synonym 'd exchanged = "u64 \<times> ClientRequestPayload \<times> (ExchangeFailure + 'd ClientResponse)"

definition logged :: "('w, 'd) port \<Rightarrow> ('d exchanged list \<times> 'w, 'd) port" where
  "logged port =
     \<lparr>pt_exchange = \<lambda>v p ds (log, w). case pt_exchange port v p ds w of (w', r) \<Rightarrow> ((log @ [(v, p, r)], w'), r),
      pt_pipe = \<lambda>(log, w). case pt_pipe port w of (w', r) \<Rightarrow> ((log, w'), r),
      pt_written = \<lambda>x (log, w). case pt_written port x w of (w', r) \<Rightarrow> ((log, w'), r),
      pt_read = \<lambda>d n (log, w). case pt_read port d n w of (w', r) \<Rightarrow> ((log, w'), r)\<rparr>"


text \<open>The requests that change the store.\<close>

fun changes_store :: "ClientRequestPayload \<Rightarrow> bool" where
  "changes_store (ReqBackupStatus _) \<longleftrightarrow> False"
| "changes_store (ReqBackupGet _) \<longleftrightarrow> False"
| "changes_store (ReqTransactionStatus _) \<longleftrightarrow> False"
| "changes_store (ReqRollbackStatus _) \<longleftrightarrow> False"
| "changes_store ReqVaultLiveParent \<longleftrightarrow> False"
| "changes_store _ \<longleftrightarrow> True"

fun is_reserve :: "ClientRequestPayload \<Rightarrow> bool" where
  "is_reserve (ReqBackupReserve _) \<longleftrightarrow> True"
| "is_reserve _ \<longleftrightarrow> False"

text \<open>
  The request whose fate a list of exchanges leaves open.  A change whose answer was lost is open
  until a read is answered with a result or with \<^verbatim>\<open>ABSENT\<close>; a reservation only until it is
  itself answered with success.
\<close>

fun settle :: "'d exchanged \<Rightarrow> ClientRequestPayload option \<Rightarrow> ClientRequestPayload option" where
  "settle (v, p, Inl failure) u = (if changes_store p \<and> ef_request_may_have_been_sent failure then Some p else u)"
| "settle (v, p, Inr response) u =
     (case rp_outcome response of
        Success _ \<Rightarrow>
          if u = Some p then None else if is_some_and u is_reserve then u else None
      | Failure e \<Rightarrow>
          if \<not> changes_store p \<and> e = Absent \<and> \<not> is_some_and u is_reserve then None else u)"

definition unsettled :: "'d exchanged list \<Rightarrow> ClientRequestPayload option" where
  "unsettled log = fold settle log None"

text \<open>
  The versions the Vault has last reported.  A delivered backup counts only once its body
  has been read, which the exchange does not show; so its version is added, not put in place of the others.
\<close>

fun delivers_backup :: "ClientRequestPayload \<Rightarrow> 'd ClientResponse \<Rightarrow> bool" where
  "delivers_backup (ReqBackupGet _) response \<longleftrightarrow> (case rp_outcome response of Success _ \<Rightarrow> True | Failure _ \<Rightarrow> False)"
| "delivers_backup _ response \<longleftrightarrow> False"

fun report :: "'d exchanged \<Rightarrow> u64 set \<Rightarrow> u64 set" where
  "report (v, p, Inl _) vs = vs"
| "report (v, p, Inr response) vs =
     (if delivers_backup p response then insert (rp_state_version response) vs else {rp_state_version response})"

definition reported :: "'d exchanged list \<Rightarrow> u64 set" where
  "reported log = fold report log {}"

text \<open>
  An exchange from which a client without a version learns none: it was not answered, or it was a read that failed, was
  answered with a payload of the wrong kind, or delivered a backup.
\<close>

fun answers :: "ClientRequestPayload \<Rightarrow> SuccessPayload \<Rightarrow> bool" where
  "answers (ReqTransactionStatus _) p \<longleftrightarrow> (case p of OkTransactionStatus _ \<Rightarrow> True | _ \<Rightarrow> False)"
| "answers (ReqRollbackStatus _) p \<longleftrightarrow> (case p of OkRollbackStatus _ \<Rightarrow> True | _ \<Rightarrow> False)"
| "answers _ p \<longleftrightarrow> True"

fun uninformative :: "'d exchanged \<Rightarrow> bool" where
  "uninformative (v, p, Inl _) \<longleftrightarrow> True"
| "uninformative (v, p, Inr response) \<longleftrightarrow>
     delivers_backup p response \<or>
     \<not> changes_store p \<and> (case rp_outcome response of Success x \<Rightarrow> \<not> answers p x | Failure _ \<Rightarrow> True)"

text \<open>When a request that changes the store may follow a list of exchanges.\<close>

fun admissible :: "'d exchanged list \<Rightarrow> 'd exchanged \<Rightarrow> bool" where
  "admissible log (v, p, r) \<longleftrightarrow>
     (changes_store p \<longrightarrow>
        (unsettled log = None \<or> unsettled log = Some p \<and> is_reserve p) \<and>
        (v \<in> reported log \<or> v = 0 \<and> is_reserve p \<and> list_all uninformative log))"

definition all_admissible :: "'d exchanged list \<Rightarrow> bool" where
  "all_admissible log \<longleftrightarrow> (\<forall>pre e. (\<exists>post. log = pre @ e # post) \<longrightarrow> admissible pre e)"


lemma log_Nil [simp]: "unsettled [] = None" "reported [] = {}" "all_admissible []"
  by (simp_all add: unsettled_def reported_def all_admissible_def)

lemma all_admissible_snoc [simp]: "all_admissible (log @ [e]) \<longleftrightarrow> all_admissible log \<and> admissible log e"
proof -
  have "(\<exists>post. log @ [e] = pre @ x # post) \<longleftrightarrow> pre = log \<and> x = e \<or> (\<exists>post. log = pre @ x # post)" for pre x
  proof
    assume "\<exists>post. log @ [e] = pre @ x # post"
    then obtain post where "log @ [e] = pre @ x # post" ..
    then show "pre = log \<and> x = e \<or> (\<exists>post. log = pre @ x # post)"
      by (cases post rule: rev_cases) auto
  qed auto
  then have *: "(\<exists>post. log @ [e] = pre @ x # post) = (pre = log \<and> x = e \<or> (\<exists>post. log = pre @ x # post))" for pre x .
  show ?thesis unfolding all_admissible_def * by blast
qed

section \<open>The invariant of the client\<close>





lemma wp_self [wp_simps]: "wp (\<lambda>_. True) self Q s \<longleftrightarrow> Q (Inr (fst s)) s"
  by (simp add: self_def wp_simps)

lemma wp_update_self [wp_simps]: "wp (\<lambda>_. True) (update_self f) Q (c, w) \<longleftrightarrow> Q (Inr ()) (f c, w)"
  by (simp add: update_self_def wp_simps)

lemma wp_port_call [wp_simps]:
  "wp (\<lambda>_. True) (port_call f) Q (c, w) \<longleftrightarrow> (case f w of (w', r) \<Rightarrow> Q (Inr r) (c, w'))"
  by (simp add: port_call_def wp_simps split: prod.splits)

lemma logged_simps [simp]:
  "pt_exchange (logged port) v p ds (log, w) =
     (case pt_exchange port v p ds w of (w', r) \<Rightarrow> ((log @ [(v, p, r)], w'), r))"
  "pt_pipe (logged port) (log, w) = (case pt_pipe port w of (w', x) \<Rightarrow> ((log, w'), x))"
  "pt_written (logged port) bytes (log, w) = (case pt_written port bytes w of (w', y) \<Rightarrow> ((log, w'), y))"
  "pt_read (logged port) d n (log, w) = (case pt_read port d n w of (w', z) \<Rightarrow> ((log, w'), z))"
  by (simp_all add: logged_def)










































section \<open>Property\<close>








section \<open>What an exchange has sent\<close>

lemma map_sum_eq:
  "map_sum f g x = Inl a \<longleftrightarrow> (\<exists>y. x = Inl y \<and> a = f y)" "map_sum f g x = Inr b \<longleftrightarrow> (\<exists>y. x = Inr y \<and> b = g y)"
  by (cases x; auto)+

text \<open>
  A failure that is reported as definite has handed nothing to the Vault, seen through any record
  \<open>sent\<close> of it that only a call of \<^verbatim>\<open>send_request\<close> can change, and not one that refuses to encode the request.
\<close>

lemma definite_failure_unsent:
  assumes quiet: "\<And>w. sent (fst (ln_before_deadline link w)) = sent w" "\<And>w. sent (fst (ln_random link w)) = sent w"
      "\<And>w. sent (fst (ln_connect link w)) = sent w" "\<And>w. sent (fst (ln_authenticate link w)) = sent w"
    and refused: "\<And>q ds w e. snd (ln_send link q ds w) = Inl (XcRequest e) \<Longrightarrow> sent (fst (ln_send link q ds w)) = sent w"
    and failed: "outcome_of (exchange_once link de sha valid_pipe v p ds) w = Inl f" "\<not> ef_request_may_have_been_sent f"
  shows "sent (final_world (exchange_once link de sha valid_pipe v p ds) w) = sent w"
proof -
  have "wp (\<lambda>_. True) (exchange_once link de sha valid_pipe v p ds)
      (\<lambda>r w'. \<forall>f. r = Inl f \<and> \<not> ef_request_may_have_been_sent f \<longrightarrow> sent w' = sent w) w"
    unfolding exchange_once_def fresh_request_id_def receive_response_def
    by (auto simp: wp_simps map_sum_eq quiet refused split: sum.splits option.splits ClientExchangeError.splits prod.splits)
  from wp_final [OF this] failed show ?thesis by blast
qed

text \<open>An answer is the decoding of a datagram against the request that was sent for this version and payload.\<close>

lemma answer_decoded:
  assumes "outcome_of (exchange_once link de sha valid_pipe v p ds) w = Inr response"
  shows "\<exists>i request datagram descriptors. ClientRequest_new sha i v p = Inr request \<and>
    decode_client_response de sha valid_pipe datagram descriptors request = Inr response"
proof -
  have "wp (\<lambda>_. True) (exchange_once link de sha valid_pipe v p ds)
      (\<lambda>r w'. \<forall>response. r = Inr response \<longrightarrow> (\<exists>i request datagram descriptors. ClientRequest_new sha i v p = Inr request \<and>
        decode_client_response de sha valid_pipe datagram descriptors request = Inr response)) w"
    unfolding exchange_once_def fresh_request_id_def receive_response_def
    by (auto simp: wp_simps map_sum_eq split: sum.splits option.splits ClientExchangeError.splits prod.splits)
  from wp_final [OF this] assms show ?thesis by blast
qed

text \<open>The identifier made of sixteen random bytes is always one the parser accepts.\<close>

lemma fresh_request_id_parses:
  assumes "length random = 16"
  shows "parse_request_id (format_request_id random) = Inr (format_request_id random)"
proof -
  have digits: "lower_hex (hex_digit (of_char b div 16))" "lower_hex (hex_digit (of_char b mod 16))" for b
    by (simp_all add: hex_digit_lower_hex of_char_div_16)
  obtain b0 b1 b2 b3 b4 b5 b6 b7 b8 b9 b10 b11 b12 b13 b14 b15 where
    "random = [b0, b1, b2, b3, b4, b5, b6, b7, b8, b9, b10, b11, b12, b13, b14, b15]"
    using assms by (auto simp: numeral_eq_Suc length_Suc_conv)
  moreover have "[0..<36] = [0, 1, 2, 3, 4, 5, 6, 7, 8, 9, 10, 11, 12, 13, 14, 15, 16, 17, 18, 19, 20, 21, 22, 23, 24, 25, 26, 27, 28, 29, 30, 31, 32, 33, 34, 35]"
    by code_simp
  ultimately show ?thesis
    by (simp add: format_request_id_def parse_request_id_def canonical_uuid_def starts_with_def hex_byte_def digits)
qed

end
