(* ===== verification/Spec2Isabelle.thy ===== *)
theory Spec2Isabelle
  imports KA_Broker KA_Fixture KA_Crypttab_Admission KA_Session KA_Fstab_Preview KA_Crypttab_Preview
    KA_Update KA_Fleet_Policy KA_Entitlements KA_Fleet_Audit KA_Executor_Liveness KA_Vault_Client
begin

text \<open>
  KernAid: a verification of its admission, repair, update and fleet core.

  \<^bold>\<open>The program.\<close>  KernAid diagnoses and repairs Linux machines, from the running system or from a
  Rescue image.  Its Rust crates divide the work as follows.  A \<^emph>\<open>session\<close> (\<^verbatim>\<open>crates/core\<close>) collects
  evidence and stages at most one plan; a \<^emph>\<open>policy\<close> (\<^verbatim>\<open>crates/policy\<close>) decides which plans exist at all;
  an \<^emph>\<open>admission\<close> object (\<^verbatim>\<open>crates/core\<close>) accepts one approval for a plan bound to digests.  A \<^emph>\<open>preview\<close>
  (\<^verbatim>\<open>packs/linux\<close>) computes the edit of \<^verbatim>\<open>fstab\<close> or \<^verbatim>\<open>crypttab\<close>.  The \<^emph>\<open>repair broker\<close>
  (\<^verbatim>\<open>crates/broker\<close>) reserves a backup in the Vault through its client, and the \<^emph>\<open>executor\<close> replaces the file on the target,
  recovers after a crash or rolls back.  Beside that, signed documents travel between a device and its fleet:
  update manifests (\<^verbatim>\<open>crates/update-client\<close>), policies (\<^verbatim>\<open>crates/fleet-policy\<close>), licences
  (\<^verbatim>\<open>crates/entitlements\<close>), audit events (\<^verbatim>\<open>crates/fleet-audit\<close>) and reports
  (\<^verbatim>\<open>crates/device-identity\<close>).

  \<^bold>\<open>Conventions.\<close>  A struct is a record whose fields carry a short prefix, an enum a datatype with the source's variants, a
  \<^verbatim>\<open>Result\<close> a sum with the error on the left, a method with \<^verbatim>\<open>&mut self\<close> a function that
  returns the new value.  Strings and byte vectors are lists of characters, one per byte.  Integers
  keep their width (\<^verbatim>\<open>u64\<close> is a 64-bit word); \<^verbatim>\<open>checked_add\<close> is an option.  Every early return is a branch.  Code
  outside the repository is a parameter: SHA-256, Ed25519, base64, serde and the system calls.
  What a theorem needs of it is a named hypothesis on that parameter, and a witness shows an
  instance that has it.

  \<^bold>\<open>Theories.\<close>
  \<^item> \<open>KA_Prelude\<close>: results, checks, string validators, length-framed messages, sequences of calls that may be refused, and the
    locales \<open>self_delimiting\<close> (codes, for the digests) and \<open>single_use_approval\<close> (interpreted on every admission).
  \<^item> \<open>KA_Protocol\<close>, \<open>KA_Policy\<close> (\<^verbatim>\<open>protocol/lib.rs\<close>, \<^verbatim>\<open>policy/lib.rs\<close>): plans, evidence records and the validators of the six
    contracts.  The four Rescue validators accept exactly the canonical plan for a valid fingerprint, and no plan fits
    two contracts.
  \<^item> \<open>KA_Broker\<close> (\<^verbatim>\<open>broker/lib.rs\<close>, \<^verbatim>\<open>redaction/lib.rs\<close>): the observe-only broker over all histories of requests,
    and the word filter.
  \<^item> \<open>KA_Fixture\<close>, \<open>KA_Fstab_Admission\<close>, \<open>KA_Crypttab_Admission\<close>, \<open>KA_Rollback_Admission\<close>, \<open>KA_Session\<close>
    (\<^verbatim>\<open>core/lib.rs\<close>): the transactions of the fixture laboratory, the three admissions and the session,
    as transition systems.  The theorems are about every sequence of calls: one approval at most, for the staged binding and
    with the next number; the phases of a fixture in their order; a session that never leaves its mode and
    target, and is planned at most once.
  \<^item> \<open>KA_Snapshot\<close> (\<^verbatim>\<open>evidence/linux_snapshot.rs\<close>): the snapshot contract, its hash and strict parsing.
  \<^item> \<open>KA_Lines\<close>, \<open>KA_Fstab_Preview\<close>, \<open>KA_Crypttab_Preview\<close> (\<^verbatim>\<open>packs/linux/src/rescue_fstab_candidate.rs\<close>,
    \<^verbatim>\<open>rescue_crypttab_candidate.rs\<close>): line documents and the two previews.  One line is commented out and every other
    byte kept; the result needs no second repair.  The locale \<open>line_editor\<close> holds the edit for both.
  \<^item> \<open>KA_Json\<close>, \<open>KA_Documents\<close>, \<open>KA_Base64\<close>: canonical JSON, the validators the fleet crates repeat, the
    locale \<open>anti_rollback\<close> (interpreted on every durable checkpoint), and one concrete instance of the third-party
    functions for the witnesses.
  \<^item> \<open>KA_Update\<close> (\<^verbatim>\<open>update-client/lib.rs\<close>): manifests, admission, staging and the A/B slots.  Its operations are
    related event by event to a specification with one known-good slot.
  \<^item> \<open>KA_Fleet_Policy\<close>, \<open>KA_Entitlements\<close>, \<open>KA_Identity\<close>, \<open>KA_Fleet_Audit\<close>: the other documents, what they allow, and
    the chain of audit events.
  \<^item> \<open>KA_Repair_Vault\<close> (\<^verbatim>\<open>protocol/rescue_repair_vault.rs\<close>): backups, transactions, leases and rollbacks as
    values with their digests.
  \<^item> \<open>KA_Vault_Transport\<close> (\<^verbatim>\<open>protocol/rescue_vault_transport.rs\<close>): the repair requests and the
    decoding of their responses.
  \<^item> \<open>KA_Vault_Client\<close> (\<^verbatim>\<open>broker/repair_vault_client.rs\<close>): the client with its version guard.  The theorem is about the
    list of exchanges of every history of calls, over an arbitrary exchange.
  \<^item> \<open>KA_Host\<close>, \<open>KA_Memory_Host\<close>: commands that issue system calls, their weakest preconditions, the predicate
    \<open>posix_directory\<close> of what the calls promise about one directory, and a host in memory that has it.
  \<^item> \<open>KA_Executor\<close>, \<open>KA_Executor_Safety\<close>, \<open>KA_Crash_Recovery\<close>, \<open>KA_Executor_Liveness\<close>
    (\<^verbatim>\<open>broker/rescue_fstab_executor.rs\<close>, \<^verbatim>\<open>target_write_capability_client.rs\<close>): the functions that read and write the target.
    Every call may fail and the machine may stop after every call; the resource is then the old or the new file, whole and
    flushed, recovery works after any number of such stops, and on a host without failures repair and recovery complete.
  \<^item> This theory: the properties that span components, on printed digests, signed messages and checkpoints, and
    that the two previews decode fields and UUIDs alike.

  \<^bold>\<open>Bounds.\<close>  No definition runs on fuel: loops are recursions on the data or on the number of attempts the code fixes (two rounds of an
  exchange in the Vault client).  An update boots on trial at most \<open>MAX_BOOT_ATTEMPTS\<close> times, and the executor reads at most one byte more
  than the largest resource it accepts, both as in the code.

  \<^bold>\<open>Not modelled.\<close>  The scope ends at the parts above.  Several of the parts left out hold logic that matters, and
  nothing is shown about it.
  \<^item> The functions of the executor that take a repair from its admission through the Vault transaction to the target and
    reconcile after a restart, the repair service with the state machine of its engine, and the preparation of candidates.
    The order in which they call the modelled functions is not verified.
  \<^item> Acquiring and revalidating the target capability: parameters of the executor, with the hypothesis that they leave
    its directory alone.
  \<^item> The branches of the executor for the resolver-link and ext4 features.
  \<^item> The Vault daemon and its repair store (\<^verbatim>\<open>crates/rescue-secrets\<close>).  The theorem on the client holds for
    whatever it answers; that the store keeps what it answers is not shown.
  \<^item> The calls of the Vault client on sockets and pipes; the vault, provider, report and fleet requests of the protocol, and
    the JSON encoding of requests; the preflight values (\<^verbatim>\<open>rescue_repair.rs\<close>, \<^verbatim>\<open>rescue_crypttab_repair.rs\<close>).
  \<^item> Key generation, zeroization and the JSON reader of report envelopes; staging of update artifacts in files; report
    schemas; action contracts of \<^verbatim>\<open>packs/linux\<close>; the handler of the fixture laboratory.
  \<^item> Fleet transport and work orders, the encrypted journal, secret stores, media creation, collectors, assistants,
    applications, command lines, services in TypeScript and build tools.
\<close>

section \<open>Digests across the crates\<close>

lemma hex_digest_printed: "hex_digest_with p v \<longleftrightarrow> (\<exists>d. length d = 32 \<and> v = p @ hex_sha256 d)"
proof
  assume "hex_digest_with p v"
  then obtain h where h: "v = p @ h" "length h = 64" "list_all lower_hex h" by (auto simp: hex_digest_with_def)
  obtain d where "unhex h = Some d" "length d = 32" using unhex_lower_hex [OF h(3)] h(2) by auto
  then show "\<exists>d. length d = 32 \<and> v = p @ hex_sha256 d" using h hex_sha256_unhex [of h d] by auto
qed (auto simp: hex_digest_with_def hex_sha256_lower_hex)

text \<open>
  C35: the five validators of the crates for a digest accept exactly the digests that can be printed: the prefix
  \<^verbatim>\<open>sha256:\<close> before the lower-case hexadecimal form of 32 bytes.  So a digest printed by one crate is
  accepted by every other, and a text accepted anywhere is the printed form of one digest, the same in all of them.
\<close>

theorem digest_validators_exact:
  "(valid_sha256_fingerprint v \<longleftrightarrow> (\<exists>d. length d = 32 \<and> v = ''sha256:'' @ hex_sha256 d)) \<and>
   (valid_rescue_candidate_sha256 v \<longleftrightarrow> (\<exists>d. length d = 32 \<and> v = ''sha256:'' @ hex_sha256 d)) \<and>
   (valid_crypttab_hash v \<longleftrightarrow> (\<exists>d. length d = 32 \<and> v = ''sha256:'' @ hex_sha256 d)) \<and>
   (valid_fixture_sha256 v \<longleftrightarrow> (\<exists>d. length d = 32 \<and> v = ''sha256:'' @ hex_sha256 d)) \<and>
   (valid_fingerprint v \<longleftrightarrow> (\<exists>d. length d = 32 \<and> v = ''sha256:'' @ hex_sha256 d)) \<and>
   (\<forall>d e. ''sha256:'' @ hex_sha256 d = ''sha256:'' @ hex_sha256 e \<longleftrightarrow> d = e)"
proof -
  have "valid_fixture_sha256 v = hex_digest_with ''sha256:'' v"
    unfolding valid_fixture_sha256_def hex_digest_with_def strip_prefix_case_iff lower_hex_def
    by (rule refl)
  moreover have "valid_fingerprint v = hex_digest_with ''sha256:'' v"
    unfolding valid_fingerprint_def hex_digest_with_def strip_prefix_case_iff lower_hex_def
    by (rule refl)
  ultimately show ?thesis
    unfolding validator hex_digest_printed [symmetric] by (auto dest: hex_sha256_inject)
qed

section \<open>The two previews read alike\<close>

fun as_crypttab_error :: "PreviewError \<Rightarrow> CrypttabPreviewError" where
  "as_crypttab_error MalformedFstab = CMalformedFstab"
| "as_crypttab_error InvalidObservedUuid = CInvalidObservedUuid"
| "as_crypttab_error AmbiguousObservedUuid = CAmbiguousObservedUuid"
| "as_crypttab_error TooManyObservedUuids = CTooManyObservedUuids"
| "as_crypttab_error _ = CRepairNotApplicable"

lemma decode_fields_agree:
  "decode_fstab_field field = map_sum as_crypttab_error id (decode_field field)"
proof (induction field rule: decode_field.induct)
  case (2 x r)
  have same: "octal = octal_digit" "unprintable = control_byte" "octal_byte = octal_value"
    by (simp_all add: fun_eq_iff octal_def octal_digit_def unprintable_def control_byte_def
        octal_byte_def octal_value_def)
  show ?case
  proof (cases "x = CHR 0x5C")
    case False
    then show ?thesis using 2(2) by (cases "decode_field r") (auto simp: same)
  next
    case True
    then show ?thesis
    proof (cases "3 \<le> length r")
      case long: True
      then obtain a b c r' where r: "r = a # b # c # r'"
        by (metis Suc_le_length_iff numeral_3_eq_3)
      show ?thesis using 2(1) [OF True r] True r by (cases "decode_field r'") (auto simp: same)
    next
      case False
      then have "r = [] \<or> (\<exists>a. r = [a]) \<or> (\<exists>a b. r = [a, b])"
        by (cases r; cases "tl r"; cases "tl (tl r)") auto
      then show ?thesis using True by auto
    qed
  qed
qed simp

lemma normalize_uuid_agree:
  "crypttab_normalize_uuid u = (case normalize_uuid u of Inl _ \<Rightarrow> None | Inr v \<Rightarrow> Some v)"
  by (simp add: crypttab_normalize_uuid_def normalize_uuid_def CRYPTTAB_MAX_UUID_BYTES_def
      MAX_UUID_BYTES_def)

lemma insert_normalized_agree:
  "crypttab_insert_normalized acc us = map_sum as_crypttab_error id (insert_normalized acc us)"
  by (induction us arbitrary: acc) (auto simp: normalize_uuid_agree split: sum.splits)

text \<open>
  The two previews read the shared files alike: a field of \<^verbatim>\<open>fstab\<close> decodes to the same bytes
  or is malformed in both, and the observed UUIDs normalize to the same set with the same errors.
\<close>

lemma preview_helpers_agree:
  "decode_fstab_field field = map_sum as_crypttab_error id (decode_field field) \<and>
   normalize_observed uuids = map_sum as_crypttab_error id (normalize_observed_uuids uuids)"
  by (simp add: decode_fields_agree normalize_observed_def normalize_observed_uuids_def
      insert_normalized_agree CRYPTTAB_MAX_OBSERVED_UUIDS_def MAX_OBSERVED_UUIDS_def)

section \<open>The signed documents\<close>

text \<open>
  The messages the crates hand to Ed25519, by kind of document.  A message that cannot be built
  is \<open>None\<close>; the texts of a report envelope have lengths a Rust value can have.
\<close>

datatype SignedDocument =
    UpdateManifest SignedUpdateManifest
  | PolicyBundle SignedPolicyBundle
  | EntitlementClaimsOf EntitlementClaims
  | RevocationClaimsOf RevocationClaims
  | AuditEvent SignedAuditEnvelope
  | ReportEnvelope EnvelopeContent

definition ok :: "'e + 'a \<Rightarrow> 'a option" where
  "ok r = (case r of Inl _ \<Rightarrow> None | Inr a \<Rightarrow> Some a)"

fun signed_message :: "crates \<Rightarrow> SignedDocument \<Rightarrow> string option" where
  "signed_message X (UpdateManifest m) =
     ok (and_then (manifest_unsigned_canonical X m) update_signature_message)"
| "signed_message X (PolicyBundle b) =
     ok (and_then (policy_unsigned_canonical X b) policy_signature_message)"
| "signed_message X (EntitlementClaimsOf c) =
     map_option (entitlement_signature_message ENTITLEMENT_DOMAIN) (ok (entitlement_canonical_json X (claims_json c)))"
| "signed_message X (RevocationClaimsOf r) =
     map_option (entitlement_signature_message REVOCATIONS_DOMAIN)
       (ok (entitlement_canonical_json X (revocation_claims_json r)))"
| "signed_message X (AuditEvent e) =
     map_option report_signature_message (ok (and_then (audit_unsigned_canonical X e) audit_signature_payload))"
| "signed_message X (ReportEnvelope c) =
     (if list_all fits (content_texts c) then Some (envelope_signature_message c) else None)"

text \<open>What a signature covers: the document without its signature field.\<close>

fun unsigned_part :: "SignedDocument \<Rightarrow> SignedDocument" where
  "unsigned_part (UpdateManifest m) = UpdateManifest (m\<lparr>um_signature := []\<rparr>)"
| "unsigned_part (PolicyBundle b) = PolicyBundle (b\<lparr>pb_signature := []\<rparr>)"
| "unsigned_part (AuditEvent e) = AuditEvent (e\<lparr>ae_signature := []\<rparr>)"
| "unsigned_part d = d"

fun document_domain :: "SignedDocument \<Rightarrow> string" where
  "document_domain (UpdateManifest _) = ''kernaid:update:manifest:v1''"
| "document_domain (PolicyBundle _) = ''kernaid:fleet:policy:v1''"
| "document_domain (EntitlementClaimsOf _) = ''KERNAID-ENTITLEMENT-V1''"
| "document_domain (RevocationClaimsOf _) = ''KERNAID-ENTITLEMENT-REVOCATIONS-V1''"
| "document_domain (AuditEvent _) = ''KERNAID-SIGNED-REPORT-V1''"
| "document_domain (ReportEnvelope _) = ''KERNAID-SIGNED-REPORT-ENVELOPE-V1''"

lemma ok_Some [simp]: "ok r = Some a \<longleftrightarrow> r = Inr a"
  by (cases r) (simp_all add: ok_def)

lemmas signature_domains = UPDATE_SIGNATURE_DOMAIN_def POLICY_SIGNATURE_DOMAIN_def ENTITLEMENT_DOMAIN_def
  REVOCATIONS_DOMAIN_def SIGNED_REPORT_DOMAIN_def SIGNED_REPORT_ENVELOPE_DOMAIN_def

lemmas signature_messages = update_signature_message_def policy_signature_message_def
  entitlement_signature_message_def report_signature_message_def identity_signature_message_def
  audit_signature_payload_def envelope_signature_message_def

lemma signed_message_domain:
  "signed_message X d = Some m \<Longrightarrow> \<exists>r. m = domain_tag (document_domain d) @ r"
  by (cases d) (auto simp: signature_messages signature_domains split: if_splits)

lemma same_domain:
  assumes "signed_message X a = Some m" and "signed_message X b = Some m"
  shows "document_domain a = document_domain b"
proof -
  have nul: "CHR 0x00 \<notin> set (document_domain d)" for d by (cases d) simp_all
  obtain r t where "m = domain_tag (document_domain a) @ r" "m = domain_tag (document_domain b) @ t"
    using assms signed_message_domain by metis
  then show ?thesis using domain_tag_rest [OF nul nul] by metis
qed

lemma framed_body: "frame a = frame b \<Longrightarrow> a = b"
  by (simp add: frame_def)

lemma reported_body: "report_signature_message a = report_signature_message b \<Longrightarrow> a = b"
  by (simp add: report_signature_message_def identity_signature_message_def)

lemma record_unsigned:
  "m = n\<lparr>um_signature := um_signature m\<rparr> \<Longrightarrow> m\<lparr>um_signature := []\<rparr> = n\<lparr>um_signature := []\<rparr>"
  "b = c\<lparr>pb_signature := pb_signature b\<rparr> \<Longrightarrow> b\<lparr>pb_signature := []\<rparr> = c\<lparr>pb_signature := []\<rparr>"
  "e = f\<lparr>ae_signature := ae_signature e\<rparr> \<Longrightarrow> e\<lparr>ae_signature := []\<rparr> = f\<lparr>ae_signature := []\<rparr>"
proof -
  show "m = n\<lparr>um_signature := um_signature m\<rparr> \<Longrightarrow> m\<lparr>um_signature := []\<rparr> = n\<lparr>um_signature := []\<rparr>"
    by (cases m; cases n) simp
  show "b = c\<lparr>pb_signature := pb_signature b\<rparr> \<Longrightarrow> b\<lparr>pb_signature := []\<rparr> = c\<lparr>pb_signature := []\<rparr>"
    by (cases b; cases c) simp
  show "e = f\<lparr>ae_signature := ae_signature e\<rparr> \<Longrightarrow> e\<lparr>ae_signature := []\<rparr> = f\<lparr>ae_signature := []\<rparr>"
    by (cases e; cases f) simp
qed

text \<open>
  C20: a signed message names one document.  Among update manifests, policy bundles,
  entitlements, revocation lists, audit events and report envelopes, two documents with the
  same signed message are of the same kind and agree in every field but the signature, so a
  signature made for one can never be presented for another.
\<close>

theorem signed_message_binds:
  assumes quoting: "json_quoting (quote_str X)" and lossless: "to_vec_lossless X"
    and a: "signed_message X a = Some m" and b: "signed_message X b = Some m"
  shows "unsigned_part a = unsigned_part b"
proof (cases a)
  case (UpdateManifest u)
  with same_domain [OF a b] obtain v where [simp]: "b = UpdateManifest v" by (cases b) simp_all
  obtain c where "manifest_unsigned_canonical X u = Inr c" "manifest_unsigned_canonical X v = Inr c"
    using a b UpdateManifest by (auto simp: update_signature_message_def split: if_splits)
  from record_unsigned(1) [OF update_message_binds [OF quoting this]] show ?thesis by (simp add: UpdateManifest)
next
  case (PolicyBundle u)
  with same_domain [OF a b] obtain v where [simp]: "b = PolicyBundle v" by (cases b) simp_all
  obtain c where "policy_unsigned_canonical X u = Inr c" "policy_unsigned_canonical X v = Inr c"
    using a b PolicyBundle by (auto simp: policy_signature_message_def dest!: framed_body split: if_splits)
  from record_unsigned(2) [OF policy_message_binds [OF quoting this]] show ?thesis by (simp add: PolicyBundle)
next
  case (EntitlementClaimsOf u)
  with same_domain [OF a b] obtain v where [simp]: "b = EntitlementClaimsOf v" by (cases b) simp_all
  obtain c where "entitlement_canonical_json X (claims_json u) = Inr c" "entitlement_canonical_json X (claims_json v) = Inr c"
    using a b EntitlementClaimsOf by (auto simp: entitlement_signature_message_def dest!: framed_body)
  from entitlement_canonical_determines [OF lossless claims_json_wf(1) claims_json_wf(1) this] claims_json_inject
  show ?thesis by (simp add: EntitlementClaimsOf)
next
  case (RevocationClaimsOf u)
  with same_domain [OF a b] obtain v where [simp]: "b = RevocationClaimsOf v" by (cases b) simp_all
  obtain c where "entitlement_canonical_json X (revocation_claims_json u) = Inr c"
    "entitlement_canonical_json X (revocation_claims_json v) = Inr c"
    using a b RevocationClaimsOf by (auto simp: entitlement_signature_message_def dest!: framed_body)
  from entitlement_canonical_determines [OF lossless claims_json_wf(2) claims_json_wf(2) this]
    revocation_claims_json_inject
  show ?thesis by (simp add: RevocationClaimsOf)
next
  case (AuditEvent u)
  with same_domain [OF a b] obtain v where [simp]: "b = AuditEvent v" by (cases b) simp_all
  obtain c where "audit_unsigned_canonical X u = Inr c" "audit_unsigned_canonical X v = Inr c"
    using a b AuditEvent by (auto simp: audit_signature_payload_def dest!: framed_body reported_body split: if_splits)
  from record_unsigned(3) [OF audit_message_binds [OF quoting this]] show ?thesis by (simp add: AuditEvent)
next
  case (ReportEnvelope u)
  with same_domain [OF a b] obtain v where [simp]: "b = ReportEnvelope v" by (cases b) simp_all
  show ?thesis
    using a b ReportEnvelope envelope_message_binds [of u v] by (simp split: if_splits)
qed

theorem signed_message_binds_witness:
  "\<exists>m. signed_message release_crates (UpdateManifest sample_manifest) = Some m \<and>
     signed_message release_crates (UpdateManifest (sample_manifest\<lparr>um_signature := ''x''\<rparr>)) = Some m \<and>
     unsigned_part (UpdateManifest sample_manifest) =
       unsigned_part (UpdateManifest (sample_manifest\<lparr>um_signature := ''x''\<rparr>))"
proof -
  have "manifest_unsigned_canonical release_crates (sample_manifest\<lparr>um_signature := ''x''\<rparr>) =
    manifest_unsigned_canonical release_crates sample_manifest"
    by (simp add: manifest_unsigned_canonical_def manifest_members_def)
  moreover obtain m where "and_then (manifest_unsigned_canonical release_crates sample_manifest)
      update_signature_message = Inr m"
    using sample_bytes_short(2) by (simp add: sample_canonical update_signature_message_def
      UPDATE_SIGNATURE_DOMAIN_def domain_tag_def)
  ultimately have m: "signed_message release_crates (UpdateManifest sample_manifest) = Some m"
    "signed_message release_crates (UpdateManifest (sample_manifest\<lparr>um_signature := ''x''\<rparr>)) = Some m"
    by simp_all
  have "json_quoting (quote_str release_crates)" "to_vec_lossless release_crates"
    using sample_crates_behaviour(1,5) by (simp_all add: release_crates_def to_vec_lossless_def)
  from signed_message_binds [OF this m] m show ?thesis by blast
qed

section \<open>The checkpoints\<close>

text \<open>
  C19: none of the five checkpoints rolls back.  Whatever documents are presented to the update,
  policy, entitlement, revocation and audit checkpoints, in whatever order and from whatever
  checkpoint, the accepted ones never go back to a lower number, never replace the content of
  a number, and the checkpoint ends at the last accepted one.
\<close>

theorem checkpoints_never_go_back:
  "never_goes_back update_held (\<lambda>u. um_sequence (vu_manifest u)) (\<lambda>u. hex_sha256 (vu_manifest_sha256 u))
     (attempts update_checkpoint_admit uk updates) \<and>
   never_goes_back (\<lambda>k. Some (pk_revision k, pk_bundle_sha256 k)) (\<lambda>v. pb_revision (vp_bundle v))
     (\<lambda>v. hex_sha256 (vp_digest v))
     (attempts (\<lambda>k v. map_sum id fst (policy_checkpoint_admit k v)) pk bundles) \<and>
   never_goes_back (map_option (\<lambda>k. (ek_highest_sequence k, ek_envelope_sha256 k)))
     (\<lambda>(claims, digest). ec_sequence claims) (\<lambda>(claims, digest). digest)
     (attempts (\<lambda>k (claims, digest). map_sum id Some (next_entitlement_checkpoint claims digest k)) ek entitlements) \<and>
   never_goes_back (map_option (\<lambda>k. (rk_highest_sequence k, rk_envelope_sha256 k)))
     (\<lambda>(claims, digest). rc_sequence claims) (\<lambda>(claims, digest). digest)
     (attempts (\<lambda>k (claims, digest). map_sum id Some (next_revocation_checkpoint claims digest k)) rk revocations) \<and>
   never_goes_back (\<lambda>k. Some (ac_last_sequence k, ac_last_event_sha256 k)) (\<lambda>v. ae_sequence (va_envelope v))
     verified_event_sha256
     (attempts (\<lambda>k v. map_sum id fst (audit_checkpoint_admit k v)) ak events)"
  by (intro conjI update_register.run_never_goes_back policy_register.run_never_goes_back
      entitlement_register.run_never_goes_back revocation_register.run_never_goes_back
      audit_register.run_never_goes_back)

end
